(* ===== verification/Smb_Prelude.thy ===== *)
theory Smb_Prelude
  imports Main "HOL-Library.Word" "HOL-Library.AList"
begin

text \<open>
  Shared vocabulary of the development: the machine integers of the sources, Rust's saturating
  and checked arithmetic, little-endian byte strings, \<open>std::collections::HashMap\<close> and the
  state-passing form of a fallible method (\<open>Result\<close> with the \<open>?\<close> operator).

  \<^item> \<open>u8 .. u128\<close> are words of that width; \<open>usize\<close> values that only count elements of a
    collection are \<open>nat\<close>.
  \<^item> A \<open>HashMap\<close> is an association list with distinct keys (\<open>hm_wf\<close>); the list order stands
    for the iteration order, which Rust leaves unspecified, so no property may depend on it.
  \<^item> A method \<open>fn m(&self, ..) -> Result<A, E>\<close> over a state is an \<open>('s, 'e, 'a) op\<close>: it
    returns the outcome and the state it leaves behind, on the error path too.
\<close>

unbundle bit_operations_syntax

section \<open>Machine integers\<close>

type_synonym u8 = "8 word"
type_synonym u16 = "16 word"
type_synonym u32 = "32 word"
type_synonym u64 = "64 word"
type_synonym u128 = "128 word"

named_theorems sat_arith \<open>values of the saturating and checked operations as natural numbers\<close>

definition sat_add :: "'a::len word \<Rightarrow> 'a word \<Rightarrow> 'a word" where
  "sat_add a b = (if unat a + unat b < 2 ^ LENGTH('a) then a + b else - 1)"

definition sat_sub :: "'a::len word \<Rightarrow> 'a word \<Rightarrow> 'a word" where
  "sat_sub a b = (if b \<le> a then a - b else 0)"

definition sat_mul :: "'a::len word \<Rightarrow> 'a word \<Rightarrow> 'a word" where
  "sat_mul a b = (if unat a * unat b < 2 ^ LENGTH('a) then a * b else - 1)"

definition checked_add :: "'a::len word \<Rightarrow> 'a word \<Rightarrow> 'a word option" where
  "checked_add a b = (if unat a + unat b < 2 ^ LENGTH('a) then Some (a + b) else None)"

lemma unat_add_no_wrap:
  "unat a + unat b < 2 ^ LENGTH('a) \<Longrightarrow> unat (a + b) = unat a + unat (b :: 'a::len word)"
  by (simp add: unat_word_ariths)

lemma unat_mult_no_wrap:
  "unat a * unat b < 2 ^ LENGTH('a) \<Longrightarrow> unat (a * b) = unat a * unat (b :: 'a::len word)"
  by (simp add: unat_word_ariths)

lemma unat_sub_le: "b \<le> a \<Longrightarrow> unat (a - b) = unat a - unat (b :: 'a::len word)"
  by (rule unat_sub)

lemma unat_minus_one_word: "unat (- 1 :: 'a::len word) = 2 ^ LENGTH('a) - 1"
  by (simp add: unsigned_minus_1_eq_mask mask_eq_exp_minus_1)

lemma word_less_add_one: "(x :: 'a :: len word) \<noteq> - 1 \<Longrightarrow> x < x + 1"
proof -
  assume "x \<noteq> - 1"
  then have "unat x \<noteq> 2 ^ LENGTH('a) - 1"
    using unsigned_word_eqI [of x "- 1", where ?'a = nat] by (auto simp: unat_minus_one_word)
  moreover have "unat x < 2 ^ LENGTH('a)" by (rule unsigned_less)
  ultimately have "unat x + 1 < 2 ^ LENGTH('a)" by linarith
  then show ?thesis by (simp add: word_less_nat_alt unat_word_ariths(1))
qed

lemma unat_lt_exp: "unat (a :: 'a::len word) < 2 ^ LENGTH('a)"
  by (rule unsigned_less)

lemma unat_le_max: "unat (a :: 'a::len word) \<le> 2 ^ LENGTH('a) - 1"
  using unat_lt_exp [of a] by linarith

lemma unat_sat_add [sat_arith]:
  "unat (sat_add a b) = min (unat a + unat b) (2 ^ LENGTH('a) - 1)" for a b :: "'a::len word"
proof (cases "unat a + unat b < 2 ^ LENGTH('a)")
  case True
  then show ?thesis by (simp add: sat_add_def unat_add_no_wrap)
next
  case False
  then show ?thesis by (simp add: sat_add_def unat_minus_one_word)
qed

lemma unat_sat_sub [sat_arith]: "unat (sat_sub a b) = unat a - unat (b :: 'a::len word)"
  by (auto simp: sat_sub_def unat_sub_le word_le_nat_alt)

lemma unat_sat_mul [sat_arith]:
  "unat (sat_mul a b) = min (unat a * unat b) (2 ^ LENGTH('a) - 1)" for a b :: "'a::len word"
proof (cases "unat a * unat b < 2 ^ LENGTH('a)")
  case True
  then show ?thesis by (simp add: sat_mul_def unat_mult_no_wrap)
next
  case False
  then show ?thesis by (simp add: sat_mul_def unat_minus_one_word)
qed

lemma unat_max_word [sat_arith]: "unat (max a b) = max (unat a) (unat (b :: 'a::len word))"
  by (simp add: max_def word_le_nat_alt)

lemma unat_min_word [sat_arith]: "unat (min a b) = min (unat a) (unat (b :: 'a::len word))"
  by (simp add: min_def word_le_nat_alt)

lemma checked_add_None_iff:
  "checked_add a b = None \<longleftrightarrow> 2 ^ LENGTH('a) \<le> unat a + unat b" for a b :: "'a::len word"
  by (simp add: checked_add_def not_less)

lemma word_suc_neq: "a + 1 \<noteq> (a :: 'a::len word)"
  by simp

lemma of_nat_word_inj:
  assumes "(of_nat i :: 'a::len word) = of_nat j" "i < 2 ^ LENGTH('a)" "j < 2 ^ LENGTH('a)"
  shows "i = j"
proof -
  from assms(1) have "unat (of_nat i :: 'a word) = unat (of_nat j :: 'a word)" by (rule arg_cong)
  with assms(2,3) show ?thesis unfolding unat_of_nat by simp
qed

section \<open>Little-endian byte strings\<close>

type_synonym bytes = "u8 list"

fun le_enc :: "nat \<Rightarrow> nat \<Rightarrow> bytes" where
  "le_enc 0 x = []"
| "le_enc (Suc n) x = of_nat (x mod 256) # le_enc n (x div 256)"

fun le_dec :: "bytes \<Rightarrow> nat" where
  "le_dec [] = 0"
| "le_dec (b # bs) = unat b + 256 * le_dec bs"

lemma length_le_enc [simp]: "length (le_enc n x) = n"
  by (induction n arbitrary: x) auto

lemma unat_u8_of_nat: "x < 256 \<Longrightarrow> unat (of_nat x :: u8) = x"
  by (simp add: unat_of_nat)

lemma le_dec_enc: "le_dec (le_enc n x) = x mod 256 ^ n"
proof (induction n arbitrary: x)
  case 0
  then show ?case by simp
next
  case (Suc n)
  have "le_dec (le_enc (Suc n) x) = x mod 256 + 256 * (x div 256 mod 256 ^ n)"
    by (simp add: Suc.IH unat_u8_of_nat)
  also have "\<dots> = x mod 256 ^ Suc n"
    by (simp add: mod_mult2_eq)
  finally show ?case .
qed

lemma unat_u8_lt: "unat (b :: u8) < 256"
  using unat_lt_exp [of b] by simp

lemma le_dec_lt: "le_dec bs < 256 ^ length bs"
proof (induction bs)
  case Nil
  then show ?case by simp
next
  case (Cons b bs)
  then have "le_dec bs + 1 \<le> 256 ^ length bs" by simp
  then have "256 * (le_dec bs + 1) \<le> 256 * 256 ^ length bs" by (rule mult_le_mono2)
  with unat_u8_lt [of b] show ?case by simp
qed

lemma le_enc_dec: "length bs = n \<Longrightarrow> le_enc n (le_dec bs) = bs"
proof (induction bs arbitrary: n)
  case Nil
  then show ?case by simp
next
  case (Cons b bs)
  have b: "(unat b + 256 * le_dec bs) mod 256 = unat b" "(unat b + 256 * le_dec bs) div 256 = le_dec bs"
    using unat_u8_lt [of b] by auto
  from Cons.prems have n: "n = Suc (length bs)" by simp
  have "le_enc n (le_dec (b # bs)) = of_nat (unat b) # le_enc (length bs) (le_dec bs)"
    unfolding n le_dec.simps le_enc.simps b by (rule refl)
  then show ?case by (simp add: Cons.IH)
qed

definition to_le :: "'a::len word \<Rightarrow> bytes" where
  "to_le w = le_enc (LENGTH('a) div 8) (unat w)"

definition from_le :: "bytes \<Rightarrow> 'a::len word" where
  "from_le bs = of_nat (le_dec bs)"

lemma length_to_le [simp]: "length (to_le (w :: 'a::len word)) = LENGTH('a) div 8"
  by (simp add: to_le_def)

lemma from_le_to_le:
  assumes "8 dvd LENGTH('a::len)"
  shows "from_le (to_le w) = (w :: 'a word)"
proof -
  from assms obtain k where k: "LENGTH('a) = 8 * k" by (rule dvdE)
  then have "(256 :: nat) ^ (LENGTH('a) div 8) = 2 ^ LENGTH('a)"
    by (simp add: power_mult)
  then show ?thesis
    by (simp add: from_le_def to_le_def le_dec_enc mod_less unat_lt_exp)
qed

lemma to_le_from_le:
  assumes "8 dvd LENGTH('a::len)" "length bs = LENGTH('a) div 8"
  shows "to_le (from_le bs :: 'a word) = bs"
proof -
  from assms(1) obtain k where k: "LENGTH('a) = 8 * k" by (rule dvdE)
  then have "(256 :: nat) ^ (LENGTH('a) div 8) = 2 ^ LENGTH('a)"
    by (simp add: power_mult)
  with le_dec_lt [of bs] assms(2) have "unat (from_le bs :: 'a word) = le_dec bs"
    by (simp add: from_le_def unat_of_nat)
  with assms(2) show ?thesis by (simp add: to_le_def le_enc_dec)
qed

lemma from_le_to_le_u16 [simp]: "from_le (to_le w) = (w :: u16)"
  by (rule from_le_to_le) simp

lemma from_le_to_le_u32 [simp]: "from_le (to_le w) = (w :: u32)"
  by (rule from_le_to_le) simp

lemma from_le_to_le_u64 [simp]: "from_le (to_le w) = (w :: u64)"
  by (rule from_le_to_le) simp

lemma from_le_to_le_u128 [simp]: "from_le (to_le w) = (w :: u128)"
  by (rule from_le_to_le) simp

definition slice :: "nat \<Rightarrow> nat \<Rightarrow> 'a list \<Rightarrow> 'a list" where
  "slice i n xs = take n (drop i xs)"

lemma length_slice [simp]: "length (slice i n xs) = min n (length xs - i)"
  by (simp add: slice_def)

section \<open>Formatted numbers\<close>

definition digit_char :: "nat \<Rightarrow> char" where
  "digit_char d = (if d < 10 then char_of (48 + d) else char_of (87 + d))"

text \<open>\<open>fmt_hex n x\<close> is \<open>format!("{:0nx}", x)\<close> for \<open>x < 16 ^ n\<close>; \<open>fmt_dec\<close> is \<open>{}\<close>.\<close>

fun fmt_hex :: "nat \<Rightarrow> nat \<Rightarrow> string" where
  "fmt_hex 0 x = []"
| "fmt_hex (Suc n) x = fmt_hex n (x div 16) @ [digit_char (x mod 16)]"

fun fmt_dec :: "nat \<Rightarrow> string" where
  "fmt_dec x = (if x < 10 then [digit_char x] else fmt_dec (x div 10) @ [digit_char (x mod 10)])"

declare fmt_dec.simps [simp del]

lemma length_fmt_hex [simp]: "length (fmt_hex n x) = n"
  by (induction n arbitrary: x) auto

lemma digit_char_inj: "a < 16 \<Longrightarrow> b < 16 \<Longrightarrow> digit_char a = digit_char b \<longleftrightarrow> a = b"
  by (auto simp: digit_char_def char_of_eq_iff take_bit_eq_mod split: if_splits)

lemma fmt_hex_inj: "fmt_hex n x = fmt_hex n y \<Longrightarrow> x mod 16 ^ n = y mod 16 ^ n"
proof (induction n arbitrary: x y)
  case 0
  then show ?case by simp
next
  case (Suc n)
  from Suc.prems have "fmt_hex n (x div 16) = fmt_hex n (y div 16)" by simp
  then have "x div 16 mod 16 ^ n = y div 16 mod 16 ^ n" by (rule Suc.IH)
  moreover from Suc.prems have "digit_char (x mod 16) = digit_char (y mod 16)" by simp
  then have "x mod 16 = y mod 16" by (simp only: digit_char_inj mod_less_divisor zero_less_numeral)
  ultimately show ?case unfolding power_Suc mod_mult2_eq by (simp only:)
qed

section \<open>Hash maps\<close>

type_synonym ('k, 'v) hash_map = "('k \<times> 'v) list"

abbreviation hm_get :: "('k, 'v) hash_map \<Rightarrow> 'k \<Rightarrow> 'v option" where
  "hm_get \<equiv> map_of"

definition hm_insert :: "'k \<Rightarrow> 'v \<Rightarrow> ('k, 'v) hash_map \<Rightarrow> ('k, 'v) hash_map" where
  "hm_insert = AList.update"

definition hm_remove :: "'k \<Rightarrow> ('k, 'v) hash_map \<Rightarrow> ('k, 'v) hash_map" where
  "hm_remove = AList.delete"

definition hm_retain :: "('k \<Rightarrow> 'v \<Rightarrow> bool) \<Rightarrow> ('k, 'v) hash_map \<Rightarrow> ('k, 'v) hash_map" where
  "hm_retain P m = filter (\<lambda>(k, v). P k v) m"

abbreviation hm_values :: "('k, 'v) hash_map \<Rightarrow> 'v list" where
  "hm_values m \<equiv> map snd m"

abbreviation hm_keys :: "('k, 'v) hash_map \<Rightarrow> 'k list" where
  "hm_keys m \<equiv> map fst m"

definition hm_wf :: "('k, 'v) hash_map \<Rightarrow> bool" where
  "hm_wf m \<longleftrightarrow> distinct (map fst m)"

definition hm_contains :: "('k, 'v) hash_map \<Rightarrow> 'k \<Rightarrow> bool" where
  "hm_contains m k \<longleftrightarrow> hm_get m k \<noteq> None"

named_theorems hm_simps \<open>look-ups after the hash map operations\<close>

lemma hm_get_insert [hm_simps]: "hm_get (hm_insert k v m) = (hm_get m)(k \<mapsto> v)"
  by (simp add: hm_insert_def update_conv')

lemma hm_get_remove [hm_simps]: "hm_get (hm_remove k m) = (hm_get m)(k := None)"
  by (simp add: hm_remove_def delete_conv')

lemma hm_wf_Nil [simp]: "hm_wf []"
  by (simp add: hm_wf_def)

lemma hm_wf_insert [simp]: "hm_wf m \<Longrightarrow> hm_wf (hm_insert k v m)"
  by (simp add: hm_wf_def hm_insert_def distinct_update)

lemma hm_wf_remove [simp]: "hm_wf m \<Longrightarrow> hm_wf (hm_remove k m)"
  by (simp add: hm_wf_def hm_remove_def distinct_delete)

lemma hm_wf_retain [simp]: "hm_wf m \<Longrightarrow> hm_wf (hm_retain P m)"
  by (simp add: hm_wf_def hm_retain_def distinct_map_filter)

lemma hm_get_in_set: "hm_wf m \<Longrightarrow> hm_get m k = Some v \<longleftrightarrow> (k, v) \<in> set m"
  by (simp add: hm_wf_def)

lemma hm_get_retain [hm_simps]:
  assumes "hm_wf m"
  shows "hm_get (hm_retain P m) k =
    (case hm_get m k of None \<Rightarrow> None | Some v \<Rightarrow> if P k v then Some v else None)"
proof -
  have "hm_get (hm_retain P m) k = Some v \<longleftrightarrow> hm_get m k = Some v \<and> P k v" for v
    using hm_get_in_set [OF hm_wf_retain [OF assms], of P k v] hm_get_in_set [OF assms, of k v]
    by (auto simp: hm_retain_def)
  then have "(hm_get (hm_retain P m) k = Some v) =
    ((case hm_get m k of None \<Rightarrow> None | Some v \<Rightarrow> if P k v then Some v else None) = Some v)" for v
    by (auto split: option.split)
  then show ?thesis by (metis option.exhaust)
qed

lemma hm_values_iff: "hm_wf m \<Longrightarrow> v \<in> set (hm_values m) \<longleftrightarrow> (\<exists>k. hm_get m k = Some v)"
  by (force simp: hm_get_in_set)

lemma hm_keys_iff: "k \<in> set (hm_keys m) \<longleftrightarrow> hm_get m k \<noteq> None"
  by (metis map_of_eq_None_iff list.set_map)

lemma hm_contains_iff: "hm_contains m k \<longleftrightarrow> k \<in> dom (hm_get m)"
  by (auto simp: hm_contains_def)

lemma hm_get_fold_remove: "hm_get (fold hm_remove ks m) k = (if k \<in> set ks then None else hm_get m k)"
  by (induction ks arbitrary: m) (auto simp: hm_simps)

lemma hm_wf_fold_remove: "hm_wf m \<Longrightarrow> hm_wf (fold hm_remove ks m)"
  by (induction ks arbitrary: m) simp_all

text \<open>A loop over \<open>values_mut()\<close>.\<close>

definition hm_map_values :: "('v \<Rightarrow> 'v) \<Rightarrow> ('k, 'v) hash_map \<Rightarrow> ('k, 'v) hash_map" where
  "hm_map_values f m = map (\<lambda>(k, v). (k, f v)) m"

lemma hm_wf_map_values [simp]: "hm_wf (hm_map_values f m) = hm_wf m"
  by (simp add: hm_wf_def hm_map_values_def comp_def case_prod_unfold)

lemma hm_get_map_values [hm_simps]: "hm_get (hm_map_values f m) k = map_option f (hm_get m k)"
  by (induction m) (auto simp: hm_map_values_def)

text \<open>Membership in the entries after an update, used for invariants over \<open>values()\<close>.\<close>

lemma hm_entries_insert: "hm_wf m \<Longrightarrow>
  set (hm_insert k v m) = insert (k, v) {(k', v') \<in> set m. k' \<noteq> k}"
proof -
  assume wf: "hm_wf m"
  have "(k', v') \<in> set (hm_insert k v m) \<longleftrightarrow> (k', v') \<in> insert (k, v) {(k', v') \<in> set m. k' \<noteq> k}"
    for k' v'
    using hm_get_in_set [OF hm_wf_insert [OF wf], of k v k' v'] hm_get_in_set [OF wf, of k' v']
    by (auto simp: hm_simps split: if_splits)
  then show ?thesis by auto
qed

lemma hm_entries_remove: "set (hm_remove k m) \<subseteq> set m"
  by (auto simp: hm_remove_def AList.delete_eq)

lemma hm_entries_retain: "set (hm_retain P m) = {(k, v) \<in> set m. P k v}"
  by (auto simp: hm_retain_def)

lemma length_hm_insert: "hm_get m k = None \<Longrightarrow> length (hm_insert k v m) = Suc (length m)"
  unfolding hm_insert_def by (induction m) (auto split: if_splits)

lemma length_hm_insert_present:
  "hm_get m k = Some v0 \<Longrightarrow> length (hm_insert k v m) = length m"
  unfolding hm_insert_def by (induction m) (auto split: if_splits)

lemma length_hm_remove_le: "length (hm_remove k m) \<le> length m"
  by (simp add: hm_remove_def AList.delete_eq)

section \<open>Fallible methods over a state\<close>

type_synonym ('s, 'e, 'a) op = "'s \<Rightarrow> ('e + 'a) \<times> 's"

definition op_return :: "'a \<Rightarrow> ('s, 'e, 'a) op" where
  "op_return x s = (Inr x, s)"

definition op_throw :: "'e \<Rightarrow> ('s, 'e, 'a) op" where
  "op_throw e s = (Inl e, s)"

text \<open>\<open>op_bind m f\<close> is \<open>let x = m?; f x\<close>: an error stops there and keeps the state reached.\<close>

definition op_bind :: "('s, 'e, 'a) op \<Rightarrow> ('a \<Rightarrow> ('s, 'e, 'b) op) \<Rightarrow> ('s, 'e, 'b) op" where
  "op_bind m f s = (case m s of (Inl e, s') \<Rightarrow> (Inl e, s') | (Inr x, s') \<Rightarrow> f x s')"

text \<open>\<open>op_map_err\<close> is \<open>m.map_err(f)\<close>; \<open>op_ignore\<close> is \<open>let _ = m;\<close>.\<close>

definition op_map_err :: "('e \<Rightarrow> 'f) \<Rightarrow> ('s, 'e, 'a) op \<Rightarrow> ('s, 'f, 'a) op" where
  "op_map_err f m s = (case m s of (Inl e, s') \<Rightarrow> (Inl (f e), s') | (Inr x, s') \<Rightarrow> (Inr x, s'))"

definition op_ignore :: "('s, 'e, 'a) op \<Rightarrow> ('s, 'f, unit) op" where
  "op_ignore m s = (Inr (), snd (m s))"

text \<open>\<open>op_for f xs\<close> is a \<open>for\<close> loop whose body may return early through \<open>?\<close>.\<close>

fun op_for :: "('a \<Rightarrow> ('s, 'e, unit) op) \<Rightarrow> 'a list \<Rightarrow> ('s, 'e, unit) op" where
  "op_for f [] = op_return ()"
| "op_for f (x # xs) = op_bind (f x) (\<lambda>_. op_for f xs)"

definition ok_or :: "'e \<Rightarrow> 'a option \<Rightarrow> ('s, 'e, 'a) op" where
  "ok_or e x = (case x of None \<Rightarrow> op_throw e | Some v \<Rightarrow> op_return v)"

named_theorems op_simps \<open>evaluation of the state-passing combinators\<close>

lemmas op_basic_simps [op_simps] =
  op_return_def op_throw_def op_bind_def op_map_err_def op_ignore_def ok_or_def

lemma op_for_inv:
  assumes "\<And>x s s' r. x \<in> set xs \<Longrightarrow> P s \<Longrightarrow> f x s = (r, s') \<Longrightarrow> P s'"
    and "P s" and "op_for f xs s = (r, s')"
  shows "P s'"
  using assms
proof (induction xs arbitrary: s)
  case Nil
  then show ?case by (simp add: op_simps)
next
  case (Cons x xs)
  obtain r1 s1 where step: "f x s = (r1, s1)" by force
  have P1: "P s1" using Cons.prems(1) [OF _ Cons.prems(2) step] by simp
  show ?case
  proof (cases r1)
    case (Inl e)
    with Cons.prems(3) step P1 show ?thesis by (simp add: op_simps)
  next
    case (Inr u)
    with Cons.prems(3) step have "op_for f xs s1 = (r, s')" by (simp add: op_simps)
    from Cons.IH [OF _ P1 this] Cons.prems(1) show ?thesis by (meson list.set_intros(2))
  qed
qed

end
