(* ===== verification/Core_Types.thy ===== *)
theory Core_Types
  imports Smb_Prelude
begin

text \<open>
  \<open>crates/rustsmb-core\<close>: the error enums of \<open>error.rs\<close>, the NT status codes of
  \<open>status.rs\<close> with the mapping from file-system errors, and the dialect, attribute, access and
  disposition types of \<open>types.rs\<close>. Enum constructors carry a prefix naming their enum where
  two enums share a variant name. \<open>std::io::Error\<close> payloads are their message.
\<close>

section \<open>Errors (error.rs)\<close>

datatype ProtocolError =
    PeInvalidHeader | PeUnknownCommand u16 | PeInvalidParameter string
  | PeMessageTooLarge nat nat | PeSignatureInvalid | PeDecryptionFailed
  | PeUnsupportedDialect | PeCompoundError string | PeMalformedRequest string

datatype AuthError =
    AeInvalidCredentials | AeMalformedToken string | AeAccountDisabled | AeAccountLockedOut
  | AePasswordExpired | AeUnsupportedMechanism string | AeFailed string | AeKerberos string
  | AeNtlm string | AeSpnego string

datatype VfsError =
    VfsNotFound string | VfsAccessDenied string | VfsAlreadyExists string
  | VfsNotADirectory string | VfsIsADirectory string | VfsDirectoryNotEmpty string
  | VfsInvalidPath string | VfsDiskFull | VfsFileTooLarge | VfsSharingViolation string
  | VfsLockConflict | VfsInvalidHandle | VfsBackend string | VfsIo string
  | VfsNotSupported string | VfsReadOnly | VfsCrossDevice | VfsNameTooLong string

datatype StateError =
    SeConnectionFailed string | SeTimeout | SeSerialization string | SeNotFound string
  | SeAlreadyExists string | SeConflict string | SeInternal string

datatype CoordError =
    CeNotLeader "string option" | CeNoLeader | CeClusterUnhealthy string | CeTimeout
  | CeNetwork string | CeConflict string | CeServerNotFound string | CeLeaseNotFound
  | CeInternal string

datatype SessionError =
    InvalidSessionId u64 | InvalidTreeId u32 | InvalidHandleId u128 | SessionExpired
  | TooManyConnections | TooManySessions | NotAuthenticated

datatype SmbError =
    SmbProtocol ProtocolError | SmbAuth AuthError | SmbVfs VfsError | SmbState StateError
  | SmbSession SessionError | SmbCoord CoordError | SmbIo string | SmbConfig string

section \<open>NT status codes (status.rs)\<close>

datatype NtStatus =
    NtSuccess | NtPending | NtBufferOverflow | NtNoMoreFiles | NtMoreProcessingRequired |
    NtNotImplemented | NtInfoLengthMismatch | NtInvalidParameter | NtNoSuchFile |
    NtInvalidHandle | NtInvalidDeviceRequest | NtEndOfFile | NtAccessDenied |
    NtBufferTooSmall | NtObjectNameNotFound | NtObjectNameCollision | NtObjectPathNotFound |
    NtObjectPathSyntaxBad | NtSharingViolation | NtFileLockConflict | NtLockNotGranted |
    NtInvalidLockRange | NtDiskFull | NtNotSupported | NtBadNetworkName |
    NtRequestNotAccepted | NtInternalError | NtUserSessionDeleted | NtNetworkSessionExpired |
    NtFileIsADirectory | NtDirectoryNotEmpty | NtNotADirectory | NtFileTooLarge |
    NtNotSameDevice | NtMediaWriteProtected | NtNameTooLong | NtFileClosed |
    NtNetworkNameDeleted | NtInvalidSmb | NtSmbBadCommand | NtLogonFailure |
    NtAccountDisabled | NtAccountLockedOut | NtPasswordExpired | NtBadImpersonationLevel

primrec NtStatus_code :: "NtStatus \<Rightarrow> u32" where
  "NtStatus_code NtSuccess = 0x00000000"
| "NtStatus_code NtPending = 0x00000103"
| "NtStatus_code NtBufferOverflow = 0x80000005"
| "NtStatus_code NtNoMoreFiles = 0x80000006"
| "NtStatus_code NtMoreProcessingRequired = 0xC0000016"
| "NtStatus_code NtNotImplemented = 0xC0000002"
| "NtStatus_code NtInfoLengthMismatch = 0xC0000004"
| "NtStatus_code NtInvalidParameter = 0xC000000D"
| "NtStatus_code NtNoSuchFile = 0xC000000F"
| "NtStatus_code NtInvalidHandle = 0xC0000008"
| "NtStatus_code NtInvalidDeviceRequest = 0xC0000010"
| "NtStatus_code NtEndOfFile = 0xC0000011"
| "NtStatus_code NtAccessDenied = 0xC0000022"
| "NtStatus_code NtBufferTooSmall = 0xC0000023"
| "NtStatus_code NtObjectNameNotFound = 0xC0000034"
| "NtStatus_code NtObjectNameCollision = 0xC0000035"
| "NtStatus_code NtObjectPathNotFound = 0xC000003A"
| "NtStatus_code NtObjectPathSyntaxBad = 0xC000003B"
| "NtStatus_code NtSharingViolation = 0xC0000043"
| "NtStatus_code NtFileLockConflict = 0xC0000054"
| "NtStatus_code NtLockNotGranted = 0xC0000055"
| "NtStatus_code NtInvalidLockRange = 0xC00001A1"
| "NtStatus_code NtDiskFull = 0xC000007F"
| "NtStatus_code NtNotSupported = 0xC00000BB"
| "NtStatus_code NtBadNetworkName = 0xC00000CC"
| "NtStatus_code NtRequestNotAccepted = 0xC00000D0"
| "NtStatus_code NtInternalError = 0xC00000E5"
| "NtStatus_code NtUserSessionDeleted = 0xC0000203"
| "NtStatus_code NtNetworkSessionExpired = 0xC000035C"
| "NtStatus_code NtFileIsADirectory = 0xC00000BA"
| "NtStatus_code NtDirectoryNotEmpty = 0xC0000101"
| "NtStatus_code NtNotADirectory = 0xC0000103"
| "NtStatus_code NtFileTooLarge = 0xC0000904"
| "NtStatus_code NtNotSameDevice = 0xC00000D4"
| "NtStatus_code NtMediaWriteProtected = 0xC00000A2"
| "NtStatus_code NtNameTooLong = 0xC0000106"
| "NtStatus_code NtFileClosed = 0xC0000128"
| "NtStatus_code NtNetworkNameDeleted = 0xC00000C9"
| "NtStatus_code NtInvalidSmb = 0x00010002"
| "NtStatus_code NtSmbBadCommand = 0x00160002"
| "NtStatus_code NtLogonFailure = 0xC000006D"
| "NtStatus_code NtAccountDisabled = 0xC0000072"
| "NtStatus_code NtAccountLockedOut = 0xC0000234"
| "NtStatus_code NtPasswordExpired = 0xC0000071"
| "NtStatus_code NtBadImpersonationLevel = 0xC00000A5"

definition NtStatus_arms :: "(u32 \<times> NtStatus) list" where
  "NtStatus_arms = [
     (0x00000000, NtSuccess), (0x00000103, NtPending), (0x80000005, NtBufferOverflow),
     (0x80000006, NtNoMoreFiles), (0xC0000016, NtMoreProcessingRequired),
     (0xC0000002, NtNotImplemented), (0xC0000004, NtInfoLengthMismatch),
     (0xC000000D, NtInvalidParameter), (0xC000000F, NtNoSuchFile),
     (0xC0000008, NtInvalidHandle), (0xC0000010, NtInvalidDeviceRequest),
     (0xC0000011, NtEndOfFile), (0xC0000022, NtAccessDenied), (0xC0000023, NtBufferTooSmall),
     (0xC0000034, NtObjectNameNotFound), (0xC0000035, NtObjectNameCollision),
     (0xC000003A, NtObjectPathNotFound), (0xC000003B, NtObjectPathSyntaxBad),
     (0xC0000043, NtSharingViolation), (0xC0000054, NtFileLockConflict),
     (0xC0000055, NtLockNotGranted), (0xC00001A1, NtInvalidLockRange),
     (0xC000007F, NtDiskFull), (0xC00000BB, NtNotSupported), (0xC00000CC, NtBadNetworkName),
     (0xC00000D0, NtRequestNotAccepted), (0xC00000E5, NtInternalError),
     (0xC0000203, NtUserSessionDeleted), (0xC000035C, NtNetworkSessionExpired),
     (0xC00000BA, NtFileIsADirectory), (0xC0000101, NtDirectoryNotEmpty),
     (0xC0000103, NtNotADirectory), (0xC0000904, NtFileTooLarge),
     (0xC00000D4, NtNotSameDevice), (0xC00000A2, NtMediaWriteProtected),
     (0xC0000106, NtNameTooLong), (0xC0000128, NtFileClosed),
     (0xC00000C9, NtNetworkNameDeleted), (0x00010002, NtInvalidSmb),
     (0x00160002, NtSmbBadCommand), (0xC000006D, NtLogonFailure),
     (0xC0000072, NtAccountDisabled), (0xC0000234, NtAccountLockedOut),
     (0xC0000071, NtPasswordExpired), (0xC00000A5, NtBadImpersonationLevel)]"

text \<open>\<open>NtStatus::from_code\<close>: the arms of its \<open>match\<close>, tried in order; no arm is \<open>None\<close>.\<close>

definition NtStatus_from_code :: "u32 \<Rightarrow> NtStatus option" where
  "NtStatus_from_code c = map_of NtStatus_arms c"

definition NtStatus_is_success :: "NtStatus \<Rightarrow> bool" where
  "NtStatus_is_success s \<longleftrightarrow> NtStatus_code s < 0x80000000"

definition NtStatus_is_error :: "NtStatus \<Rightarrow> bool" where
  "NtStatus_is_error s \<longleftrightarrow> 0xC0000000 \<le> NtStatus_code s"

definition NtStatus_is_warning :: "NtStatus \<Rightarrow> bool" where
  "NtStatus_is_warning s \<longleftrightarrow> 0x80000000 \<le> NtStatus_code s \<and> NtStatus_code s < 0xC0000000"

primrec NtStatus_of_VfsError :: "VfsError \<Rightarrow> NtStatus" where
  "NtStatus_of_VfsError (VfsNotFound m) = NtObjectNameNotFound"
| "NtStatus_of_VfsError (VfsAccessDenied m) = NtAccessDenied"
| "NtStatus_of_VfsError (VfsAlreadyExists m) = NtObjectNameCollision"
| "NtStatus_of_VfsError (VfsNotADirectory m) = NtNotADirectory"
| "NtStatus_of_VfsError (VfsIsADirectory m) = NtFileIsADirectory"
| "NtStatus_of_VfsError (VfsDirectoryNotEmpty m) = NtDirectoryNotEmpty"
| "NtStatus_of_VfsError (VfsInvalidPath m) = NtObjectPathSyntaxBad"
| "NtStatus_of_VfsError VfsDiskFull = NtDiskFull"
| "NtStatus_of_VfsError VfsFileTooLarge = NtFileTooLarge"
| "NtStatus_of_VfsError (VfsSharingViolation m) = NtSharingViolation"
| "NtStatus_of_VfsError VfsLockConflict = NtFileLockConflict"
| "NtStatus_of_VfsError VfsInvalidHandle = NtInvalidHandle"
| "NtStatus_of_VfsError (VfsNotSupported m) = NtNotSupported"
| "NtStatus_of_VfsError VfsReadOnly = NtMediaWriteProtected"
| "NtStatus_of_VfsError VfsCrossDevice = NtNotSameDevice"
| "NtStatus_of_VfsError (VfsNameTooLong m) = NtNameTooLong"
| "NtStatus_of_VfsError (VfsBackend m) = NtInternalError"
| "NtStatus_of_VfsError (VfsIo m) = NtInternalError"

section \<open>Dialects, attributes, access (types.rs)\<close>

datatype SmbDialect = Smb202 | Smb210 | Smb300 | Smb302 | Smb311

primrec revision :: "SmbDialect \<Rightarrow> u16" where
  "revision Smb202 = 0x0202"
| "revision Smb210 = 0x0210"
| "revision Smb300 = 0x0300"
| "revision Smb302 = 0x0302"
| "revision Smb311 = 0x0311"

definition from_revision :: "u16 \<Rightarrow> SmbDialect option" where
  "from_revision r =
     (if r = 0x0202 then Some Smb202 else if r = 0x0210 then Some Smb210
      else if r = 0x0300 then Some Smb300 else if r = 0x0302 then Some Smb302
      else if r = 0x0311 then Some Smb311 else None)"

text \<open>The derived \<open>Ord\<close> compares discriminants, which are the revision numbers.\<close>

instantiation SmbDialect :: linorder
begin

definition less_eq_SmbDialect :: "SmbDialect \<Rightarrow> SmbDialect \<Rightarrow> bool" where
  "less_eq_SmbDialect a b \<longleftrightarrow> revision a \<le> revision b"

definition less_SmbDialect :: "SmbDialect \<Rightarrow> SmbDialect \<Rightarrow> bool" where
  "less_SmbDialect a b \<longleftrightarrow> revision a < revision b"

instance
proof
  fix a b c :: SmbDialect
  show "(a < b) = (a \<le> b \<and> \<not> b \<le> a)"
    by (auto simp: less_eq_SmbDialect_def less_SmbDialect_def)
  show "a \<le> a" by (simp add: less_eq_SmbDialect_def)
  show "a \<le> b \<Longrightarrow> b \<le> c \<Longrightarrow> a \<le> c" by (simp add: less_eq_SmbDialect_def)
  show "a \<le> b \<Longrightarrow> b \<le> a \<Longrightarrow> a = b"
    by (cases a; cases b) (simp_all add: less_eq_SmbDialect_def)
  show "a \<le> b \<or> b \<le> a" by (auto simp: less_eq_SmbDialect_def)
qed

end

definition supports_encryption :: "SmbDialect \<Rightarrow> bool" where
  "supports_encryption d \<longleftrightarrow> Smb300 \<le> d"

definition supports_directory_leasing :: "SmbDialect \<Rightarrow> bool" where
  "supports_directory_leasing d \<longleftrightarrow> Smb300 \<le> d"

definition supports_multi_channel :: "SmbDialect \<Rightarrow> bool" where
  "supports_multi_channel d \<longleftrightarrow> Smb300 \<le> d"

definition requires_preauth_integrity :: "SmbDialect \<Rightarrow> bool" where
  "requires_preauth_integrity d \<longleftrightarrow> Smb311 \<le> d"

definition attr_is_readonly :: "u32 \<Rightarrow> bool" where
  "attr_is_readonly a \<longleftrightarrow> a AND 0x00000001 \<noteq> 0"

definition attr_is_hidden :: "u32 \<Rightarrow> bool" where
  "attr_is_hidden a \<longleftrightarrow> a AND 0x00000002 \<noteq> 0"

definition attr_is_directory :: "u32 \<Rightarrow> bool" where
  "attr_is_directory a \<longleftrightarrow> a AND 0x00000010 \<noteq> 0"

definition attr_is_archive :: "u32 \<Rightarrow> bool" where
  "attr_is_archive a \<longleftrightarrow> a AND 0x00000020 \<noteq> 0"

abbreviation (input) FILE_READ_DATA :: u32 where "FILE_READ_DATA \<equiv> 0x00000001"
abbreviation (input) FILE_WRITE_DATA :: u32 where "FILE_WRITE_DATA \<equiv> 0x00000002"
abbreviation (input) ACCESS_DELETE :: u32 where "ACCESS_DELETE \<equiv> 0x00010000"
abbreviation (input) GENERIC_ALL :: u32 where "GENERIC_ALL \<equiv> 0x10000000"
abbreviation (input) GENERIC_WRITE :: u32 where "GENERIC_WRITE \<equiv> 0x40000000"
abbreviation (input) GENERIC_READ :: u32 where "GENERIC_READ \<equiv> 0x80000000"

definition can_read :: "u32 \<Rightarrow> bool" where
  "can_read m \<longleftrightarrow> m AND (FILE_READ_DATA OR GENERIC_READ OR GENERIC_ALL) \<noteq> 0"

definition can_write :: "u32 \<Rightarrow> bool" where
  "can_write m \<longleftrightarrow> m AND (FILE_WRITE_DATA OR GENERIC_WRITE OR GENERIC_ALL) \<noteq> 0"

definition can_delete :: "u32 \<Rightarrow> bool" where
  "can_delete m \<longleftrightarrow> m AND (ACCESS_DELETE OR GENERIC_ALL) \<noteq> 0"

definition share_read :: "u32 \<Rightarrow> bool" where
  "share_read s \<longleftrightarrow> s AND 0x00000001 \<noteq> 0"

definition share_write :: "u32 \<Rightarrow> bool" where
  "share_write s \<longleftrightarrow> s AND 0x00000002 \<noteq> 0"

definition share_delete :: "u32 \<Rightarrow> bool" where
  "share_delete s \<longleftrightarrow> s AND 0x00000004 \<noteq> 0"

datatype CreateDisposition = Supersede | Open | Create | OpenIf | Overwrite | OverwriteIf

datatype CreateAction = Superseded | Opened | Created | Overwritten

section \<open>Lemmas\<close>

lemma NtStatus_arms_sound: "(c, s) \<in> set NtStatus_arms \<Longrightarrow> NtStatus_code s = c"
  by (auto simp: NtStatus_arms_def)

lemma NtStatus_from_code_code: "NtStatus_from_code (NtStatus_code s) = Some s"
  by (cases s) (simp_all add: NtStatus_from_code_def NtStatus_arms_def)

lemma from_revision_revision [simp]: "from_revision (revision d) = Some d"
  by (cases d) (simp_all add: from_revision_def)

lemma from_revision_Some: "from_revision r = Some d \<Longrightarrow> revision d = r"
  by (auto simp: from_revision_def split: if_splits)

lemma revision_inj: "revision a = revision b \<longleftrightarrow> a = b"
  by (metis from_revision_revision option.inject)

text \<open>
  Status codes survive the wire: decoding a 32-bit code yields exactly the status whose code
  it is, for every status the server knows, and no other code decodes.
\<close>

theorem NtStatus_code_roundtrip:
  "NtStatus_from_code c = Some s \<longleftrightarrow> NtStatus_code s = c"
proof
  assume "NtStatus_from_code c = Some s"
  then have "(c, s) \<in> set NtStatus_arms"
    unfolding NtStatus_from_code_def by (rule map_of_SomeD)
  then show "NtStatus_code s = c" by (rule NtStatus_arms_sound)
next
  assume "NtStatus_code s = c"
  then show "NtStatus_from_code c = Some s" using NtStatus_from_code_code by auto
qed

text \<open>
  No file-system error is ever reported to a client as a success or as a warning: every
  \<open>VfsError\<close> maps to a status in the error range.
\<close>

theorem vfs_errors_are_errors:
  "NtStatus_is_error (NtStatus_of_VfsError e) \<and> \<not> NtStatus_is_success (NtStatus_of_VfsError e)
   \<and> \<not> NtStatus_is_warning (NtStatus_of_VfsError e)"
  by (cases e)
    (simp_all add: NtStatus_is_error_def NtStatus_is_success_def NtStatus_is_warning_def)

text \<open>
  The two SMB-specific codes 0x00010002 and 0x00160002 lie below 0x80000000, so
  \<open>is_success\<close> holds of them although they name failures.
\<close>

lemma smb_specific_codes_are_success:
  "NtStatus_is_success NtInvalidSmb \<and> NtStatus_is_success NtSmbBadCommand
   \<and> \<not> NtStatus_is_error NtInvalidSmb \<and> \<not> NtStatus_is_error NtSmbBadCommand"
  by (simp add: NtStatus_is_success_def NtStatus_is_error_def)

end
