(* ===== verification/State_Types.thy ===== *)
theory State_Types
  imports Core_Types
begin

text \<open>
  \<open>crates/rustsmb-state\<close>: the persisted records of \<open>types.rs\<close> (sessions, trees, handles, byte
  range locks), the cluster records of \<open>coordination.rs\<close> (server registrations, leases,
  distributed byte-range locks) and the operations the sources define on them. Field names carry
  a prefix naming their struct. \<open>SystemTime::now()\<close> in seconds is the argument \<open>now\<close>; \<open>+\<close> on
  \<open>u64\<close> wraps as in a release build. The \<open>hex\<close> crate is a third-party package and stands as the
  parameter \<open>hex_lib\<close>.
\<close>

section \<open>Records of types.rs\<close>

record SessionState =
  ss_session_id :: u64
  ss_user_id :: string
  ss_domain :: "string option"
  ss_session_key :: bytes
  ss_dialect :: SmbDialect
  ss_signing_required :: bool
  ss_encryption_required :: bool
  ss_is_guest :: bool
  ss_is_anonymous :: bool
  ss_created_at :: u64
  ss_last_access :: u64
  ss_expires_at :: u64
  ss_bound_server_id :: "string option"

definition SessionState_default :: "u64 \<Rightarrow> SessionState" where
  "SessionState_default now = \<lparr> ss_session_id = 0, ss_user_id = [], ss_domain = None,
     ss_session_key = [], ss_dialect = Smb311, ss_signing_required = False,
     ss_encryption_required = False, ss_is_guest = False, ss_is_anonymous = False,
     ss_created_at = now, ss_last_access = now, ss_expires_at = now + 3600,
     ss_bound_server_id = None \<rparr>"

record TreeState =
  ts_tree_id :: u32
  ts_session_id :: u64
  ts_share_name :: string
  ts_share_path :: string
  ts_access_flags :: u32
  ts_is_dfs :: bool
  ts_created_at :: u64

definition TreeState_default :: "u64 \<Rightarrow> TreeState" where
  "TreeState_default now = \<lparr> ts_tree_id = 0, ts_session_id = 0, ts_share_name = [],
     ts_share_path = [], ts_access_flags = 0, ts_is_dfs = False, ts_created_at = now \<rparr>"

record HandleState =
  hs_persistent_id :: u128
  hs_volatile_id :: u128
  hs_tree_id :: u32
  hs_session_id :: u64
  hs_path :: string
  hs_access_mask :: u32
  hs_share_access :: u32
  hs_create_options :: u32
  hs_is_durable :: bool
  hs_is_persistent :: bool
  hs_created_at :: u64
  hs_last_access :: u64
  hs_create_guid :: "string option"
  hs_file_offset :: u64
  hs_share_name :: string
  hs_create_disposition :: u32
  hs_file_attributes :: u32
  hs_app_instance_id :: "string option"
  hs_durable_timeout :: u32
  hs_reconnect_deadline :: "u64 option"
  hs_lease_key :: "string option"
  hs_oplock_level :: u8
  hs_bound_server_id :: "string option"
  hs_delete_on_close :: bool
  hs_is_directory :: bool
  hs_backend_internal_id :: "u64 option"

definition HandleState_default :: "u64 \<Rightarrow> HandleState" where
  "HandleState_default now = \<lparr> hs_persistent_id = 0, hs_volatile_id = 0, hs_tree_id = 0,
     hs_session_id = 0, hs_path = [], hs_access_mask = 0, hs_share_access = 0,
     hs_create_options = 0, hs_is_durable = False, hs_is_persistent = False,
     hs_created_at = now, hs_last_access = now, hs_create_guid = None, hs_file_offset = 0,
     hs_share_name = [], hs_create_disposition = 0, hs_file_attributes = 0,
     hs_app_instance_id = None, hs_durable_timeout = 0, hs_reconnect_deadline = None,
     hs_lease_key = None, hs_oplock_level = 0, hs_bound_server_id = None,
     hs_delete_on_close = False, hs_is_directory = False, hs_backend_internal_id = None \<rparr>"

record LockState =
  lk_lock_id :: u64
  lk_persistent_id :: u128
  lk_offset :: u64
  lk_length :: u64
  lk_exclusive :: bool
  lk_flags :: u32
  lk_created_at :: u64

definition LockState_default :: "u64 \<Rightarrow> LockState" where
  "LockState_default now = \<lparr> lk_lock_id = 0, lk_persistent_id = 0, lk_offset = 0,
     lk_length = 0, lk_exclusive = False, lk_flags = 0, lk_created_at = now \<rparr>"

section \<open>GUIDs as hex strings\<close>

record hex_lib =
  hex_encode :: "bytes \<Rightarrow> string"
  hex_decode :: "string \<Rightarrow> bytes option"

text \<open>What the sources rely on: \<open>hex::decode\<close> inverts \<open>hex::encode\<close>.\<close>

definition hex_lib_ok :: "hex_lib \<Rightarrow> bool" where
  "hex_lib_ok h \<longleftrightarrow> (\<forall>b. hex_decode h (hex_encode h b) = Some b)"

definition guid_to_hex :: "hex_lib \<Rightarrow> bytes \<Rightarrow> string" where
  "guid_to_hex h guid = hex_encode h guid"

definition hex_to_guid :: "hex_lib \<Rightarrow> string \<Rightarrow> bytes option" where
  "hex_to_guid h str =
     (case hex_decode h str of
        None \<Rightarrow> None
      | Some bs \<Rightarrow> if length bs \<noteq> 16 then None else Some bs)"

definition set_create_guid :: "hex_lib \<Rightarrow> bytes \<Rightarrow> HandleState \<Rightarrow> HandleState" where
  "set_create_guid h guid hs = hs\<lparr> hs_create_guid := Some (guid_to_hex h guid) \<rparr>"

definition get_create_guid :: "hex_lib \<Rightarrow> HandleState \<Rightarrow> bytes option" where
  "get_create_guid h hs = Option.bind (hs_create_guid hs) (hex_to_guid h)"

definition set_lease_key :: "hex_lib \<Rightarrow> bytes \<Rightarrow> HandleState \<Rightarrow> HandleState" where
  "set_lease_key h key hs = hs\<lparr> hs_lease_key := Some (guid_to_hex h key) \<rparr>"

definition get_lease_key :: "hex_lib \<Rightarrow> HandleState \<Rightarrow> bytes option" where
  "get_lease_key h hs = Option.bind (hs_lease_key hs) (hex_to_guid h)"

definition set_app_instance_id :: "hex_lib \<Rightarrow> bytes \<Rightarrow> HandleState \<Rightarrow> HandleState" where
  "set_app_instance_id h i hs = hs\<lparr> hs_app_instance_id := Some (guid_to_hex h i) \<rparr>"

definition get_app_instance_id :: "hex_lib \<Rightarrow> HandleState \<Rightarrow> bytes option" where
  "get_app_instance_id h hs = Option.bind (hs_app_instance_id hs) (hex_to_guid h)"

section \<open>Durable handles\<close>

definition can_reconnect :: "u64 \<Rightarrow> HandleState \<Rightarrow> bool" where
  "can_reconnect now h =
     (if \<not> hs_is_durable h \<and> \<not> hs_is_persistent h then False
      else case hs_reconnect_deadline h of
        Some deadline \<Rightarrow> \<not> (deadline < now)
      | None \<Rightarrow> True)"

definition set_durable_timeout :: "u64 \<Rightarrow> u32 \<Rightarrow> HandleState \<Rightarrow> HandleState" where
  "set_durable_timeout now timeout_ms h =
     h\<lparr> hs_durable_timeout := timeout_ms,
        hs_reconnect_deadline := Some (now + ucast timeout_ms div 1000) \<rparr>"

definition should_preserve_for_reconnect :: "HandleState \<Rightarrow> bool" where
  "should_preserve_for_reconnect h \<longleftrightarrow> hs_is_persistent h \<or> hs_is_durable h"

definition prepare_for_reconnect :: "u64 \<Rightarrow> u32 \<Rightarrow> HandleState \<Rightarrow> HandleState" where
  "prepare_for_reconnect now default_timeout_ms h =
     (let h1 = h\<lparr> hs_session_id := 0, hs_tree_id := 0 \<rparr> in
      if hs_reconnect_deadline h1 = None then
        let timeout = (if 0 < hs_durable_timeout h1 then hs_durable_timeout h1
                       else default_timeout_ms)
        in set_durable_timeout now timeout h1
      else h1)"

section \<open>Records of coordination.rs\<close>

record ServerRegistration =
  sr_server_id :: string
  sr_hostname :: string
  sr_port :: u16
  sr_raft_addr :: string
  sr_registered_at :: u64
  sr_last_heartbeat :: u64
  sr_active_sessions :: u64
  sr_active_handles :: u64

definition ServerRegistration_new ::
  "u64 \<Rightarrow> string \<Rightarrow> string \<Rightarrow> u16 \<Rightarrow> string \<Rightarrow> ServerRegistration" where
  "ServerRegistration_new now server_id hostname port raft_addr =
     \<lparr> sr_server_id = server_id, sr_hostname = hostname, sr_port = port,
       sr_raft_addr = raft_addr, sr_registered_at = now, sr_last_heartbeat = now,
       sr_active_sessions = 0, sr_active_handles = 0 \<rparr>"

record LeaseEntry =
  le_lease_key :: string
  le_client_guid :: string
  le_session_id :: u64
  le_server_id :: string
  le_file_path :: string
  le_lease_state :: u32
  le_epoch :: u16
  le_created_at :: u64
  le_breaking :: bool
  le_break_to_state :: u32
  le_break_started_at :: "u64 option"
  le_is_v2 :: bool

abbreviation (input) READ_CACHING :: u32 where "READ_CACHING \<equiv> 0x01"
abbreviation (input) WRITE_CACHING :: u32 where "WRITE_CACHING \<equiv> 0x02"
abbreviation (input) HANDLE_CACHING :: u32 where "HANDLE_CACHING \<equiv> 0x04"

definition LeaseEntry_new ::
  "hex_lib \<Rightarrow> u64 \<Rightarrow> bytes \<Rightarrow> string \<Rightarrow> u64 \<Rightarrow> string \<Rightarrow> string \<Rightarrow> u32 \<Rightarrow> bool \<Rightarrow> LeaseEntry" where
  "LeaseEntry_new h now lease_key client_guid session_id server_id file_path lease_state is_v2 =
     \<lparr> le_lease_key = hex_encode h lease_key, le_client_guid = client_guid,
       le_session_id = session_id, le_server_id = server_id, le_file_path = file_path,
       le_lease_state = lease_state, le_epoch = 1, le_created_at = now, le_breaking = False,
       le_break_to_state = 0, le_break_started_at = None, le_is_v2 = is_v2 \<rparr>"

definition LeaseEntry_get_lease_key :: "hex_lib \<Rightarrow> LeaseEntry \<Rightarrow> bytes option" where
  "LeaseEntry_get_lease_key h l =
     (case hex_decode h (le_lease_key l) of
        None \<Rightarrow> None
      | Some bs \<Rightarrow> if length bs \<noteq> 16 then None else Some bs)"

record LeaseBreakRequest =
  lbr_lease_key :: string
  lbr_current_state :: u32
  lbr_new_state :: u32
  lbr_target_server_id :: string

record LeaseConflictResult =
  lcr_can_grant :: bool
  lcr_conflicts :: "LeaseEntry list"
  lcr_granted_state :: u32

definition LeaseConflictResult_granted :: "u32 \<Rightarrow> LeaseConflictResult" where
  "LeaseConflictResult_granted requested_state =
     \<lparr> lcr_can_grant = True, lcr_conflicts = [], lcr_granted_state = requested_state \<rparr>"

definition LeaseConflictResult_conflict :: "LeaseEntry list \<Rightarrow> u32 \<Rightarrow> LeaseConflictResult" where
  "LeaseConflictResult_conflict conflicts reduced_state =
     \<lparr> lcr_can_grant = False, lcr_conflicts = conflicts, lcr_granted_state = reduced_state \<rparr>"

definition has_conflicts :: "LeaseConflictResult \<Rightarrow> bool" where
  "has_conflicts r \<longleftrightarrow> lcr_conflicts r \<noteq> []"

record DistributedLock =
  dl_lock_id :: u64
  dl_handle_id :: u128
  dl_session_id :: u64
  dl_server_id :: string
  dl_file_path :: string
  dl_offset :: u64
  dl_length :: u64
  dl_exclusive :: bool
  dl_created_at :: u64

definition DistributedLock_new ::
  "u64 \<Rightarrow> u64 \<Rightarrow> u128 \<Rightarrow> u64 \<Rightarrow> string \<Rightarrow> string \<Rightarrow> u64 \<Rightarrow> u64 \<Rightarrow> bool \<Rightarrow> DistributedLock" where
  "DistributedLock_new now lock_id handle_id session_id server_id file_path offset len exclusive =
     \<lparr> dl_lock_id = lock_id, dl_handle_id = handle_id, dl_session_id = session_id,
       dl_server_id = server_id, dl_file_path = file_path, dl_offset = offset,
       dl_length = len, dl_exclusive = exclusive, dl_created_at = now \<rparr>"

text \<open>The end of a lock's range, the \<open>self_end\<close> of \<open>conflicts_with\<close>.\<close>

definition lock_end :: "DistributedLock \<Rightarrow> u64" where
  "lock_end l = (if dl_length l = 0 then - 1 else sat_add (dl_offset l) (dl_length l))"

definition conflicts_with :: "DistributedLock \<Rightarrow> DistributedLock \<Rightarrow> bool" where
  "conflicts_with self other =
     (if dl_file_path self \<noteq> dl_file_path other then False
      else if dl_handle_id self = dl_handle_id other then False
      else
        let overlaps = dl_offset self < lock_end other \<and> dl_offset other < lock_end self in
        if \<not> overlaps then False else dl_exclusive self \<or> dl_exclusive other)"

section \<open>Lemmas\<close>

lemma conflicts_with_sym: "conflicts_with a b \<longleftrightarrow> conflicts_with b a"
  by (auto simp: conflicts_with_def Let_def)

lemma not_conflicts_with_self: "\<not> conflicts_with a a"
  by (simp add: conflicts_with_def)

text \<open>The bytes a lock names: \<open>length = 0\<close> reaches to the end of the file.\<close>

definition lock_covers :: "DistributedLock \<Rightarrow> u64 \<Rightarrow> bool" where
  "lock_covers l x \<longleftrightarrow> dl_offset l \<le> x \<and>
     (dl_length l = 0 \<or> unat x < unat (dl_offset l) + unat (dl_length l))"

lemma unat_lock_end:
  "unat (lock_end l) = (if dl_length l = 0 then 2 ^ 64 - 1
     else min (unat (dl_offset l) + unat (dl_length l)) (2 ^ 64 - 1))"
  by (simp add: lock_end_def unat_minus_one_word unat_sat_add)

lemma lock_covers_iff_lock_end:
  "unat x < 2 ^ 64 - 1 \<Longrightarrow> lock_covers l x \<longleftrightarrow> dl_offset l \<le> x \<and> x < lock_end l"
  by (auto simp: lock_covers_def word_less_nat_alt unat_lock_end split: if_splits)

lemma lock_ranges_overlap_iff:
  "dl_offset a < lock_end b \<and> dl_offset b < lock_end a \<longleftrightarrow>
     (\<exists>x. unat x < 2 ^ 64 - 1 \<and> lock_covers a x \<and> lock_covers b x)" (is "?L \<longleftrightarrow> ?R")
proof
  assume L: ?L
  let ?x = "max (dl_offset a) (dl_offset b)"
  have "unat (dl_offset l) < unat (lock_end l)" if "unat (dl_offset l) < 2 ^ 64 - 1" for l
    using that by (auto simp: unat_lock_end unat_gt_0)
  with L have "unat ?x < unat (lock_end a)" "unat ?x < unat (lock_end b)"
    using unat_le_max [of "lock_end a"] unat_le_max [of "lock_end b"]
    by (auto simp: unat_max_word word_less_nat_alt)
  moreover from this(1) have "unat ?x < 2 ^ 64 - 1"
    using unat_le_max [of "lock_end a"] by simp
  ultimately show ?R
    by (intro exI [of _ ?x]) (simp add: lock_covers_iff_lock_end word_less_nat_alt)
next
  assume ?R
  then obtain x where "unat x < 2 ^ 64 - 1" "lock_covers a x" "lock_covers b x" by blast
  then show ?L by (auto simp: lock_covers_iff_lock_end)
qed

text \<open>
  C29. Two byte-range locks conflict exactly when they are on the same file, are held through
  different handles, at least one is exclusive, and some byte below offset \<open>2 ^ 64 - 1\<close> lies in
  both ranges (a zero length reaching to the end of the file).
\<close>

theorem conflicts_with_iff_shared_byte:
  "conflicts_with a b \<longleftrightarrow>
     dl_file_path a = dl_file_path b \<and> dl_handle_id a \<noteq> dl_handle_id b
     \<and> (dl_exclusive a \<or> dl_exclusive b)
     \<and> (\<exists>x. unat x < 2 ^ 64 - 1 \<and> lock_covers a x \<and> lock_covers b x)"
  unfolding conflicts_with_def Let_def lock_ranges_overlap_iff by auto

text \<open>
  The byte bound is needed: two exclusive one-byte locks on the last addressable byte of a file
  do not conflict, because the saturating end of the range equals its start.
\<close>

lemma last_byte_never_conflicts:
  assumes "dl_offset a = - 1"
  shows "\<not> conflicts_with a b"
proof -
  have "\<not> dl_offset a < lock_end b" using assms by (simp add: word_le_nat_alt not_less)
  then show ?thesis by (simp add: conflicts_with_def Let_def)
qed

lemma hex_to_guid_guid_to_hex:
  "hex_lib_ok h \<Longrightarrow> length g = 16 \<Longrightarrow> hex_to_guid h (guid_to_hex h g) = Some g"
  by (simp add: hex_to_guid_def guid_to_hex_def hex_lib_ok_def)

lemma can_reconnect_deadline:
  "hs_reconnect_deadline h = Some d \<Longrightarrow> d < now \<Longrightarrow> \<not> can_reconnect now h"
  by (simp add: can_reconnect_def)

lemma prepare_for_reconnect_ids [simp]:
  "hs_session_id (prepare_for_reconnect now t h) = 0"
  "hs_tree_id (prepare_for_reconnect now t h) = 0"
  "hs_persistent_id (prepare_for_reconnect now t h) = hs_persistent_id h"
  "hs_path (prepare_for_reconnect now t h) = hs_path h"
  "hs_is_durable (prepare_for_reconnect now t h) = hs_is_durable h"
  "hs_is_persistent (prepare_for_reconnect now t h) = hs_is_persistent h"
  by (simp_all add: prepare_for_reconnect_def set_durable_timeout_def Let_def)

lemma prepare_for_reconnect_deadline:
  "hs_reconnect_deadline (prepare_for_reconnect now t h) \<noteq> None"
  by (simp add: prepare_for_reconnect_def set_durable_timeout_def Let_def)

lemma should_preserve_prepare [simp]:
  "should_preserve_for_reconnect (prepare_for_reconnect now t h) = should_preserve_for_reconnect h"
  by (simp add: should_preserve_for_reconnect_def)

text \<open>
  The reconnect window of a disconnected handle: after \<open>prepare_for_reconnect\<close> at time \<open>t\<close> a
  handle can be reclaimed at time \<open>n\<close> exactly if it is durable or persistent and \<open>n\<close> is no later
  than its deadline, which is the deadline it already carried or else \<open>t\<close> plus its own timeout
  (the default when it has none).
\<close>

theorem reconnect_window:
  "can_reconnect n (prepare_for_reconnect t default_ms h) \<longleftrightarrow>
     should_preserve_for_reconnect h \<and>
     n \<le> (case hs_reconnect_deadline h of
            Some d \<Rightarrow> d
          | None \<Rightarrow> t + ucast (if 0 < hs_durable_timeout h then hs_durable_timeout h
                               else default_ms) div 1000)"
  by (auto simp: can_reconnect_def prepare_for_reconnect_def set_durable_timeout_def
      should_preserve_for_reconnect_def Let_def split: option.split)

text \<open>
  A handle whose timeout was set when it was opened keeps that deadline when its connection drops,
  so a client that held it open for longer than the timeout can never reclaim it.
\<close>

lemma durable_window_starts_at_open:
  assumes "opened + ucast ms div 1000 < dropped" "dropped \<le> n"
  shows "\<not> can_reconnect n (prepare_for_reconnect dropped default_ms (set_durable_timeout opened ms h))"
proof -
  have "hs_reconnect_deadline (prepare_for_reconnect dropped default_ms (set_durable_timeout opened ms h))
      = Some (opened + ucast ms div 1000)"
    by (simp add: prepare_for_reconnect_def set_durable_timeout_def Let_def)
  moreover have "opened + ucast ms div 1000 < n" using assms by simp
  ultimately show ?thesis by (rule can_reconnect_deadline)
qed

text \<open>
  GUIDs survive storage: for 16-byte values the stored hex strings of a create GUID, a lease
  key and an application instance id read back as the value set, provided \<open>hex::decode\<close> inverts
  \<open>hex::encode\<close>.
\<close>

theorem guid_fields_roundtrip:
  assumes "hex_lib_ok hx" "length g = 16"
  shows "get_create_guid hx (set_create_guid hx g h) = Some g
    \<and> get_lease_key hx (set_lease_key hx g h) = Some g
    \<and> get_app_instance_id hx (set_app_instance_id hx g h) = Some g"
  using hex_to_guid_guid_to_hex [OF assms]
  by (simp add: get_create_guid_def set_create_guid_def get_lease_key_def set_lease_key_def
      get_app_instance_id_def set_app_instance_id_def)

text \<open>A lower-case hex codec, as one instance of the parameter.\<close>

definition hex_digit_value :: "char \<Rightarrow> nat" where
  "hex_digit_value c = (if of_char c < (58 :: nat) then of_char c - 48 else of_char c - 87)"

definition demo_hex_encode :: "bytes \<Rightarrow> string" where
  "demo_hex_encode bs = concat (map (\<lambda>b. fmt_hex 2 (unat b)) bs)"

fun demo_hex_decode :: "string \<Rightarrow> bytes option" where
  "demo_hex_decode [] = Some []"
| "demo_hex_decode [c] = None"
| "demo_hex_decode (c # d # cs) =
     map_option (\<lambda>bs. of_nat (16 * hex_digit_value c + hex_digit_value d) # bs) (demo_hex_decode cs)"

lemma hex_digit_value_digit_char: "d < 16 \<Longrightarrow> hex_digit_value (digit_char d) = d"
  by (simp add: hex_digit_value_def digit_char_def of_char_of take_bit_eq_mod)

lemma demo_hex_ok: "hex_lib_ok \<lparr> hex_encode = demo_hex_encode, hex_decode = demo_hex_decode \<rparr>"
proof -
  have pair: "fmt_hex 2 x = [digit_char (x div 16 mod 16), digit_char (x mod 16)]" for x
    by (simp add: numeral_2_eq_2)
  have byte: "of_nat (16 * (unat b div 16 mod 16) + unat b mod 16) = b" for b :: u8
  proof -
    have "unat b div 16 < 16" using unat_u8_lt [of b] by (simp add: less_mult_imp_div_less)
    then have eq: "16 * (unat b div 16 mod 16) + unat b mod 16 = unat b" by simp
    show ?thesis unfolding eq by simp
  qed
  have "demo_hex_decode (demo_hex_encode bs) = Some bs" for bs
    by (induction bs) (simp_all add: demo_hex_encode_def pair hex_digit_value_digit_char byte
        del: of_nat_add of_nat_mult)
  then show ?thesis by (simp add: hex_lib_ok_def)
qed

theorem guid_fields_roundtrip_witness:
  "get_create_guid \<lparr> hex_encode = demo_hex_encode, hex_decode = demo_hex_decode \<rparr>
     (set_create_guid \<lparr> hex_encode = demo_hex_encode, hex_decode = demo_hex_decode \<rparr>
       (replicate 16 0xAB) (HandleState_default 0)) = Some (replicate 16 0xAB)"
  using guid_fields_roundtrip [OF demo_hex_ok, of "replicate 16 0xAB" "HandleState_default 0"]
  by simp

end
