(* ===== verification/State_Store.thy ===== *)
theory State_Store
  imports State_Types
begin

text \<open>
  The \<open>StateStore\<close> trait of \<open>crates/rustsmb-state/src/traits.rs\<close>: \<open>Arc<dyn StateStore>\<close> is a
  record with one field per trait method, over the state \<open>'s\<close> of the implementation. A method
  that reads the clock takes the reading as its first argument; a \<open>Duration\<close> argument is its
  \<open>as_secs()\<close>.

  The locales state what a client may rely on. A store shows a \<open>store_view\<close>: one finite map per
  kind of object. A mutation that returns \<open>Ok\<close> has exactly its documented effect on that view, a
  mutation that returns \<open>Err\<close> leaves it alone, and a read answers from it. \<open>reliable_store\<close> adds
  that no operation fails.
\<close>

record 's state_store =
  st_create_session :: "SessionState \<Rightarrow> ('s, StateError, unit) op"
  st_get_session :: "u64 \<Rightarrow> ('s, StateError, SessionState option) op"
  st_update_session :: "SessionState \<Rightarrow> ('s, StateError, unit) op"
  st_delete_session :: "u64 \<Rightarrow> ('s, StateError, unit) op"
  st_refresh_session :: "u64 \<Rightarrow> u64 \<Rightarrow> u64 \<Rightarrow> ('s, StateError, unit) op"
  st_list_sessions :: "string option \<Rightarrow> ('s, StateError, SessionState list) op"
  st_create_tree :: "TreeState \<Rightarrow> ('s, StateError, unit) op"
  st_get_tree :: "u64 \<Rightarrow> u32 \<Rightarrow> ('s, StateError, TreeState option) op"
  st_get_trees_by_session :: "u64 \<Rightarrow> ('s, StateError, TreeState list) op"
  st_delete_tree :: "u64 \<Rightarrow> u32 \<Rightarrow> ('s, StateError, unit) op"
  st_create_handle :: "HandleState \<Rightarrow> ('s, StateError, unit) op"
  st_get_handle :: "u128 \<Rightarrow> ('s, StateError, HandleState option) op"
  st_update_handle :: "HandleState \<Rightarrow> ('s, StateError, unit) op"
  st_get_handles_by_session :: "u64 \<Rightarrow> ('s, StateError, HandleState list) op"
  st_get_handles_for_file :: "string \<Rightarrow> string \<Rightarrow> ('s, StateError, HandleState list) op"
  st_delete_handle :: "u128 \<Rightarrow> ('s, StateError, unit) op"
  st_create_lock :: "LockState \<Rightarrow> ('s, StateError, unit) op"
  st_get_locks :: "u128 \<Rightarrow> ('s, StateError, LockState list) op"
  st_delete_lock :: "u64 \<Rightarrow> ('s, StateError, unit) op"
  st_acquire_distributed_lock :: "u128 \<Rightarrow> string \<Rightarrow> u64 \<Rightarrow> ('s, StateError, string option) op"
  st_release_distributed_lock :: "string \<Rightarrow> string \<Rightarrow> ('s, StateError, unit) op"
  st_extend_distributed_lock :: "string \<Rightarrow> string \<Rightarrow> u64 \<Rightarrow> ('s, StateError, bool) op"
  st_next_session_id :: "('s, StateError, u64) op"
  st_next_tree_id :: "u64 \<Rightarrow> ('s, StateError, u32) op"
  st_next_handle_id :: "('s, StateError, u128) op"
  st_create_lease :: "LeaseEntry \<Rightarrow> ('s, StateError, unit) op"
  st_get_lease :: "string \<Rightarrow> ('s, StateError, LeaseEntry option) op"
  st_update_lease :: "LeaseEntry \<Rightarrow> ('s, StateError, unit) op"
  st_delete_lease :: "string \<Rightarrow> ('s, StateError, unit) op"
  st_get_leases_for_file :: "string \<Rightarrow> ('s, StateError, LeaseEntry list) op"
  st_check_and_create_lease ::
    "string \<Rightarrow> LeaseEntry \<Rightarrow> u32 \<Rightarrow> ('s, StateError, LeaseConflictResult) op"
  st_delete_leases_for_server :: "string \<Rightarrow> ('s, StateError, unit) op"
  st_acquire_file_lock :: "DistributedLock \<Rightarrow> ('s, StateError, bool) op"
  st_release_file_lock :: "u64 \<Rightarrow> ('s, StateError, unit) op"
  st_get_file_locks :: "string \<Rightarrow> ('s, StateError, DistributedLock list) op"
  st_release_file_locks_for_session :: "u64 \<Rightarrow> ('s, StateError, unit) op"
  st_release_file_locks_for_handle :: "u128 \<Rightarrow> ('s, StateError, unit) op"
  st_release_file_locks_for_server :: "string \<Rightarrow> ('s, StateError, unit) op"
  st_next_file_lock_id :: "('s, StateError, u64) op"

section \<open>The view of a store\<close>

record store_view =
  sv_sessions :: "u64 \<rightharpoonup> SessionState"
  sv_trees :: "u64 \<times> u32 \<rightharpoonup> TreeState"
  sv_handles :: "u128 \<rightharpoonup> HandleState"
  sv_leases :: "string \<rightharpoonup> LeaseEntry"
  sv_file_locks :: "u64 \<rightharpoonup> DistributedLock"

text \<open>Objects are filed under their own identifiers.\<close>

definition view_keyed :: "store_view \<Rightarrow> bool" where
  "view_keyed v \<longleftrightarrow>
     (\<forall>k x. sv_sessions v k = Some x \<longrightarrow> ss_session_id x = k) \<and>
     (\<forall>k x. sv_trees v k = Some x \<longrightarrow> (ts_session_id x, ts_tree_id x) = k) \<and>
     (\<forall>k x. sv_handles v k = Some x \<longrightarrow> hs_persistent_id x = k)"

definition touch_session :: "u64 \<Rightarrow> u64 \<Rightarrow> SessionState \<Rightarrow> SessionState" where
  "touch_session now ttl x = x\<lparr> ss_last_access := now, ss_expires_at := now + ttl \<rparr>"

definition map_retain :: "('v \<Rightarrow> bool) \<Rightarrow> ('k \<rightharpoonup> 'v) \<Rightarrow> ('k \<rightharpoonup> 'v)" where
  "map_retain P m k = (case m k of None \<Rightarrow> None | Some v \<Rightarrow> if P v then Some v else None)"

lemma map_retain_Some [simp]: "map_retain P m k = Some v \<longleftrightarrow> m k = Some v \<and> P v"
  by (auto simp: map_retain_def split: option.splits)

lemma map_retain_retain: "map_retain P (map_retain Q m) = map_retain (\<lambda>v. P v \<and> Q v) m"
  by (rule ext) (auto simp: map_retain_def split: option.splits)

lemma ran_map_retain: "ran (map_retain P m) = {v \<in> ran m. P v}"
  by (auto simp: ran_def)

lemma hm_get_retain_values: "hm_wf m \<Longrightarrow>
  hm_get (hm_retain (\<lambda>_. P) m) = map_retain P (hm_get m)"
  by (rule ext) (simp add: hm_get_retain map_retain_def)

text \<open>\<open>commits invar view f\<close>: on \<open>Ok\<close> the view changes by \<open>f\<close>, on \<open>Err\<close> it does not change.\<close>

definition commits ::
  "('s \<Rightarrow> bool) \<Rightarrow> ('s \<Rightarrow> store_view) \<Rightarrow> (store_view \<Rightarrow> store_view) \<Rightarrow> ('s, 'e, 'a) op \<Rightarrow> bool" where
  "commits invar view f m \<longleftrightarrow> (\<forall>s r s'. invar s \<longrightarrow> m s = (r, s') \<longrightarrow>
     invar s' \<and> view s' = (case r of Inl _ \<Rightarrow> view s | Inr _ \<Rightarrow> f (view s)))"

text \<open>\<open>answers invar view P\<close>: the view does not change and an \<open>Ok\<close> answer satisfies \<open>P\<close> of it.\<close>

definition answers ::
  "('s \<Rightarrow> bool) \<Rightarrow> ('s \<Rightarrow> store_view) \<Rightarrow> (store_view \<Rightarrow> 'a \<Rightarrow> bool) \<Rightarrow> ('s, 'e, 'a) op \<Rightarrow> bool" where
  "answers invar view P m \<longleftrightarrow> (\<forall>s r s'. invar s \<longrightarrow> m s = (r, s') \<longrightarrow>
     invar s' \<and> view s' = view s \<and> (\<forall>x. r = Inr x \<longrightarrow> P (view s) x))"

lemma commitsD:
  assumes "commits invar view f m" "invar s" "m s = (r, s')"
  shows "invar s'" "r = Inr x \<Longrightarrow> view s' = f (view s)" "r = Inl e \<Longrightarrow> view s' = view s"
  using assms by (auto simp: commits_def)

lemma answersD:
  assumes "answers invar view P m" "invar s" "m s = (r, s')"
  shows "invar s'" "view s' = view s" "r = Inr x \<Longrightarrow> P (view s) x"
  using assms by (auto simp: answers_def)

lemma commitsI:
  "(\<And>s. invar s \<Longrightarrow> invar (snd (m s)) \<and>
     view (snd (m s)) = (case fst (m s) of Inl _ \<Rightarrow> view s | Inr _ \<Rightarrow> f (view s)))
   \<Longrightarrow> commits invar view f m"
  unfolding commits_def by (metis fst_conv snd_conv)

lemma answersI:
  "(\<And>s. invar s \<Longrightarrow> invar (snd (m s)) \<and> view (snd (m s)) = view s \<and>
     (\<forall>x. fst (m s) = Inr x \<longrightarrow> P (view s) x))
   \<Longrightarrow> answers invar view P m"
  unfolding answers_def by (metis fst_conv snd_conv)

section \<open>Contracts\<close>

locale session_store =
  fixes ops :: "'s state_store" and invar :: "'s \<Rightarrow> bool" and view :: "'s \<Rightarrow> store_view"
  assumes keyed: "invar s \<Longrightarrow> view_keyed (view s)"
    and create_session: "commits invar view
      (\<lambda>v. v\<lparr> sv_sessions := (sv_sessions v)(ss_session_id x \<mapsto> x) \<rparr>) (st_create_session ops x)"
    and get_session: "answers invar view (\<lambda>v r. r = sv_sessions v sid) (st_get_session ops sid)"
    and update_session: "commits invar view
      (\<lambda>v. v\<lparr> sv_sessions := (sv_sessions v)(ss_session_id x \<mapsto> x) \<rparr>) (st_update_session ops x)"
    and delete_session: "commits invar view
      (\<lambda>v. v\<lparr> sv_sessions := (sv_sessions v)(sid := None) \<rparr>) (st_delete_session ops sid)"
    and refresh_session: "commits invar view
      (\<lambda>v. v\<lparr> sv_sessions := (sv_sessions v)
                 (sid := map_option (touch_session now ttl) (sv_sessions v sid)) \<rparr>)
      (st_refresh_session ops now sid ttl)"
    and create_tree: "commits invar view
      (\<lambda>v. v\<lparr> sv_trees := (sv_trees v)((ts_session_id t, ts_tree_id t) \<mapsto> t) \<rparr>)
      (st_create_tree ops t)"
    and get_tree: "answers invar view (\<lambda>v r. r = sv_trees v (sid, tid)) (st_get_tree ops sid tid)"
    and get_trees_by_session: "answers invar view
      (\<lambda>v r. set r = {t \<in> ran (sv_trees v). ts_session_id t = sid})
      (st_get_trees_by_session ops sid)"
    and delete_tree: "commits invar view
      (\<lambda>v. v\<lparr> sv_trees := (sv_trees v)((sid, tid) := None) \<rparr>) (st_delete_tree ops sid tid)"
    and create_handle: "commits invar view
      (\<lambda>v. v\<lparr> sv_handles := (sv_handles v)(hs_persistent_id h \<mapsto> h) \<rparr>) (st_create_handle ops h)"
    and get_handle: "answers invar view (\<lambda>v r. r = sv_handles v pid) (st_get_handle ops pid)"
    and update_handle: "commits invar view
      (\<lambda>v. v\<lparr> sv_handles := (sv_handles v)(hs_persistent_id h \<mapsto> h) \<rparr>) (st_update_handle ops h)"
    and get_handles_by_session: "answers invar view
      (\<lambda>v r. distinct (map hs_persistent_id r)
        \<and> set r = {h \<in> ran (sv_handles v). hs_session_id h = sid})
      (st_get_handles_by_session ops sid)"
    and delete_handle: "commits invar view
      (\<lambda>v. v\<lparr> sv_handles := (sv_handles v)(pid := None) \<rparr>) (st_delete_handle ops pid)"
    and delete_lease: "commits invar view
      (\<lambda>v. v\<lparr> sv_leases := (sv_leases v)(key := None) \<rparr>) (st_delete_lease ops key)"
    and next_session_id: "answers invar view (\<lambda>_ _. True) (st_next_session_id ops)"
    and next_tree_id: "answers invar view (\<lambda>_ _. True) (st_next_tree_id ops sid)"
    and next_handle_id: "answers invar view (\<lambda>_ _. True) (st_next_handle_id ops)"

text \<open>The lease and file-lock operations, used for failure clean-up and by the lock handler.\<close>

locale cluster_store = session_store +
  assumes delete_leases_for_server: "commits invar view
      (\<lambda>v. v\<lparr> sv_leases := map_retain (\<lambda>l. le_server_id l \<noteq> srv) (sv_leases v) \<rparr>)
      (st_delete_leases_for_server ops srv)"
    and acquire_file_lock: "invar s \<Longrightarrow> st_acquire_file_lock ops l s = (Inr b, s') \<Longrightarrow>
      b = (\<forall>x \<in> ran (sv_file_locks (view s)). \<not> conflicts_with l x) \<and>
      view s' = (if b then (view s)\<lparr> sv_file_locks :=
                   (sv_file_locks (view s))(dl_lock_id l \<mapsto> l) \<rparr> else view s)"
    and acquire_file_lock_inv: "invar s \<Longrightarrow> st_acquire_file_lock ops l s = (r, s') \<Longrightarrow>
      invar s' \<and> (\<forall>e. r = Inl e \<longrightarrow> view s' = view s)"
    and release_file_lock: "commits invar view
      (\<lambda>v. v\<lparr> sv_file_locks := (sv_file_locks v)(lid := None) \<rparr>) (st_release_file_lock ops lid)"
    and get_file_locks: "answers invar view
      (\<lambda>v r. set r = {l \<in> ran (sv_file_locks v). dl_file_path l = p}) (st_get_file_locks ops p)"
    and release_file_locks_for_session: "commits invar view
      (\<lambda>v. v\<lparr> sv_file_locks := map_retain (\<lambda>l. dl_session_id l \<noteq> sid) (sv_file_locks v) \<rparr>)
      (st_release_file_locks_for_session ops sid)"
    and release_file_locks_for_handle: "commits invar view
      (\<lambda>v. v\<lparr> sv_file_locks := map_retain (\<lambda>l. dl_handle_id l \<noteq> pid) (sv_file_locks v) \<rparr>)
      (st_release_file_locks_for_handle ops pid)"
    and release_file_locks_for_server: "commits invar view
      (\<lambda>v. v\<lparr> sv_file_locks := map_retain (\<lambda>l. dl_server_id l \<noteq> srv) (sv_file_locks v) \<rparr>)
      (st_release_file_locks_for_server ops srv)"

text \<open>A store whose session, tree and handle operations always answer \<open>Ok\<close>.\<close>

definition always_ok :: "('s \<Rightarrow> bool) \<Rightarrow> ('s, 'e, 'a) op \<Rightarrow> bool" where
  "always_ok invar m \<longleftrightarrow> (\<forall>s. invar s \<longrightarrow> (\<exists>x s'. m s = (Inr x, s')))"

lemma commits_ok:
  assumes "commits invar view f m" "always_ok invar m" "invar s"
  obtains x s' where "m s = (Inr x, s')" "invar s'" "view s' = f (view s)"
proof -
  from assms(2,3) obtain x s' where "m s = (Inr x, s')" by (auto simp: always_ok_def)
  with that commitsD [OF assms(1,3) this] show ?thesis by blast
qed

lemma answers_ok:
  assumes "answers invar view P m" "always_ok invar m" "invar s"
  obtains x s' where "m s = (Inr x, s')" "invar s'" "view s' = view s" "P (view s) x"
proof -
  from assms(2,3) obtain x s' where "m s = (Inr x, s')" by (auto simp: always_ok_def)
  with that answersD [OF assms(1,3) this] show ?thesis by blast
qed

text \<open>Composition of operations that do not fail.\<close>

lemma commits_ignore: "commits invar view f m \<Longrightarrow> always_ok invar m \<Longrightarrow> commits invar view f (op_ignore m)"
  by (rule commitsI) (metis commits_ok fst_conv op_ignore_def snd_conv sum.simps(6))

lemma always_ok_ignore [simp]: "always_ok invar (op_ignore m)"
  by (simp add: always_ok_def op_ignore_def)

lemma commits_return: "commits invar view id (op_return x)"
  by (simp add: commits_def op_return_def)

lemma always_ok_return [simp]: "always_ok invar (op_return x)"
  by (simp add: always_ok_def op_return_def)

lemma always_ok_then:
  assumes "commits invar view f m" "always_ok invar m" "always_ok invar m'"
  shows "always_ok invar (op_bind m (\<lambda>_. m'))"
  unfolding always_ok_def
proof (intro allI impI)
  fix s
  assume "invar s"
  with assms(1,2) obtain x s1 where "m s = (Inr x, s1)" "invar s1" by (rule commits_ok)
  with assms(3) show "\<exists>x s'. op_bind m (\<lambda>_. m') s = (Inr x, s')"
    by (auto simp: always_ok_def op_bind_def)
qed

lemma commits_then:
  assumes "commits invar view f m" "always_ok invar m" "commits invar view g m'" "always_ok invar m'"
  shows "commits invar view (\<lambda>v. g (f v)) (op_bind m (\<lambda>_. m'))"
proof (rule commitsI)
  fix s
  assume "invar s"
  with assms(1,2) obtain x s1 where 1: "m s = (Inr x, s1)" "invar s1" "view s1 = f (view s)"
    by (rule commits_ok)
  from assms(3,4) 1(2) obtain y s2 where 2: "m' s1 = (Inr y, s2)" "invar s2" "view s2 = g (view s1)"
    by (rule commits_ok)
  from 1 2 show "invar (snd (op_bind m (\<lambda>_. m') s)) \<and> view (snd (op_bind m (\<lambda>_. m') s)) =
      (case fst (op_bind m (\<lambda>_. m') s) of Inl _ \<Rightarrow> view s | Inr _ \<Rightarrow> g (f (view s)))"
    by (simp add: op_bind_def)
qed

text \<open>A \<open>for\<close> loop of committing operations that do not fail folds their effects.\<close>

lemma op_for_commits:
  assumes "\<And>x. x \<in> set xs \<Longrightarrow> commits invar view (g x) (f x)"
    and "\<And>x. x \<in> set xs \<Longrightarrow> always_ok invar (f x)"
    and "invar s"
  obtains s' where "op_for f xs s = (Inr (), s')" "invar s'" "view s' = fold g xs (view s)"
proof -
  have "\<exists>s'. op_for f xs s = (Inr (), s') \<and> invar s' \<and> view s' = fold g xs (view s)"
    using assms
  proof (induction xs arbitrary: s)
    case Nil
    then show ?case by (simp add: op_simps)
  next
    case (Cons x xs)
    obtain s1 where s1: "f x s = (Inr (), s1)" "invar s1" "view s1 = g x (view s)"
      by (rule commits_ok [OF Cons.prems(1) Cons.prems(2) Cons.prems(3), of x]) auto
    have "\<exists>s'. op_for f xs s1 = (Inr (), s') \<and> invar s' \<and> view s' = fold g xs (view s1)"
      by (rule Cons.IH [OF _ _ s1(2)]) (simp_all add: Cons.prems(1,2))
    with s1 show ?case by (simp add: op_simps)
  qed
  with that show ?thesis by blast
qed

lemma always_okD: "always_ok invar m \<Longrightarrow> invar s \<Longrightarrow> \<exists>x s'. m s = (Inr x, s')"
  by (simp add: always_ok_def)

locale reliable_store = session_store +
  assumes ok_get_session: "always_ok invar (st_get_session ops sid)"
    and ok_delete_session: "always_ok invar (st_delete_session ops sid)"
    and ok_refresh_session: "always_ok invar (st_refresh_session ops now sid ttl)"
    and ok_get_trees_by_session: "always_ok invar (st_get_trees_by_session ops sid)"
    and ok_delete_tree: "always_ok invar (st_delete_tree ops sid tid)"
    and ok_get_handles_by_session: "always_ok invar (st_get_handles_by_session ops sid)"
    and ok_update_handle: "always_ok invar (st_update_handle ops h)"
    and ok_get_handle: "always_ok invar (st_get_handle ops pid)"
    and ok_get_tree: "always_ok invar (st_get_tree ops sid tid)"
    and ok_create_handle: "always_ok invar (st_create_handle ops h)"
    and ok_delete_handle: "always_ok invar (st_delete_handle ops pid)"
    and ok_delete_lease: "always_ok invar (st_delete_lease ops key)"

end
