(* ===== verification/Memory_Store.thy ===== *)
theory Memory_Store
  imports State_Store
begin

text \<open>
  \<open>crates/rustsmb-state-memory/src/lib.rs\<close>: the in-memory store. Each method takes the
  \<open>RwLock\<close> of the one map it touches for its whole body, so it is one atomic transition of
  \<open>MemoryStateStore\<close>; the \<open>AtomicU64\<close> counters wrap. \<open>memory_store\<close> is the trait object, and
  the interpretations at the end discharge the store contracts for it.
\<close>

record MemoryStateStore =
  mem_sessions :: "(u64, SessionState) hash_map"
  mem_trees :: "(u64 \<times> u32, TreeState) hash_map"
  mem_handles :: "(u128, HandleState) hash_map"
  mem_locks :: "(u64, LockState) hash_map"
  mem_distributed_locks :: "(string, string) hash_map"
  mem_leases :: "(string, LeaseEntry) hash_map"
  mem_file_locks :: "(u64, DistributedLock) hash_map"
  mem_session_counter :: u64
  mem_tree_counters :: "(u64, u64) hash_map"
  mem_handle_counter :: u64
  mem_lock_counter :: u64
  mem_file_lock_counter :: u64

type_synonym 'a mem_op = "(MemoryStateStore, StateError, 'a) op"

definition MemoryStateStore_new :: MemoryStateStore where
  "MemoryStateStore_new = \<lparr> mem_sessions = [], mem_trees = [], mem_handles = [], mem_locks = [],
     mem_distributed_locks = [], mem_leases = [], mem_file_locks = [], mem_session_counter = 1,
     mem_tree_counters = [], mem_handle_counter = 1, mem_lock_counter = 1,
     mem_file_lock_counter = 1 \<rparr>"

section \<open>Sessions, trees, handles\<close>

definition mem_create_session :: "SessionState \<Rightarrow> unit mem_op" where
  "mem_create_session x s =
     (Inr (), s\<lparr> mem_sessions := hm_insert (ss_session_id x) x (mem_sessions s) \<rparr>)"

definition mem_get_session :: "u64 \<Rightarrow> SessionState option mem_op" where
  "mem_get_session sid s = (Inr (hm_get (mem_sessions s) sid), s)"

definition mem_update_session :: "SessionState \<Rightarrow> unit mem_op" where
  "mem_update_session x s =
     (Inr (), s\<lparr> mem_sessions := hm_insert (ss_session_id x) x (mem_sessions s) \<rparr>)"

definition mem_delete_session :: "u64 \<Rightarrow> unit mem_op" where
  "mem_delete_session sid s = (Inr (), s\<lparr> mem_sessions := hm_remove sid (mem_sessions s) \<rparr>)"

definition mem_refresh_session :: "u64 \<Rightarrow> u64 \<Rightarrow> u64 \<Rightarrow> unit mem_op" where
  "mem_refresh_session now sid ttl s =
     (case hm_get (mem_sessions s) sid of
        Some x \<Rightarrow> (Inr (), s\<lparr> mem_sessions := hm_insert sid
            (x\<lparr> ss_last_access := now, ss_expires_at := now + ttl \<rparr>) (mem_sessions s) \<rparr>)
      | None \<Rightarrow> (Inr (), s))"

definition mem_list_sessions :: "string option \<Rightarrow> SessionState list mem_op" where
  "mem_list_sessions user_id s =
     (Inr (filter (\<lambda>x. case user_id of None \<Rightarrow> True | Some u \<Rightarrow> ss_user_id x = u)
        (hm_values (mem_sessions s))), s)"

definition mem_create_tree :: "TreeState \<Rightarrow> unit mem_op" where
  "mem_create_tree t s =
     (Inr (), s\<lparr> mem_trees := hm_insert (ts_session_id t, ts_tree_id t) t (mem_trees s) \<rparr>)"

definition mem_get_tree :: "u64 \<Rightarrow> u32 \<Rightarrow> TreeState option mem_op" where
  "mem_get_tree sid tid s = (Inr (hm_get (mem_trees s) (sid, tid)), s)"

definition mem_get_trees_by_session :: "u64 \<Rightarrow> TreeState list mem_op" where
  "mem_get_trees_by_session sid s =
     (Inr (map snd (filter (\<lambda>((sid', _), _). sid' = sid) (mem_trees s))), s)"

definition mem_delete_tree :: "u64 \<Rightarrow> u32 \<Rightarrow> unit mem_op" where
  "mem_delete_tree sid tid s = (Inr (), s\<lparr> mem_trees := hm_remove (sid, tid) (mem_trees s) \<rparr>)"

definition mem_create_handle :: "HandleState \<Rightarrow> unit mem_op" where
  "mem_create_handle h s =
     (Inr (), s\<lparr> mem_handles := hm_insert (hs_persistent_id h) h (mem_handles s) \<rparr>)"

definition mem_get_handle :: "u128 \<Rightarrow> HandleState option mem_op" where
  "mem_get_handle pid s = (Inr (hm_get (mem_handles s) pid), s)"

definition mem_update_handle :: "HandleState \<Rightarrow> unit mem_op" where
  "mem_update_handle h s =
     (Inr (), s\<lparr> mem_handles := hm_insert (hs_persistent_id h) h (mem_handles s) \<rparr>)"

definition mem_get_handles_by_session :: "u64 \<Rightarrow> HandleState list mem_op" where
  "mem_get_handles_by_session sid s =
     (Inr (filter (\<lambda>h. hs_session_id h = sid) (hm_values (mem_handles s))), s)"

definition mem_get_handles_for_file :: "string \<Rightarrow> string \<Rightarrow> HandleState list mem_op" where
  "mem_get_handles_for_file share_name file_path s =
     (Inr (filter (\<lambda>h. hs_share_name h = share_name \<and> hs_path h = file_path)
        (hm_values (mem_handles s))), s)"

definition mem_delete_handle :: "u128 \<Rightarrow> unit mem_op" where
  "mem_delete_handle pid s = (Inr (), s\<lparr> mem_handles := hm_remove pid (mem_handles s) \<rparr>)"

section \<open>Locks and identifiers\<close>

definition mem_create_lock :: "LockState \<Rightarrow> unit mem_op" where
  "mem_create_lock l s = (Inr (), s\<lparr> mem_locks := hm_insert (lk_lock_id l) l (mem_locks s) \<rparr>)"

definition mem_get_locks :: "u128 \<Rightarrow> LockState list mem_op" where
  "mem_get_locks pid s =
     (Inr (filter (\<lambda>l. lk_persistent_id l = pid) (hm_values (mem_locks s))), s)"

definition mem_delete_lock :: "u64 \<Rightarrow> unit mem_op" where
  "mem_delete_lock lid s = (Inr (), s\<lparr> mem_locks := hm_remove lid (mem_locks s) \<rparr>)"

text \<open>The token is the clock in nanoseconds as 32 hex digits, the argument \<open>nanos\<close>.\<close>

definition uuid_v4 :: "u128 \<Rightarrow> string" where
  "uuid_v4 nanos = fmt_hex 32 (unat nanos)"

definition mem_acquire_distributed_lock :: "u128 \<Rightarrow> string \<Rightarrow> u64 \<Rightarrow> string option mem_op" where
  "mem_acquire_distributed_lock nanos key ttl s =
     (if hm_contains (mem_distributed_locks s) key then (Inr None, s)
      else let token = uuid_v4 nanos in
        (Inr (Some token),
         s\<lparr> mem_distributed_locks := hm_insert key token (mem_distributed_locks s) \<rparr>))"

definition mem_release_distributed_lock :: "string \<Rightarrow> string \<Rightarrow> unit mem_op" where
  "mem_release_distributed_lock key token s =
     (case hm_get (mem_distributed_locks s) key of
        Some stored \<Rightarrow>
          if stored = token
          then (Inr (), s\<lparr> mem_distributed_locks := hm_remove key (mem_distributed_locks s) \<rparr>)
          else (Inr (), s)
      | None \<Rightarrow> (Inr (), s))"

definition mem_extend_distributed_lock :: "string \<Rightarrow> string \<Rightarrow> u64 \<Rightarrow> bool mem_op" where
  "mem_extend_distributed_lock key token ttl s =
     (Inr (case hm_get (mem_distributed_locks s) key of None \<Rightarrow> False | Some t \<Rightarrow> t = token), s)"

definition mem_next_session_id :: "u64 mem_op" where
  "mem_next_session_id s =
     (Inr (mem_session_counter s), s\<lparr> mem_session_counter := mem_session_counter s + 1 \<rparr>)"

definition mem_next_tree_id :: "u64 \<Rightarrow> u32 mem_op" where
  "mem_next_tree_id sid s =
     (let c = (case hm_get (mem_tree_counters s) sid of None \<Rightarrow> 1 | Some c \<Rightarrow> c) in
      (Inr (ucast c), s\<lparr> mem_tree_counters := hm_insert sid (c + 1) (mem_tree_counters s) \<rparr>))"

definition mem_next_handle_id :: "u128 mem_op" where
  "mem_next_handle_id s =
     (Inr (ucast (mem_handle_counter s)), s\<lparr> mem_handle_counter := mem_handle_counter s + 1 \<rparr>)"

section \<open>Leases\<close>

definition mem_create_lease :: "LeaseEntry \<Rightarrow> unit mem_op" where
  "mem_create_lease l s =
     (if hm_contains (mem_leases s) (le_lease_key l)
      then (Inl (SeAlreadyExists (''Lease '' @ le_lease_key l @ '' already exists'')), s)
      else (Inr (), s\<lparr> mem_leases := hm_insert (le_lease_key l) l (mem_leases s) \<rparr>))"

definition mem_get_lease :: "string \<Rightarrow> LeaseEntry option mem_op" where
  "mem_get_lease key s = (Inr (hm_get (mem_leases s) key), s)"

definition mem_update_lease :: "LeaseEntry \<Rightarrow> unit mem_op" where
  "mem_update_lease l s =
     (Inr (), s\<lparr> mem_leases := hm_insert (le_lease_key l) l (mem_leases s) \<rparr>)"

definition mem_delete_lease :: "string \<Rightarrow> unit mem_op" where
  "mem_delete_lease key s = (Inr (), s\<lparr> mem_leases := hm_remove key (mem_leases s) \<rparr>)"

definition mem_get_leases_for_file :: "string \<Rightarrow> LeaseEntry list mem_op" where
  "mem_get_leases_for_file path s =
     (Inr (filter (\<lambda>l. le_file_path l = path) (hm_values (mem_leases s))), s)"

definition leases_conflict :: "u32 \<Rightarrow> u32 \<Rightarrow> bool" where
  "leases_conflict existing_state requested_state =
     (let existing_has_write = existing_state AND WRITE_CACHING \<noteq> 0;
          requested_has_write = requested_state AND WRITE_CACHING \<noteq> 0 in
      if existing_has_write \<and> requested_state \<noteq> 0 then True
      else if requested_has_write \<and> existing_state \<noteq> 0 then True
      else False)"

definition reduce_lease_state :: "u32 \<Rightarrow> LeaseEntry list \<Rightarrow> u32" where
  "reduce_lease_state requested_state conflicts =
     (let any_write = list_ex (\<lambda>l. le_lease_state l AND WRITE_CACHING \<noteq> 0) conflicts in
      if any_write then 0
      else if requested_state AND WRITE_CACHING \<noteq> 0
      then requested_state AND NOT WRITE_CACHING
      else requested_state)"

definition mem_check_and_create_lease ::
  "string \<Rightarrow> LeaseEntry \<Rightarrow> u32 \<Rightarrow> LeaseConflictResult mem_op" where
  "mem_check_and_create_lease file_path lease requested_state s =
     (let existing = filter (\<lambda>l. le_file_path l = file_path \<and> le_lease_key l \<noteq> le_lease_key lease)
                       (hm_values (mem_leases s)) in
      if existing = [] then
        (Inr (LeaseConflictResult_granted requested_state),
         s\<lparr> mem_leases := hm_insert (le_lease_key lease)
              (lease\<lparr> le_lease_state := requested_state \<rparr>) (mem_leases s) \<rparr>)
      else
        let conflicts = filter (\<lambda>l. leases_conflict (le_lease_state l) requested_state) existing;
            granted_state = (if conflicts \<noteq> [] then reduce_lease_state requested_state conflicts
                             else requested_state);
            s' = s\<lparr> mem_leases := hm_insert (le_lease_key lease)
                      (lease\<lparr> le_lease_state := granted_state \<rparr>) (mem_leases s) \<rparr>
        in if conflicts = [] then (Inr (LeaseConflictResult_granted granted_state), s')
           else (Inr (LeaseConflictResult_conflict conflicts granted_state), s'))"

definition mem_delete_leases_for_server :: "string \<Rightarrow> unit mem_op" where
  "mem_delete_leases_for_server server_id s =
     (Inr (), s\<lparr> mem_leases := hm_retain (\<lambda>_ l. le_server_id l \<noteq> server_id) (mem_leases s) \<rparr>)"

section \<open>Cluster-wide file locks\<close>

definition mem_acquire_file_lock :: "DistributedLock \<Rightarrow> bool mem_op" where
  "mem_acquire_file_lock lock s =
     (if list_ex (\<lambda>existing. conflicts_with lock existing) (hm_values (mem_file_locks s))
      then (Inr False, s)
      else (Inr True, s\<lparr> mem_file_locks := hm_insert (dl_lock_id lock) lock (mem_file_locks s) \<rparr>))"

definition mem_release_file_lock :: "u64 \<Rightarrow> unit mem_op" where
  "mem_release_file_lock lid s =
     (Inr (), s\<lparr> mem_file_locks := hm_remove lid (mem_file_locks s) \<rparr>)"

definition mem_get_file_locks :: "string \<Rightarrow> DistributedLock list mem_op" where
  "mem_get_file_locks path s =
     (Inr (filter (\<lambda>l. dl_file_path l = path) (hm_values (mem_file_locks s))), s)"

definition mem_release_file_locks_for_session :: "u64 \<Rightarrow> unit mem_op" where
  "mem_release_file_locks_for_session sid s =
     (Inr (), s\<lparr> mem_file_locks := hm_retain (\<lambda>_ l. dl_session_id l \<noteq> sid) (mem_file_locks s) \<rparr>)"

definition mem_release_file_locks_for_handle :: "u128 \<Rightarrow> unit mem_op" where
  "mem_release_file_locks_for_handle hid s =
     (Inr (), s\<lparr> mem_file_locks := hm_retain (\<lambda>_ l. dl_handle_id l \<noteq> hid) (mem_file_locks s) \<rparr>)"

definition mem_release_file_locks_for_server :: "string \<Rightarrow> unit mem_op" where
  "mem_release_file_locks_for_server srv s =
     (Inr (), s\<lparr> mem_file_locks := hm_retain (\<lambda>_ l. dl_server_id l \<noteq> srv) (mem_file_locks s) \<rparr>)"

definition mem_next_file_lock_id :: "u64 mem_op" where
  "mem_next_file_lock_id s =
     (Inr (mem_file_lock_counter s), s\<lparr> mem_file_lock_counter := mem_file_lock_counter s + 1 \<rparr>)"

definition memory_store :: "MemoryStateStore state_store" where
  "memory_store = \<lparr>
     st_create_session = mem_create_session, st_get_session = mem_get_session,
     st_update_session = mem_update_session, st_delete_session = mem_delete_session,
     st_refresh_session = mem_refresh_session, st_list_sessions = mem_list_sessions,
     st_create_tree = mem_create_tree, st_get_tree = mem_get_tree,
     st_get_trees_by_session = mem_get_trees_by_session, st_delete_tree = mem_delete_tree,
     st_create_handle = mem_create_handle, st_get_handle = mem_get_handle,
     st_update_handle = mem_update_handle,
     st_get_handles_by_session = mem_get_handles_by_session,
     st_get_handles_for_file = mem_get_handles_for_file, st_delete_handle = mem_delete_handle,
     st_create_lock = mem_create_lock, st_get_locks = mem_get_locks,
     st_delete_lock = mem_delete_lock,
     st_acquire_distributed_lock = mem_acquire_distributed_lock,
     st_release_distributed_lock = mem_release_distributed_lock,
     st_extend_distributed_lock = mem_extend_distributed_lock,
     st_next_session_id = mem_next_session_id, st_next_tree_id = mem_next_tree_id,
     st_next_handle_id = mem_next_handle_id, st_create_lease = mem_create_lease,
     st_get_lease = mem_get_lease, st_update_lease = mem_update_lease,
     st_delete_lease = mem_delete_lease, st_get_leases_for_file = mem_get_leases_for_file,
     st_check_and_create_lease = mem_check_and_create_lease,
     st_delete_leases_for_server = mem_delete_leases_for_server,
     st_acquire_file_lock = mem_acquire_file_lock, st_release_file_lock = mem_release_file_lock,
     st_get_file_locks = mem_get_file_locks,
     st_release_file_locks_for_session = mem_release_file_locks_for_session,
     st_release_file_locks_for_handle = mem_release_file_locks_for_handle,
     st_release_file_locks_for_server = mem_release_file_locks_for_server,
     st_next_file_lock_id = mem_next_file_lock_id \<rparr>"

section \<open>The store contract\<close>

definition mem_wf :: "MemoryStateStore \<Rightarrow> bool" where
  "mem_wf s \<longleftrightarrow> hm_wf (mem_sessions s) \<and> hm_wf (mem_trees s) \<and> hm_wf (mem_handles s) \<and>
     hm_wf (mem_locks s) \<and> hm_wf (mem_distributed_locks s) \<and> hm_wf (mem_leases s) \<and>
     hm_wf (mem_file_locks s) \<and> hm_wf (mem_tree_counters s) \<and>
     (\<forall>k x. hm_get (mem_sessions s) k = Some x \<longrightarrow> ss_session_id x = k) \<and>
     (\<forall>k x. hm_get (mem_trees s) k = Some x \<longrightarrow> (ts_session_id x, ts_tree_id x) = k) \<and>
     (\<forall>k x. hm_get (mem_handles s) k = Some x \<longrightarrow> hs_persistent_id x = k) \<and>
     (\<forall>k x. hm_get (mem_leases s) k = Some x \<longrightarrow> le_lease_key x = k) \<and>
     (\<forall>k x. hm_get (mem_file_locks s) k = Some x \<longrightarrow> dl_lock_id x = k)"

definition mem_view :: "MemoryStateStore \<Rightarrow> store_view" where
  "mem_view s = \<lparr> sv_sessions = hm_get (mem_sessions s), sv_trees = hm_get (mem_trees s),
     sv_handles = hm_get (mem_handles s), sv_leases = hm_get (mem_leases s),
     sv_file_locks = hm_get (mem_file_locks s) \<rparr>"

lemmas mem_session_defs = mem_create_session_def mem_get_session_def mem_update_session_def
  mem_delete_session_def mem_refresh_session_def mem_list_sessions_def

lemmas mem_tree_defs = mem_create_tree_def mem_get_tree_def mem_get_trees_by_session_def
  mem_delete_tree_def

lemmas mem_handle_defs = mem_create_handle_def mem_get_handle_def mem_update_handle_def
  mem_get_handles_by_session_def mem_get_handles_for_file_def mem_delete_handle_def

lemmas mem_id_defs = mem_next_session_id_def mem_next_tree_id_def mem_next_handle_id_def
  mem_next_file_lock_id_def

lemmas mem_lock_defs = mem_create_lock_def mem_get_locks_def mem_delete_lock_def
  mem_acquire_distributed_lock_def mem_release_distributed_lock_def
  mem_extend_distributed_lock_def

lemmas mem_lease_defs = mem_create_lease_def mem_get_lease_def mem_update_lease_def
  mem_delete_lease_def mem_get_leases_for_file_def mem_delete_leases_for_server_def

lemmas mem_file_lock_defs = mem_acquire_file_lock_def mem_release_file_lock_def
  mem_get_file_locks_def mem_release_file_locks_for_session_def
  mem_release_file_locks_for_handle_def mem_release_file_locks_for_server_def

lemma ran_hm_get: "hm_wf m \<Longrightarrow> ran (hm_get m) = set (hm_values m)"
  using hm_values_iff [of m] by (auto simp: ran_def)

lemma distinct_hm_keys_by:
  assumes "hm_wf m" "\<forall>k x. hm_get m k = Some x \<longrightarrow> f x = k"
  shows "distinct (map f (hm_values m))"
proof -
  have "map f (hm_values m) = hm_keys m"
    using assms hm_get_in_set [OF assms(1)] by (auto intro!: map_cong)
  with assms(1) show ?thesis unfolding hm_wf_def by (simp only:)
qed

lemma distinct_filter_map: "distinct (map f xs) \<Longrightarrow> distinct (map f (filter P xs))"
  by (induction xs) auto

lemma mem_new_wf [simp]: "mem_wf MemoryStateStore_new"
  by (simp add: mem_wf_def MemoryStateStore_new_def)

lemma mem_trees_by_session:
  "answers mem_wf mem_view (\<lambda>v r. set r = {t \<in> ran (sv_trees v). ts_session_id t = sid})
     (mem_get_trees_by_session sid)"
proof (rule answersI, goal_cases)
  case (1 s)
  then have "\<forall>k t. (k, t) \<in> set (mem_trees s) \<longrightarrow> (ts_session_id t, ts_tree_id t) = k"
    using hm_get_in_set [of "mem_trees s"] by (simp add: mem_wf_def)
  then have "snd ` {x \<in> set (mem_trees s). fst (fst x) = sid} =
      {t \<in> set (hm_values (mem_trees s)). ts_session_id t = sid}"
    by force
  with 1 show ?case
    by (simp add: mem_tree_defs mem_view_def case_prod_beta' mem_wf_def ran_hm_get)
qed

lemma mem_handles_by_session:
  "answers mem_wf mem_view (\<lambda>v r. distinct (map hs_persistent_id r)
     \<and> set r = {h \<in> ran (sv_handles v). hs_session_id h = sid}) (mem_get_handles_by_session sid)"
proof (rule answersI, goal_cases)
  case (1 s)
  then have "distinct (map hs_persistent_id (hm_values (mem_handles s)))"
    by (intro distinct_hm_keys_by) (auto simp: mem_wf_def)
  then have "distinct (map hs_persistent_id
      (filter (\<lambda>h. hs_session_id h = sid) (hm_values (mem_handles s))))"
    by (rule distinct_filter_map)
  with 1 show ?case by (simp add: mem_handle_defs mem_view_def mem_wf_def ran_hm_get)
qed

lemmas mem_contract_simps = memory_store_def mem_session_defs mem_tree_defs mem_handle_defs
  mem_id_defs mem_delete_lease_def mem_wf_def mem_view_def view_keyed_def touch_session_def Let_def

interpretation mem: reliable_store memory_store mem_wf mem_view
proof unfold_locales
  fix sid :: u64
  show "answers mem_wf mem_view
      (\<lambda>v r. set r = {t \<in> ran (sv_trees v). ts_session_id t = sid})
      (st_get_trees_by_session memory_store sid)"
    using mem_trees_by_session by (simp add: memory_store_def)
  show "answers mem_wf mem_view
      (\<lambda>v r. distinct (map hs_persistent_id r)
        \<and> set r = {h \<in> ran (sv_handles v). hs_session_id h = sid})
      (st_get_handles_by_session memory_store sid)"
    using mem_handles_by_session by (simp add: memory_store_def)
qed (auto intro!: commitsI answersI simp: always_ok_def mem_contract_simps hm_simps fun_upd_idem
       split: option.splits)

lemma mem_file_lock_values:
  "mem_wf s \<Longrightarrow> ran (sv_file_locks (mem_view s)) = set (hm_values (mem_file_locks s))"
  by (simp add: mem_view_def mem_wf_def ran_hm_get)

interpretation mem: cluster_store memory_store mem_wf mem_view
proof unfold_locales
  fix l s b s'
  assume "mem_wf s" and "st_acquire_file_lock memory_store l s = (Inr b, s')"
  then show "b = (\<forall>x \<in> ran (sv_file_locks (mem_view s)). \<not> conflicts_with l x) \<and>
      mem_view s' = (if b then (mem_view s)\<lparr> sv_file_locks :=
         (sv_file_locks (mem_view s))(dl_lock_id l \<mapsto> l) \<rparr> else mem_view s)"
    unfolding mem_file_lock_values [OF \<open>mem_wf s\<close>]
    by (auto simp: memory_store_def mem_acquire_file_lock_def mem_view_def list_ex_iff hm_simps
        split: if_splits)
next
  fix l s r s'
  assume "mem_wf s" and "st_acquire_file_lock memory_store l s = (r, s')"
  then show "mem_wf s' \<and> (\<forall>e. r = Inl e \<longrightarrow> mem_view s' = mem_view s)"
    by (auto simp: memory_store_def mem_acquire_file_lock_def mem_wf_def hm_simps split: if_splits)
next
  fix p
  show "answers mem_wf mem_view (\<lambda>v r. set r = {l \<in> ran (sv_file_locks v). dl_file_path l = p})
      (st_get_file_locks memory_store p)"
    by (rule answersI) (simp add: memory_store_def mem_get_file_locks_def mem_file_lock_values)
qed (auto intro!: commitsI answersI simp: memory_store_def mem_lease_defs mem_file_lock_defs
       mem_wf_def mem_view_def hm_simps hm_get_retain_values ran_hm_get split: option.splits if_splits)

section \<open>Reachable states\<close>

text \<open>One rule per method that changes the store.\<close>

inductive mem_step :: "MemoryStateStore \<Rightarrow> MemoryStateStore \<Rightarrow> bool" where
  "mem_step s (snd (mem_create_session x s))"
| "mem_step s (snd (mem_update_session x s))"
| "mem_step s (snd (mem_delete_session sid s))"
| "mem_step s (snd (mem_refresh_session now sid ttl s))"
| "mem_step s (snd (mem_create_tree t s))"
| "mem_step s (snd (mem_delete_tree sid tid s))"
| "mem_step s (snd (mem_create_handle h s))"
| "mem_step s (snd (mem_update_handle h s))"
| "mem_step s (snd (mem_delete_handle pid s))"
| "mem_step s (snd (mem_create_lock l s))"
| "mem_step s (snd (mem_delete_lock lid s))"
| "mem_step s (snd (mem_acquire_distributed_lock nanos key ttl s))"
| "mem_step s (snd (mem_release_distributed_lock key token s))"
| "mem_step s (snd (mem_next_session_id s))"
| "mem_step s (snd (mem_next_tree_id sid s))"
| "mem_step s (snd (mem_next_handle_id s))"
| "mem_step s (snd (mem_create_lease le s))"
| "mem_step s (snd (mem_update_lease le s))"
| "mem_step s (snd (mem_delete_lease k s))"
| "mem_step s (snd (mem_check_and_create_lease p le req s))"
| "mem_step s (snd (mem_delete_leases_for_server srv s))"
| "mem_step s (snd (mem_release_file_lock lid s))"
| "mem_step s (snd (mem_release_file_locks_for_session sid s))"
| "mem_step s (snd (mem_release_file_locks_for_handle pid s))"
| "mem_step s (snd (mem_release_file_locks_for_server srv s))"
| "mem_step s (snd (mem_next_file_lock_id s))"
| acquire: "mem_step s (snd (mem_acquire_file_lock fl s))"

inductive mem_reachable :: "MemoryStateStore \<Rightarrow> bool" where
  new: "mem_reachable MemoryStateStore_new"
| step: "mem_reachable s \<Longrightarrow> mem_step s s' \<Longrightarrow> mem_reachable s'"

definition file_locks_exclusive :: "MemoryStateStore \<Rightarrow> bool" where
  "file_locks_exclusive s \<longleftrightarrow>
     (\<forall>a \<in> set (hm_values (mem_file_locks s)). \<forall>b \<in> set (hm_values (mem_file_locks s)).
        \<not> conflicts_with a b)"

definition other_leases :: "string \<Rightarrow> LeaseEntry \<Rightarrow> MemoryStateStore \<Rightarrow> LeaseEntry list" where
  "other_leases file_path lease s =
     filter (\<lambda>l. le_file_path l = file_path \<and> le_lease_key l \<noteq> le_lease_key lease)
       (hm_values (mem_leases s))"

definition lease_grant :: "LeaseEntry list \<Rightarrow> u32 \<Rightarrow> LeaseConflictResult" where
  "lease_grant existing req =
     (let conflicts = filter (\<lambda>l. leases_conflict (le_lease_state l) req) existing in
      if conflicts = [] then LeaseConflictResult_granted req
      else LeaseConflictResult_conflict conflicts (reduce_lease_state req conflicts))"

lemma mem_check_and_create_lease_eq:
  "mem_check_and_create_lease p le req s =
     (let r = lease_grant (other_leases p le s) req in
      (Inr r, s\<lparr> mem_leases := hm_insert (le_lease_key le)
                   (le\<lparr> le_lease_state := lcr_granted_state r \<rparr>) (mem_leases s) \<rparr>))"
proof -
  define cf where "cf = filter (\<lambda>l. leases_conflict (le_lease_state l) req) (other_leases p le s)"
  have "other_leases p le s = [] \<Longrightarrow> cf = []" by (simp add: cf_def)
  then show ?thesis
    unfolding mem_check_and_create_lease_def other_leases_def [symmetric] lease_grant_def
      Let_def cf_def [symmetric]
    by (cases "other_leases p le s = []"; cases "cf = []")
      (simp_all add: LeaseConflictResult_granted_def LeaseConflictResult_conflict_def)
qed

text \<open>Each method writes to one map only; the file-lock table as the others see it.\<close>

lemma mem_file_locks_frame [simp]:
  "mem_file_locks (snd (mem_create_session x s)) = mem_file_locks s"
  "mem_file_locks (snd (mem_update_session x s)) = mem_file_locks s"
  "mem_file_locks (snd (mem_delete_session sid s)) = mem_file_locks s"
  "mem_file_locks (snd (mem_refresh_session now sid ttl s)) = mem_file_locks s"
  "mem_file_locks (snd (mem_create_tree t s)) = mem_file_locks s"
  "mem_file_locks (snd (mem_delete_tree sid tid s)) = mem_file_locks s"
  "mem_file_locks (snd (mem_create_handle h s)) = mem_file_locks s"
  "mem_file_locks (snd (mem_update_handle h s)) = mem_file_locks s"
  "mem_file_locks (snd (mem_delete_handle pid s)) = mem_file_locks s"
  "mem_file_locks (snd (mem_create_lock l s)) = mem_file_locks s"
  "mem_file_locks (snd (mem_delete_lock lid s)) = mem_file_locks s"
  "mem_file_locks (snd (mem_acquire_distributed_lock nanos key ttl s)) = mem_file_locks s"
  "mem_file_locks (snd (mem_release_distributed_lock key token s)) = mem_file_locks s"
  "mem_file_locks (snd (mem_next_session_id s)) = mem_file_locks s"
  "mem_file_locks (snd (mem_next_tree_id sid s)) = mem_file_locks s"
  "mem_file_locks (snd (mem_next_handle_id s)) = mem_file_locks s"
  "mem_file_locks (snd (mem_next_file_lock_id s)) = mem_file_locks s"
  "mem_file_locks (snd (mem_create_lease le s)) = mem_file_locks s"
  "mem_file_locks (snd (mem_update_lease le s)) = mem_file_locks s"
  "mem_file_locks (snd (mem_delete_lease k s)) = mem_file_locks s"
  "mem_file_locks (snd (mem_check_and_create_lease p le req s)) = mem_file_locks s"
  "mem_file_locks (snd (mem_delete_leases_for_server srv s)) = mem_file_locks s"
  by (simp_all add: mem_session_defs mem_tree_defs mem_handle_defs mem_id_defs mem_lock_defs
      mem_lease_defs mem_check_and_create_lease_eq Let_def split: option.split)

lemma mem_file_locks_release:
  "set (mem_file_locks (snd (mem_release_file_lock lid s))) \<subseteq> set (mem_file_locks s)"
  "set (mem_file_locks (snd (mem_release_file_locks_for_session sid s))) \<subseteq> set (mem_file_locks s)"
  "set (mem_file_locks (snd (mem_release_file_locks_for_handle pid s))) \<subseteq> set (mem_file_locks s)"
  "set (mem_file_locks (snd (mem_release_file_locks_for_server srv s))) \<subseteq> set (mem_file_locks s)"
  by (auto simp: mem_file_lock_defs hm_entries_retain dest: subsetD [OF hm_entries_remove])

lemma mem_check_and_create_lease_wf:
  "mem_wf s \<Longrightarrow> mem_wf (snd (mem_check_and_create_lease p le req s))"
  by (simp add: mem_check_and_create_lease_eq mem_wf_def hm_simps Let_def)

lemma mem_step_wf:
  assumes "mem_step s s'" "mem_wf s"
  shows "mem_wf s'"
  using assms
  by (cases rule: mem_step.cases)
    (simp_all add: mem_check_and_create_lease_wf,
     simp_all add: mem_wf_def mem_session_defs mem_tree_defs mem_handle_defs mem_id_defs
       mem_lock_defs mem_lease_defs mem_file_lock_defs Let_def hm_simps split: option.split)

lemma file_locks_exclusive_subset:
  assumes "file_locks_exclusive s" "set (mem_file_locks s') \<subseteq> set (mem_file_locks s)"
  shows "file_locks_exclusive s'"
proof -
  have "set (hm_values (mem_file_locks s')) \<subseteq> set (hm_values (mem_file_locks s))"
    unfolding set_map using assms(2) by (rule image_mono)
  with assms(1) show ?thesis unfolding file_locks_exclusive_def by blast
qed

lemma file_locks_exclusive_acquire:
  assumes "mem_wf s" "file_locks_exclusive s"
  shows "file_locks_exclusive (snd (mem_acquire_file_lock l s))"
proof (cases "list_ex (conflicts_with l) (hm_values (mem_file_locks s))")
  case True
  with assms show ?thesis by (simp add: mem_acquire_file_lock_def)
next
  case False
  let ?new = "snd (mem_acquire_file_lock l s)"
  have entries: "set (mem_file_locks ?new) =
      insert (dl_lock_id l, l) {(k, v) \<in> set (mem_file_locks s). k \<noteq> dl_lock_id l}"
    using assms(1) False by (simp add: mem_acquire_file_lock_def hm_entries_insert mem_wf_def)
  let ?old = "set (hm_values (mem_file_locks s))"
  have new: "\<not> conflicts_with l x" if "x \<in> ?old" for x
    using False that by (auto simp: list_ex_iff)
  have sub: "a = l \<or> a \<in> ?old" if "a \<in> set (hm_values (mem_file_locks ?new))" for a
    using that unfolding set_map entries by auto
  show ?thesis
    unfolding file_locks_exclusive_def
  proof (intro ballI)
    fix a b
    assume "a \<in> set (hm_values (mem_file_locks ?new))" "b \<in> set (hm_values (mem_file_locks ?new))"
    then have "a = l \<or> a \<in> ?old" "b = l \<or> b \<in> ?old" by (simp_all only: sub)
    with new new [of a] conflicts_with_sym [of a l] not_conflicts_with_self [of l] assms(2)
    show "\<not> conflicts_with a b" unfolding file_locks_exclusive_def by metis
  qed
qed

lemma mem_step_file_locks:
  assumes "mem_step s s'" "mem_wf s" "file_locks_exclusive s"
  shows "file_locks_exclusive s'"
  using assms
  by (cases rule: mem_step.cases)
    (simp_all add: file_locks_exclusive_acquire
      file_locks_exclusive_subset [OF _ mem_file_locks_release(1)]
      file_locks_exclusive_subset [OF _ mem_file_locks_release(2)]
      file_locks_exclusive_subset [OF _ mem_file_locks_release(3)]
      file_locks_exclusive_subset [OF _ mem_file_locks_release(4)]
      file_locks_exclusive_subset [OF _ equalityD1])

lemma mem_reachable_inv: "mem_reachable s \<Longrightarrow> mem_wf s \<and> file_locks_exclusive s"
proof (induction rule: mem_reachable.induct)
  case new
  have "file_locks_exclusive MemoryStateStore_new"
    by (simp add: file_locks_exclusive_def MemoryStateStore_new_def)
  then show ?case by simp
next
  case (step s s')
  then show ?case using mem_step_wf mem_step_file_locks by blast
qed

text \<open>
  C1. Mutual exclusion of byte-range locks: in every state the in-memory store can reach by any
  sequence of its methods, no two granted file locks conflict.
\<close>

theorem mem_file_locks_mutual_exclusion:
  assumes "mem_reachable s"
    and "a \<in> set (hm_values (mem_file_locks s))" "b \<in> set (hm_values (mem_file_locks s))"
  shows "\<not> conflicts_with a b"
  using mem_reachable_inv [OF assms(1)] assms(2,3) unfolding file_locks_exclusive_def by blast

definition demo_lock :: "u64 \<Rightarrow> u128 \<Rightarrow> u64 \<Rightarrow> u64 \<Rightarrow> DistributedLock" where
  "demo_lock lid hid off len =
     DistributedLock_new 0 lid hid 1 ''srv'' ''share/a.txt'' off len True"

theorem mem_file_locks_mutual_exclusion_witness:
  "\<not> conflicts_with (demo_lock 1 10 0 100) (demo_lock 2 11 100 50)"
proof (rule mem_file_locks_mutual_exclusion)
  let ?s1 = "snd (mem_acquire_file_lock (demo_lock 1 10 0 100) MemoryStateStore_new)"
  let ?s2 = "snd (mem_acquire_file_lock (demo_lock 2 11 100 50) ?s1)"
  show "mem_reachable ?s2"
    by (rule mem_reachable.step [OF mem_reachable.step [OF mem_reachable.new mem_step.acquire]
          mem_step.acquire])
  show "demo_lock 1 10 0 100 \<in> set (hm_values (mem_file_locks ?s2))"
       "demo_lock 2 11 100 50 \<in> set (hm_values (mem_file_locks ?s2))"
    by (simp_all add: mem_acquire_file_lock_def MemoryStateStore_new_def hm_insert_def
        demo_lock_def DistributedLock_new_def conflicts_with_def lock_end_def sat_add_def)
qed

section \<open>Leases\<close>

definition leases_exclusive :: "(string, LeaseEntry) hash_map \<Rightarrow> bool" where
  "leases_exclusive m \<longleftrightarrow>
     (\<forall>a \<in> set (hm_values m). \<forall>b \<in> set (hm_values m).
        le_file_path a = le_file_path b \<and> le_lease_key a \<noteq> le_lease_key b \<longrightarrow>
        \<not> leases_conflict (le_lease_state a) (le_lease_state b))"

lemma leases_conflict_iff:
  "leases_conflict e r \<longleftrightarrow>
     e \<noteq> 0 \<and> r \<noteq> 0 \<and> (e AND WRITE_CACHING \<noteq> 0 \<or> r AND WRITE_CACHING \<noteq> 0)"
  by (auto simp: leases_conflict_def Let_def)

lemma leases_conflict_sym: "leases_conflict a b \<longleftrightarrow> leases_conflict b a"
  by (auto simp: leases_conflict_iff)

lemma and_not_write: "(x AND NOT (2 :: u32)) AND 2 = 0"
  by (simp add: and.assoc)

lemma and_mask_subset: "(r AND m) AND NOT r = (0 :: 'a::len word)"
  by (rule bit_word_eqI) (auto simp: bit_simps)

lemma reduce_lease_state_subset: "reduce_lease_state r c AND NOT r = 0"
  unfolding reduce_lease_state_def Let_def by (simp only: and_mask_subset and_zero_eq
      word_and_not and.left_neutral zero_and_eq split: if_split) simp

lemma reduced_state_no_conflict:
  assumes "l \<in> set existing"
    and "conflicts = filter (\<lambda>l. leases_conflict (le_lease_state l) req) existing"
  shows "\<not> leases_conflict (le_lease_state l) (reduce_lease_state req conflicts)"
proof (cases "list_ex (\<lambda>l. le_lease_state l AND WRITE_CACHING \<noteq> 0) conflicts")
  case True
  then show ?thesis by (simp add: reduce_lease_state_def leases_conflict_iff)
next
  case False
  have "le_lease_state l AND WRITE_CACHING = 0 \<or> req = 0"
    using False assms by (auto simp: list_ex_iff leases_conflict_iff)
  moreover have "reduce_lease_state req conflicts AND WRITE_CACHING = 0"
    using False and_not_write by (simp add: reduce_lease_state_def)
  moreover have "req = 0 \<Longrightarrow> reduce_lease_state req conflicts = 0"
    by (simp add: reduce_lease_state_def)
  ultimately show ?thesis by (auto simp: leases_conflict_iff)
qed

lemma lease_grant_no_conflict:
  "l \<in> set existing \<Longrightarrow>
   \<not> leases_conflict (le_lease_state l) (lcr_granted_state (lease_grant existing req))"
  using reduced_state_no_conflict [of l existing _ req]
  by (auto simp: lease_grant_def Let_def LeaseConflictResult_granted_def
      LeaseConflictResult_conflict_def filter_empty_conv)

lemma lease_grant_subset: "lcr_granted_state (lease_grant existing req) AND NOT req = 0"
  using reduce_lease_state_subset
  by (simp add: lease_grant_def Let_def LeaseConflictResult_granted_def
      LeaseConflictResult_conflict_def)

lemma leases_exclusive_insert:
  assumes "hm_wf m" "leases_exclusive m"
    and new: "\<And>l. l \<in> set (hm_values m) \<Longrightarrow> le_file_path l = le_file_path x \<Longrightarrow>
      le_lease_key l \<noteq> le_lease_key x \<Longrightarrow>
      \<not> leases_conflict (le_lease_state l) (le_lease_state x)"
  shows "leases_exclusive (hm_insert (le_lease_key x) x m)"
proof -
  have sub: "a = x \<or> a \<in> set (hm_values m)"
    if "a \<in> set (hm_values (hm_insert (le_lease_key x) x m))" for a
    using that unfolding set_map hm_entries_insert [OF assms(1)] by auto
  show ?thesis
    unfolding leases_exclusive_def
  proof (intro ballI impI)
    fix a b
    assume "a \<in> set (hm_values (hm_insert (le_lease_key x) x m))"
      "b \<in> set (hm_values (hm_insert (le_lease_key x) x m))"
      and ab: "le_file_path a = le_file_path b \<and> le_lease_key a \<noteq> le_lease_key b"
    then consider "a = x" "b \<in> set (hm_values m)" | "b = x" "a \<in> set (hm_values m)"
      | "a \<in> set (hm_values m)" "b \<in> set (hm_values m)"
      using sub by blast
    then show "\<not> leases_conflict (le_lease_state a) (le_lease_state b)"
    proof cases
      case 1
      with ab new [of b] leases_conflict_sym show ?thesis by auto
    next
      case 2
      with ab new [of a] show ?thesis by auto
    next
      case 3
      with ab assms(2) show ?thesis unfolding leases_exclusive_def by blast
    qed
  qed
qed

lemma mem_check_and_create_lease_post:
  assumes "mem_wf s" "leases_exclusive (mem_leases s)" "le_file_path lease = file_path"
    and "mem_check_and_create_lease file_path lease requested s = (r, s')"
  shows "leases_exclusive (mem_leases s')"
    and "\<exists>res. r = Inr res \<and> lcr_granted_state res AND NOT requested = 0 \<and>
      hm_get (mem_leases s') (le_lease_key lease) =
        Some (lease\<lparr> le_lease_state := lcr_granted_state res \<rparr>)"
proof -
  let ?res = "lease_grant (other_leases file_path lease s) requested"
  let ?l = "lease\<lparr> le_lease_state := lcr_granted_state ?res \<rparr>"
  have s': "s' = s\<lparr> mem_leases := hm_insert (le_lease_key lease) ?l (mem_leases s) \<rparr>" and r: "r = Inr ?res"
    using assms(4) by (simp_all add: mem_check_and_create_lease_eq Let_def)
  have "\<not> leases_conflict (le_lease_state l) (le_lease_state ?l)"
    if "l \<in> set (hm_values (mem_leases s))" "le_file_path l = le_file_path ?l"
      "le_lease_key l \<noteq> le_lease_key ?l" for l
    using that assms(3) lease_grant_no_conflict [of l "other_leases file_path lease s" requested]
    by (simp add: other_leases_def)
  then have "leases_exclusive (hm_insert (le_lease_key ?l) ?l (mem_leases s))"
    using assms(1,2) by (intro leases_exclusive_insert) (simp_all add: mem_wf_def)
  then show "leases_exclusive (mem_leases s')" by (simp add: s')
  show "\<exists>res. r = Inr res \<and> lcr_granted_state res AND NOT requested = 0 \<and>
      hm_get (mem_leases s') (le_lease_key lease) =
        Some (lease\<lparr> le_lease_state := lcr_granted_state res \<rparr>)"
    by (simp add: r s' hm_simps lease_grant_subset)
qed

text \<open>
  C8. Lease grants keep write caching exclusive: if no two clients' leases on one file conflict,
  then after \<open>check_and_create_lease\<close> still none do, the stored lease has exactly the granted
  state, and the grant contains no right that was not requested.
\<close>

theorem mem_check_and_create_lease_exclusive:
  assumes "mem_wf s" "leases_exclusive (mem_leases s)" "le_file_path lease = file_path"
    and "mem_check_and_create_lease file_path lease requested s = (r, s')"
  shows "leases_exclusive (mem_leases s') \<and>
    (\<exists>res. r = Inr res \<and> lcr_granted_state res AND NOT requested = 0 \<and>
      hm_get (mem_leases s') (le_lease_key lease) =
        Some (lease\<lparr> le_lease_state := lcr_granted_state res \<rparr>))"
  using mem_check_and_create_lease_post [OF assms] by blast

definition demo_lease :: "string \<Rightarrow> LeaseEntry" where
  "demo_lease key = \<lparr> le_lease_key = key, le_client_guid = key, le_session_id = 1,
     le_server_id = ''srv'', le_file_path = ''share/a.txt'', le_lease_state = 0, le_epoch = 1,
     le_created_at = 0, le_breaking = False, le_break_to_state = 0, le_break_started_at = None,
     le_is_v2 = True \<rparr>"

definition demo_leased :: MemoryStateStore where
  "demo_leased = MemoryStateStore_new\<lparr> mem_leases :=
     [(''k1'', (demo_lease ''k1'')\<lparr> le_lease_state := 1 \<rparr>)] \<rparr>"

theorem mem_check_and_create_lease_exclusive_witness:
  "leases_exclusive (mem_leases
     (snd (mem_check_and_create_lease ''share/a.txt'' (demo_lease ''k2'') 7 demo_leased)))"
proof -
  have wf: "mem_wf demo_leased"
    by (simp add: mem_wf_def demo_leased_def MemoryStateStore_new_def hm_wf_def demo_lease_def)
  have ex: "leases_exclusive (mem_leases demo_leased)"
    by (simp add: leases_exclusive_def demo_leased_def)
  show ?thesis
    using mem_check_and_create_lease_exclusive [OF wf ex _ surjective_pairing,
        of "demo_lease ''k2''" "''share/a.txt''" 7]
    by (simp add: demo_lease_def)
qed

section \<open>Identifiers and named locks\<close>

primrec mem_session_ids :: "nat \<Rightarrow> MemoryStateStore \<Rightarrow> u64 list" where
  "mem_session_ids 0 s = []"
| "mem_session_ids (Suc n) s =
     (case mem_next_session_id s of
        (Inr i, s') \<Rightarrow> i # mem_session_ids n s'
      | (Inl _, s') \<Rightarrow> mem_session_ids n s')"

lemma mem_session_ids_eq:
  "mem_session_ids n s = map (\<lambda>i. mem_session_counter s + of_nat i) [0..<n]"
proof (induction n arbitrary: s)
  case 0
  then show ?case by simp
next
  case (Suc n)
  have "[0..<Suc n] = 0 # map Suc [0..<n]" by (simp add: map_Suc_upt upt_conv_Cons)
  then show ?case by (simp add: mem_next_session_id_def Suc.IH add.assoc)
qed

text \<open>
  The in-memory store never hands out a session id twice within \<open>2 ^ 64\<close> requests, whatever
  other state it holds.
\<close>

theorem mem_session_ids_distinct:
  assumes "n \<le> 2 ^ 64"
  shows "distinct (mem_session_ids n s)"
proof -
  have "i = j" if "i < n" "j < n" "(of_nat i :: u64) = of_nat j" for i j
    using of_nat_word_inj [OF that(3)] that(1,2) assms by simp
  then show ?thesis
    by (auto simp: mem_session_ids_eq distinct_map inj_on_def)
qed

theorem mem_session_ids_distinct_witness:
  "mem_session_ids 3 MemoryStateStore_new = [1, 2, 3] \<and>
   distinct (mem_session_ids 3 MemoryStateStore_new)"
  using mem_session_ids_distinct [of 3 MemoryStateStore_new]
  by (simp add: mem_session_ids_eq MemoryStateStore_new_def upt_rec)

text \<open>
  A named distributed lock is exclusive and tied to its token: while it is held no acquire
  succeeds, a release with any other token leaves it held, and only the holder's token both
  extends and frees it.
\<close>

theorem mem_distributed_lock_exclusive:
  assumes "mem_acquire_distributed_lock nanos key ttl s = (Inr (Some token), s')"
  shows "fst (mem_acquire_distributed_lock nanos' key ttl' s') = Inr None
    \<and> fst (mem_extend_distributed_lock key token' ttl' s') = Inr (token' = token)
    \<and> (token' \<noteq> token \<longrightarrow> mem_release_distributed_lock key token' s' = (Inr (), s'))
    \<and> \<not> hm_contains (mem_distributed_locks (snd (mem_release_distributed_lock key token s'))) key"
proof -
  have "hm_get (mem_distributed_locks s') key = Some token"
    using assms by (auto simp: mem_acquire_distributed_lock_def Let_def hm_simps split: if_splits)
  then show ?thesis
    by (auto simp: mem_lock_defs hm_contains_def hm_simps)
qed

theorem mem_distributed_lock_exclusive_witness:
  "fst (mem_acquire_distributed_lock 2 ''job'' 5
          (snd (mem_acquire_distributed_lock 1 ''job'' 5 MemoryStateStore_new))) = Inr None"
proof -
  have "mem_acquire_distributed_lock 1 ''job'' 5 MemoryStateStore_new =
      (Inr (Some (uuid_v4 1)), snd (mem_acquire_distributed_lock 1 ''job'' 5 MemoryStateStore_new))"
    by (simp add: mem_acquire_distributed_lock_def MemoryStateStore_new_def hm_contains_def Let_def)
  from mem_distributed_lock_exclusive [OF this] show ?thesis by blast
qed

end
