(* ===== verification/Session_Manager.thy ===== *)
theory Session_Manager
  imports Memory_Store
begin

text \<open>
  \<open>crates/rustsmb-session/src/manager.rs\<close> and \<open>validation.rs\<close>: the stateless session manager
  and the request validators. Each method takes the store's operations and acts on the store's
  state. The clean-up loop of \<open>delete_session\<close> reads the clock once per preserved handle; the
  readings are the argument \<open>now_at\<close>, by persistent id. The lemmas are proved once for any store
  that satisfies the contracts of \<open>State_Store\<close> and reach the in-memory store by interpretation.
\<close>

section \<open>The session manager (manager.rs)\<close>

record SessionManagerConfig =
  smc_session_timeout :: u64
  smc_idle_timeout :: u64
  smc_max_sessions :: nat
  smc_refresh_interval :: u64

definition SessionManagerConfig_default :: SessionManagerConfig where
  "SessionManagerConfig_default = \<lparr> smc_session_timeout = 3600, smc_idle_timeout = 300,
     smc_max_sessions = 10000, smc_refresh_interval = 60 \<rparr>"

text \<open>\<open>fetch_add\<close> on the connection counter, which starts at 1.\<close>

definition next_connection_id :: "u64 \<Rightarrow> u64 \<times> u64" where
  "next_connection_id counter = (counter, counter + 1)"

definition sm_create_session ::
  "'s state_store \<Rightarrow> SessionState \<Rightarrow> ('s, StateError, SessionState) op" where
  "sm_create_session ops session =
     op_bind (st_create_session ops session) (\<lambda>_. op_return session)"

definition sm_get_session :: "'s state_store \<Rightarrow> u64 \<Rightarrow> ('s, StateError, SessionState option) op" where
  "sm_get_session ops sid = st_get_session ops sid"

definition sm_validate_session ::
  "'s state_store \<Rightarrow> u64 \<Rightarrow> u64 \<Rightarrow> ('s, SessionError, SessionState) op" where
  "sm_validate_session ops now sid =
     op_bind (op_map_err (\<lambda>_. InvalidSessionId sid) (st_get_session ops sid)) (\<lambda>found.
     op_bind (ok_or (InvalidSessionId sid) found) (\<lambda>session.
       if ss_expires_at session < now then
         op_bind (op_ignore (st_delete_session ops sid)) (\<lambda>_. op_throw SessionExpired)
       else op_return session))"

definition sm_refresh_session ::
  "'s state_store \<Rightarrow> SessionManagerConfig \<Rightarrow> u64 \<Rightarrow> u64 \<Rightarrow> ('s, StateError, unit) op" where
  "sm_refresh_session ops cfg now sid = st_refresh_session ops now sid (smc_session_timeout cfg)"

text \<open>The body of the handle loop of \<open>delete_session\<close>.\<close>

definition sm_drop_handle ::
  "'s state_store \<Rightarrow> (u128 \<Rightarrow> u64) \<Rightarrow> HandleState \<Rightarrow> ('s, StateError, unit) op" where
  "sm_drop_handle ops now_at handle =
     (if should_preserve_for_reconnect handle then
        op_ignore (st_update_handle ops
          (prepare_for_reconnect (now_at (hs_persistent_id handle)) 60000 handle))
      else
        op_bind (case hs_lease_key handle of
                   Some lease_key \<Rightarrow> op_ignore (st_delete_lease ops lease_key)
                 | None \<Rightarrow> op_return ())
          (\<lambda>_. st_delete_handle ops (hs_persistent_id handle)))"

definition sm_delete_session ::
  "'s state_store \<Rightarrow> (u128 \<Rightarrow> u64) \<Rightarrow> u64 \<Rightarrow> ('s, StateError, unit) op" where
  "sm_delete_session ops now_at sid =
     op_bind (st_get_handles_by_session ops sid) (\<lambda>handles.
     op_bind (op_for (sm_drop_handle ops now_at) handles) (\<lambda>_.
     op_bind (st_get_trees_by_session ops sid) (\<lambda>trees.
     op_bind (op_for (\<lambda>tree. st_delete_tree ops sid (ts_tree_id tree)) trees) (\<lambda>_.
       st_delete_session ops sid))))"

definition sm_create_tree :: "'s state_store \<Rightarrow> TreeState \<Rightarrow> ('s, StateError, TreeState) op" where
  "sm_create_tree ops tree = op_bind (st_create_tree ops tree) (\<lambda>_. op_return tree)"

definition sm_get_tree :: "'s state_store \<Rightarrow> u64 \<Rightarrow> u32 \<Rightarrow> ('s, StateError, TreeState option) op" where
  "sm_get_tree ops sid tid = st_get_tree ops sid tid"

definition sm_delete_tree :: "'s state_store \<Rightarrow> u64 \<Rightarrow> u32 \<Rightarrow> ('s, StateError, unit) op" where
  "sm_delete_tree ops sid tid =
     op_bind (st_get_handles_by_session ops sid) (\<lambda>handles.
     op_bind (op_for (\<lambda>h. if hs_tree_id h = tid then st_delete_handle ops (hs_persistent_id h)
                          else op_return ()) handles) (\<lambda>_.
       st_delete_tree ops sid tid))"

definition sm_create_handle :: "'s state_store \<Rightarrow> HandleState \<Rightarrow> ('s, StateError, HandleState) op" where
  "sm_create_handle ops handle = op_bind (st_create_handle ops handle) (\<lambda>_. op_return handle)"

definition sm_get_handle :: "'s state_store \<Rightarrow> u128 \<Rightarrow> ('s, StateError, HandleState option) op" where
  "sm_get_handle ops pid = st_get_handle ops pid"

definition sm_update_handle :: "'s state_store \<Rightarrow> HandleState \<Rightarrow> ('s, StateError, unit) op" where
  "sm_update_handle ops handle = st_update_handle ops handle"

definition sm_delete_handle :: "'s state_store \<Rightarrow> u128 \<Rightarrow> ('s, StateError, unit) op" where
  "sm_delete_handle ops pid = st_delete_handle ops pid"

section \<open>Validators (validation.rs)\<close>

definition tv_validate :: "'s state_store \<Rightarrow> u64 \<Rightarrow> u32 \<Rightarrow> ('s, SessionError, TreeState) op" where
  "tv_validate ops sid tid =
     op_bind (op_map_err (\<lambda>_. InvalidTreeId tid) (st_get_tree ops sid tid)) (\<lambda>found.
     op_bind (ok_or (InvalidTreeId tid) found) (\<lambda>tree.
       if ts_session_id tree \<noteq> sid then op_throw (InvalidTreeId tid) else op_return tree))"

definition tv_delete_tree :: "'s state_store \<Rightarrow> u64 \<Rightarrow> u32 \<Rightarrow> ('s, StateError, unit) op" where
  "tv_delete_tree ops sid tid =
     op_bind (st_get_handles_by_session ops sid) (\<lambda>handles.
     op_bind (op_for (\<lambda>h. if hs_tree_id h = tid then st_delete_handle ops (hs_persistent_id h)
                          else op_return ()) handles) (\<lambda>_.
       st_delete_tree ops sid tid))"

definition tv_check_access :: "TreeState \<Rightarrow> u32 \<Rightarrow> bool" where
  "tv_check_access tree required =
     (if required = 0 then True else ts_access_flags tree AND required = required)"

record HandleLookup =
  hl_handle :: HandleState
  hl_session_id :: u64
  hl_tree_id :: u32

definition hv_validate ::
  "'s state_store \<Rightarrow> u128 \<Rightarrow> u64 \<Rightarrow> u32 \<Rightarrow> ('s, SessionError, HandleLookup) op" where
  "hv_validate ops pid sid tid =
     op_bind (op_map_err (\<lambda>_. InvalidHandleId pid) (st_get_handle ops pid)) (\<lambda>found.
     op_bind (ok_or (InvalidHandleId pid) found) (\<lambda>handle.
       if hs_session_id handle \<noteq> sid then op_throw (InvalidHandleId pid)
       else if hs_tree_id handle \<noteq> tid then op_throw (InvalidHandleId pid)
       else op_return \<lparr> hl_handle = handle, hl_session_id = sid, hl_tree_id = tid \<rparr>))"

definition hv_validate_full ::
  "'s state_store \<Rightarrow> u128 \<Rightarrow> u128 \<Rightarrow> u64 \<Rightarrow> u32 \<Rightarrow> ('s, SessionError, HandleLookup) op" where
  "hv_validate_full ops pid vid sid tid =
     op_bind (hv_validate ops pid sid tid) (\<lambda>lookup.
       if hs_volatile_id (hl_handle lookup) \<noteq> vid then op_throw (InvalidHandleId pid)
       else op_return lookup)"

definition hv_get_tree_handles ::
  "'s state_store \<Rightarrow> u64 \<Rightarrow> u32 \<Rightarrow> ('s, StateError, HandleState list) op" where
  "hv_get_tree_handles ops sid tid =
     op_bind (st_get_handles_by_session ops sid) (\<lambda>handles.
       op_return (filter (\<lambda>h. hs_tree_id h = tid) handles))"

definition hv_check_access :: "HandleState \<Rightarrow> u32 \<Rightarrow> bool" where
  "hv_check_access handle required =
     (if required = 0 then True else hs_access_mask handle AND required = required)"

definition hv_check_sharing :: "HandleState \<Rightarrow> u32 \<Rightarrow> bool" where
  "hv_check_sharing handle requested \<longleftrightarrow> hs_share_access handle AND requested = requested"

definition hv_touch_handle :: "'s state_store \<Rightarrow> u64 \<Rightarrow> u128 \<Rightarrow> ('s, StateError, unit) op" where
  "hv_touch_handle ops now pid =
     op_bind (st_get_handle ops pid) (\<lambda>found.
       case found of
         Some handle \<Rightarrow>
           op_bind (st_delete_handle ops pid) (\<lambda>_.
             st_create_handle ops (handle\<lparr> hs_last_access := now \<rparr>))
       | None \<Rightarrow> op_return ())"

definition sv_validate ::
  "'s state_store \<Rightarrow> u64 \<Rightarrow> u64 \<Rightarrow> ('s, SessionError, SessionState) op" where
  "sv_validate ops now sid =
     op_bind (op_map_err (\<lambda>_. InvalidSessionId sid) (st_get_session ops sid)) (\<lambda>found.
     op_bind (ok_or (InvalidSessionId sid) found) (\<lambda>session.
       if ss_expires_at session < now then
         op_bind (op_ignore (st_delete_session ops sid)) (\<lambda>_. op_throw SessionExpired)
       else op_return session))"

definition sv_validate_and_refresh ::
  "'s state_store \<Rightarrow> u64 \<Rightarrow> u64 \<Rightarrow> u64 \<Rightarrow> ('s, SessionError, SessionState) op" where
  "sv_validate_and_refresh ops timeout now sid =
     op_bind (sv_validate ops now sid) (\<lambda>session.
     op_bind (op_ignore (st_refresh_session ops now sid timeout)) (\<lambda>_. op_return session))"

record RequestContext =
  rc_session :: SessionState
  rc_tree :: "TreeState option"
  rc_handle :: "HandleState option"

definition rcb_session_only ::
  "'s state_store \<Rightarrow> u64 \<Rightarrow> u64 \<Rightarrow> ('s, SessionError, RequestContext) op" where
  "rcb_session_only ops now sid =
     op_bind (sv_validate ops now sid) (\<lambda>session.
       op_return \<lparr> rc_session = session, rc_tree = None, rc_handle = None \<rparr>)"

definition rcb_with_tree ::
  "'s state_store \<Rightarrow> u64 \<Rightarrow> u64 \<Rightarrow> u32 \<Rightarrow> ('s, SessionError, RequestContext) op" where
  "rcb_with_tree ops now sid tid =
     op_bind (sv_validate ops now sid) (\<lambda>session.
     op_bind (tv_validate ops sid tid) (\<lambda>tree.
       op_return \<lparr> rc_session = session, rc_tree = Some tree, rc_handle = None \<rparr>))"

definition rcb_with_handle ::
  "'s state_store \<Rightarrow> u64 \<Rightarrow> u64 \<Rightarrow> u32 \<Rightarrow> u128 \<Rightarrow> u128 \<Rightarrow> ('s, SessionError, RequestContext) op" where
  "rcb_with_handle ops now sid tid pid vid =
     op_bind (sv_validate ops now sid) (\<lambda>session.
     op_bind (tv_validate ops sid tid) (\<lambda>tree.
     op_bind (hv_validate_full ops pid vid sid tid) (\<lambda>lookup.
       op_return \<lparr> rc_session = session, rc_tree = Some tree,
                   rc_handle = Some (hl_handle lookup) \<rparr>)))"

section \<open>What session clean-up does to a store\<close>

text \<open>
  The specification of \<open>delete_session\<close>: the session and its trees disappear, its ordinary
  handles disappear with their leases, its durable and persistent handles stay, disconnected.
\<close>

definition delete_session_spec :: "(u128 \<Rightarrow> u64) \<Rightarrow> u64 \<Rightarrow> store_view \<Rightarrow> store_view" where
  "delete_session_spec now_at sid v =
     v\<lparr> sv_sessions := (sv_sessions v)(sid := None),
        sv_trees := (\<lambda>k. if fst k = sid then None else sv_trees v k),
        sv_handles := (\<lambda>k. case sv_handles v k of
            None \<Rightarrow> None
          | Some h \<Rightarrow> if hs_session_id h \<noteq> sid then Some h
                      else if should_preserve_for_reconnect h
                      then Some (prepare_for_reconnect (now_at k) 60000 h) else None),
        sv_leases := (\<lambda>k. if \<exists>h \<in> ran (sv_handles v). hs_session_id h = sid
              \<and> \<not> should_preserve_for_reconnect h \<and> hs_lease_key h = Some k
            then None else sv_leases v k) \<rparr>"

definition drop_effect :: "(u128 \<Rightarrow> u64) \<Rightarrow> HandleState \<Rightarrow> store_view \<Rightarrow> store_view" where
  "drop_effect now_at h v =
     (if should_preserve_for_reconnect h
      then v\<lparr> sv_handles := (sv_handles v)(hs_persistent_id h \<mapsto>
             prepare_for_reconnect (now_at (hs_persistent_id h)) 60000 h) \<rparr>
      else v\<lparr> sv_handles := (sv_handles v)(hs_persistent_id h := None),
              sv_leases := (case hs_lease_key h of None \<Rightarrow> sv_leases v
                            | Some k \<Rightarrow> (sv_leases v)(k := None)) \<rparr>)"

lemma fold_drop_frame:
  "sv_sessions (fold (drop_effect now_at) hs v) = sv_sessions v"
  "sv_trees (fold (drop_effect now_at) hs v) = sv_trees v"
  "sv_file_locks (fold (drop_effect now_at) hs v) = sv_file_locks v"
  by (induction hs arbitrary: v) (simp_all add: drop_effect_def)

lemma drop_effect_handles:
  "sv_handles (drop_effect now_at h v) = (sv_handles v)(hs_persistent_id h :=
     (if should_preserve_for_reconnect h
      then Some (prepare_for_reconnect (now_at (hs_persistent_id h)) 60000 h) else None))"
  by (simp add: drop_effect_def)

lemma fold_drop_handles:
  "distinct (map hs_persistent_id hs) \<Longrightarrow>
   sv_handles (fold (drop_effect now_at) hs v) k =
     (case find (\<lambda>h. hs_persistent_id h = k) hs of
        None \<Rightarrow> sv_handles v k
      | Some h \<Rightarrow> if should_preserve_for_reconnect h
                  then Some (prepare_for_reconnect (now_at k) 60000 h) else None)"
proof (induction hs arbitrary: v)
  case Nil
  then show ?case by simp
next
  case (Cons h hs)
  have "hs_persistent_id h = k \<Longrightarrow> find (\<lambda>h. hs_persistent_id h = k) hs = None"
    using Cons.prems by (auto simp: find_None_iff) (metis imageI)
  with Cons show ?case by (simp add: drop_effect_handles split: option.split)
qed

lemma fold_drop_leases:
  "sv_leases (fold (drop_effect now_at) hs v) k =
     (if \<exists>h \<in> set hs. \<not> should_preserve_for_reconnect h \<and> hs_lease_key h = Some k then None
      else sv_leases v k)"
  by (induction hs arbitrary: v) (auto simp: drop_effect_def split: option.splits)

abbreviation (input) untree :: "u64 \<Rightarrow> TreeState \<Rightarrow> store_view \<Rightarrow> store_view" where
  "untree sid t v \<equiv> v\<lparr> sv_trees := (sv_trees v)((sid, ts_tree_id t) := None) \<rparr>"

lemma fold_untree:
  "fold (untree sid) ts v =
     v\<lparr> sv_trees := (\<lambda>k. if \<exists>t \<in> set ts. k = (sid, ts_tree_id t) then None else sv_trees v k) \<rparr>"
proof (induction ts arbitrary: v)
  case Nil
  then show ?case by simp
next
  case (Cons t ts)
  then show ?case by (intro store_view.equality) (auto simp: fun_eq_iff)
qed

lemma find_by_id:
  assumes "distinct (map hs_persistent_id hs)"
    and "\<And>k h. m k = Some h \<Longrightarrow> hs_persistent_id h = k"
    and "set hs = {h \<in> ran m. P h}"
  shows "find (\<lambda>h. hs_persistent_id h = k) hs =
    (case m k of None \<Rightarrow> None | Some h \<Rightarrow> if P h then Some h else None)"
proof (cases "find (\<lambda>h. hs_persistent_id h = k) hs")
  case None
  then have "\<forall>h \<in> set hs. hs_persistent_id h \<noteq> k" by (auto simp: find_None_iff)
  with None assms(2,3) show ?thesis by (auto split: option.split simp: ran_def)
next
  case (Some h)
  then have "h \<in> set hs" "hs_persistent_id h = k" by (auto simp: find_Some_iff)
  with assms(2,3) have "m k = Some h" "P h" by (auto simp: ran_def)
  with Some show ?thesis by simp
qed

lemma delete_session_spec_fold:
  assumes "view_keyed v"
    and "distinct (map hs_persistent_id hs)"
    and "set hs = {h \<in> ran (sv_handles v). hs_session_id h = sid}"
    and "set ts = {t \<in> ran (sv_trees v). ts_session_id t = sid}"
  shows "(\<lambda>v. v\<lparr> sv_sessions := (sv_sessions v)(sid := None) \<rparr>)
      (fold (untree sid) ts (fold (drop_effect now_at) hs v)) = delete_session_spec now_at sid v"
proof -
  have trees: "(if \<exists>t \<in> set ts. k = (sid, ts_tree_id t) then None else sv_trees v k) =
      (if fst k = sid then None else sv_trees v k)" for k
  proof (cases "sv_trees v k")
    case (Some t)
    with assms(1) have k: "k = (ts_session_id t, ts_tree_id t)" by (cases k) (simp add: view_keyed_def)
    then have "fst k = sid \<Longrightarrow> t \<in> set ts" using Some assms(4) by (auto intro: ranI)
    with k Some show ?thesis by auto
  qed auto
  have "find (\<lambda>h. hs_persistent_id h = k) hs = (case sv_handles v k of None \<Rightarrow> None
      | Some h \<Rightarrow> if hs_session_id h = sid then Some h else None)" for k
    using assms(1) by (intro find_by_id assms(2,3)) (auto simp: view_keyed_def)
  then have handles: "sv_handles (fold (drop_effect now_at) hs v) =
      sv_handles (delete_session_spec now_at sid v)"
    by (auto simp: fold_drop_handles [OF assms(2)] delete_session_spec_def fun_eq_iff
        split: option.split)
  have leases: "sv_leases (fold (drop_effect now_at) hs v) =
      sv_leases (delete_session_spec now_at sid v)"
    unfolding fun_eq_iff fold_drop_leases by (auto simp: delete_session_spec_def assms(3))
  from handles leases show ?thesis
    unfolding fold_untree fold_drop_frame trees
    by (intro store_view.equality) (simp_all add: fold_drop_frame delete_session_spec_def)
qed

context reliable_store
begin

lemma drop_handle_commits:
  "commits invar view (drop_effect now_at h) (sm_drop_handle ops now_at h)"
proof (cases "should_preserve_for_reconnect h")
  case True
  then show ?thesis
    using commits_ignore [OF update_handle ok_update_handle,
        of "prepare_for_reconnect (now_at (hs_persistent_id h)) 60000 h"]
    by (simp add: sm_drop_handle_def drop_effect_def [abs_def])
next
  case not_preserved: False
  show ?thesis
  proof (cases "hs_lease_key h")
    case None
    then show ?thesis
      using not_preserved delete_handle [of "hs_persistent_id h"]
      by (simp add: sm_drop_handle_def drop_effect_def [abs_def] commits_def op_simps)
  next
    case (Some k)
    have "commits invar view
        (\<lambda>v. v\<lparr> sv_leases := (sv_leases v)(k := None),
               sv_handles := (sv_handles v)(hs_persistent_id h := None) \<rparr>)
        (op_bind (op_ignore (st_delete_lease ops k)) (\<lambda>_. st_delete_handle ops (hs_persistent_id h)))"
      using commits_then [OF commits_ignore [OF delete_lease ok_delete_lease] always_ok_ignore
          delete_handle ok_delete_handle] by simp
    moreover have "(\<lambda>v. v\<lparr> sv_leases := (sv_leases v)(k := None),
               sv_handles := (sv_handles v)(hs_persistent_id h := None) \<rparr>) = drop_effect now_at h"
      using not_preserved Some by (intro ext store_view.equality) (simp_all add: drop_effect_def)
    ultimately show ?thesis using not_preserved Some by (simp add: sm_drop_handle_def)
  qed
qed

lemma drop_handle_ok: "always_ok invar (sm_drop_handle ops now_at h)"
proof -
  have "always_ok invar
      (op_bind (op_ignore (st_delete_lease ops k)) (\<lambda>_. st_delete_handle ops (hs_persistent_id h)))"
    for k
    by (rule always_ok_then [OF commits_ignore [OF delete_lease ok_delete_lease] always_ok_ignore
          ok_delete_handle])
  moreover have "always_ok invar
      (op_bind (op_return ()) (\<lambda>_. st_delete_handle ops (hs_persistent_id h)))"
    by (rule always_ok_then [OF commits_return always_ok_return ok_delete_handle])
  ultimately show ?thesis by (auto simp: sm_drop_handle_def split: option.split)
qed

lemma delete_session_refines:
  assumes "invar s"
  obtains s' where "sm_delete_session ops now_at sid s = (Inr (), s')" "invar s'"
    "view s' = delete_session_spec now_at sid (view s)"
proof -
  obtain hs s1 where 1: "st_get_handles_by_session ops sid s = (Inr hs, s1)" "invar s1"
      "view s1 = view s" "distinct (map hs_persistent_id hs) \<and>
        set hs = {h \<in> ran (sv_handles (view s)). hs_session_id h = sid}"
    by (rule answers_ok [OF get_handles_by_session ok_get_handles_by_session assms])
  obtain s2 where 2: "op_for (sm_drop_handle ops now_at) hs s1 = (Inr (), s2)" "invar s2"
      "view s2 = fold (drop_effect now_at) hs (view s1)"
    by (rule op_for_commits [OF drop_handle_commits drop_handle_ok 1(2)])
  obtain ts s3 where 3: "st_get_trees_by_session ops sid s2 = (Inr ts, s3)" "invar s3"
      "view s3 = view s2" "set ts = {t \<in> ran (sv_trees (view s2)). ts_session_id t = sid}"
    by (rule answers_ok [OF get_trees_by_session ok_get_trees_by_session 2(2)])
  obtain s4 where 4: "op_for (\<lambda>t. st_delete_tree ops sid (ts_tree_id t)) ts s3 = (Inr (), s4)"
      "invar s4" "view s4 = fold (untree sid) ts (view s3)"
    by (rule op_for_commits [OF delete_tree ok_delete_tree 3(2)])
  obtain u s5 where 5: "st_delete_session ops sid s4 = (Inr u, s5)" "invar s5"
      "view s5 = (view s4)\<lparr> sv_sessions := (sv_sessions (view s4))(sid := None) \<rparr>"
    by (rule commits_ok [OF delete_session ok_delete_session 4(2)])
  have "view s5 = delete_session_spec now_at sid (view s)"
    using delete_session_spec_fold [OF keyed [OF assms], of hs sid ts now_at] 1(3,4) 2(3) 3(3,4) 4(3) 5(3)
    by (simp add: fold_drop_frame)
  moreover have "sm_delete_session ops now_at sid s = (Inr (), s5)"
    using 1(1) 2(1) 3(1) 4(1) 5(1) by (simp add: sm_delete_session_def op_bind_def)
  ultimately show ?thesis using that 5(2) by blast
qed

lemma validate_session_cases:
  assumes "invar s"
  shows "\<exists>s'. invar s' \<and>
    sm_validate_session ops now sid s = ((case sv_sessions (view s) sid of
        None \<Rightarrow> Inl (InvalidSessionId sid)
      | Some x \<Rightarrow> if ss_expires_at x < now then Inl SessionExpired else Inr x), s') \<and>
    view s' = (case sv_sessions (view s) sid of
        None \<Rightarrow> view s
      | Some x \<Rightarrow> if ss_expires_at x < now
          then (view s)\<lparr> sv_sessions := (sv_sessions (view s))(sid := None) \<rparr> else view s)"
proof -
  obtain r s1 where 1: "st_get_session ops sid s = (Inr r, s1)" "invar s1" "view s1 = view s"
      "r = sv_sessions (view s) sid"
    by (rule answers_ok [OF get_session ok_get_session assms])
  obtain u s2 where 2: "st_delete_session ops sid s1 = (Inr u, s2)" "invar s2"
      "view s2 = (view s1)\<lparr> sv_sessions := (sv_sessions (view s1))(sid := None) \<rparr>"
    by (rule commits_ok [OF delete_session ok_delete_session 1(2)])
  from 1 2 show ?thesis
    by (auto simp: sm_validate_session_def op_simps split: option.split)
qed

end

lemma sv_validate_eq: "sv_validate = sm_validate_session"
  by (intro ext) (simp add: sv_validate_def sm_validate_session_def)

context session_store
begin

lemma sv_validate_Ok:
  assumes "invar s" "sv_validate ops now sid s = (Inr x, s')"
  shows "invar s' \<and> view s' = view s \<and> sv_sessions (view s) sid = Some x \<and> \<not> ss_expires_at x < now"
proof -
  obtain r s1 where g: "st_get_session ops sid s = (r, s1)" by force
  from answersD [OF get_session assms(1) g] assms(2) g show ?thesis
    by (cases r) (auto simp: sv_validate_def op_simps split: option.splits if_splits)
qed

lemma tv_validate_Ok:
  assumes "invar s" "tv_validate ops sid tid s = (Inr t, s')"
  shows "invar s' \<and> view s' = view s \<and> sv_trees (view s) (sid, tid) = Some t"
proof -
  obtain r s1 where g: "st_get_tree ops sid tid s = (r, s1)" by force
  from answersD [OF get_tree assms(1) g] assms(2) g show ?thesis
    by (cases r) (auto simp: tv_validate_def op_simps split: option.splits if_splits)
qed

lemma hv_validate_full_Ok:
  assumes "invar s" "hv_validate_full ops pid vid sid tid s = (Inr l, s')"
  shows "invar s' \<and> view s' = view s \<and> sv_handles (view s) pid = Some (hl_handle l) \<and>
    hs_session_id (hl_handle l) = sid \<and> hs_tree_id (hl_handle l) = tid \<and>
    hs_volatile_id (hl_handle l) = vid"
proof -
  obtain r s1 where g: "st_get_handle ops pid s = (r, s1)" by force
  from answersD [OF get_handle assms(1) g] assms(2) g show ?thesis
    by (cases r) (auto simp: hv_validate_full_def hv_validate_def op_simps
        split: option.splits if_splits)
qed

lemma with_handle_sound:
  assumes "invar s" "rcb_with_handle ops now sid tid pid vid s = (Inr c, s')"
  shows "view s' = view s \<and> sv_sessions (view s) sid = Some (rc_session c)
    \<and> \<not> ss_expires_at (rc_session c) < now
    \<and> (\<exists>t. rc_tree c = Some t \<and> sv_trees (view s) (sid, tid) = Some t)
    \<and> (\<exists>h. rc_handle c = Some h \<and> sv_handles (view s) pid = Some h \<and> hs_session_id h = sid
          \<and> hs_tree_id h = tid \<and> hs_volatile_id h = vid)"
proof -
  from assms(2) obtain x s1 t s2 l where
      1: "sv_validate ops now sid s = (Inr x, s1)"
      and 2: "tv_validate ops sid tid s1 = (Inr t, s2)"
      and 3: "hv_validate_full ops pid vid sid tid s2 = (Inr l, s')"
      and c: "c = \<lparr> rc_session = x, rc_tree = Some t, rc_handle = Some (hl_handle l) \<rparr>"
    by (auto simp: rcb_with_handle_def op_simps split: prod.splits sum.splits)
  from sv_validate_Ok [OF assms(1) 1] tv_validate_Ok [OF _ 2] hv_validate_full_Ok [OF _ 3] c
  show ?thesis by auto
qed

end

text \<open>
  C4. Ending a session against the in-memory store always succeeds and does exactly what
  \<open>delete_session_spec\<close> says: the session and all its trees are gone, its ordinary handles are
  gone with their leases, its durable and persistent handles survive with session and tree id
  zero and a reconnect deadline, and nothing belonging to another session changes.
\<close>

theorem delete_session_refines_spec:
  assumes "mem_wf s"
  shows "\<exists>s'. sm_delete_session memory_store now_at sid s = (Inr (), s') \<and> mem_wf s' \<and>
    mem_view s' = delete_session_spec now_at sid (mem_view s)"
  by (rule mem.delete_session_refines [OF assms]) blast

definition demo_handle :: "u128 \<Rightarrow> u64 \<Rightarrow> bool \<Rightarrow> HandleState" where
  "demo_handle pid sid durable = (HandleState_default 100)
     \<lparr> hs_persistent_id := pid, hs_volatile_id := pid, hs_tree_id := 1, hs_session_id := sid,
       hs_is_durable := durable \<rparr>"

definition demo_tree :: "u64 \<Rightarrow> TreeState" where
  "demo_tree sid = (TreeState_default 100)\<lparr> ts_tree_id := 1, ts_session_id := sid \<rparr>"

definition demo_session :: "u64 \<Rightarrow> SessionState" where
  "demo_session sid = (SessionState_default 100)\<lparr> ss_session_id := sid \<rparr>"

definition demo_store :: MemoryStateStore where
  "demo_store = MemoryStateStore_new
     \<lparr> mem_sessions := [(7, demo_session 7), (8, demo_session 8)],
       mem_trees := [((7, 1), demo_tree 7), ((8, 1), demo_tree 8)],
       mem_handles := [(1, demo_handle 1 7 True), (2, demo_handle 2 7 False),
                       (3, demo_handle 3 8 False)] \<rparr>"

lemma demo_store_wf: "mem_wf demo_store"
  by (simp add: mem_wf_def demo_store_def MemoryStateStore_new_def hm_wf_def demo_session_def
      demo_tree_def demo_handle_def)

theorem delete_session_refines_spec_witness:
  "\<exists>s'. sm_delete_session memory_store (\<lambda>_. 200) 7 demo_store = (Inr (), s') \<and>
     sv_handles (mem_view s') 2 = None \<and>
     map_option hs_session_id (sv_handles (mem_view s') 1) = Some 0 \<and>
     sv_handles (mem_view s') 3 = Some (demo_handle 3 8 False)"
proof -
  obtain s' where "sm_delete_session memory_store (\<lambda>_. 200) 7 demo_store = (Inr (), s')"
      "mem_view s' = delete_session_spec (\<lambda>_. 200) 7 (mem_view demo_store)"
    using delete_session_refines_spec [OF demo_store_wf, of "\<lambda>_. 200" 7] by blast
  then show ?thesis
    by (simp add: delete_session_spec_def mem_view_def demo_store_def demo_handle_def
        should_preserve_for_reconnect_def HandleState_default_def)
qed

text \<open>
  C17. A request is admitted with a file handle only if, in the store's current state, its session
  exists and has not expired, its tree belongs to that session, and the handle belongs to that
  session and tree with the same volatile id; validation changes nothing in the store.
\<close>

theorem with_handle_admits_only_owner:
  assumes "mem_wf s" "rcb_with_handle memory_store now sid tid pid vid s = (Inr c, s')"
  shows "mem_view s' = mem_view s \<and> sv_sessions (mem_view s) sid = Some (rc_session c)
    \<and> \<not> ss_expires_at (rc_session c) < now
    \<and> (\<exists>t. rc_tree c = Some t \<and> sv_trees (mem_view s) (sid, tid) = Some t)
    \<and> (\<exists>h. rc_handle c = Some h \<and> sv_handles (mem_view s) pid = Some h \<and> hs_session_id h = sid
          \<and> hs_tree_id h = tid \<and> hs_volatile_id h = vid)"
  by (rule mem.with_handle_sound [OF assms])

lemmas memory_validator_eval = rcb_with_handle_def sv_validate_def tv_validate_def
  hv_validate_full_def hv_validate_def memory_store_def mem_session_defs mem_tree_defs
  mem_handle_defs op_basic_simps

theorem with_handle_admits_only_owner_witness:
  "\<exists>c s'. rcb_with_handle memory_store 150 7 1 1 1 demo_store = (Inr c, s') \<and>
     (\<exists>h. rc_handle c = Some h \<and> hs_session_id h = 7)"
proof -
  have "\<exists>c s'. rcb_with_handle memory_store 150 7 1 1 1 demo_store = (Inr c, s')"
    by (simp add: memory_validator_eval demo_store_def demo_session_def demo_tree_def
        demo_handle_def SessionState_default_def)
  then show ?thesis using with_handle_admits_only_owner [OF demo_store_wf] by blast
qed

text \<open>
  C32. Validating a session id answers \<open>InvalidSessionId\<close> for an unknown session,
  \<open>SessionExpired\<close> for one past its deadline and the session itself otherwise; an expired
  session's record is removed, and only that record: its trees and handles stay in the store.
\<close>

theorem validate_session_behaviour:
  assumes "mem_wf s"
  shows "\<exists>s'. mem_wf s' \<and>
    sm_validate_session memory_store now sid s = ((case sv_sessions (mem_view s) sid of
        None \<Rightarrow> Inl (InvalidSessionId sid)
      | Some x \<Rightarrow> if ss_expires_at x < now then Inl SessionExpired else Inr x), s') \<and>
    mem_view s' = (case sv_sessions (mem_view s) sid of
        None \<Rightarrow> mem_view s
      | Some x \<Rightarrow> if ss_expires_at x < now
          then (mem_view s)\<lparr> sv_sessions := (sv_sessions (mem_view s))(sid := None) \<rparr>
          else mem_view s)"
  by (rule mem.validate_session_cases [OF assms])

theorem validate_session_behaviour_witness:
  "\<exists>s'. sm_validate_session memory_store 99999 7 demo_store = (Inl SessionExpired, s') \<and>
     sv_trees (mem_view s') (7, 1) = Some (demo_tree 7)"
  using validate_session_behaviour [OF demo_store_wf, of 99999 7]
  by (auto simp: mem_view_def demo_store_def demo_session_def SessionState_default_def)

end
