(* ===== verification/Credits.thy ===== *)
theory Credits
  imports Smb_Prelude
begin

text \<open>
  \<open>crates/rustsmb-session/src/credits.rs\<close>: SMB2 credit accounting for one connection. The
  atomics of \<open>CreditManager\<close> are fields of a record. \<open>consume\<close> and \<open>grant\<close> are the methods with
  their compare-exchange succeeding; \<open>credit_step\<close> is the interleaved version, in which any
  number of calls run at once and every load, compare-exchange and \<open>fetch_add\<close> is a step of its
  own (a weak compare-exchange may also fail spuriously).
\<close>

record CreditConfig =
  cc_initial_credits :: u16
  cc_max_credits :: u16
  cc_grant_per_response :: u16
  cc_adaptive_grants :: bool

definition CreditConfig_default :: CreditConfig where
  "CreditConfig_default = \<lparr> cc_initial_credits = 256, cc_max_credits = 8192,
     cc_grant_per_response = 1, cc_adaptive_grants = True \<rparr>"

abbreviation (input) MIN_CREDITS_PER_RESPONSE :: u16 where "MIN_CREDITS_PER_RESPONSE \<equiv> 1"

record CreditManager =
  cm_available :: u16
  cm_granted :: u64
  cm_consumed :: u64
  cm_config :: CreditConfig

definition CreditManager_with_config :: "CreditConfig \<Rightarrow> CreditManager" where
  "CreditManager_with_config cfg = \<lparr> cm_available = cc_initial_credits cfg,
     cm_granted = ucast (cc_initial_credits cfg), cm_consumed = 0, cm_config = cfg \<rparr>"

definition can_satisfy :: "CreditManager \<Rightarrow> u16 \<Rightarrow> bool" where
  "can_satisfy m credit_charge \<longleftrightarrow> max credit_charge 1 \<le> cm_available m"

definition consume :: "u16 \<Rightarrow> CreditManager \<Rightarrow> u16 option \<times> CreditManager" where
  "consume credit_charge m =
     (let charge = max credit_charge 1; current = cm_available m in
      if current < charge then (None, m)
      else (Some charge, m\<lparr> cm_available := current - charge,
                            cm_consumed := cm_consumed m + ucast charge \<rparr>))"

definition grant :: "u16 \<Rightarrow> CreditManager \<Rightarrow> u16 \<times> CreditManager" where
  "grant credits m =
     (if credits = 0 then (0, m)
      else
        let current = cm_available m;
            max_grant = sat_sub (cc_max_credits (cm_config m)) current;
            actual_grant = min credits max_grant in
        if actual_grant = 0 then (0, m)
        else (actual_grant, m\<lparr> cm_available := current + actual_grant,
                               cm_granted := cm_granted m + ucast actual_grant \<rparr>))"

definition calculate_grant :: "CreditManager \<Rightarrow> u16 \<Rightarrow> bool \<Rightarrow> u16" where
  "calculate_grant m requested_credits is_async =
     (let cfg = cm_config m;
          current = cm_available m;
          headroom = sat_sub (cc_max_credits cfg) current in
      if headroom = 0 then 0
      else if \<not> cc_adaptive_grants cfg then min (cc_grant_per_response cfg) headroom
      else
        let target = cc_max_credits cfg div 2;
            grant0 = max (cc_grant_per_response cfg) MIN_CREDITS_PER_RESPONSE;
            grant1 = (if current < target then sat_add grant0 ((target - current) div 4)
                      else grant0);
            grant2 = (if 0 < requested_credits then max grant1 requested_credits else grant1);
            grant3 = (if is_async then sat_mul grant2 2 else grant2)
        in max (min grant3 headroom) (min MIN_CREDITS_PER_RESPONSE headroom))"

definition calculate_charge :: "u32 \<Rightarrow> u32 \<Rightarrow> u16" where
  "calculate_charge payload_size max_payload_per_credit =
     (if payload_size = 0 then 1
      else
        let max_per = max max_payload_per_credit 1;
            charge = sat_sub payload_size 1 div max_per + 1
        in ucast (min charge 0xFFFF))"

datatype CreditError =
    InsufficientCharge u16 u16
  | InsufficientCredits u16 u16

definition validate_charge :: "CreditManager \<Rightarrow> u16 \<Rightarrow> u32 \<Rightarrow> u32 \<Rightarrow> CreditError + u16" where
  "validate_charge m credit_charge payload_size max_payload_per_credit =
     (let min_required = calculate_charge payload_size max_payload_per_credit;
          actual_charge = max credit_charge 1 in
      if actual_charge < min_required then Inl (InsufficientCharge actual_charge min_required)
      else if \<not> can_satisfy m actual_charge
      then Inl (InsufficientCredits actual_charge (cm_available m))
      else Inr actual_charge)"

definition credits_reset :: "CreditManager \<Rightarrow> CreditManager" where
  "credits_reset m = m\<lparr> cm_available := cc_initial_credits (cm_config m) \<rparr>"

section \<open>Interleaved calls\<close>

text \<open>Where one call to \<open>consume\<close> or \<open>grant\<close> stands between two atomic operations.\<close>

datatype credit_call =
    ConsumeLoad u16
  | ConsumeCas u16 u16
  | ConsumeCount u16
  | GrantLoad u16
  | GrantCas u16 u16 u16
  | GrantCount u16
  | CallDone "u16 option"

inductive credit_step :: "CreditManager \<times> credit_call \<Rightarrow> CreditManager \<times> credit_call \<Rightarrow> bool" where
  consume_load: "\<not> cm_available m < charge \<Longrightarrow>
    credit_step (m, ConsumeLoad charge) (m, ConsumeCas charge (cm_available m))"
| consume_none: "cm_available m < charge \<Longrightarrow>
    credit_step (m, ConsumeLoad charge) (m, CallDone None)"
| consume_cas: "cm_available m = current \<Longrightarrow>
    credit_step (m, ConsumeCas charge current)
      (m\<lparr> cm_available := current - charge \<rparr>, ConsumeCount charge)"
| consume_retry: "credit_step (m, ConsumeCas charge current) (m, ConsumeLoad charge)"
| consume_count: "credit_step (m, ConsumeCount charge)
      (m\<lparr> cm_consumed := cm_consumed m + ucast charge \<rparr>, CallDone (Some charge))"
| grant_load: "actual = min credits (sat_sub (cc_max_credits (cm_config m)) (cm_available m)) \<Longrightarrow>
    actual \<noteq> 0 \<Longrightarrow>
    credit_step (m, GrantLoad credits) (m, GrantCas credits (cm_available m) actual)"
| grant_zero: "min credits (sat_sub (cc_max_credits (cm_config m)) (cm_available m)) = 0 \<Longrightarrow>
    credit_step (m, GrantLoad credits) (m, CallDone (Some 0))"
| grant_cas: "cm_available m = current \<Longrightarrow>
    credit_step (m, GrantCas credits current actual)
      (m\<lparr> cm_available := current + actual \<rparr>, GrantCount actual)"
| grant_retry: "credit_step (m, GrantCas credits current actual) (m, GrantLoad credits)"
| grant_count: "credit_step (m, GrantCount actual)
      (m\<lparr> cm_granted := cm_granted m + ucast actual \<rparr>, CallDone (Some actual))"

text \<open>The first step of a call: \<open>charge = max credit_charge 1\<close>, and \<open>grant 0\<close> returns at once.\<close>

definition start_consume :: "u16 \<Rightarrow> credit_call" where
  "start_consume credit_charge = ConsumeLoad (max credit_charge 1)"

definition start_grant :: "u16 \<Rightarrow> credit_call" where
  "start_grant credits = (if credits = 0 then CallDone (Some 0) else GrantLoad credits)"

text \<open>A connection with the calls in progress on it; a new call may start at any time.\<close>

inductive credit_run :: "CreditConfig \<Rightarrow> CreditManager \<times> credit_call list \<Rightarrow> bool" for cfg where
  run_new: "credit_run cfg (CreditManager_with_config cfg, [])"
| run_consume: "credit_run cfg (m, cs) \<Longrightarrow> credit_run cfg (m, start_consume c # cs)"
| run_grant: "credit_run cfg (m, cs) \<Longrightarrow> credit_run cfg (m, start_grant c # cs)"
| run_step: "credit_run cfg (m, cs) \<Longrightarrow> i < length cs \<Longrightarrow> credit_step (m, cs ! i) (m', c') \<Longrightarrow>
    credit_run cfg (m', cs[i := c'])"

section \<open>Bounds of one call\<close>

lemma unat_ucast_u32_u16: "unat x \<le> 65535 \<Longrightarrow> unat (ucast x :: u16) = unat (x :: u32)"
  by (simp add: unsigned_ucast_eq take_bit_eq_mod)

lemma ceil_div_eq:
  fixes b :: nat
  assumes "1 \<le> p" "0 < b"
  shows "(p - 1) div b + 1 = (p + b - 1) div b"
proof -
  have "p + b - 1 = (p - 1) + b" using assms by simp
  then show ?thesis using assms by (simp only: div_add_self2)
qed

text \<open>
  The charge demanded for a payload is the number of credit-sized blocks it occupies, at
  least one, capped at \<open>u16::MAX\<close>.
\<close>

theorem calculate_charge_is_ceiling:
  "unat (calculate_charge payload per) =
     (let b = max (unat per) 1 in max 1 (min ((unat payload + b - 1) div b) 65535))"
proof (cases "payload = 0")
  case True
  then show ?thesis by (simp add: calculate_charge_def Let_def)
next
  case False
  define b where "b = max (unat per) 1"
  have p: "1 \<le> unat payload" using False by (simp add: Suc_leI unat_gt_0)
  have ub: "unat (max per 1) = b" by (simp add: b_def unat_max_word)
  have q: "unat (sat_sub payload 1 div max per 1) = (unat payload - 1) div b"
    by (simp add: unat_div ub unat_sat_sub)
  have "(unat payload - 1) div b < 4294967295"
    using le_less_trans [OF div_le_dividend [of "unat payload - 1" b]] unat_lt_exp [of payload] p
    by simp
  then have "unat (sat_sub payload 1 div max per 1 + 1) = (unat payload - 1) div b + 1"
    by (subst unat_add_no_wrap) (simp_all add: q)
  also have "\<dots> = (unat payload + b - 1) div b"
    using p by (rule ceil_div_eq) (simp add: b_def)
  finally have charge: "unat (min (sat_sub payload 1 div max per 1 + 1) 0xFFFF) =
      min ((unat payload + b - 1) div b) 65535"
    by (simp add: unat_min_word)
  have "calculate_charge payload per = ucast (min (sat_sub payload 1 div max per 1 + 1) 0xFFFF)"
    using False by (simp only: calculate_charge_def Let_def if_False)
  then have "unat (calculate_charge payload per) = min ((unat payload + b - 1) div b) 65535"
    by (simp only: unat_ucast_u32_u16 charge min.cobounded2)
  moreover have "1 \<le> (unat payload + b - 1) div b"
  proof -
    have "b div b \<le> (unat payload + b - 1) div b" using p by (intro div_le_mono) simp
    moreover have "b div b = 1" by (simp add: b_def)
    ultimately show ?thesis by simp
  qed
  ultimately show ?thesis unfolding Let_def b_def [symmetric] by simp
qed

text \<open>
  A computed grant never exceeds the headroom below the connection's maximum, so granting it
  is never cut short: \<open>grant\<close> returns exactly the computed amount and leaves the balance at or
  below the maximum. With adaptive grants and any headroom at all, at least one credit is granted.
\<close>

theorem calculate_grant_bounds:
  "unat (calculate_grant m req asy) \<le> unat (cc_max_credits (cm_config m)) - unat (cm_available m)
   \<and> (cc_adaptive_grants (cm_config m) \<and> cm_available m < cc_max_credits (cm_config m)
        \<longrightarrow> 1 \<le> unat (calculate_grant m req asy))
   \<and> fst (grant (calculate_grant m req asy) m) = calculate_grant m req asy"
proof -
  let ?h = "sat_sub (cc_max_credits (cm_config m)) (cm_available m)"
  have le: "calculate_grant m req asy \<le> ?h"
  proof -
    have mm: "max (min a h) (min b h) \<le> h" for a b h :: u16
      by (intro max.boundedI min.cobounded2)
    show ?thesis
      unfolding calculate_grant_def Let_def
      by (simp only: mm min.cobounded2 word_zero_le split: if_split) simp
  qed
  moreover have "1 \<le> unat (calculate_grant m req asy)"
    if "cc_adaptive_grants (cm_config m)" "cm_available m < cc_max_credits (cm_config m)"
  proof -
    have "0 < unat ?h" using that(2) by (simp add: unat_sat_sub word_less_nat_alt)
    then have "?h \<noteq> 0" by auto
    with that(1) have "min 1 ?h \<le> calculate_grant m req asy"
      unfolding calculate_grant_def Let_def by (simp only: max.cobounded2 if_False not_True_eq_False)
    then have "min 1 (unat ?h) \<le> unat (calculate_grant m req asy)"
      by (simp add: word_le_nat_alt unat_min_word)
    with \<open>0 < unat ?h\<close> show ?thesis by simp
  qed
  moreover have "fst (grant (calculate_grant m req asy) m) = calculate_grant m req asy"
    using le by (simp add: grant_def Let_def min_absorb1)
  ultimately show ?thesis by (simp add: word_le_nat_alt unat_sat_sub)
qed

theorem calculate_grant_bounds_witness:
  "calculate_grant (CreditManager_with_config CreditConfig_default) 10 False = 961 \<and>
   fst (grant 961 (CreditManager_with_config CreditConfig_default)) = 961"
proof -
  have "calculate_grant (CreditManager_with_config CreditConfig_default) 10 False = 961"
    by (simp add: calculate_grant_def CreditManager_with_config_def CreditConfig_default_def
        Let_def sat_sub_def sat_add_def)
  with calculate_grant_bounds [of "CreditManager_with_config CreditConfig_default" 10 False]
  show ?thesis by simp
qed

text \<open>At the maximum nothing is granted, and neither is it when a fixed grant of zero is set.\<close>

lemma calculate_grant_zero:
  "cm_available m = cc_max_credits (cm_config m) \<Longrightarrow> calculate_grant m req asy = 0"
  "\<not> cc_adaptive_grants (cm_config m) \<Longrightarrow> cc_grant_per_response (cm_config m) = 0 \<Longrightarrow>
     calculate_grant m req asy = 0"
  by (simp_all add: calculate_grant_def Let_def sat_sub_def)

text \<open>
  A charge that passes validation is at least what the payload needs and can be consumed at
  once: \<open>consume\<close> succeeds with that very charge and lowers the balance by it.
\<close>

theorem validated_charge_is_consumable:
  assumes "validate_charge m credit_charge payload per = Inr c"
  shows "calculate_charge payload per \<le> c \<and>
    (\<exists>m'. consume credit_charge m = (Some c, m') \<and>
       unat (cm_available m') + unat c = unat (cm_available m))"
proof -
  from assms have c: "c = max credit_charge 1" "calculate_charge payload per \<le> c"
      "max c 1 \<le> cm_available m"
    by (auto simp: validate_charge_def can_satisfy_def Let_def not_less le_max_iff_disj split: if_splits)
  then have le: "c \<le> cm_available m" by (simp add: max_def split: if_splits)
  have "unat (cm_available m - c) = unat (cm_available m) - unat c" using le by (rule unat_sub_le)
  with c le show ?thesis by (simp add: consume_def Let_def not_less word_le_nat_alt)
qed

theorem validated_charge_is_consumable_witness:
  "validate_charge (CreditManager_with_config CreditConfig_default) 2 100000 65536 = Inr 2 \<and>
   fst (consume 2 (CreditManager_with_config CreditConfig_default)) = Some 2"
proof -
  have v: "validate_charge (CreditManager_with_config CreditConfig_default) 2 100000 65536 = Inr 2"
    by (simp add: validate_charge_def calculate_charge_def can_satisfy_def Let_def sat_sub_def
        CreditManager_with_config_def CreditConfig_default_def)
  with validated_charge_is_consumable [OF v] show ?thesis by auto
qed

section \<open>Conservation under interleaving\<close>

text \<open>Credits that have left or entered the balance but are not yet in the running totals.\<close>

fun pending_consumed :: "credit_call \<Rightarrow> u64" where
  "pending_consumed (ConsumeCount c) = ucast c"
| "pending_consumed _ = 0"

fun pending_granted :: "credit_call \<Rightarrow> u64" where
  "pending_granted (GrantCount c) = ucast c"
| "pending_granted _ = 0"

text \<open>What a call knows between its load and its compare-exchange.\<close>

fun call_ok :: "CreditConfig \<Rightarrow> credit_call \<Rightarrow> bool" where
  "call_ok cfg (ConsumeCas charge current) \<longleftrightarrow> charge \<le> current"
| "call_ok cfg (GrantCas credits current actual) \<longleftrightarrow>
     unat current + unat actual \<le> unat (cc_max_credits cfg)"
| "call_ok cfg _ \<longleftrightarrow> True"

definition credit_inv :: "CreditConfig \<Rightarrow> CreditManager \<times> credit_call list \<Rightarrow> bool" where
  "credit_inv cfg = (\<lambda>(m, cs).
     cm_config m = cfg \<and> list_all (call_ok cfg) cs \<and>
     unat (cm_available m) \<le> max (unat (cc_initial_credits cfg)) (unat (cc_max_credits cfg)) \<and>
     ucast (cm_available m) + cm_consumed m + sum_list (map pending_consumed cs) =
       cm_granted m + sum_list (map pending_granted cs))"

lemma sum_list_list_update:
  "i < length xs \<Longrightarrow> sum_list (map f (xs[i := y])) = sum_list (map f xs) - f (xs ! i) + (f y :: u64)"
  by (induction xs arbitrary: i) (auto split: nat.split)

lemma unat_ucast_u16_u64: "unat (ucast (x :: u16) :: u64) = unat x"
  using unat_lt_exp [of x] by (simp add: unsigned_ucast_eq take_bit_eq_mod)

lemma ucast_u16_add:
  assumes "unat a + unat b < 2 ^ 16"
  shows "(ucast (a + b :: u16) :: u64) = ucast a + ucast b"
proof (rule unsigned_word_eqI [where ?'a = nat])
  have "unat (ucast a + ucast b :: u64) = unat a + unat b"
    using assms by (subst unat_add_no_wrap) (simp_all add: unat_ucast_u16_u64)
  then show "unat (ucast (a + b :: u16) :: u64) = unat (ucast a + ucast b :: u64)"
    using assms by (simp add: unat_add_no_wrap unat_ucast_u16_u64)
qed

lemma ucast_u16_sub:
  assumes "b \<le> a"
  shows "(ucast (a - b :: u16) :: u64) + ucast b = ucast a"
proof -
  have "unat (a - b) + unat b < 2 ^ 16"
    using assms unat_lt_exp [of a] by (simp add: unat_sub_le word_le_nat_alt)
  from ucast_u16_add [OF this] show ?thesis by simp
qed

lemma grant_load_fits:
  assumes "actual = min credits (sat_sub mx (cur :: u16))" "actual \<noteq> 0"
  shows "unat cur + unat actual \<le> unat mx"
proof -
  have "unat actual \<le> unat mx - unat cur" using assms(1) by (simp add: unat_min_word unat_sat_sub)
  moreover have "0 < unat actual" using assms(2) by (simp add: unat_gt_0)
  ultimately show ?thesis by linarith
qed

text \<open>How one step moves the balance, the totals and the pending amounts.\<close>

lemma credit_step_balance:
  assumes "credit_step (m, c) (m', c')" "call_ok cfg c" "cm_config m = cfg"
  shows "cm_config m' = cfg \<and> call_ok cfg c' \<and>
    (ucast (cm_available m') :: u64) + cm_consumed m' + pending_consumed c' + (cm_granted m + pending_granted c)
      = ucast (cm_available m) + cm_consumed m + pending_consumed c + (cm_granted m' + pending_granted c')"
  using assms
proof (cases rule: credit_step.cases)
  case (consume_cas current charge)
  then show ?thesis
    using assms(2,3) ucast_u16_sub [of charge current] by simp
next
  case (grant_cas current credits actual)
  then have "unat current + unat actual < 2 ^ 16"
    using assms(2) unat_lt_exp [of "cc_max_credits cfg"] by simp
  then show ?thesis
    using grant_cas assms(3) by (simp add: ucast_u16_add)
next
  case (grant_load actual credits)
  then show ?thesis using assms(3) grant_load_fits [of actual credits] by simp
qed (simp_all add: not_less)

lemma credit_step_bound:
  assumes "credit_step (m, c) (m', c')" "call_ok cfg c"
  shows "unat (cm_available m') \<le> max (unat (cm_available m)) (unat (cc_max_credits cfg))"
  using assms
proof (cases rule: credit_step.cases)
  case (consume_cas current charge)
  then show ?thesis using assms(2) by (simp add: unat_sub_le)
next
  case (grant_cas current credits actual)
  then show ?thesis
    using assms(2) unat_lt_exp [of "cc_max_credits cfg"] by (simp add: unat_add_no_wrap)
qed simp_all

lemma balance_move:
  fixes a c p g q a' c' p' g' q' S T :: "'a::comm_ring_1"
  assumes "a' + c' + p' + (g + q) = a + c + p + (g' + q')" "a + c + S = g + T"
  shows "a' + c' + (S - p + p') = g' + (T - q + q')"
proof -
  have "a' + c' + (S - p + p') - (g' + (T - q + q')) =
      (a' + c' + p' + (g + q) - (a + c + p + (g' + q'))) + (a + c + S - (g + T))"
    by (simp add: algebra_simps)
  also have "\<dots> = 0" using assms by simp
  finally show ?thesis by simp
qed

lemma credit_inv_step:
  assumes "credit_inv cfg (m, cs)" "i < length cs" "credit_step (m, cs ! i) (m', c')"
  shows "credit_inv cfg (m', cs[i := c'])"
proof -
  from assms(1,2) have ok: "call_ok cfg (cs ! i)" "cm_config m = cfg" "list_all (call_ok cfg) cs"
    by (auto simp: credit_inv_def list_all_length)
  note bal = credit_step_balance [OF assms(3) ok(1,2)]
  have "list_all (call_ok cfg) (cs[i := c'])"
    using ok(3) bal assms(2) by (simp add: list_all_length nth_list_update)
  moreover have "unat (cm_available m') \<le> max (unat (cc_initial_credits cfg)) (unat (cc_max_credits cfg))"
    using credit_step_bound [OF assms(3) ok(1)] assms(1) by (auto simp: credit_inv_def)
  moreover have "ucast (cm_available m') + cm_consumed m' + sum_list (map pending_consumed (cs[i := c']))
      = cm_granted m' + sum_list (map pending_granted (cs[i := c']))"
    unfolding sum_list_list_update [OF assms(2)]
    by (rule balance_move) (use bal assms(1) in \<open>auto simp: credit_inv_def\<close>)
  ultimately show ?thesis using bal by (simp add: credit_inv_def)
qed

lemma credit_run_inv: "credit_run cfg st \<Longrightarrow> credit_inv cfg st"
proof (induction rule: credit_run.induct)
  case run_new
  then show ?case by (simp add: credit_inv_def CreditManager_with_config_def)
next
  case (run_consume m cs c)
  then show ?case by (simp add: credit_inv_def start_consume_def)
next
  case (run_grant m cs c)
  then show ?case by (simp add: credit_inv_def start_grant_def)
next
  case (run_step m cs i m' c')
  then show ?case using credit_inv_step by blast
qed

text \<open>
  C6. Credits are conserved under any interleaving of any number of concurrent \<open>consume\<close> and
  \<open>grant\<close> calls: when no call is between its compare-exchange and its counter update, the
  balance plus everything consumed equals everything granted (in 64-bit arithmetic), and the
  balance never exceeds the larger of the initial and the maximum credits.
\<close>

theorem credits_conserved:
  assumes "credit_run cfg (m, cs)"
    and "list_all (\<lambda>c. \<exists>r. c = CallDone r) cs"
  shows "ucast (cm_available m) + cm_consumed m = cm_granted m
    \<and> unat (cm_available m) \<le> max (unat (cc_initial_credits cfg)) (unat (cc_max_credits cfg))"
proof -
  have "map pending_consumed cs = map (\<lambda>_. 0) cs" "map pending_granted cs = map (\<lambda>_. 0) cs"
    using assms(2) by (auto simp: list_all_iff)
  then have "sum_list (map pending_consumed cs) = 0" "sum_list (map pending_granted cs) = 0"
    by (simp_all only: sum_list_0)
  with credit_run_inv [OF assms(1)] show ?thesis unfolding credit_inv_def by simp
qed

lemma demo_credit_run:
  "credit_run CreditConfig_default
     ((CreditManager_with_config CreditConfig_default)\<lparr> cm_available := 246, cm_consumed := 10 \<rparr>,
      [CallDone (Some 10)])"
proof -
  let ?m = "CreditManager_with_config CreditConfig_default"
  have av: "cm_available ?m = 256" "cm_consumed ?m = 0"
    by (simp_all add: CreditManager_with_config_def CreditConfig_default_def)
  have 1: "credit_run CreditConfig_default (?m, [ConsumeLoad 10])"
    using run_consume [OF run_new, of CreditConfig_default 10] by (simp add: start_consume_def)
  have 2: "credit_run CreditConfig_default (?m, [ConsumeCas 10 256])"
    using run_step [OF 1, of 0] consume_load [of ?m 10] by (simp add: av)
  have 3: "credit_run CreditConfig_default (?m\<lparr> cm_available := 246 \<rparr>, [ConsumeCount 10])"
    using run_step [OF 2, of 0] consume_cas [of ?m 256 10] by (simp add: av)
  show ?thesis
    using run_step [OF 3, of 0] consume_count [of "?m\<lparr> cm_available := 246 \<rparr>" 10]
    by (simp add: av)
qed

theorem credits_conserved_witness:
  "ucast (246 :: u16) + 10 = (256 :: u64) \<and>
   cm_granted (CreditManager_with_config CreditConfig_default) = 256"
  using credits_conserved [OF demo_credit_run]
  by (simp add: CreditManager_with_config_def CreditConfig_default_def)

end
