(* ===== verification/Compound.thy ===== *)
theory Compound
  imports Smb_Prelude
begin

text \<open>
  \<open>crates/rustsmb-session/src/compound.rs\<close>: the context that a chain of related commands shares,
  the queue of pending compounds, and the splitting of a message at its \<open>NextCommand\<close> fields.
  \<open>usize\<close> indices into a message are \<open>nat\<close>.
\<close>

section \<open>Compound context\<close>

record FileId =
  fid_persistent :: u128
  fid_volatile :: u128

definition RELATED_SENTINEL :: u128 where
  "RELATED_SENTINEL = ucast (- 1 :: u64) OR push_bit 64 (ucast (- 1 :: u64))"

definition is_related_sentinel :: "FileId \<Rightarrow> bool" where
  "is_related_sentinel f \<longleftrightarrow>
     fid_persistent f = RELATED_SENTINEL \<and> fid_volatile f = RELATED_SENTINEL"

record CompoundResult =
  cr_status :: u32
  cr_success :: bool
  cr_file_id :: "FileId option"

definition CompoundResult_success :: CompoundResult where
  "CompoundResult_success = \<lparr> cr_status = 0, cr_success = True, cr_file_id = None \<rparr>"

definition CompoundResult_success_with_file :: "FileId \<Rightarrow> CompoundResult" where
  "CompoundResult_success_with_file f =
     \<lparr> cr_status = 0, cr_success = True, cr_file_id = Some f \<rparr>"

definition CompoundResult_failure :: "u32 \<Rightarrow> CompoundResult" where
  "CompoundResult_failure status = \<lparr> cr_status = status, cr_success = False, cr_file_id = None \<rparr>"

record CompoundContext =
  ctx_related :: bool
  ctx_session_id :: "u64 option"
  ctx_tree_id :: "u32 option"
  ctx_file_id :: "FileId option"
  ctx_current_index :: nat
  ctx_total_commands :: nat
  ctx_previous_results :: "CompoundResult list"

definition CompoundContext_unrelated :: "nat \<Rightarrow> CompoundContext" where
  "CompoundContext_unrelated n = \<lparr> ctx_related = False, ctx_session_id = None,
     ctx_tree_id = None, ctx_file_id = None, ctx_current_index = 0, ctx_total_commands = n,
     ctx_previous_results = [] \<rparr>"

definition CompoundContext_related :: "nat \<Rightarrow> CompoundContext" where
  "CompoundContext_related n = \<lparr> ctx_related = True, ctx_session_id = None,
     ctx_tree_id = None, ctx_file_id = None, ctx_current_index = 0, ctx_total_commands = n,
     ctx_previous_results = [] \<rparr>"

definition is_first :: "CompoundContext \<Rightarrow> bool" where
  "is_first c \<longleftrightarrow> ctx_current_index c = 0"

definition is_last :: "CompoundContext \<Rightarrow> bool" where
  "is_last c \<longleftrightarrow> ctx_total_commands c \<le> ctx_current_index c + 1"

definition resolve_session_id :: "CompoundContext \<Rightarrow> u64 \<Rightarrow> u64 option" where
  "resolve_session_id c request_session_id =
     (if \<not> ctx_related c \<or> is_first c then Some request_session_id
      else if request_session_id = - 1 then ctx_session_id c
      else Some request_session_id)"

definition resolve_tree_id :: "CompoundContext \<Rightarrow> u32 \<Rightarrow> u32 option" where
  "resolve_tree_id c request_tree_id =
     (if \<not> ctx_related c \<or> is_first c then Some request_tree_id
      else if request_tree_id = - 1 then ctx_tree_id c
      else Some request_tree_id)"

definition resolve_file_id :: "CompoundContext \<Rightarrow> FileId \<Rightarrow> FileId option" where
  "resolve_file_id c request_file_id =
     (if \<not> ctx_related c then Some request_file_id
      else if is_related_sentinel request_file_id then ctx_file_id c
      else Some request_file_id)"

definition advance :: "CompoundResult \<Rightarrow> CompoundContext \<Rightarrow> CompoundContext" where
  "advance result c =
     (let c1 = (if cr_success result \<and> cr_file_id result \<noteq> None
                then c\<lparr> ctx_file_id := cr_file_id result \<rparr> else c) in
      c1\<lparr> ctx_previous_results := ctx_previous_results c1 @ [result],
          ctx_current_index := ctx_current_index c1 + 1 \<rparr>)"

definition set_session_id :: "u64 \<Rightarrow> CompoundContext \<Rightarrow> CompoundContext" where
  "set_session_id sid c = c\<lparr> ctx_session_id := Some sid \<rparr>"

definition set_tree_id :: "u32 \<Rightarrow> CompoundContext \<Rightarrow> CompoundContext" where
  "set_tree_id tid c = c\<lparr> ctx_tree_id := Some tid \<rparr>"

definition has_previous_failure :: "CompoundContext \<Rightarrow> bool" where
  "has_previous_failure c \<longleftrightarrow> list_ex (\<lambda>r. \<not> cr_success r) (ctx_previous_results c)"

definition last_failure_status :: "CompoundContext \<Rightarrow> u32 option" where
  "last_failure_status c =
     map_option cr_status (find (\<lambda>r. \<not> cr_success r) (rev (ctx_previous_results c)))"

section \<open>Pending compounds\<close>

record PendingCompound =
  pc_id :: u64
  pc_context :: CompoundContext
  pc_first_message_id :: u64

record CompoundQueue =
  cq_pending :: "PendingCompound list"
  cq_next_id :: u64
  cq_max_pending :: nat

definition CompoundQueue_new :: "nat \<Rightarrow> CompoundQueue" where
  "CompoundQueue_new max_pending =
     \<lparr> cq_pending = [], cq_next_id = 1, cq_max_pending = max_pending \<rparr>"

definition cq_start :: "CompoundContext \<Rightarrow> u64 \<Rightarrow> CompoundQueue \<Rightarrow> u64 option \<times> CompoundQueue" where
  "cq_start context first_message_id q =
     (if cq_max_pending q \<le> length (cq_pending q) then (None, q)
      else
        let i = cq_next_id q in
        (Some i, q\<lparr> cq_next_id := i + 1,
           cq_pending := cq_pending q @
             [\<lparr> pc_id = i, pc_context = context, pc_first_message_id = first_message_id \<rparr>] \<rparr>))"

definition cq_get :: "CompoundQueue \<Rightarrow> u64 \<Rightarrow> PendingCompound option" where
  "cq_get q i = find (\<lambda>c. pc_id c = i) (cq_pending q)"

text \<open>\<open>iter().position(p)\<close> followed by \<open>remove(pos)\<close>.\<close>

fun remove_first :: "('a \<Rightarrow> bool) \<Rightarrow> 'a list \<Rightarrow> 'a list" where
  "remove_first P [] = []"
| "remove_first P (x # xs) = (if P x then xs else x # remove_first P xs)"

definition cq_complete :: "u64 \<Rightarrow> CompoundQueue \<Rightarrow> PendingCompound option \<times> CompoundQueue" where
  "cq_complete i q =
     (case find (\<lambda>c. pc_id c = i) (cq_pending q) of
        Some c \<Rightarrow> (Some c, q\<lparr> cq_pending := remove_first (\<lambda>c. pc_id c = i) (cq_pending q) \<rparr>)
      | None \<Rightarrow> (None, q))"

definition cq_len :: "CompoundQueue \<Rightarrow> nat" where
  "cq_len q = length (cq_pending q)"

section \<open>Message boundaries\<close>

definition next_command_at :: "bytes \<Rightarrow> nat \<Rightarrow> nat" where
  "next_command_at data current = unat (from_le (slice (current + 20) 4 data) :: u32)"

text \<open>
  The \<open>while\<close> loop of \<open>parse_compound_offsets\<close>: it returns the offsets pushed from \<open>current\<close> on.
  Every iteration that does not break moves \<open>current\<close> forward, so the loop ends.
\<close>

function parse_offsets_from :: "bytes \<Rightarrow> nat \<Rightarrow> nat list" where
  "parse_offsets_from data current =
     (if length data \<le> current then []
      else if length data < current + 64 then [current]
      else if length data < current + 20 + 4 then [current]
      else
        let next_command = next_command_at data current in
        if next_command = 0 then [current]
        else current # parse_offsets_from data (current + next_command))"
  by pat_completeness auto
termination
  by (relation "measure (\<lambda>(data, current). length data - current)") auto

declare parse_offsets_from.simps [simp del]

definition parse_compound_offsets :: "bytes \<Rightarrow> nat list" where
  "parse_compound_offsets data = parse_offsets_from data 0"

definition compound_padding :: "nat \<Rightarrow> nat" where
  "compound_padding offset = (8 - offset mod 8) mod 8"

section \<open>Lemmas\<close>

lemma parse_offsets_sorted:
  "sorted_wrt (<) (parse_offsets_from data current) \<and>
   (\<forall>x \<in> set (parse_offsets_from data current). current \<le> x \<and> x < length data)"
proof (induction data current rule: parse_offsets_from.induct)
  case (1 data current)
  show ?case
  proof (cases "length data < current + 64 \<or> next_command_at data current = 0")
    case True
    then show ?thesis by (auto simp: parse_offsets_from.simps [of data current] Let_def)
  next
    case False
    then have eq: "parse_offsets_from data current =
        current # parse_offsets_from data (current + next_command_at data current)"
      by (simp add: parse_offsets_from.simps [of data current] Let_def)
    from 1 False have "sorted_wrt (<) (parse_offsets_from data (current + next_command_at data current))"
      "\<forall>x \<in> set (parse_offsets_from data (current + next_command_at data current)).
         current + next_command_at data current \<le> x \<and> x < length data"
      by auto
    with False show ?thesis unfolding eq by force
  qed
qed

text \<open>
  C30. Splitting any received message, however hostile its \<open>NextCommand\<close> fields, ends with a
  strictly increasing list of offsets inside the message, beginning at zero, so the commands it
  delimits are non-empty and disjoint.
\<close>

theorem parse_compound_offsets_wf:
  "sorted_wrt (<) (parse_compound_offsets data)
   \<and> (\<forall>x \<in> set (parse_compound_offsets data). x < length data)
   \<and> (if data = [] then parse_compound_offsets data = [] else hd (parse_compound_offsets data) = 0)"
  using parse_offsets_sorted [of data 0] parse_offsets_from.simps [of data 0]
  by (auto simp: parse_compound_offsets_def Let_def)

theorem parse_compound_offsets_wf_witness:
  "parse_compound_offsets (replicate 20 0 @ [64, 0, 0, 0] @ replicate 104 0) = [0, 64] \<and>
   sorted_wrt (<) (parse_compound_offsets (replicate 20 0 @ [64, 0, 0, 0] @ replicate 104 0))"
proof -
  let ?d = "replicate 20 0 @ [64, 0, 0, 0] @ replicate 104 0 :: bytes"
  have "parse_compound_offsets ?d = [0, 64]" by code_simp
  with parse_compound_offsets_wf [of ?d] show ?thesis by simp
qed

text \<open>
  Padding brings any offset to the next multiple of eight, using the fewest bytes.
\<close>

theorem compound_padding_aligns:
  "8 dvd (offset + compound_padding offset) \<and> compound_padding offset < 8
   \<and> (\<forall>k < compound_padding offset. \<not> 8 dvd (offset + k))"
proof -
  define q r where "q = offset div 8" and "r = offset mod 8"
  have o: "offset = 8 * q + r" "r < 8" by (simp_all add: q_def r_def)
  have p: "compound_padding offset = (if r = 0 then 0 else 8 - r)"
    by (simp add: compound_padding_def r_def)
  have "8 dvd (offset + compound_padding offset)"
  proof (cases "r = 0")
    case True
    then have "compound_padding offset = 0" by (simp add: p)
    with True o show ?thesis by simp
  next
    case False
    then have pad: "compound_padding offset = 8 - r" by (simp add: p)
    have "offset + (8 - r) = 8 * (q + 1)" using o by simp
    then show ?thesis unfolding pad by (metis dvd_triv_left)
  qed
  moreover have "\<not> 8 dvd (offset + k)" if "k < compound_padding offset" for k
  proof -
    from that o(2) have "0 < r + k" "r + k < 8" by (auto simp: p split: if_splits)
    then have "(8 * q + (r + k)) mod 8 = r + k" by simp
    moreover have "offset + k = 8 * q + (r + k)" using o(1) by simp
    ultimately have "(offset + k) mod 8 = r + k" by (simp only:)
    with \<open>0 < r + k\<close> show ?thesis by (simp only: dvd_eq_mod_eq_0)
  qed
  moreover have "compound_padding offset < 8" by (simp add: compound_padding_def)
  ultimately show ?thesis by blast
qed

theorem compound_padding_aligns_witness: "compound_padding 77 = 3 \<and> 8 dvd (77 + compound_padding 77)"
  using compound_padding_aligns [of 77] by (simp add: compound_padding_def)

lemma advance_frame [simp]:
  "ctx_related (advance r c) = ctx_related c"
  "ctx_session_id (advance r c) = ctx_session_id c"
  "ctx_tree_id (advance r c) = ctx_tree_id c"
  "ctx_total_commands (advance r c) = ctx_total_commands c"
  "ctx_current_index (advance r c) = Suc (ctx_current_index c)"
  "ctx_previous_results (advance r c) = ctx_previous_results c @ [r]"
  by (simp_all add: advance_def Let_def)

lemma advance_file_id:
  "ctx_file_id (advance r c) =
     (if cr_success r \<and> cr_file_id r \<noteq> None then cr_file_id r else ctx_file_id c)"
  by (auto simp: advance_def Let_def)

lemma fold_advance_related: "ctx_related (fold advance rs c) = ctx_related c"
  by (induction rs arbitrary: c) auto

lemma fold_advance_results:
  "ctx_previous_results (fold advance rs c) = ctx_previous_results c @ rs"
  by (induction rs arbitrary: c) auto

lemma fold_advance_file_id:
  "ctx_file_id (fold advance rs c) =
     (let creates = filter (\<lambda>r. cr_success r \<and> cr_file_id r \<noteq> None) rs in
      if creates = [] then ctx_file_id c else cr_file_id (last creates))"
proof (induction rs rule: rev_induct)
  case Nil
  then show ?case by simp
next
  case (snoc r rs)
  then show ?case by (auto simp: advance_file_id Let_def)
qed

text \<open>
  C33. In a related chain the sentinel file id stands for the file of the latest successful CREATE
  before it, wherever in the chain that was; and the status reported for the chain is that of its
  latest failed command.
\<close>

theorem related_chain_context:
  assumes "is_related_sentinel f"
  shows "(let c = fold advance rs (CompoundContext_related n);
              creates = filter (\<lambda>r. cr_success r \<and> cr_file_id r \<noteq> None) rs;
              failures = filter (\<lambda>r. \<not> cr_success r) rs in
     resolve_file_id c f = (if creates = [] then None else cr_file_id (last creates))
     \<and> has_previous_failure c = (failures \<noteq> [])
     \<and> last_failure_status c = (if failures = [] then None else Some (cr_status (last failures))))"
proof -
  have find_rev: "find P (rev xs) = (if filter P xs = [] then None else Some (last (filter P xs)))"
    for P and xs :: "CompoundResult list"
    by (induction xs rule: rev_induct) auto
  show ?thesis
    unfolding Let_def resolve_file_id_def has_previous_failure_def last_failure_status_def
      fold_advance_related fold_advance_results fold_advance_file_id find_rev
    using assms by (auto simp: CompoundContext_related_def list_ex_iff filter_empty_conv)
qed

theorem related_chain_context_witness:
  "resolve_file_id (fold advance [CompoundResult_success_with_file \<lparr> fid_persistent = 5, fid_volatile = 6 \<rparr>,
       CompoundResult_success] (CompoundContext_related 3))
     \<lparr> fid_persistent = RELATED_SENTINEL, fid_volatile = RELATED_SENTINEL \<rparr>
   = Some \<lparr> fid_persistent = 5, fid_volatile = 6 \<rparr>"
proof -
  have "is_related_sentinel \<lparr> fid_persistent = RELATED_SENTINEL, fid_volatile = RELATED_SENTINEL \<rparr>"
    by (simp add: is_related_sentinel_def)
  from related_chain_context [OF this, of "[CompoundResult_success_with_file
        \<lparr> fid_persistent = 5, fid_volatile = 6 \<rparr>, CompoundResult_success]" 3]
  show ?thesis
    by (simp add: Let_def CompoundResult_success_with_file_def CompoundResult_success_def)
qed

text \<open>
  The queue of pending compounds never holds more than its limit, and a compound that was
  accepted can be looked up and completed by the id it was given as long as no other pending
  compound has that id.
\<close>

theorem compound_queue_start:
  assumes "cq_start ctx mid q = (r, q')" "cq_len q \<le> cq_max_pending q"
  shows "cq_len q' \<le> cq_max_pending q' \<and>
    (r = None \<longleftrightarrow> cq_len q = cq_max_pending q) \<and>
    (\<forall>i. r = Some i \<and> cq_get q i = None \<longrightarrow>
       (\<exists>p. cq_get q' i = Some p \<and> pc_context p = ctx \<and> pc_first_message_id p = mid
          \<and> fst (cq_complete i q') = Some p
          \<and> cq_pending (snd (cq_complete i q')) = cq_pending q))"
proof -
  have rf: "find P xs = None \<Longrightarrow> P x \<Longrightarrow> find P (xs @ [x]) = Some x \<and> remove_first P (xs @ [x]) = xs"
    for P and xs :: "PendingCompound list" and x
    by (induction xs) (auto split: if_splits)
  show ?thesis
  proof (cases "cq_max_pending q \<le> length (cq_pending q)")
    case True
    with assms show ?thesis by (auto simp: cq_start_def cq_len_def)
  next
    case False
    let ?p = "\<lparr> pc_id = cq_next_id q, pc_context = ctx, pc_first_message_id = mid \<rparr>"
    from False assms(1) have q': "q' = q\<lparr> cq_next_id := cq_next_id q + 1, cq_pending := cq_pending q @ [?p] \<rparr>"
      and r: "r = Some (cq_next_id q)" by (auto simp: cq_start_def Let_def)
    from rf [of "\<lambda>c. pc_id c = cq_next_id q" "cq_pending q" ?p] False show ?thesis
      by (auto simp: q' r cq_get_def cq_complete_def cq_len_def)
  qed
qed

theorem compound_queue_start_witness:
  "cq_len (snd (cq_start (CompoundContext_related 2) 9 (CompoundQueue_new 1))) = 1 \<and>
   fst (cq_start (CompoundContext_related 2) 9 (CompoundQueue_new 1)) \<noteq> None"
  using compound_queue_start [OF surjective_pairing, of "CompoundQueue_new 1" "CompoundContext_related 2" 9]
  by (simp add: CompoundQueue_new_def cq_len_def cq_start_def Let_def)

end
