(* ===== verification/Async_Request.thy ===== *)
theory Async_Request
  imports Smb_Prelude
begin

text \<open>
  \<open>crates/rustsmb-session/src/async_request.rs\<close>: requests that were answered with
  \<open>STATUS_PENDING\<close> and complete later. Instants and durations are natural numbers of one unit, the
  clock reading is the argument \<open>now\<close>. Sending on a request's oneshot channel is part of the
  result: \<open>complete\<close> returns the completion it delivers.
\<close>

record AsyncRequestConfig =
  arc_max_pending :: nat
  arc_default_timeout :: nat
  arc_send_interim_response :: bool

datatype AsyncOperationType =
  ChangeNotify | LockWait | OplockBreakWait | AsyncWrite | AsyncRead | AsyncOther

record AsyncRequest =
  ar_async_id :: u64
  ar_message_id :: u64
  ar_session_id :: u64
  ar_tree_id :: u32
  ar_file_id :: "(u128 \<times> u128) option"
  ar_operation :: AsyncOperationType
  ar_created :: nat
  ar_timeout :: nat
  ar_command :: u16
  ar_cancelled :: bool

definition is_timed_out :: "nat \<Rightarrow> AsyncRequest \<Rightarrow> bool" where
  "is_timed_out now r \<longleftrightarrow> ar_timeout r < now - ar_created r"

definition ar_remaining :: "nat \<Rightarrow> AsyncRequest \<Rightarrow> nat" where
  "ar_remaining now r = ar_timeout r - (now - ar_created r)"

record AsyncCompletion =
  ac_request :: AsyncRequest
  ac_status :: u32
  ac_data :: bytes

record AsyncRequestTracker =
  at_pending :: "(u64, AsyncRequest) hash_map"
  at_message_to_async :: "(u64, u64) hash_map"
  at_next_async_id :: u64
  at_config :: AsyncRequestConfig
  at_notifiers :: "(u64, unit) hash_map"

definition AsyncRequestTracker_with_config :: "AsyncRequestConfig \<Rightarrow> AsyncRequestTracker" where
  "AsyncRequestTracker_with_config cfg = \<lparr> at_pending = [], at_message_to_async = [],
     at_next_async_id = 1, at_config = cfg, at_notifiers = [] \<rparr>"

definition at_register_with_timeout ::
  "nat \<Rightarrow> u64 \<Rightarrow> u64 \<Rightarrow> u32 \<Rightarrow> AsyncOperationType \<Rightarrow> u16 \<Rightarrow> nat \<Rightarrow> AsyncRequestTracker
     \<Rightarrow> u64 option \<times> AsyncRequestTracker" where
  "at_register_with_timeout now message_id session_id tree_id operation command timeout t =
     (if arc_max_pending (at_config t) \<le> length (at_pending t) then (None, t)
      else
        let async_id = at_next_async_id t;
            request = \<lparr> ar_async_id = async_id, ar_message_id = message_id,
              ar_session_id = session_id, ar_tree_id = tree_id, ar_file_id = None,
              ar_operation = operation, ar_created = now, ar_timeout = timeout,
              ar_command = command, ar_cancelled = False \<rparr>
        in (Some async_id,
            t\<lparr> at_next_async_id := async_id + 1,
               at_pending := hm_insert async_id request (at_pending t),
               at_message_to_async := hm_insert message_id async_id (at_message_to_async t),
               at_notifiers := hm_insert async_id () (at_notifiers t) \<rparr>))"

definition at_register ::
  "nat \<Rightarrow> u64 \<Rightarrow> u64 \<Rightarrow> u32 \<Rightarrow> AsyncOperationType \<Rightarrow> u16 \<Rightarrow> AsyncRequestTracker
     \<Rightarrow> u64 option \<times> AsyncRequestTracker" where
  "at_register now message_id session_id tree_id operation command t =
     at_register_with_timeout now message_id session_id tree_id operation command
       (arc_default_timeout (at_config t)) t"

definition at_register_with_file ::
  "nat \<Rightarrow> u64 \<Rightarrow> u64 \<Rightarrow> u32 \<Rightarrow> u128 \<times> u128 \<Rightarrow> AsyncOperationType \<Rightarrow> u16 \<Rightarrow> AsyncRequestTracker
     \<Rightarrow> u64 option \<times> AsyncRequestTracker" where
  "at_register_with_file now message_id session_id tree_id file_id operation command t =
     (case at_register now message_id session_id tree_id operation command t of
        (None, t1) \<Rightarrow> (None, t1)
      | (Some i, t1) \<Rightarrow>
          (Some i,
           case hm_get (at_pending t1) i of
             Some r \<Rightarrow> t1\<lparr> at_pending := hm_insert i (r\<lparr> ar_file_id := Some file_id \<rparr>) (at_pending t1) \<rparr>
           | None \<Rightarrow> t1))"

definition at_get :: "AsyncRequestTracker \<Rightarrow> u64 \<Rightarrow> AsyncRequest option" where
  "at_get t i = hm_get (at_pending t) i"

definition at_get_by_message_id :: "AsyncRequestTracker \<Rightarrow> u64 \<Rightarrow> AsyncRequest option" where
  "at_get_by_message_id t mid =
     Option.bind (hm_get (at_message_to_async t) mid) (hm_get (at_pending t))"

definition at_complete ::
  "u64 \<Rightarrow> u32 \<Rightarrow> bytes \<Rightarrow> AsyncRequestTracker
     \<Rightarrow> (AsyncRequest option \<times> AsyncCompletion option) \<times> AsyncRequestTracker" where
  "at_complete async_id status dat t =
     (case hm_get (at_pending t) async_id of
        None \<Rightarrow> ((None, None), t)
      | Some request \<Rightarrow>
          let t1 = t\<lparr> at_pending := hm_remove async_id (at_pending t),
                      at_message_to_async := hm_remove (ar_message_id request) (at_message_to_async t) \<rparr>
          in case hm_get (at_notifiers t1) async_id of
               Some _ \<Rightarrow>
                 ((Some request,
                   Some \<lparr> ac_request = request\<lparr> ar_async_id := async_id \<rparr>, ac_status = status,
                          ac_data = dat \<rparr>),
                  t1\<lparr> at_notifiers := hm_remove async_id (at_notifiers t1) \<rparr>)
             | None \<Rightarrow> ((Some request, None), t1))"

definition at_cancel ::
  "u64 \<Rightarrow> AsyncRequestTracker
     \<Rightarrow> (AsyncRequest option \<times> AsyncCompletion option) \<times> AsyncRequestTracker" where
  "at_cancel async_id t =
     (let t1 = (case hm_get (at_pending t) async_id of
                  Some r \<Rightarrow> t\<lparr> at_pending :=
                    hm_insert async_id (r\<lparr> ar_cancelled := True \<rparr>) (at_pending t) \<rparr>
                | None \<Rightarrow> t)
      in at_complete async_id 0xC0000120 [] t1)"

definition at_cancel_by_message_id ::
  "u64 \<Rightarrow> AsyncRequestTracker
     \<Rightarrow> (AsyncRequest option \<times> AsyncCompletion option) \<times> AsyncRequestTracker" where
  "at_cancel_by_message_id message_id t =
     (case hm_get (at_message_to_async t) message_id of
        None \<Rightarrow> ((None, None), t)
      | Some async_id \<Rightarrow> at_cancel async_id t)"

text \<open>\<open>ids.into_iter().filter_map(|id| f(id)).collect()\<close> with the completions sent on the way.\<close>

fun at_each ::
  "(u64 \<Rightarrow> AsyncRequestTracker \<Rightarrow> (AsyncRequest option \<times> AsyncCompletion option) \<times> AsyncRequestTracker)
     \<Rightarrow> u64 list \<Rightarrow> AsyncRequestTracker
     \<Rightarrow> (AsyncRequest list \<times> AsyncCompletion list) \<times> AsyncRequestTracker" where
  "at_each f [] t = (([], []), t)"
| "at_each f (i # is) t =
     (let ((r, c), t1) = f i t; ((rs, cs), t2) = at_each f is t1 in
      ((case r of Some x \<Rightarrow> x # rs | None \<Rightarrow> rs, case c of Some x \<Rightarrow> x # cs | None \<Rightarrow> cs), t2))"

definition at_ids :: "(AsyncRequest \<Rightarrow> bool) \<Rightarrow> AsyncRequestTracker \<Rightarrow> u64 list" where
  "at_ids P t = map fst (filter (\<lambda>(_, r). P r) (at_pending t))"

definition at_cancel_session ::
  "u64 \<Rightarrow> AsyncRequestTracker \<Rightarrow> (AsyncRequest list \<times> AsyncCompletion list) \<times> AsyncRequestTracker" where
  "at_cancel_session session_id t = at_each at_cancel (at_ids (\<lambda>r. ar_session_id r = session_id) t) t"

definition at_cancel_tree ::
  "u64 \<Rightarrow> u32 \<Rightarrow> AsyncRequestTracker \<Rightarrow> (AsyncRequest list \<times> AsyncCompletion list) \<times> AsyncRequestTracker" where
  "at_cancel_tree session_id tree_id t =
     at_each at_cancel (at_ids (\<lambda>r. ar_session_id r = session_id \<and> ar_tree_id r = tree_id) t) t"

definition at_cancel_file ::
  "u128 \<times> u128 \<Rightarrow> AsyncRequestTracker \<Rightarrow> (AsyncRequest list \<times> AsyncCompletion list) \<times> AsyncRequestTracker" where
  "at_cancel_file file_id t = at_each at_cancel (at_ids (\<lambda>r. ar_file_id r = Some file_id) t) t"

definition at_cleanup_expired ::
  "nat \<Rightarrow> AsyncRequestTracker \<Rightarrow> (AsyncRequest list \<times> AsyncCompletion list) \<times> AsyncRequestTracker" where
  "at_cleanup_expired now t =
     at_each (\<lambda>i. at_complete i 0xC00000B5 []) (at_ids (is_timed_out now) t) t"

definition at_pending_count :: "AsyncRequestTracker \<Rightarrow> nat" where
  "at_pending_count t = length (at_pending t)"

definition at_get_change_notify_for_file :: "AsyncRequestTracker \<Rightarrow> u128 \<times> u128 \<Rightarrow> AsyncRequest list" where
  "at_get_change_notify_for_file t file_id =
     filter (\<lambda>r. ar_operation r = ChangeNotify \<and> ar_file_id r = Some file_id) (hm_values (at_pending t))"

section \<open>Tracker invariant\<close>

text \<open>
  Pending requests are filed under their own id, each has exactly one notifier, every message id
  in the index leads to a pending request with that message id, and all ids are below the counter.
\<close>

definition at_wf :: "AsyncRequestTracker \<Rightarrow> bool" where
  "at_wf t \<longleftrightarrow> hm_wf (at_pending t) \<and> hm_wf (at_message_to_async t) \<and> hm_wf (at_notifiers t) \<and>
     (\<forall>i r. hm_get (at_pending t) i = Some r \<longrightarrow> ar_async_id r = i \<and> i < at_next_async_id t) \<and>
     (\<forall>i. hm_get (at_notifiers t) i \<noteq> None \<longleftrightarrow> hm_get (at_pending t) i \<noteq> None) \<and>
     (\<forall>m i. hm_get (at_message_to_async t) m = Some i \<longrightarrow>
        (\<exists>r. hm_get (at_pending t) i = Some r \<and> ar_message_id r = m)) \<and>
     length (at_pending t) \<le> arc_max_pending (at_config t)"

lemma at_wf_new: "at_wf (AsyncRequestTracker_with_config cfg)"
  by (simp add: at_wf_def AsyncRequestTracker_with_config_def)

lemma word_less_suc: "unat a + 1 < 2 ^ LENGTH('a) \<Longrightarrow> i < a + 1 \<longleftrightarrow> i < a \<or> i = (a :: 'a::len word)"
  by (auto simp: word_less_nat_alt unat_add_no_wrap word_eq_iff_unsigned [where ?'a = nat])

lemma at_register_wf:
  assumes "at_wf t" "unat (at_next_async_id t) + 1 < 2 ^ 64"
  shows "at_wf (snd (at_register_with_timeout now mid sid tid op cmd timeout t))"
proof (cases "arc_max_pending (at_config t) \<le> length (at_pending t)")
  case True
  with assms(1) show ?thesis by (simp add: at_register_with_timeout_def)
next
  case False
  have fresh: "hm_get (at_pending t) (at_next_async_id t) = None"
    using assms(1) by (cases "hm_get (at_pending t) (at_next_async_id t)") (auto simp: at_wf_def)
  have "length (hm_insert (at_next_async_id t) r (at_pending t)) = Suc (length (at_pending t))" for r
    using fresh by (rule length_hm_insert)
  moreover have "hm_get (at_message_to_async t) m \<noteq> Some (at_next_async_id t)" for m
    using assms(1) fresh unfolding at_wf_def by (metis option.distinct(1))
  ultimately show ?thesis
    using assms False fresh
    by (auto simp: at_register_with_timeout_def at_wf_def Let_def hm_simps word_less_suc)
qed

lemma at_wf_modify:
  assumes "at_wf t" "hm_get (at_pending t) i = Some r"
    and "ar_async_id r' = ar_async_id r" "ar_message_id r' = ar_message_id r"
  shows "at_wf (t\<lparr> at_pending := hm_insert i r' (at_pending t) \<rparr>)"
proof -
  have "\<exists>q. ((hm_get (at_pending t))(i \<mapsto> r')) j = Some q \<and> ar_message_id q = m"
    if "hm_get (at_message_to_async t) m = Some j" for m j
  proof -
    from that assms(1) obtain q where "hm_get (at_pending t) j = Some q" "ar_message_id q = m"
      unfolding at_wf_def by blast
    with assms(2,4) show ?thesis by auto
  qed
  with assms length_hm_insert_present [OF assms(2)] show ?thesis
    by (auto simp: at_wf_def hm_simps)
qed

lemma at_register_with_file_wf:
  assumes "at_wf t" "unat (at_next_async_id t) + 1 < 2 ^ 64"
  shows "at_wf (snd (at_register_with_file now mid sid tid fid op cmd t))"
proof -
  obtain r t1 where reg: "at_register now mid sid tid op cmd t = (r, t1)" by force
  have wf: "at_wf t1"
    using at_register_wf [OF assms] reg by (metis at_register_def snd_conv)
  then show ?thesis
    using at_wf_modify [of t1] reg by (simp add: at_register_with_file_def split: option.split)
qed

lemma at_complete_effect:
  assumes "at_wf t" "hm_get (at_pending t) i = Some r"
  shows "\<exists>t'. at_complete i st d t = ((Some r, Some \<lparr> ac_request = r, ac_status = st, ac_data = d \<rparr>), t')
    \<and> at_wf t' \<and> hm_get (at_pending t') = (hm_get (at_pending t))(i := None)
    \<and> at_next_async_id t' = at_next_async_id t"
proof -
  let ?t' = "t\<lparr> at_pending := hm_remove i (at_pending t),
    at_message_to_async := hm_remove (ar_message_id r) (at_message_to_async t),
    at_notifiers := hm_remove i (at_notifiers t) \<rparr>"
  have id: "ar_async_id r = i" and has_note: "hm_get (at_notifiers t) i = Some ()"
    using assms by (auto simp: at_wf_def)
  have "at_complete i st d t = ((Some r, Some \<lparr> ac_request = r, ac_status = st, ac_data = d \<rparr>), ?t')"
    using assms(2) id has_note by (simp add: at_complete_def)
  moreover have "\<exists>q. ((hm_get (at_pending t))(i := None)) j = Some q \<and> ar_message_id q = m"
    if "((hm_get (at_message_to_async t))(ar_message_id r := None)) m = Some j" for m j
  proof -
    from that assms(1) have "m \<noteq> ar_message_id r" "\<exists>q. hm_get (at_pending t) j = Some q \<and> ar_message_id q = m"
      by (auto simp: at_wf_def split: if_splits)
    with assms(2) show ?thesis by auto
  qed
  then have "at_wf ?t'"
    using assms(1) order.trans [OF length_hm_remove_le]
    by (auto simp: at_wf_def hm_simps split: if_splits)
  ultimately show ?thesis by (simp add: hm_simps)
qed

abbreviation (input) mark_cancelled :: "AsyncRequest \<Rightarrow> AsyncRequest" where
  "mark_cancelled r \<equiv> r\<lparr> ar_cancelled := True \<rparr>"

lemma at_cancel_effect:
  assumes "at_wf t" "hm_get (at_pending t) i = Some r"
  shows "\<exists>t'. at_cancel i t = ((Some (mark_cancelled r),
      Some \<lparr> ac_request = mark_cancelled r, ac_status = 0xC0000120, ac_data = [] \<rparr>), t')
    \<and> at_wf t' \<and> hm_get (at_pending t') = (hm_get (at_pending t))(i := None)
    \<and> at_next_async_id t' = at_next_async_id t"
proof -
  let ?t1 = "t\<lparr> at_pending := hm_insert i (mark_cancelled r) (at_pending t) \<rparr>"
  have "at_wf ?t1" using assms by (rule at_wf_modify) simp_all
  moreover have "hm_get (at_pending ?t1) i = Some (mark_cancelled r)" by (simp add: hm_simps)
  ultimately show ?thesis
    using at_complete_effect [of ?t1 i "mark_cancelled r" "0xC0000120" "[]"] assms(2)
    by (auto simp: at_cancel_def hm_simps)
qed

lemma at_each_effect:
  assumes step: "\<And>i t r. at_wf t \<Longrightarrow> hm_get (at_pending t) i = Some r \<Longrightarrow>
      \<exists>t'. f i t = ((Some (g r), Some (k r)), t') \<and> at_wf t' \<and>
        hm_get (at_pending t') = (hm_get (at_pending t))(i := None)
        \<and> at_next_async_id t' = at_next_async_id t"
    and "at_wf t" "distinct ids" "\<forall>i \<in> set ids. hm_get (at_pending t) i \<noteq> None"
  shows "\<exists>t'. at_each f ids t = ((map (\<lambda>i. g (the (hm_get (at_pending t) i))) ids,
      map (\<lambda>i. k (the (hm_get (at_pending t) i))) ids), t') \<and> at_wf t' \<and>
    hm_get (at_pending t') = (\<lambda>i. if i \<in> set ids then None else hm_get (at_pending t) i)
    \<and> at_next_async_id t' = at_next_async_id t"
  using assms(2-)
proof (induction ids arbitrary: t)
  case Nil
  then show ?case by simp
next
  case (Cons i ids)
  then obtain r where r: "hm_get (at_pending t) i = Some r" by auto
  obtain t1 where t1: "f i t = ((Some (g r), Some (k r)), t1)" "at_wf t1"
      "hm_get (at_pending t1) = (hm_get (at_pending t))(i := None)"
      "at_next_async_id t1 = at_next_async_id t"
    using step [OF Cons.prems(1) r] by blast
  have rest: "hm_get (at_pending t1) j = hm_get (at_pending t) j" if "j \<in> set ids" for j
    using that Cons.prems(2) t1(3) by auto
  have "\<exists>t'. at_each f ids t1 = ((map (\<lambda>i. g (the (hm_get (at_pending t1) i))) ids,
      map (\<lambda>i. k (the (hm_get (at_pending t1) i))) ids), t') \<and> at_wf t' \<and>
    hm_get (at_pending t') = (\<lambda>i. if i \<in> set ids then None else hm_get (at_pending t1) i)
    \<and> at_next_async_id t' = at_next_async_id t1"
    using Cons.prems rest by (intro Cons.IH t1(2)) auto
  then obtain t' where "at_each f ids t1 = ((map (\<lambda>i. g (the (hm_get (at_pending t) i))) ids,
      map (\<lambda>i. k (the (hm_get (at_pending t) i))) ids), t')" "at_wf t'"
    "hm_get (at_pending t') = (\<lambda>i. if i \<in> set ids then None else hm_get (at_pending t1) i)"
    "at_next_async_id t' = at_next_async_id t1"
    using rest by (auto cong: map_cong)
  with t1 r show ?case by (auto simp: Let_def)
qed

lemma at_ids_facts:
  assumes "at_wf t"
  shows "distinct (at_ids P t)"
    and "\<forall>i \<in> set (at_ids P t). hm_get (at_pending t) i \<noteq> None"
    and "map (\<lambda>i. h (the (hm_get (at_pending t) i))) (at_ids P t) =
      map h (filter P (hm_values (at_pending t)))"
    and "(\<lambda>i. if i \<in> set (at_ids P t) then None else hm_get (at_pending t) i) =
      hm_get (hm_retain (\<lambda>_ r. \<not> P r) (at_pending t))"
proof -
  have wf: "hm_wf (at_pending t)" using assms by (simp add: at_wf_def)
  have mem: "i \<in> set (at_ids P t) \<longleftrightarrow> (\<exists>r. hm_get (at_pending t) i = Some r \<and> P r)" for i
    using hm_get_in_set [OF wf] by (force simp: at_ids_def)
  show "distinct (at_ids P t)"
    using wf by (simp add: at_ids_def hm_wf_def distinct_map_filter)
  show "\<forall>i \<in> set (at_ids P t). hm_get (at_pending t) i \<noteq> None" using mem by auto
  have "map (\<lambda>i. h (the (hm_get (at_pending t) i))) (at_ids P t) =
      map (\<lambda>(i, r). h r) (filter (\<lambda>(_, r). P r) (at_pending t))"
    using hm_get_in_set [OF wf] by (auto simp: at_ids_def) (metis option.sel)
  also have "\<dots> = map h (filter P (hm_values (at_pending t)))"
    by (simp add: filter_map comp_def case_prod_beta')
  finally show "map (\<lambda>i. h (the (hm_get (at_pending t) i))) (at_ids P t) =
      map h (filter P (hm_values (at_pending t)))" .
  show "(\<lambda>i. if i \<in> set (at_ids P t) then None else hm_get (at_pending t) i) =
      hm_get (hm_retain (\<lambda>_ r. \<not> P r) (at_pending t))"
    by (rule ext) (auto simp: mem hm_get_retain [OF wf] split: option.split)
qed

lemma at_cancel_ids_effect:
  assumes "at_wf t"
  shows "\<exists>t'. at_each at_cancel (at_ids P t) t =
      ((map mark_cancelled (filter P (hm_values (at_pending t))),
        map (\<lambda>r. \<lparr> ac_request = mark_cancelled r, ac_status = 0xC0000120, ac_data = [] \<rparr>)
          (filter P (hm_values (at_pending t)))), t')
    \<and> at_wf t' \<and> hm_get (at_pending t') = hm_get (hm_retain (\<lambda>_ r. \<not> P r) (at_pending t))"
proof -
  let ?k = "\<lambda>r. \<lparr> ac_request = mark_cancelled r, ac_status = 0xC0000120, ac_data = [] \<rparr> :: AsyncCompletion"
  note each = at_each_effect [where f = at_cancel and g = mark_cancelled and k = ?k and t = t
      and ids = "at_ids P t", OF at_cancel_effect assms at_ids_facts(1,2) [OF assms]]
  show ?thesis
    using each unfolding at_ids_facts(4) [OF assms] at_ids_facts(3) [OF assms, where h = mark_cancelled]
      at_ids_facts(3) [OF assms, where h = ?k] by blast
qed

lemma at_cleanup_effect:
  assumes "at_wf t"
  shows "\<exists>t'. at_cleanup_expired now t =
      ((filter (is_timed_out now) (hm_values (at_pending t)),
        map (\<lambda>r. \<lparr> ac_request = r, ac_status = 0xC00000B5, ac_data = [] \<rparr>)
          (filter (is_timed_out now) (hm_values (at_pending t)))), t')
    \<and> at_wf t'
    \<and> hm_get (at_pending t') = hm_get (hm_retain (\<lambda>_ r. \<not> is_timed_out now r) (at_pending t))"
  unfolding at_cleanup_expired_def
proof -
  let ?k = "\<lambda>r. \<lparr> ac_request = r, ac_status = 0xC00000B5, ac_data = [] \<rparr> :: AsyncCompletion"
  note each = at_each_effect [where f = "\<lambda>i. at_complete i 0xC00000B5 []" and g = "\<lambda>r. r" and k = ?k
      and t = t and ids = "at_ids (is_timed_out now) t",
      OF at_complete_effect assms at_ids_facts(1,2) [OF assms]]
  show "\<exists>t'. at_each (\<lambda>i. at_complete i 0xC00000B5 []) (at_ids (is_timed_out now) t) t =
      ((filter (is_timed_out now) (hm_values (at_pending t)),
        map ?k (filter (is_timed_out now) (hm_values (at_pending t)))), t') \<and> at_wf t' \<and>
      hm_get (at_pending t') = hm_get (hm_retain (\<lambda>_ r. \<not> is_timed_out now r) (at_pending t))"
    using each unfolding at_ids_facts(4) [OF assms] at_ids_facts(3) [OF assms, where h = "\<lambda>r. r"]
      at_ids_facts(3) [OF assms, where h = ?k] list.map_ident by blast
qed

section \<open>Properties\<close>

text \<open>
  C31. Logging a session off cancels exactly its pending asynchronous requests: each of them is
  returned and notified once, marked cancelled, with \<open>STATUS_CANCELLED\<close>; no request of another
  session is touched, and the tracker stays consistent.
\<close>

theorem cancel_session_exact:
  assumes "at_wf t"
  shows "\<exists>t'. at_cancel_session sid t =
      ((map mark_cancelled (filter (\<lambda>r. ar_session_id r = sid) (hm_values (at_pending t))),
        map (\<lambda>r. \<lparr> ac_request = mark_cancelled r, ac_status = 0xC0000120, ac_data = [] \<rparr>)
          (filter (\<lambda>r. ar_session_id r = sid) (hm_values (at_pending t)))), t')
    \<and> at_wf t'
    \<and> hm_get (at_pending t') = hm_get (hm_retain (\<lambda>_ r. ar_session_id r \<noteq> sid) (at_pending t))"
  unfolding at_cancel_session_def by (rule at_cancel_ids_effect [OF assms])

definition demo_tracker :: AsyncRequestTracker where
  "demo_tracker = snd (at_register 0 11 2 1 ChangeNotify 15
     (snd (at_register 0 10 1 1 LockWait 10 (AsyncRequestTracker_with_config
        \<lparr> arc_max_pending = 8, arc_default_timeout = 100, arc_send_interim_response = True \<rparr>))))"

lemma demo_tracker_wf: "at_wf demo_tracker"
  unfolding demo_tracker_def at_register_def
  by (intro at_register_wf at_wf_new)
    (simp_all add: at_register_with_timeout_def AsyncRequestTracker_with_config_def Let_def)

theorem cancel_session_exact_witness:
  "\<exists>t'. snd (at_cancel_session 1 demo_tracker) = t' \<and> hm_get (at_pending t') 1 = None
     \<and> hm_get (at_pending t') 2 \<noteq> None"
  using cancel_session_exact [OF demo_tracker_wf, of 1]
  by (auto simp: demo_tracker_def at_register_def at_register_with_timeout_def
      AsyncRequestTracker_with_config_def hm_retain_def hm_insert_def Let_def)

text \<open>
  A request registered for asynchronous completion is found under both its async id and its
  message id, completing it returns it and notifies its waiter exactly once with the given status
  and data, and a second completion finds nothing.
\<close>

theorem register_complete_once:
  assumes "at_wf t" "unat (at_next_async_id t) + 1 < 2 ^ 64"
    and "at_register now mid sid tid opr cmd t = (Some i, t')"
  shows "\<exists>r t''. at_get t' i = Some r \<and> at_get_by_message_id t' mid = Some r
    \<and> ar_message_id r = mid \<and> ar_session_id r = sid
    \<and> at_complete i st d t' =
        ((Some r, Some \<lparr> ac_request = r, ac_status = st, ac_data = d \<rparr>), t'')
    \<and> at_complete i st' d' t'' = ((None, None), t'') \<and> at_wf t''"
proof -
  have wf: "at_wf t'"
    using at_register_wf [OF assms(1,2)] assms(3) by (metis at_register_def snd_conv)
  obtain r where r: "hm_get (at_pending t') i = Some r" "ar_message_id r = mid"
      "ar_session_id r = sid" "hm_get (at_message_to_async t') mid = Some i"
    using assms(3) by (auto simp: at_register_def at_register_with_timeout_def Let_def hm_simps
        split: if_splits)
  from at_complete_effect [OF wf r(1), of st d] obtain t'' where
      "at_complete i st d t' = ((Some r, Some \<lparr> ac_request = r, ac_status = st, ac_data = d \<rparr>), t'')"
      "at_wf t''" "hm_get (at_pending t'') = (hm_get (at_pending t'))(i := None)" by blast
  with r show ?thesis
    by (auto simp: at_get_def at_get_by_message_id_def at_complete_def [of _ _ _ t''])
qed

theorem register_complete_once_witness:
  "\<exists>t'. at_register 5 77 1 1 LockWait 10 demo_tracker = (Some 3, t') \<and>
     (\<exists>r. at_get_by_message_id t' 77 = Some r)"
proof -
  have "unat (at_next_async_id demo_tracker) + 1 < 2 ^ 64"
    and "at_register 5 77 1 1 LockWait 10 demo_tracker =
      (Some 3, snd (at_register 5 77 1 1 LockWait 10 demo_tracker))"
    by (simp_all add: demo_tracker_def at_register_def at_register_with_timeout_def
        AsyncRequestTracker_with_config_def hm_insert_def Let_def)
  from register_complete_once [OF demo_tracker_wf this] this(2) show ?thesis by blast
qed

text \<open>
  Two requests may share a message id, since \<open>register\<close> does not check for one; completing the
  first then drops the index entry of the second, which \<open>cancel_by_message_id\<close> no longer finds.
\<close>

lemma duplicate_message_id_loses_cancel:
  "let t1 = snd (at_register 0 10 1 1 ChangeNotify 15 (snd (at_register 0 10 1 1 LockWait 10
         (AsyncRequestTracker_with_config
           \<lparr> arc_max_pending = 8, arc_default_timeout = 100, arc_send_interim_response = True \<rparr>))));
       t2 = snd (at_complete 1 0 [] t1) in
   at_get t2 2 \<noteq> None \<and> fst (at_cancel_by_message_id 10 t2) = (None, None)"
  by (simp add: at_register_def at_register_with_timeout_def AsyncRequestTracker_with_config_def
      hm_insert_def hm_remove_def Let_def at_complete_def at_get_def at_cancel_by_message_id_def)

end
