(* ===== verification/Connection.thy ===== *)
theory Connection
  imports Core_Types Credits Compound Async_Request
begin

text \<open>
  \<open>crates/rustsmb-session/src/connection.rs\<close>: the state of one TCP connection, which owns the
  credit manager, the asynchronous-request tracker and the compound queue. The \<open>HashSet\<close> of
  session ids is a list without duplicates. Instants are natural numbers; \<open>now\<close> is the clock.
\<close>

record ConnectionConfig =
  ccf_max_sessions :: nat
  ccf_credit_config :: CreditConfig
  ccf_async_config :: AsyncRequestConfig
  ccf_max_compound_commands :: nat
  ccf_max_transact_size :: u32
  ccf_max_read_size :: u32
  ccf_max_write_size :: u32

definition AsyncRequestConfig_default :: AsyncRequestConfig where
  "AsyncRequestConfig_default = \<lparr> arc_max_pending = 256, arc_default_timeout = 3600,
     arc_send_interim_response = True \<rparr>"

definition ConnectionConfig_default :: ConnectionConfig where
  "ConnectionConfig_default = \<lparr> ccf_max_sessions = 64, ccf_credit_config = CreditConfig_default,
     ccf_async_config = AsyncRequestConfig_default, ccf_max_compound_commands = 64,
     ccf_max_transact_size = 8 * 1024 * 1024, ccf_max_read_size = 8 * 1024 * 1024,
     ccf_max_write_size = 8 * 1024 * 1024 \<rparr>"

datatype ConnectionState = AwaitingNegotiate | Negotiated | SessionActive | Disconnecting

definition accepts_requests :: "ConnectionState \<Rightarrow> bool" where
  "accepts_requests st \<longleftrightarrow> st \<noteq> Disconnecting"

definition is_post_negotiate :: "ConnectionState \<Rightarrow> bool" where
  "is_post_negotiate st \<longleftrightarrow> st = Negotiated \<or> st = SessionActive"

record Connection =
  cn_id :: u64
  cn_peer_addr :: string
  cn_dialect :: "SmbDialect option"
  cn_state :: ConnectionState
  cn_signing_required :: bool
  cn_encryption_required :: bool
  cn_max_transact_size :: u32
  cn_max_read_size :: u32
  cn_max_write_size :: u32
  cn_client_guid :: bytes
  cn_preauth_hash :: "bytes option"
  cn_credits :: CreditManager
  cn_async_requests :: AsyncRequestTracker
  cn_compound_queue :: CompoundQueue
  cn_session_ids :: "u64 list"
  cn_next_message_id :: u64
  cn_created :: nat
  cn_last_activity :: nat
  cn_config :: ConnectionConfig

definition Connection_with_config :: "nat \<Rightarrow> u64 \<Rightarrow> string \<Rightarrow> ConnectionConfig \<Rightarrow> Connection" where
  "Connection_with_config now i peer_addr config = \<lparr> cn_id = i, cn_peer_addr = peer_addr,
     cn_dialect = None, cn_state = AwaitingNegotiate, cn_signing_required = False,
     cn_encryption_required = False, cn_max_transact_size = ccf_max_transact_size config,
     cn_max_read_size = ccf_max_read_size config, cn_max_write_size = ccf_max_write_size config,
     cn_client_guid = replicate 16 0, cn_preauth_hash = None,
     cn_credits = CreditManager_with_config (ccf_credit_config config),
     cn_async_requests = AsyncRequestTracker_with_config (ccf_async_config config),
     cn_compound_queue = CompoundQueue_new (ccf_max_compound_commands config),
     cn_session_ids = [], cn_next_message_id = 0, cn_created = now, cn_last_activity = now,
     cn_config = config \<rparr>"

definition is_negotiated :: "Connection \<Rightarrow> bool" where
  "is_negotiated c \<longleftrightarrow> cn_dialect c \<noteq> None"

definition supports_multi_credit :: "Connection \<Rightarrow> bool" where
  "supports_multi_credit c \<longleftrightarrow> cn_dialect c \<in> Some ` {Smb210, Smb300, Smb302, Smb311}"

definition is_multi_channel_capable :: "Connection \<Rightarrow> bool" where
  "is_multi_channel_capable c \<longleftrightarrow> cn_dialect c \<in> Some ` {Smb300, Smb302, Smb311}"

definition client_guid_string :: "Connection \<Rightarrow> string" where
  "client_guid_string c = fold (\<lambda>b s. s @ fmt_hex 2 (unat b)) (cn_client_guid c) []"

definition touch :: "nat \<Rightarrow> Connection \<Rightarrow> Connection" where
  "touch now c = c\<lparr> cn_last_activity := now \<rparr>"

definition cn_negotiate :: "nat \<Rightarrow> SmbDialect \<Rightarrow> Connection \<Rightarrow> Connection" where
  "cn_negotiate now dialect c =
     touch now (c\<lparr> cn_dialect := Some dialect, cn_state := Negotiated \<rparr>)"

definition cn_session_active :: "nat \<Rightarrow> Connection \<Rightarrow> Connection" where
  "cn_session_active now c = touch now (c\<lparr> cn_state := SessionActive \<rparr>)"

definition cn_disconnect :: "Connection \<Rightarrow> Connection" where
  "cn_disconnect c = c\<lparr> cn_state := Disconnecting \<rparr>"

definition is_disconnecting :: "Connection \<Rightarrow> bool" where
  "is_disconnecting c \<longleftrightarrow> cn_state c = Disconnecting"

definition add_session :: "nat \<Rightarrow> u64 \<Rightarrow> Connection \<Rightarrow> bool \<times> Connection" where
  "add_session now sid c =
     (if ccf_max_sessions (cn_config c) \<le> length (cn_session_ids c) then (False, c)
      else
        let c1 = c\<lparr> cn_session_ids := List.insert sid (cn_session_ids c) \<rparr>;
            c2 = (if cn_state c1 = Negotiated then c1\<lparr> cn_state := SessionActive \<rparr> else c1)
        in (True, touch now c2))"

definition remove_session :: "nat \<Rightarrow> u64 \<Rightarrow> Connection \<Rightarrow> Connection" where
  "remove_session now sid c =
     (let c1 = c\<lparr> cn_session_ids := removeAll sid (cn_session_ids c) \<rparr>;
          c2 = c1\<lparr> cn_async_requests := snd (at_cancel_session sid (cn_async_requests c1)) \<rparr>;
          c3 = (if cn_session_ids c2 = [] \<and> cn_state c2 = SessionActive
                then c2\<lparr> cn_state := Negotiated \<rparr> else c2)
      in touch now c3)"

definition has_session :: "Connection \<Rightarrow> u64 \<Rightarrow> bool" where
  "has_session c sid \<longleftrightarrow> sid \<in> set (cn_session_ids c)"

definition session_count :: "Connection \<Rightarrow> nat" where
  "session_count c = length (cn_session_ids c)"

definition next_message_id :: "Connection \<Rightarrow> u64 \<times> Connection" where
  "next_message_id c =
     (cn_next_message_id c, c\<lparr> cn_next_message_id := cn_next_message_id c + 1 \<rparr>)"

definition consume_credits :: "u16 \<Rightarrow> Connection \<Rightarrow> u16 option \<times> Connection" where
  "consume_credits credit_charge c =
     (let (r, m) = consume credit_charge (cn_credits c) in (r, c\<lparr> cn_credits := m \<rparr>))"

definition grant_credits :: "u16 \<Rightarrow> bool \<Rightarrow> Connection \<Rightarrow> u16 \<times> Connection" where
  "grant_credits requested is_async c =
     (let to_grant = calculate_grant (cn_credits c) requested is_async;
          (r, m) = grant to_grant (cn_credits c) in (r, c\<lparr> cn_credits := m \<rparr>))"

definition start_compound :: "CompoundContext \<Rightarrow> u64 \<Rightarrow> Connection \<Rightarrow> u64 option \<times> Connection" where
  "start_compound context first_message_id c =
     (let (r, q) = cq_start context first_message_id (cn_compound_queue c)
      in (r, c\<lparr> cn_compound_queue := q \<rparr>))"

definition complete_compound :: "u64 \<Rightarrow> Connection \<Rightarrow> PendingCompound option \<times> Connection" where
  "complete_compound i c =
     (let (r, q) = cq_complete i (cn_compound_queue c) in (r, c\<lparr> cn_compound_queue := q \<rparr>))"

definition idle_duration :: "nat \<Rightarrow> Connection \<Rightarrow> nat" where
  "idle_duration now c = now - cn_last_activity c"

definition is_idle :: "nat \<Rightarrow> Connection \<Rightarrow> nat \<Rightarrow> bool" where
  "is_idle now c timeout \<longleftrightarrow> timeout < now - cn_last_activity c"

definition cleanup_expired_async :: "nat \<Rightarrow> Connection \<Rightarrow> AsyncRequest list \<times> Connection" where
  "cleanup_expired_async now c =
     (let ((rs, _), t) = at_cleanup_expired now (cn_async_requests c)
      in (rs, c\<lparr> cn_async_requests := t \<rparr>))"

section \<open>Reachable connections\<close>

inductive conn_step :: "Connection \<Rightarrow> Connection \<Rightarrow> bool" where
  cs_negotiate: "conn_step c (cn_negotiate now d c)"
| cs_session_active: "conn_step c (cn_session_active now c)"
| cs_disconnect: "conn_step c (cn_disconnect c)"
| cs_add: "conn_step c (snd (add_session now sid c))"
| cs_remove: "conn_step c (remove_session now sid c)"
| cs_message: "conn_step c (snd (next_message_id c))"
| cs_consume: "conn_step c (snd (consume_credits charge c))"
| cs_grant: "conn_step c (snd (grant_credits req asy c))"
| cs_start: "conn_step c (snd (start_compound ctx mid c))"
| cs_complete: "conn_step c (snd (complete_compound i c))"
| cs_register: "unat (at_next_async_id (cn_async_requests c)) + 1 < 2 ^ 64 \<Longrightarrow>
    conn_step c (c\<lparr> cn_async_requests :=
      snd (at_register_with_file now mid sid tid fid op cmd (cn_async_requests c)) \<rparr>)"
| cs_cleanup: "conn_step c (snd (cleanup_expired_async now c))"
| cs_touch: "conn_step c (touch now c)"

inductive_cases conn_stepE: "conn_step c c'"

inductive conn_reachable :: "ConnectionConfig \<Rightarrow> Connection \<Rightarrow> bool" for cfg where
  cr_new: "conn_reachable cfg (Connection_with_config now i addr cfg)"
| cr_step: "conn_reachable cfg c \<Longrightarrow> conn_step c c' \<Longrightarrow> conn_reachable cfg c'"

definition credits_ok :: "CreditManager \<Rightarrow> bool" where
  "credits_ok m \<longleftrightarrow> unat (cm_available m) \<le>
     max (unat (cc_initial_credits (cm_config m))) (unat (cc_max_credits (cm_config m)))"

definition conn_inv :: "ConnectionConfig \<Rightarrow> Connection \<Rightarrow> bool" where
  "conn_inv cfg c \<longleftrightarrow> cn_config c = cfg \<and> distinct (cn_session_ids c) \<and>
     session_count c \<le> ccf_max_sessions cfg \<and> at_wf (cn_async_requests c) \<and>
     credits_ok (cn_credits c) \<and> cm_config (cn_credits c) = ccf_credit_config cfg \<and>
     cq_len (cn_compound_queue c) \<le> cq_max_pending (cn_compound_queue c)"

lemma consume_ok:
  assumes "credits_ok m"
  shows "credits_ok (snd (consume c m)) \<and> cm_config (snd (consume c m)) = cm_config m"
proof (cases "cm_available m < max c 1")
  case True
  with assms show ?thesis by (simp add: consume_def Let_def)
next
  case False
  then have "unat (cm_available m - max c 1) \<le> unat (cm_available m)"
    by (simp add: not_less unat_sub_le)
  with False assms show ?thesis by (simp add: consume_def Let_def credits_ok_def)
qed

lemma grant_ok:
  assumes "credits_ok m"
  shows "credits_ok (snd (grant c m)) \<and> cm_config (snd (grant c m)) = cm_config m"
proof -
  let ?a = "min c (sat_sub (cc_max_credits (cm_config m)) (cm_available m))"
  show ?thesis
  proof (cases "c = 0 \<or> ?a = 0")
    case True
    with assms show ?thesis by (auto simp: grant_def Let_def)
  next
    case False
    then have "unat (cm_available m) + unat ?a \<le> unat (cc_max_credits (cm_config m))"
      using grant_load_fits [OF refl] by blast
    moreover from this have "unat (cm_available m + ?a) = unat (cm_available m) + unat ?a"
      using unat_lt_exp [of "cc_max_credits (cm_config m)"] by (intro unat_add_no_wrap) simp
    ultimately show ?thesis using False assms
      by (simp add: grant_def Let_def credits_ok_def)
  qed
qed

lemma cq_complete_len:
  "cq_len (snd (cq_complete i q)) \<le> cq_len q \<and>
   cq_max_pending (snd (cq_complete i q)) = cq_max_pending q"
proof -
  have "length (remove_first P xs) \<le> length xs" for P and xs :: "PendingCompound list"
    by (induction xs) auto
  then show ?thesis by (simp add: cq_complete_def cq_len_def split: option.split)
qed

lemma at_cancel_session_wf: "at_wf t \<Longrightarrow> at_wf (snd (at_cancel_session sid t))"
  using at_cancel_ids_effect [of t "\<lambda>r. ar_session_id r = sid"]
  by (auto simp: at_cancel_session_def)

lemma conn_step_inv:
  assumes "conn_step c c'" "conn_inv cfg c"
  shows "conn_inv cfg c'"
  using assms(1)
proof cases
  case (cs_add now sid)
  with assms(2) show ?thesis
    by (auto simp: add_session_def conn_inv_def session_count_def touch_def Let_def List.insert_def
        intro: order.trans [OF length_removeAll_less_eq])
next
  case (cs_remove now sid)
  have "length (removeAll sid (cn_session_ids c)) \<le> ccf_max_sessions cfg"
    using assms(2) by (intro order.trans [OF length_removeAll_less_eq])
      (simp add: conn_inv_def session_count_def)
  with cs_remove assms(2) show ?thesis
    by (auto simp: remove_session_def conn_inv_def session_count_def touch_def Let_def
        at_cancel_session_wf distinct_removeAll)
next
  case (cs_consume charge)
  with assms(2) consume_ok [of "cn_credits c" charge] show ?thesis
    by (auto simp: consume_credits_def conn_inv_def session_count_def case_prod_beta' Let_def)
next
  case (cs_grant req asy)
  with assms(2) grant_ok [of "cn_credits c" "calculate_grant (cn_credits c) req asy"] show ?thesis
    by (auto simp: grant_credits_def conn_inv_def session_count_def case_prod_beta' Let_def)
next
  case (cs_complete i)
  with assms(2) cq_complete_len [of i "cn_compound_queue c"] show ?thesis
    by (auto simp: complete_compound_def conn_inv_def session_count_def case_prod_beta' Let_def)
next
  case (cs_cleanup now)
  with assms(2) at_cleanup_effect [of "cn_async_requests c" now] show ?thesis
    by (auto simp: cleanup_expired_async_def conn_inv_def session_count_def case_prod_beta' Let_def)
next
  case (cs_register now mid sid tid fid op cmd)
  with assms(2) at_register_with_file_wf [of "cn_async_requests c"] show ?thesis
    by (auto simp: conn_inv_def session_count_def)
next
  case (cs_start ctx mid)
  with assms(2) show ?thesis
    by (auto simp: start_compound_def cq_start_def cq_len_def conn_inv_def session_count_def Let_def)
qed (use assms(2) in \<open>auto simp: conn_inv_def session_count_def cn_negotiate_def touch_def
       cn_session_active_def cn_disconnect_def next_message_id_def\<close>)

lemma conn_reachable_inv: "conn_reachable cfg c \<Longrightarrow> conn_inv cfg c"
proof (induction rule: conn_reachable.induct)
  case (cr_new now i addr)
  then show ?case
    by (simp add: conn_inv_def Connection_with_config_def session_count_def at_wf_new
        credits_ok_def CreditManager_with_config_def CompoundQueue_new_def cq_len_def)
next
  case (cr_step c c')
  then show ?case using conn_step_inv by blast
qed

text \<open>
  C16. Whatever sequence of operations a connection goes through, it never holds more sessions than
  its limit or any session twice, its credit balance stays within the configured maximum (or the
  initial balance, if that is larger), its asynchronous-request tables stay consistent, and its
  compound queue stays within its bound.
\<close>

theorem connection_invariant:
  assumes "conn_reachable cfg c"
  shows "session_count c \<le> ccf_max_sessions cfg \<and> distinct (cn_session_ids c)
    \<and> unat (cm_available (cn_credits c)) \<le>
        max (unat (cc_initial_credits (ccf_credit_config cfg)))
          (unat (cc_max_credits (ccf_credit_config cfg)))
    \<and> at_wf (cn_async_requests c)
    \<and> cq_len (cn_compound_queue c) \<le> cq_max_pending (cn_compound_queue c)"
  using conn_reachable_inv [OF assms] by (auto simp: conn_inv_def credits_ok_def)

theorem connection_invariant_witness:
  "session_count (snd (add_session 1 42 (Connection_with_config 0 1 [] ConnectionConfig_default))) \<le> 64"
proof -
  have "conn_reachable ConnectionConfig_default
      (snd (add_session 1 42 (Connection_with_config 0 1 [] ConnectionConfig_default)))"
    by (rule cr_step [OF cr_new cs_add])
  from connection_invariant [OF this] show ?thesis by (simp add: ConnectionConfig_default_def)
qed

text \<open>
  Removing a session from a connection leaves neither the session nor any of its pending
  asynchronous requests behind, keeps every other session and request, and takes an active
  connection back to the negotiated state exactly when that was its last session.
\<close>

theorem remove_session_clean:
  assumes "at_wf (cn_async_requests c)"
  shows "(let c' = remove_session now sid c in
     set (cn_session_ids c') = set (cn_session_ids c) - {sid}
     \<and> hm_get (at_pending (cn_async_requests c')) =
         hm_get (hm_retain (\<lambda>_ r. ar_session_id r \<noteq> sid) (at_pending (cn_async_requests c)))
     \<and> cn_state c' = (if cn_state c = SessionActive \<and> set (cn_session_ids c) \<subseteq> {sid}
                      then Negotiated else cn_state c))"
proof -
  have "hm_get (at_pending (snd (at_cancel_session sid (cn_async_requests c)))) =
      hm_get (hm_retain (\<lambda>_ r. ar_session_id r \<noteq> sid) (at_pending (cn_async_requests c)))"
    using at_cancel_ids_effect [OF assms, of "\<lambda>r. ar_session_id r = sid"]
    by (auto simp: at_cancel_session_def)
  moreover have "removeAll sid xs = [] \<longleftrightarrow> set xs \<subseteq> {sid}" for xs
    by (induction xs) auto
  ultimately show ?thesis by (simp add: remove_session_def touch_def Let_def)
qed

theorem remove_session_clean_witness:
  "cn_state (remove_session 2 42 (snd (add_session 1 42
     (cn_negotiate 0 Smb311 (Connection_with_config 0 1 [] ConnectionConfig_default))))) = Negotiated"
proof -
  let ?c = "snd (add_session 1 42
     (cn_negotiate 0 Smb311 (Connection_with_config 0 1 [] ConnectionConfig_default)))"
  have f: "at_wf (cn_async_requests ?c)" "cn_state ?c = SessionActive" "set (cn_session_ids ?c) \<subseteq> {42}"
    by (simp_all add: add_session_def cn_negotiate_def touch_def Connection_with_config_def
        ConnectionConfig_default_def at_wf_new Let_def)
  from remove_session_clean [OF f(1), of 2 42] f(2,3) show ?thesis by (simp add: Let_def)
qed

end
