(* ===== verification/Cached_Store.thy ===== *)
theory Cached_Store
  imports Session_Manager
begin

text \<open>
  \<open>crates/rustsmb-state-cached\<close>: the write-through cache in front of a bulk store (\<open>cache.rs\<close>,
  \<open>lib.rs\<close>). \<open>lru::LruCache\<close> is a third-party package and stands as a parameter, one
  \<open>lru_lib\<close> per instance of the type; what the sources rely on is \<open>lru_ok\<close>. The monotonic clock
  that entry ages are measured against is the field \<open>lc_clock\<close>, which only the environment
  advances. The cached store is again a \<open>state_store\<close>, over the bulk store's state paired with
  the cache, and \<open>cached_session_store\<close> shows that it keeps every store contract its bulk store
  keeps, as long as no one else writes to that bulk store.
\<close>

section \<open>The LRU package\<close>

record ('c, 'k, 'v) lru_lib =
  lru_new :: "nat \<Rightarrow> 'c"
  lru_get :: "'k \<Rightarrow> 'c \<Rightarrow> 'v option \<times> 'c"
  lru_put :: "'k \<Rightarrow> 'v \<Rightarrow> 'c \<Rightarrow> 'c"
  lru_pop :: "'k \<Rightarrow> 'c \<Rightarrow> 'c"
  lru_peek :: "'c \<Rightarrow> 'k \<Rightarrow> 'v option"
  lru_len :: "'c \<Rightarrow> nat"
  lru_cap :: "'c \<Rightarrow> nat"

text \<open>
  Documented behaviour: a new cache is empty, \<open>get\<close> returns what \<open>peek\<close> shows and moves only the
  recency order, \<open>put\<close> stores its entry and may evict others, \<open>pop\<close> removes one key.
\<close>

definition lru_ok :: "('c, 'k, 'v) lru_lib \<Rightarrow> bool" where
  "lru_ok l \<longleftrightarrow>
     (\<forall>n k. lru_peek l (lru_new l n) k = None) \<and>
     (\<forall>c k. fst (lru_get l k c) = lru_peek l c k \<and> lru_peek l (snd (lru_get l k c)) = lru_peek l c) \<and>
     (\<forall>c k v. lru_peek l (lru_put l k v c) k = Some v) \<and>
     (\<forall>c k v j. j \<noteq> k \<longrightarrow> lru_peek l (lru_put l k v c) j \<in> {None, lru_peek l c j}) \<and>
     (\<forall>c k. lru_peek l (lru_pop l k c) = (lru_peek l c)(k := None))"

section \<open>The local cache (cache.rs)\<close>

record CacheConfig =
  cfg_max_sessions :: nat
  cfg_max_handles :: nat
  cfg_max_trees :: nat
  cfg_default_ttl :: nat

definition CacheConfig_default :: CacheConfig where
  "CacheConfig_default = \<lparr> cfg_max_sessions = 10000, cfg_max_handles = 100000,
     cfg_max_trees = 50000, cfg_default_ttl = 60 \<rparr>"

record 'd CacheEntry =
  ce_data :: 'd
  ce_epoch :: u64
  ce_cached_at :: nat
  ce_ttl :: nat

definition CacheEntry_new :: "nat \<Rightarrow> 'd \<Rightarrow> u64 \<Rightarrow> nat \<Rightarrow> 'd CacheEntry" where
  "CacheEntry_new now dat epoch ttl =
     \<lparr> ce_data = dat, ce_epoch = epoch, ce_cached_at = now, ce_ttl = ttl \<rparr>"

definition ce_is_expired :: "nat \<Rightarrow> 'd CacheEntry \<Rightarrow> bool" where
  "ce_is_expired now e \<longleftrightarrow> ce_ttl e < now - ce_cached_at e"

definition ce_is_stale :: "u64 \<Rightarrow> 'd CacheEntry \<Rightarrow> bool" where
  "ce_is_stale current_epoch e \<longleftrightarrow> ce_epoch e \<noteq> current_epoch"

definition ce_is_valid :: "nat \<Rightarrow> u64 \<Rightarrow> 'd CacheEntry \<Rightarrow> bool" where
  "ce_is_valid now current_epoch e \<longleftrightarrow> \<not> ce_is_expired now e \<and> \<not> ce_is_stale current_epoch e"

record ('a, 'b, 'c) lru_libs =
  lib_sessions :: "('a, u64, SessionState CacheEntry) lru_lib"
  lib_handles :: "('b, u128, HandleState CacheEntry) lru_lib"
  lib_trees :: "('c, u64 \<times> u32, TreeState CacheEntry) lru_lib"

definition lru_libs_ok :: "('a, 'b, 'c) lru_libs \<Rightarrow> bool" where
  "lru_libs_ok ls \<longleftrightarrow> lru_ok (lib_sessions ls) \<and> lru_ok (lib_handles ls) \<and> lru_ok (lib_trees ls)"

record ('a, 'b, 'c) LocalCache =
  lc_sessions :: 'a
  lc_handles :: 'b
  lc_trees :: 'c
  lc_current_epoch :: u64
  lc_config :: CacheConfig
  lc_clock :: nat

definition LocalCache_new ::
  "('a, 'b, 'c) lru_libs \<Rightarrow> nat \<Rightarrow> CacheConfig \<Rightarrow> ('a, 'b, 'c) LocalCache" where
  "LocalCache_new ls clock config =
     \<lparr> lc_sessions = lru_new (lib_sessions ls) (max 1 (cfg_max_sessions config)),
       lc_handles = lru_new (lib_handles ls) (max 1 (cfg_max_handles config)),
       lc_trees = lru_new (lib_trees ls) (max 1 (cfg_max_trees config)),
       lc_current_epoch = 1, lc_config = config, lc_clock = clock \<rparr>"

definition lc_set_epoch :: "u64 \<Rightarrow> ('a, 'b, 'c) LocalCache \<Rightarrow> ('a, 'b, 'c) LocalCache" where
  "lc_set_epoch epoch c = c\<lparr> lc_current_epoch := epoch \<rparr>"

definition lc_invalidate_all :: "('a, 'b, 'c) LocalCache \<Rightarrow> ('a, 'b, 'c) LocalCache" where
  "lc_invalidate_all c = c\<lparr> lc_current_epoch := lc_current_epoch c + 1 \<rparr>"

text \<open>The body the three getters share: look up, then keep or pop.\<close>

definition lru_read ::
  "('c, 'k, 'd CacheEntry) lru_lib \<Rightarrow> nat \<Rightarrow> u64 \<Rightarrow> 'k \<Rightarrow> 'c \<Rightarrow> 'd option \<times> 'c" where
  "lru_read l now epoch k c =
     (case lru_get l k c of
        (None, c1) \<Rightarrow> (None, c1)
      | (Some entry, c1) \<Rightarrow>
          if ce_is_valid now epoch entry then (Some (ce_data entry), c1)
          else (None, lru_pop l k c1))"

definition lc_get_session ::
  "('a, 'b, 'c) lru_libs \<Rightarrow> u64 \<Rightarrow> ('a, 'b, 'c) LocalCache
     \<Rightarrow> SessionState option \<times> ('a, 'b, 'c) LocalCache" where
  "lc_get_session ls sid c =
     (let (r, m) = lru_read (lib_sessions ls) (lc_clock c) (lc_current_epoch c) sid (lc_sessions c)
      in (r, c\<lparr> lc_sessions := m \<rparr>))"

definition lc_put_session ::
  "('a, 'b, 'c) lru_libs \<Rightarrow> SessionState \<Rightarrow> ('a, 'b, 'c) LocalCache \<Rightarrow> ('a, 'b, 'c) LocalCache" where
  "lc_put_session ls x c =
     (let entry = CacheEntry_new (lc_clock c) x (lc_current_epoch c) (cfg_default_ttl (lc_config c))
      in c\<lparr> lc_sessions := lru_put (lib_sessions ls) (ss_session_id x) entry (lc_sessions c) \<rparr>)"

definition lc_remove_session ::
  "('a, 'b, 'c) lru_libs \<Rightarrow> u64 \<Rightarrow> ('a, 'b, 'c) LocalCache \<Rightarrow> ('a, 'b, 'c) LocalCache" where
  "lc_remove_session ls sid c = c\<lparr> lc_sessions := lru_pop (lib_sessions ls) sid (lc_sessions c) \<rparr>"

definition lc_get_handle ::
  "('a, 'b, 'c) lru_libs \<Rightarrow> u128 \<Rightarrow> ('a, 'b, 'c) LocalCache
     \<Rightarrow> HandleState option \<times> ('a, 'b, 'c) LocalCache" where
  "lc_get_handle ls pid c =
     (let (r, m) = lru_read (lib_handles ls) (lc_clock c) (lc_current_epoch c) pid (lc_handles c)
      in (r, c\<lparr> lc_handles := m \<rparr>))"

definition lc_put_handle ::
  "('a, 'b, 'c) lru_libs \<Rightarrow> HandleState \<Rightarrow> ('a, 'b, 'c) LocalCache \<Rightarrow> ('a, 'b, 'c) LocalCache" where
  "lc_put_handle ls h c =
     (let entry = CacheEntry_new (lc_clock c) h (lc_current_epoch c) (cfg_default_ttl (lc_config c))
      in c\<lparr> lc_handles := lru_put (lib_handles ls) (hs_persistent_id h) entry (lc_handles c) \<rparr>)"

definition lc_remove_handle ::
  "('a, 'b, 'c) lru_libs \<Rightarrow> u128 \<Rightarrow> ('a, 'b, 'c) LocalCache \<Rightarrow> ('a, 'b, 'c) LocalCache" where
  "lc_remove_handle ls pid c = c\<lparr> lc_handles := lru_pop (lib_handles ls) pid (lc_handles c) \<rparr>"

definition lc_get_tree ::
  "('a, 'b, 'c) lru_libs \<Rightarrow> u64 \<Rightarrow> u32 \<Rightarrow> ('a, 'b, 'c) LocalCache
     \<Rightarrow> TreeState option \<times> ('a, 'b, 'c) LocalCache" where
  "lc_get_tree ls sid tid c =
     (let (r, m) = lru_read (lib_trees ls) (lc_clock c) (lc_current_epoch c) (sid, tid) (lc_trees c)
      in (r, c\<lparr> lc_trees := m \<rparr>))"

definition lc_put_tree ::
  "('a, 'b, 'c) lru_libs \<Rightarrow> TreeState \<Rightarrow> ('a, 'b, 'c) LocalCache \<Rightarrow> ('a, 'b, 'c) LocalCache" where
  "lc_put_tree ls t c =
     (let entry = CacheEntry_new (lc_clock c) t (lc_current_epoch c) (cfg_default_ttl (lc_config c))
      in c\<lparr> lc_trees := lru_put (lib_trees ls) (ts_session_id t, ts_tree_id t) entry (lc_trees c) \<rparr>)"

definition lc_remove_tree ::
  "('a, 'b, 'c) lru_libs \<Rightarrow> u64 \<Rightarrow> u32 \<Rightarrow> ('a, 'b, 'c) LocalCache \<Rightarrow> ('a, 'b, 'c) LocalCache" where
  "lc_remove_tree ls sid tid c = c\<lparr> lc_trees := lru_pop (lib_trees ls) (sid, tid) (lc_trees c) \<rparr>"

record CacheStats =
  cst_epoch :: u64
  cst_sessions_cached :: nat
  cst_sessions_capacity :: nat
  cst_handles_cached :: nat
  cst_handles_capacity :: nat
  cst_trees_cached :: nat
  cst_trees_capacity :: nat

definition lc_stats :: "('a, 'b, 'c) lru_libs \<Rightarrow> ('a, 'b, 'c) LocalCache \<Rightarrow> CacheStats" where
  "lc_stats ls c = \<lparr> cst_epoch = lc_current_epoch c,
     cst_sessions_cached = lru_len (lib_sessions ls) (lc_sessions c),
     cst_sessions_capacity = lru_cap (lib_sessions ls) (lc_sessions c),
     cst_handles_cached = lru_len (lib_handles ls) (lc_handles c),
     cst_handles_capacity = lru_cap (lib_handles ls) (lc_handles c),
     cst_trees_cached = lru_len (lib_trees ls) (lc_trees c),
     cst_trees_capacity = lru_cap (lib_trees ls) (lc_trees c) \<rparr>"

section \<open>The cached store (lib.rs)\<close>

record ('s, 'a, 'b, 'c) CachedStateStore =
  css_cache :: "('a, 'b, 'c) LocalCache option"
  css_bulk_store :: 's

definition CachedStateStore_new ::
  "('a, 'b, 'c) lru_libs \<Rightarrow> nat \<Rightarrow> 's \<Rightarrow> CacheConfig \<Rightarrow> bool \<Rightarrow> ('s, 'a, 'b, 'c) CachedStateStore" where
  "CachedStateStore_new ls clock bulk_store config has_coordinator =
     \<lparr> css_cache = (if has_coordinator then Some (LocalCache_new ls clock config) else None),
       css_bulk_store = bulk_store \<rparr>"

definition css_invalidate_all ::
  "('s, 'a, 'b, 'c) CachedStateStore \<Rightarrow> ('s, 'a, 'b, 'c) CachedStateStore" where
  "css_invalidate_all s = s\<lparr> css_cache := map_option lc_invalidate_all (css_cache s) \<rparr>"

definition css_set_epoch ::
  "u64 \<Rightarrow> ('s, 'a, 'b, 'c) CachedStateStore \<Rightarrow> ('s, 'a, 'b, 'c) CachedStateStore" where
  "css_set_epoch epoch s = s\<lparr> css_cache := map_option (lc_set_epoch epoch) (css_cache s) \<rparr>"

text \<open>\<open>self.bulk_store.m(..).await\<close>, and an update of the cache if there is one.\<close>

definition via_bulk :: "('s, 'e, 'x) op \<Rightarrow> (('s, 'a, 'b, 'c) CachedStateStore, 'e, 'x) op" where
  "via_bulk m s = (let (r, b) = m (css_bulk_store s) in (r, s\<lparr> css_bulk_store := b \<rparr>))"

definition on_cache ::
  "(('a, 'b, 'c) LocalCache \<Rightarrow> ('a, 'b, 'c) LocalCache)
     \<Rightarrow> (('s, 'a, 'b, 'c) CachedStateStore, 'e, unit) op" where
  "on_cache f s = (Inr (), s\<lparr> css_cache := map_option f (css_cache s) \<rparr>)"

definition read_cache ::
  "(('a, 'b, 'c) LocalCache \<Rightarrow> 'x option \<times> ('a, 'b, 'c) LocalCache)
     \<Rightarrow> (('s, 'a, 'b, 'c) CachedStateStore, 'e, 'x option) op" where
  "read_cache g s =
     (case css_cache s of
        None \<Rightarrow> (Inr None, s)
      | Some c \<Rightarrow> let (r, c') = g c in (Inr r, s\<lparr> css_cache := Some c' \<rparr>))"

text \<open>Write-through and read-through, the two shapes of the cached methods.\<close>

definition write_through ::
  "('s, 'e, unit) op \<Rightarrow> (('a, 'b, 'c) LocalCache \<Rightarrow> ('a, 'b, 'c) LocalCache)
     \<Rightarrow> (('s, 'a, 'b, 'c) CachedStateStore, 'e, unit) op" where
  "write_through m f = op_bind (via_bulk m) (\<lambda>_. on_cache f)"

definition read_through ::
  "(('a, 'b, 'c) LocalCache \<Rightarrow> 'x option \<times> ('a, 'b, 'c) LocalCache) \<Rightarrow> ('s, 'e, 'x option) op
     \<Rightarrow> ('x \<Rightarrow> ('a, 'b, 'c) LocalCache \<Rightarrow> ('a, 'b, 'c) LocalCache)
     \<Rightarrow> (('s, 'a, 'b, 'c) CachedStateStore, 'e, 'x option) op" where
  "read_through g m put =
     op_bind (read_cache g) (\<lambda>hit.
       case hit of
         Some x \<Rightarrow> op_return (Some x)
       | None \<Rightarrow> op_bind (via_bulk m) (\<lambda>found.
           case found of
             Some x \<Rightarrow> op_bind (on_cache (put x)) (\<lambda>_. op_return (Some x))
           | None \<Rightarrow> op_return None))"

definition css_create_session ::
  "('a, 'b, 'c) lru_libs \<Rightarrow> 's state_store \<Rightarrow> SessionState \<Rightarrow> (('s, 'a, 'b, 'c) CachedStateStore, StateError, unit) op" where
  "css_create_session ls bulk x =
     write_through (st_create_session bulk x) (lc_put_session ls x)"

definition css_get_session ::
  "('a, 'b, 'c) lru_libs \<Rightarrow> 's state_store \<Rightarrow> u64 \<Rightarrow> (('s, 'a, 'b, 'c) CachedStateStore, StateError, SessionState option) op" where
  "css_get_session ls bulk sid =
     read_through (lc_get_session ls sid) (st_get_session bulk sid) (lc_put_session ls)"

definition css_update_session ::
  "('a, 'b, 'c) lru_libs \<Rightarrow> 's state_store \<Rightarrow> SessionState \<Rightarrow> (('s, 'a, 'b, 'c) CachedStateStore, StateError, unit) op" where
  "css_update_session ls bulk x =
     write_through (st_update_session bulk x) (lc_put_session ls x)"

definition css_delete_session ::
  "('a, 'b, 'c) lru_libs \<Rightarrow> 's state_store \<Rightarrow> u64 \<Rightarrow> (('s, 'a, 'b, 'c) CachedStateStore, StateError, unit) op" where
  "css_delete_session ls bulk sid =
     write_through (st_delete_session bulk sid) (lc_remove_session ls sid)"

definition css_refresh_session ::
  "('a, 'b, 'c) lru_libs \<Rightarrow> 's state_store \<Rightarrow> u64 \<Rightarrow> u64 \<Rightarrow> u64 \<Rightarrow> (('s, 'a, 'b, 'c) CachedStateStore, StateError, unit) op" where
  "css_refresh_session ls bulk now sid ttl =
     write_through (st_refresh_session bulk now sid ttl) (lc_remove_session ls sid)"

definition css_create_tree ::
  "('a, 'b, 'c) lru_libs \<Rightarrow> 's state_store \<Rightarrow> TreeState \<Rightarrow> (('s, 'a, 'b, 'c) CachedStateStore, StateError, unit) op" where
  "css_create_tree ls bulk t =
     write_through (st_create_tree bulk t) (lc_put_tree ls t)"

definition css_get_tree ::
  "('a, 'b, 'c) lru_libs \<Rightarrow> 's state_store \<Rightarrow> u64 \<Rightarrow> u32 \<Rightarrow> (('s, 'a, 'b, 'c) CachedStateStore, StateError, TreeState option) op" where
  "css_get_tree ls bulk sid tid =
     read_through (lc_get_tree ls sid tid) (st_get_tree bulk sid tid) (lc_put_tree ls)"

definition css_delete_tree ::
  "('a, 'b, 'c) lru_libs \<Rightarrow> 's state_store \<Rightarrow> u64 \<Rightarrow> u32 \<Rightarrow> (('s, 'a, 'b, 'c) CachedStateStore, StateError, unit) op" where
  "css_delete_tree ls bulk sid tid =
     write_through (st_delete_tree bulk sid tid) (lc_remove_tree ls sid tid)"

definition css_create_handle ::
  "('a, 'b, 'c) lru_libs \<Rightarrow> 's state_store \<Rightarrow> HandleState \<Rightarrow> (('s, 'a, 'b, 'c) CachedStateStore, StateError, unit) op" where
  "css_create_handle ls bulk h =
     write_through (st_create_handle bulk h) (lc_put_handle ls h)"

definition css_get_handle ::
  "('a, 'b, 'c) lru_libs \<Rightarrow> 's state_store \<Rightarrow> u128 \<Rightarrow> (('s, 'a, 'b, 'c) CachedStateStore, StateError, HandleState option) op" where
  "css_get_handle ls bulk pid =
     read_through (lc_get_handle ls pid) (st_get_handle bulk pid) (lc_put_handle ls)"

definition css_update_handle ::
  "('a, 'b, 'c) lru_libs \<Rightarrow> 's state_store \<Rightarrow> HandleState \<Rightarrow> (('s, 'a, 'b, 'c) CachedStateStore, StateError, unit) op" where
  "css_update_handle ls bulk h =
     write_through (st_update_handle bulk h) (lc_put_handle ls h)"

definition css_delete_handle ::
  "('a, 'b, 'c) lru_libs \<Rightarrow> 's state_store \<Rightarrow> u128 \<Rightarrow> (('s, 'a, 'b, 'c) CachedStateStore, StateError, unit) op" where
  "css_delete_handle ls bulk pid =
     write_through (st_delete_handle bulk pid) (lc_remove_handle ls pid)"

lemmas css_op_defs = css_create_session_def css_get_session_def css_update_session_def css_delete_session_def css_refresh_session_def css_create_tree_def css_get_tree_def css_delete_tree_def css_create_handle_def css_get_handle_def css_update_handle_def css_delete_handle_def

definition cached_store ::
  "('a, 'b, 'c) lru_libs \<Rightarrow> 's state_store \<Rightarrow> ('s, 'a, 'b, 'c) CachedStateStore state_store" where
  "cached_store ls bulk = \<lparr>
     st_create_session = css_create_session ls bulk,
     st_get_session = css_get_session ls bulk,
     st_update_session = css_update_session ls bulk,
     st_delete_session = css_delete_session ls bulk,
     st_refresh_session = css_refresh_session ls bulk,
     st_list_sessions = (\<lambda>u. via_bulk (st_list_sessions bulk u)),
     st_create_tree = css_create_tree ls bulk,
     st_get_tree = css_get_tree ls bulk,
     st_get_trees_by_session = (\<lambda>sid. via_bulk (st_get_trees_by_session bulk sid)),
     st_delete_tree = css_delete_tree ls bulk,
     st_create_handle = css_create_handle ls bulk,
     st_get_handle = css_get_handle ls bulk,
     st_update_handle = css_update_handle ls bulk,
     st_get_handles_by_session = (\<lambda>sid. via_bulk (st_get_handles_by_session bulk sid)),
     st_get_handles_for_file = (\<lambda>share path. via_bulk (st_get_handles_for_file bulk share path)),
     st_delete_handle = css_delete_handle ls bulk,
     st_create_lock = (\<lambda>l. via_bulk (st_create_lock bulk l)),
     st_get_locks = (\<lambda>pid. via_bulk (st_get_locks bulk pid)),
     st_delete_lock = (\<lambda>lid. via_bulk (st_delete_lock bulk lid)),
     st_acquire_distributed_lock = (\<lambda>nanos key ttl.
       via_bulk (st_acquire_distributed_lock bulk nanos key ttl)),
     st_release_distributed_lock = (\<lambda>key token. via_bulk (st_release_distributed_lock bulk key token)),
     st_extend_distributed_lock = (\<lambda>key token ttl.
       via_bulk (st_extend_distributed_lock bulk key token ttl)),
     st_next_session_id = via_bulk (st_next_session_id bulk),
     st_next_tree_id = (\<lambda>sid. via_bulk (st_next_tree_id bulk sid)),
     st_next_handle_id = via_bulk (st_next_handle_id bulk),
     st_create_lease = (\<lambda>l. via_bulk (st_create_lease bulk l)),
     st_get_lease = (\<lambda>k. via_bulk (st_get_lease bulk k)),
     st_update_lease = (\<lambda>l. via_bulk (st_update_lease bulk l)),
     st_delete_lease = (\<lambda>k. via_bulk (st_delete_lease bulk k)),
     st_get_leases_for_file = (\<lambda>p. via_bulk (st_get_leases_for_file bulk p)),
     st_check_and_create_lease = (\<lambda>p l r. via_bulk (st_check_and_create_lease bulk p l r)),
     st_delete_leases_for_server = (\<lambda>srv. via_bulk (st_delete_leases_for_server bulk srv)),
     st_acquire_file_lock = (\<lambda>l. via_bulk (st_acquire_file_lock bulk l)),
     st_release_file_lock = (\<lambda>lid. via_bulk (st_release_file_lock bulk lid)),
     st_get_file_locks = (\<lambda>p. via_bulk (st_get_file_locks bulk p)),
     st_release_file_locks_for_session = (\<lambda>sid.
       via_bulk (st_release_file_locks_for_session bulk sid)),
     st_release_file_locks_for_handle = (\<lambda>pid.
       via_bulk (st_release_file_locks_for_handle bulk pid)),
     st_release_file_locks_for_server = (\<lambda>srv.
       via_bulk (st_release_file_locks_for_server bulk srv)),
     st_next_file_lock_id = via_bulk (st_next_file_lock_id bulk) \<rparr>"

section \<open>Coherence\<close>

text \<open>
  An entry of the current epoch agrees with the backing map, whatever its age, and no entry is
  from a later epoch.
\<close>

definition backed :: "('c, 'k, 'd CacheEntry) lru_lib \<Rightarrow> u64 \<Rightarrow> 'c \<Rightarrow> ('k \<rightharpoonup> 'd) \<Rightarrow> bool" where
  "backed l epoch c m \<longleftrightarrow> (\<forall>k e. lru_peek l c k = Some e \<longrightarrow>
     ce_epoch e \<le> epoch \<and> (ce_epoch e = epoch \<longrightarrow> m k = Some (ce_data e)))"

definition coherent :: "('a, 'b, 'c) lru_libs \<Rightarrow> ('a, 'b, 'c) LocalCache \<Rightarrow> store_view \<Rightarrow> bool" where
  "coherent ls c v \<longleftrightarrow>
     backed (lib_sessions ls) (lc_current_epoch c) (lc_sessions c) (sv_sessions v) \<and>
     backed (lib_handles ls) (lc_current_epoch c) (lc_handles c) (sv_handles v) \<and>
     backed (lib_trees ls) (lc_current_epoch c) (lc_trees c) (sv_trees v)"

definition cached_inv ::
  "('a, 'b, 'c) lru_libs \<Rightarrow> ('s \<Rightarrow> bool) \<Rightarrow> ('s \<Rightarrow> store_view)
     \<Rightarrow> ('s, 'a, 'b, 'c) CachedStateStore \<Rightarrow> bool" where
  "cached_inv ls invar view s \<longleftrightarrow> invar (css_bulk_store s) \<and>
     (\<forall>c. css_cache s = Some c \<longrightarrow> coherent ls c (view (css_bulk_store s)))"

definition cached_view ::
  "('s \<Rightarrow> store_view) \<Rightarrow> ('s, 'a, 'b, 'c) CachedStateStore \<Rightarrow> store_view" where
  "cached_view view s = view (css_bulk_store s)"

lemmas cached_inv_defs = cached_inv_def cached_view_def

lemma backed_put:
  assumes "lru_ok l" "backed l epoch c m" "ce_epoch e = epoch"
  shows "backed l epoch (lru_put l k e c) (m(k \<mapsto> ce_data e))"
  unfolding backed_def
proof (intro allI impI)
  fix j e'
  assume j: "lru_peek l (lru_put l k e c) j = Some e'"
  show "ce_epoch e' \<le> epoch \<and> (ce_epoch e' = epoch \<longrightarrow> (m(k \<mapsto> ce_data e)) j = Some (ce_data e'))"
  proof (cases "j = k")
    case True
    with j assms show ?thesis by (simp add: lru_ok_def)
  next
    case False
    with assms(1) have "lru_peek l (lru_put l k e c) j \<in> {None, lru_peek l c j}"
      by (simp add: lru_ok_def)
    with j assms(2) False show ?thesis by (auto simp: backed_def)
  qed
qed

lemma backed_pop: "lru_ok l \<Longrightarrow> backed l epoch c m \<Longrightarrow> backed l epoch (lru_pop l k c) (m(k := x))"
  by (simp add: backed_def lru_ok_def)

lemma backed_pop_same: "lru_ok l \<Longrightarrow> backed l epoch c m \<Longrightarrow> backed l epoch (lru_pop l k c) m"
  by (simp add: backed_def lru_ok_def)

lemma backed_read:
  assumes "lru_ok l" "backed l epoch c m"
  shows "backed l epoch (snd (lru_read l now epoch k c)) m"
    and "fst (lru_read l now epoch k c) = Some x \<Longrightarrow> m k = Some x"
proof -
  obtain r c1 where g: "lru_get l k c = (r, c1)" by fastforce
  from assms(1) have "fst (lru_get l k c) = lru_peek l c k \<and> lru_peek l (snd (lru_get l k c)) = lru_peek l c"
    unfolding lru_ok_def by blast
  with g have r: "r = lru_peek l c k" and c1: "lru_peek l c1 = lru_peek l c" by simp_all
  from assms(2) c1 have b1: "backed l epoch c1 m" by (simp add: backed_def)
  show "backed l epoch (snd (lru_read l now epoch k c)) m"
    using b1 backed_pop_same [OF assms(1) b1] by (simp add: lru_read_def g split: option.split)
  show "fst (lru_read l now epoch k c) = Some x \<Longrightarrow> m k = Some x"
    using assms(2) r
    by (auto simp: lru_read_def g backed_def ce_is_valid_def ce_is_stale_def
        split: option.splits if_splits)
qed

lemma backed_new_epoch: "backed l epoch c m \<Longrightarrow> epoch < epoch' \<Longrightarrow> backed l epoch' c m'"
  by (fastforce simp: backed_def)

lemma coherent_frame:
  "coherent ls c v \<Longrightarrow> sv_sessions v' = sv_sessions v \<Longrightarrow> sv_handles v' = sv_handles v
    \<Longrightarrow> sv_trees v' = sv_trees v \<Longrightarrow> coherent ls c v'"
  by (simp add: coherent_def)

lemmas lc_defs = lc_get_session_def lc_put_session_def lc_remove_session_def lc_get_handle_def
  lc_put_handle_def lc_remove_handle_def lc_get_tree_def lc_put_tree_def lc_remove_tree_def
  CacheEntry_new_def Let_def

lemma coherent_writes:
  assumes "lru_libs_ok ls" "coherent ls c v"
  shows "coherent ls (lc_put_session ls x c) (v\<lparr> sv_sessions := (sv_sessions v)(ss_session_id x \<mapsto> x) \<rparr>)"
    and "coherent ls (lc_put_handle ls h c) (v\<lparr> sv_handles := (sv_handles v)(hs_persistent_id h \<mapsto> h) \<rparr>)"
    and "coherent ls (lc_put_tree ls t c)
      (v\<lparr> sv_trees := (sv_trees v)((ts_session_id t, ts_tree_id t) \<mapsto> t) \<rparr>)"
    and "coherent ls (lc_remove_session ls sid c) (v\<lparr> sv_sessions := (sv_sessions v)(sid := xo) \<rparr>)"
    and "coherent ls (lc_remove_handle ls pid c) (v\<lparr> sv_handles := (sv_handles v)(pid := ho) \<rparr>)"
    and "coherent ls (lc_remove_tree ls sid tid c) (v\<lparr> sv_trees := (sv_trees v)((sid, tid) := to) \<rparr>)"
  using assms
    backed_put [of "lib_sessions ls" "lc_current_epoch c" "lc_sessions c" "sv_sessions v"
      "CacheEntry_new (lc_clock c) x (lc_current_epoch c) (cfg_default_ttl (lc_config c))"
      "ss_session_id x"]
    backed_put [of "lib_handles ls" "lc_current_epoch c" "lc_handles c" "sv_handles v"
      "CacheEntry_new (lc_clock c) h (lc_current_epoch c) (cfg_default_ttl (lc_config c))"
      "hs_persistent_id h"]
    backed_put [of "lib_trees ls" "lc_current_epoch c" "lc_trees c" "sv_trees v"
      "CacheEntry_new (lc_clock c) t (lc_current_epoch c) (cfg_default_ttl (lc_config c))"
      "(ts_session_id t, ts_tree_id t)"]
  by (simp_all add: coherent_def lru_libs_ok_def lc_defs backed_pop)

lemma coherent_reads:
  assumes "lru_libs_ok ls" "coherent ls c v"
  shows "coherent ls (snd (lc_get_session ls sid c)) v"
    and "fst (lc_get_session ls sid c) = Some x \<Longrightarrow> sv_sessions v sid = Some x"
    and "coherent ls (snd (lc_get_handle ls pid c)) v"
    and "fst (lc_get_handle ls pid c) = Some h \<Longrightarrow> sv_handles v pid = Some h"
    and "coherent ls (snd (lc_get_tree ls sid tid c)) v"
    and "fst (lc_get_tree ls sid tid c) = Some t \<Longrightarrow> sv_trees v (sid, tid) = Some t"
  using assms by (auto simp: coherent_def lru_libs_ok_def lc_defs split_beta dest: backed_read)

section \<open>The cached store keeps the contracts of its bulk store\<close>

lemma via_bulk_commits:
  assumes m: "commits invar view f m" and f: "\<And>c v. coherent ls c v \<Longrightarrow> coherent ls c (f v)"
  shows "commits (cached_inv ls invar view) (cached_view view) f (via_bulk m)"
  unfolding commits_def
proof (intro allI impI)
  fix s r s'
  assume s: "cached_inv ls invar view s" and run: "via_bulk m s = (r, s')"
  obtain b where b: "m (css_bulk_store s) = (r, b)" "s' = s\<lparr> css_bulk_store := b \<rparr>"
    using run by (auto simp: via_bulk_def split: prod.splits)
  have "invar (css_bulk_store s)" using s by (simp add: cached_inv_def)
  from commitsD [OF m this b(1)] show "cached_inv ls invar view s' \<and> cached_view view s' =
      (case r of Inl _ \<Rightarrow> cached_view view s | Inr _ \<Rightarrow> f (cached_view view s))"
    using s f by (cases r) (simp_all add: cached_inv_defs b(2))
qed

lemma via_bulk_answers:
  assumes m: "answers invar view P m"
  shows "answers (cached_inv ls invar view) (cached_view view) P (via_bulk m)"
  unfolding answers_def
proof (intro allI impI)
  fix s r s'
  assume s: "cached_inv ls invar view s" and run: "via_bulk m s = (r, s')"
  obtain b where b: "m (css_bulk_store s) = (r, b)" "s' = s\<lparr> css_bulk_store := b \<rparr>"
    using run by (auto simp: via_bulk_def split: prod.splits)
  have "invar (css_bulk_store s)" using s by (simp add: cached_inv_def)
  from answersD [OF m this b(1)] show "cached_inv ls invar view s' \<and>
      cached_view view s' = cached_view view s \<and> (\<forall>x. r = Inr x \<longrightarrow> P (cached_view view s) x)"
    using s by (simp add: cached_inv_defs b(2))
qed

lemma via_bulk_ok: "always_ok invar m \<Longrightarrow> always_ok (cached_inv ls invar view) (via_bulk m)"
  by (fastforce simp: always_ok_def cached_inv_def via_bulk_def)

lemma write_through_cases:
  "write_through m g s = (case m (css_bulk_store s) of
     (Inl e, b) \<Rightarrow> (Inl e, s\<lparr> css_bulk_store := b \<rparr>)
   | (Inr x, b) \<Rightarrow> (Inr (), s\<lparr> css_bulk_store := b, css_cache := map_option g (css_cache s) \<rparr>))"
  by (simp add: write_through_def via_bulk_def on_cache_def op_bind_def split: prod.split sum.split)

lemma write_through_commits:
  assumes m: "commits invar view f m" and g: "\<And>c v. coherent ls c v \<Longrightarrow> coherent ls (g c) (f v)"
  shows "commits (cached_inv ls invar view) (cached_view view) f (write_through m g)"
proof (rule commitsI)
  fix s
  assume s: "cached_inv ls invar view s"
  obtain r b where b: "m (css_bulk_store s) = (r, b)" by fastforce
  have "invar (css_bulk_store s)" using s by (simp add: cached_inv_def)
  from commitsD [OF m this b] show "cached_inv ls invar view (snd (write_through m g s)) \<and>
      cached_view view (snd (write_through m g s)) = (case fst (write_through m g s) of
        Inl _ \<Rightarrow> cached_view view s | Inr _ \<Rightarrow> f (cached_view view s))"
    using s g by (cases r) (auto simp: cached_inv_defs write_through_cases b)
qed

lemma write_through_ok:
  assumes "always_ok invar m"
  shows "always_ok (cached_inv ls invar view) (write_through m g)"
  unfolding always_ok_def
proof (intro allI impI)
  fix s
  assume "cached_inv ls invar view s"
  with assms obtain x b where "m (css_bulk_store s) = (Inr x, b)"
    by (auto simp: cached_inv_def always_ok_def)
  then show "\<exists>x s'. write_through m g s = (Inr x, s')" by (simp add: write_through_cases)
qed

text \<open>A hit is answered from the cache, a miss by the bulk store, whose answer is then cached.\<close>

lemma read_through_cases:
  "read_through g m put s = (case css_cache s of
     None \<Rightarrow> via_bulk m s
   | Some c \<Rightarrow> (case g c of
       (Some x, c') \<Rightarrow> (Inr (Some x), s\<lparr> css_cache := Some c' \<rparr>)
     | (None, c') \<Rightarrow> (case m (css_bulk_store s) of
         (Inr (Some x), b) \<Rightarrow> (Inr (Some x), s\<lparr> css_bulk_store := b, css_cache := Some (put x c') \<rparr>)
       | (r, b) \<Rightarrow> (r, s\<lparr> css_bulk_store := b, css_cache := Some c' \<rparr>))))"
  by (simp add: read_through_def read_cache_def via_bulk_def on_cache_def op_bind_def op_return_def
      split: prod.split sum.split option.split)

lemma read_through_answers:
  assumes m: "answers invar view (\<lambda>v r. r = look v) m"
    and get: "\<And>c v. coherent ls c v \<Longrightarrow> coherent ls (snd (g c)) v"
    and hit: "\<And>c v x. coherent ls c v \<Longrightarrow> fst (g c) = Some x \<Longrightarrow> look v = Some x"
    and put: "\<And>c s x. invar s \<Longrightarrow> coherent ls c (view s) \<Longrightarrow> look (view s) = Some x
      \<Longrightarrow> coherent ls (put x c) (view s)"
  shows "answers (cached_inv ls invar view) (cached_view view) (\<lambda>v r. r = look v) (read_through g m put)"
proof (rule answersI)
  fix s
  assume s: "cached_inv ls invar view s"
  obtain r b where b: "m (css_bulk_store s) = (r, b)" by fastforce
  have i: "invar (css_bulk_store s)" using s by (simp add: cached_inv_def)
  note a = answersD [OF m i b]
  show "cached_inv ls invar view (snd (read_through g m put s)) \<and>
      cached_view view (snd (read_through g m put s)) = cached_view view s \<and>
      (\<forall>x. fst (read_through g m put s) = Inr x \<longrightarrow> x = look (cached_view view s))"
  proof (cases "css_cache s")
    case None
    with s a show ?thesis by (simp add: read_through_cases via_bulk_def cached_inv_defs b)
  next
    case (Some c)
    obtain h c' where g: "g c = (h, c')" by fastforce
    have c: "coherent ls c (view (css_bulk_store s))" using s Some by (simp add: cached_inv_def)
    have c': "coherent ls c' (view (css_bulk_store s))" using get [OF c] g by simp
    have h: "h = Some x \<Longrightarrow> look (view (css_bulk_store s)) = Some x" for x using hit [OF c] g by simp
    show ?thesis
      using s Some g a c' h put [OF i c']
      by (auto simp: read_through_cases cached_inv_defs b split: option.split sum.split)
  qed
qed

lemma read_through_ok:
  assumes "always_ok invar m"
  shows "always_ok (cached_inv ls invar view) (read_through g m put)"
  unfolding always_ok_def
proof (intro allI impI)
  fix s
  assume "cached_inv ls invar view s"
  with assms obtain x b where "m (css_bulk_store s) = (Inr x, b)"
    by (auto simp: cached_inv_def always_ok_def)
  then show "\<exists>x s'. read_through g m put s = (Inr x, s')"
    by (simp add: read_through_cases via_bulk_def split: option.split prod.split)
qed

lemma coherent_put_known:
  assumes "lru_libs_ok ls" "coherent ls c v" "view_keyed v"
  shows "sv_sessions v sid = Some x \<Longrightarrow> coherent ls (lc_put_session ls x c) v"
    and "sv_handles v pid = Some h \<Longrightarrow> coherent ls (lc_put_handle ls h c) v"
    and "sv_trees v (sid, tid) = Some t \<Longrightarrow> coherent ls (lc_put_tree ls t c) v"
  using coherent_writes(1) [OF assms(1,2), of x] coherent_writes(2) [OF assms(1,2), of h]
    coherent_writes(3) [OF assms(1,2), of t] assms(3)
  by (auto simp: view_keyed_def map_upd_triv)

lemmas session_laws = session_store.create_session session_store.get_session
  session_store.update_session session_store.delete_session session_store.refresh_session
  session_store.create_tree session_store.get_tree session_store.get_trees_by_session
  session_store.delete_tree session_store.create_handle session_store.get_handle
  session_store.update_handle session_store.get_handles_by_session session_store.delete_handle
  session_store.delete_lease session_store.next_session_id session_store.next_tree_id
  session_store.next_handle_id

lemmas cluster_laws = cluster_store.delete_leases_for_server cluster_store.release_file_lock
  cluster_store.get_file_locks cluster_store.release_file_locks_for_session
  cluster_store.release_file_locks_for_handle cluster_store.release_file_locks_for_server

lemmas reliable_laws = reliable_store.ok_get_session reliable_store.ok_delete_session
  reliable_store.ok_refresh_session reliable_store.ok_get_trees_by_session
  reliable_store.ok_delete_tree reliable_store.ok_get_handles_by_session
  reliable_store.ok_update_handle reliable_store.ok_get_handle reliable_store.ok_get_tree
  reliable_store.ok_create_handle reliable_store.ok_delete_handle reliable_store.ok_delete_lease

lemma cached_session_store:
  assumes bulk: "session_store bulk invar view" and ls: "lru_libs_ok ls"
  shows "session_store (cached_store ls bulk) (cached_inv ls invar view) (cached_view view)"
proof
  fix s
  assume "cached_inv ls invar view s"
  then show "view_keyed (cached_view view s)"
    by (simp add: cached_inv_defs session_store.keyed [OF bulk])
qed (unfold cached_store_def state_store.simps css_op_defs,
     (rule write_through_commits read_through_answers via_bulk_answers via_bulk_commits,
      rule session_laws [OF bulk],
      (auto intro: coherent_writes [OF ls] coherent_reads [OF ls] coherent_frame
         coherent_put_known [OF ls _ session_store.keyed [OF bulk]])?)+)

lemma cached_cluster_store:
  assumes bulk: "cluster_store bulk invar view" and ls: "lru_libs_ok ls"
  shows "cluster_store (cached_store ls bulk) (cached_inv ls invar view) (cached_view view)"
proof (intro cluster_store.intro cluster_store_axioms.intro)
  show "session_store (cached_store ls bulk) (cached_inv ls invar view) (cached_view view)"
    using bulk ls by (blast intro: cached_session_store cluster_store.axioms)
next
  fix l s b s'
  assume s: "cached_inv ls invar view s"
    and run: "st_acquire_file_lock (cached_store ls bulk) l s = (Inr b, s')"
  then have "st_acquire_file_lock bulk l (css_bulk_store s) = (Inr b, css_bulk_store s')"
    by (auto simp: cached_store_def via_bulk_def split: prod.splits)
  from cluster_store.acquire_file_lock [OF bulk _ this] s
  show "b = (\<forall>x \<in> ran (sv_file_locks (cached_view view s)). \<not> conflicts_with l x) \<and>
      cached_view view s' = (if b then (cached_view view s)\<lparr> sv_file_locks :=
         (sv_file_locks (cached_view view s))(dl_lock_id l \<mapsto> l) \<rparr> else cached_view view s)"
    by (simp add: cached_inv_defs)
next
  fix l s r s'
  assume s: "cached_inv ls invar view s"
    and "st_acquire_file_lock (cached_store ls bulk) l s = (r, s')"
  then have run: "st_acquire_file_lock bulk l (css_bulk_store s) = (r, css_bulk_store s')"
    and c: "css_cache s' = css_cache s"
    by (auto simp: cached_store_def via_bulk_def split: prod.splits)
  have i: "invar (css_bulk_store s)" using s by (simp add: cached_inv_def)
  note inv' = cluster_store.acquire_file_lock_inv [OF bulk i run]
  have "sv_sessions (view (css_bulk_store s')) = sv_sessions (view (css_bulk_store s)) \<and>
      sv_handles (view (css_bulk_store s')) = sv_handles (view (css_bulk_store s)) \<and>
      sv_trees (view (css_bulk_store s')) = sv_trees (view (css_bulk_store s))"
    using inv' cluster_store.acquire_file_lock [OF bulk i] run by (cases r) simp_all
  with s c inv' show "cached_inv ls invar view s' \<and> (\<forall>e. r = Inl e \<longrightarrow> cached_view view s' = cached_view view s)"
    by (auto simp: cached_inv_defs intro: coherent_frame)
qed (unfold cached_store_def state_store.simps,
     (rule via_bulk_answers via_bulk_commits, rule cluster_laws [OF bulk],
      (auto intro: coherent_frame)?)+)

lemma cached_reliable_store:
  assumes bulk: "reliable_store bulk invar view" and ls: "lru_libs_ok ls"
  shows "reliable_store (cached_store ls bulk) (cached_inv ls invar view) (cached_view view)"
proof (intro reliable_store.intro reliable_store_axioms.intro)
  show "session_store (cached_store ls bulk) (cached_inv ls invar view) (cached_view view)"
    using bulk ls by (blast intro: cached_session_store reliable_store.axioms)
qed (unfold cached_store_def state_store.simps css_op_defs,
     (rule write_through_ok read_through_ok via_bulk_ok, rule reliable_laws [OF bulk])+)

section \<open>A concrete LRU cache\<close>

text \<open>A list in recency order, cut to its capacity; the instance the witnesses evaluate.\<close>

definition list_lru :: "(nat \<times> ('k \<times> 'v) list, 'k, 'v) lru_lib" where
  "list_lru = \<lparr>
     lru_new = (\<lambda>n. (n, [])),
     lru_get = (\<lambda>k (n, xs). case map_of xs k of
        None \<Rightarrow> (None, (n, xs))
      | Some v \<Rightarrow> (Some v, (n, (k, v) # filter (\<lambda>p. fst p \<noteq> k) xs))),
     lru_put = (\<lambda>k v (n, xs). (n, (k, v) # take (n - 1) (filter (\<lambda>p. fst p \<noteq> k) xs))),
     lru_pop = (\<lambda>k (n, xs). (n, filter (\<lambda>p. fst p \<noteq> k) xs)),
     lru_peek = (\<lambda>(n, xs). map_of xs),
     lru_len = (\<lambda>(n, xs). length xs),
     lru_cap = fst \<rparr>"

lemma map_of_take: "map_of (take n xs) k = None \<or> map_of (take n xs) k = map_of xs k"
proof (induction xs arbitrary: n)
  case (Cons x xs)
  then show ?case by (cases n) auto
qed simp

lemma map_of_filter_other: "map_of (filter (\<lambda>p. fst p \<noteq> k) xs) = (map_of xs)(k := None)"
  by (induction xs) (auto simp: fun_eq_iff)

lemma list_lru_ok: "lru_ok list_lru"
  unfolding lru_ok_def
proof (intro conjI allI impI)
  fix c :: "nat \<times> ('k \<times> 'v) list" and k v j
  obtain n xs where c: "c = (n, xs)" by fastforce
  show "lru_peek list_lru (snd (lru_get list_lru k c)) = lru_peek list_lru c"
    by (simp add: list_lru_def c map_of_filter_other fun_eq_iff split: option.split)
  show "j \<noteq> k \<Longrightarrow> lru_peek list_lru (lru_put list_lru k v c) j \<in> {None, lru_peek list_lru c j}"
    using map_of_take [of "n - 1" "filter (\<lambda>p. fst p \<noteq> k) xs" j]
    by (simp add: list_lru_def c map_of_filter_other)
qed (auto simp: list_lru_def map_of_filter_other split: option.split)

definition list_lrus ::
  "(nat \<times> (u64 \<times> SessionState CacheEntry) list, nat \<times> (u128 \<times> HandleState CacheEntry) list,
    nat \<times> ((u64 \<times> u32) \<times> TreeState CacheEntry) list) lru_libs" where
  "list_lrus = \<lparr> lib_sessions = list_lru, lib_handles = list_lru, lib_trees = list_lru \<rparr>"

lemma list_lrus_ok: "lru_libs_ok list_lrus"
  by (simp add: lru_libs_ok_def list_lrus_def list_lru_ok)

interpretation cached_mem: reliable_store "cached_store list_lrus memory_store"
  "cached_inv list_lrus mem_wf mem_view" "cached_view mem_view"
  by (rule cached_reliable_store [OF mem.reliable_store_axioms list_lrus_ok])

section \<open>Properties\<close>

text \<open>C19. A cached store promises its clients exactly what the store behind it promises: over any
  bulk store that keeps the session, lease and lock contract and any cache package that behaves
  as documented, every operation of the cached store has the contract's effect on the bulk
  store's view, reads return what the last write stored, whether or not they hit the cache, and
  an error leaves the view as it was.\<close>

theorem cached_store_keeps_contract:
  assumes "cluster_store bulk invar view" and "lru_libs_ok ls"
  shows "cluster_store (cached_store ls bulk) (cached_inv ls invar view) (cached_view view)"
  using assms by (rule cached_cluster_store)

theorem cached_store_keeps_contract_witness:
  "cluster_store memory_store mem_wf mem_view \<and> lru_libs_ok list_lrus \<and>
   cluster_store (cached_store list_lrus memory_store)
     (cached_inv list_lrus mem_wf mem_view) (cached_view mem_view)"
  using mem.cluster_store_axioms list_lrus_ok
    cached_store_keeps_contract [OF mem.cluster_store_axioms list_lrus_ok] by blast

text \<open>
  The cache only knows of the writes that go through it. \<open>css_invalidate_all\<close> makes it agree
  again with a bulk store that other servers have written to.
\<close>

lemma coherent_later_epoch:
  "coherent ls c v \<Longrightarrow> lc_current_epoch c < epoch \<Longrightarrow> coherent ls (c\<lparr> lc_current_epoch := epoch \<rparr>) v'"
  by (auto simp: coherent_def intro: backed_new_epoch)

lemma cached_inv_invalidate:
  assumes "cached_inv ls invar view s" "invar b"
    and "\<And>c. css_cache s = Some c \<Longrightarrow> lc_current_epoch c \<noteq> - 1"
  shows "cached_inv ls invar view (css_invalidate_all (s\<lparr> css_bulk_store := b \<rparr>))"
  using assms
  by (auto simp: cached_inv_def css_invalidate_all_def lc_invalidate_all_def
      intro: coherent_later_epoch word_less_add_one)

text \<open>C40. Whatever other servers have written to the bulk store, invalidating the cache re-establishes
  the invariant under which the cached store's reads are exact, until the 64-bit epoch wraps:
  a get of any session after the invalidation answers what the bulk store holds now.\<close>

theorem invalidate_all_restores_coherence:
  assumes "cluster_store bulk invar view" and "lru_libs_ok ls"
    and "cached_inv ls invar view s" and "invar b"
    and "\<And>c. css_cache s = Some c \<Longrightarrow> lc_current_epoch c \<noteq> - 1"
  shows "cached_inv ls invar view (css_invalidate_all (s\<lparr> css_bulk_store := b \<rparr>)) \<and>
    (\<forall>x s'. st_get_session (cached_store ls bulk) sid (css_invalidate_all (s\<lparr> css_bulk_store := b \<rparr>))
       = (Inr x, s') \<longrightarrow> x = sv_sessions (view b) sid)"
proof -
  let ?s = "css_invalidate_all (s\<lparr> css_bulk_store := b \<rparr>)"
  have i: "cached_inv ls invar view ?s" using assms(3-5) by (rule cached_inv_invalidate)
  have "cached_view view ?s = view b" by (simp add: cached_view_def css_invalidate_all_def)
  then show ?thesis
    using i answersD(3) [OF session_store.get_session [OF cached_session_store
      [OF cluster_store.axioms(1) [OF assms(1)] assms(2)]] i] by metis
qed

lemma backed_lru_new: "lru_ok l \<Longrightarrow> backed l epoch (lru_new l n) m"
  by (simp add: lru_ok_def backed_def)

lemma cached_inv_new:
  "lru_libs_ok ls \<Longrightarrow> invar b \<Longrightarrow> cached_inv ls invar view (CachedStateStore_new ls clock b config coord)"
  by (simp add: cached_inv_def CachedStateStore_new_def coherent_def LocalCache_new_def
      lru_libs_ok_def backed_lru_new)

theorem invalidate_all_restores_coherence_witness:
  "\<exists>s :: (MemoryStateStore, _, _, _) CachedStateStore.
     cached_inv list_lrus mem_wf mem_view s \<and> css_bulk_store s = MemoryStateStore_new \<and>
     cached_inv list_lrus mem_wf mem_view (css_invalidate_all (s\<lparr> css_bulk_store := demo_store \<rparr>))"
proof (intro exI conjI)
  let ?s = "CachedStateStore_new list_lrus 0 MemoryStateStore_new CacheConfig_default True"
  show i: "cached_inv list_lrus mem_wf mem_view ?s"
    by (rule cached_inv_new) (simp_all add: list_lrus_ok)
  show "css_bulk_store ?s = MemoryStateStore_new" by (simp add: CachedStateStore_new_def)
  have "css_cache ?s = Some c \<Longrightarrow> lc_current_epoch c \<noteq> - 1" for c
    by (auto simp: CachedStateStore_new_def LocalCache_new_def)
  then show "cached_inv list_lrus mem_wf mem_view (css_invalidate_all (?s\<lparr> css_bulk_store := demo_store \<rparr>))"
    using invalidate_all_restores_coherence [OF mem.cluster_store_axioms list_lrus_ok i demo_store_wf]
    by blast
qed

end
