(* ===== verification/Server_Coordination.thy ===== *)
theory Server_Coordination
  imports Cached_Store
begin

text \<open>
  \<open>crates/rustsmb-server/src/coordination.rs\<close>: the listeners that keep a server's cached store in
  step with the cluster. Each body of a \<open>while let Some(event) = stream.next()\<close> loop is one
  definition on the cached store's state; a run is the fold over the events delivered. The
  shutdown flag and the logging around them are left out.
\<close>

text \<open>The non-zero Raft node id of a server; \<open>DefaultHasher\<close> is a parameter.\<close>

definition string_to_node_id :: "(string \<Rightarrow> u64) \<Rightarrow> string \<Rightarrow> u64" where
  "string_to_node_id hasher s = (let hash = hasher s in if hash = 0 then 1 else hash)"

definition on_epoch_change ::
  "u64 \<Rightarrow> ('s, 'a, 'b, 'c) CachedStateStore \<Rightarrow> ('s, 'a, 'b, 'c) CachedStateStore" where
  "on_epoch_change new_epoch s = css_invalidate_all (css_set_epoch new_epoch s)"

definition on_server_failure ::
  "('a, 'b, 'c) lru_libs \<Rightarrow> 's state_store \<Rightarrow> string
     \<Rightarrow> ('s, 'a, 'b, 'c) CachedStateStore \<Rightarrow> ('s, 'a, 'b, 'c) CachedStateStore" where
  "on_server_failure ls bulk failed s =
     (let s1 = snd (st_delete_leases_for_server (cached_store ls bulk) failed s);
          s2 = snd (st_release_file_locks_for_server (cached_store ls bulk) failed s1)
      in css_invalidate_all s2)"

datatype cluster_event =
    EpochChanged u64
  | ServerFailed string

definition on_cluster_event ::
  "('a, 'b, 'c) lru_libs \<Rightarrow> 's state_store \<Rightarrow> cluster_event
     \<Rightarrow> ('s, 'a, 'b, 'c) CachedStateStore \<Rightarrow> ('s, 'a, 'b, 'c) CachedStateStore" where
  "on_cluster_event ls bulk e =
     (case e of EpochChanged n \<Rightarrow> on_epoch_change n | ServerFailed srv \<Rightarrow> on_server_failure ls bulk srv)"

definition css_epoch :: "('s, 'a, 'b, 'c) CachedStateStore \<Rightarrow> u64" where
  "css_epoch s = (case css_cache s of None \<Rightarrow> 0 | Some c \<Rightarrow> lc_current_epoch c)"

section \<open>Clean-up after a failed server\<close>

lemma failure_cleanup_effect:
  assumes ls: "lru_libs_ok ls" and i: "cached_inv ls mem_wf mem_view s"
  shows "cached_view mem_view (on_server_failure ls memory_store srv s) =
      (cached_view mem_view s)
        \<lparr> sv_leases := map_retain (\<lambda>l. le_server_id l \<noteq> srv) (sv_leases (cached_view mem_view s)),
          sv_file_locks := map_retain (\<lambda>l. dl_server_id l \<noteq> srv)
            (sv_file_locks (cached_view mem_view s)) \<rparr>"
proof -
  note c = cached_cluster_store [OF mem.cluster_store_axioms ls]
  obtain r1 s1 where 1: "st_delete_leases_for_server (cached_store ls memory_store) srv s = (Inr r1, s1)"
    by (simp add: cached_store_def via_bulk_def memory_store_def mem_delete_leases_for_server_def Let_def)
  obtain r2 s2 where 2: "st_release_file_locks_for_server (cached_store ls memory_store) srv s1 = (Inr r2, s2)"
    by (simp add: cached_store_def via_bulk_def memory_store_def mem_release_file_locks_for_server_def Let_def)
  note d1 = commitsD [OF cluster_store.delete_leases_for_server [OF c] i 1]
  note d2 = commitsD [OF cluster_store.release_file_locks_for_server [OF c] d1(1) 2]
  show ?thesis
    using d1(2) d2(2)
    by (simp add: on_server_failure_def 1 2 cached_view_def css_invalidate_all_def)
qed

lemma on_server_failure_cache:
  "css_cache (on_server_failure ls bulk srv s) = map_option lc_invalidate_all (css_cache s)"
  by (simp add: on_server_failure_def cached_store_def via_bulk_def css_invalidate_all_def Let_def
      split: prod.split)

lemma coherent_invalidate:
  "coherent ls c v \<Longrightarrow> lc_current_epoch c \<noteq> - 1 \<Longrightarrow> coherent ls (lc_invalidate_all c) v'"
  by (auto simp: lc_invalidate_all_def intro: coherent_later_epoch word_less_add_one)

lemma failure_cleanup_inv:
  assumes ls: "lru_libs_ok ls" and i: "cached_inv ls mem_wf mem_view s" and e: "css_epoch s \<noteq> - 1"
  shows "cached_inv ls mem_wf mem_view (on_server_failure ls memory_store srv s)"
proof -
  note c = cached_cluster_store [OF mem.cluster_store_axioms ls]
  obtain r1 s1 where 1: "st_delete_leases_for_server (cached_store ls memory_store) srv s = (r1, s1)"
    by fastforce
  obtain r2 s2 where 2: "st_release_file_locks_for_server (cached_store ls memory_store) srv s1 = (r2, s2)"
    by fastforce
  have i2: "cached_inv ls mem_wf mem_view s2"
    by (rule commitsD(1) [OF cluster_store.release_file_locks_for_server [OF c] _ 2],
        rule commitsD(1) [OF cluster_store.delete_leases_for_server [OF c] i 1])
  have "css_cache s2 = css_cache s"
    using 1 2 by (auto simp: cached_store_def via_bulk_def split: prod.splits)
  then show ?thesis
    using i2 e
    by (auto simp: on_server_failure_def 1 2 cached_inv_def css_epoch_def css_invalidate_all_def
        intro: coherent_invalidate)
qed

text \<open>When the cluster reports a server as failed, the listener removes exactly that server's
  leases and byte-range locks from the shared store, changes nothing else in it, and leaves the
  cache in agreement with it.\<close>

theorem failed_server_cleanup:
  assumes "lru_libs_ok ls" and "cached_inv ls mem_wf mem_view s" and "css_epoch s \<noteq> - 1"
  shows "cached_inv ls mem_wf mem_view (on_server_failure ls memory_store srv s) \<and>
    cached_view mem_view (on_server_failure ls memory_store srv s) = (cached_view mem_view s)
      \<lparr> sv_leases := map_retain (\<lambda>l. le_server_id l \<noteq> srv) (sv_leases (cached_view mem_view s)),
        sv_file_locks := map_retain (\<lambda>l. dl_server_id l \<noteq> srv)
          (sv_file_locks (cached_view mem_view s)) \<rparr>"
  using failure_cleanup_inv [OF assms] failure_cleanup_effect [OF assms(1,2)] by blast

lemma demo_leased_wf: "mem_wf demo_leased"
  by (simp add: mem_wf_def demo_leased_def MemoryStateStore_new_def hm_wf_def demo_lease_def)

lemma cached_new_epoch: "css_epoch (CachedStateStore_new ls clock b config True) = 1"
  by (simp add: css_epoch_def CachedStateStore_new_def LocalCache_new_def)

theorem failed_server_cleanup_witness:
  "\<exists>s. cached_inv list_lrus mem_wf mem_view s \<and> css_bulk_store s = demo_leased \<and>
     cached_inv list_lrus mem_wf mem_view (on_server_failure list_lrus memory_store ''srv'' s)"
proof (intro exI conjI)
  let ?s = "CachedStateStore_new list_lrus 0 demo_leased CacheConfig_default True"
  show i: "cached_inv list_lrus mem_wf mem_view ?s"
    by (rule cached_inv_new) (simp_all add: list_lrus_ok demo_leased_wf)
  show "css_bulk_store ?s = demo_leased" by (simp add: CachedStateStore_new_def)
  show "cached_inv list_lrus mem_wf mem_view (on_server_failure list_lrus memory_store ''srv'' ?s)"
    using failed_server_cleanup [OF list_lrus_ok i] by (simp add: cached_new_epoch)
qed

section \<open>Epoch changes\<close>

lemma epoch_change_inv:
  assumes "cached_inv ls invar view s" "invar b" "css_epoch s \<le> n" "n \<noteq> - 1"
  shows "cached_inv ls invar view (on_epoch_change n (s\<lparr> css_bulk_store := b \<rparr>))"
proof -
  have "css_epoch s < n + 1" by (rule le_less_trans [OF assms(3) word_less_add_one [OF assms(4)]])
  then show ?thesis
    using assms(1,2)
    by (auto simp: cached_inv_def on_epoch_change_def css_invalidate_all_def css_set_epoch_def
        css_epoch_def lc_invalidate_all_def lc_set_epoch_def intro: coherent_later_epoch)
qed

text \<open>An epoch announcement that is not behind the cache's own epoch makes the cache agree with
  the shared store again, whatever other servers wrote to it in the meantime.\<close>

theorem epoch_change_restores_coherence:
  assumes "cached_inv ls mem_wf mem_view s" and "mem_wf b" and "css_epoch s \<le> n" and "n \<noteq> - 1"
  shows "cached_inv ls mem_wf mem_view (on_epoch_change n (s\<lparr> css_bulk_store := b \<rparr>))"
  using assms by (rule epoch_change_inv)

theorem epoch_change_restores_coherence_witness:
  "\<exists>s. cached_inv list_lrus mem_wf mem_view s \<and>
     cached_inv list_lrus mem_wf mem_view (on_epoch_change 2 (s\<lparr> css_bulk_store := demo_store \<rparr>))"
proof (intro exI conjI)
  let ?s = "CachedStateStore_new list_lrus 0 demo_leased CacheConfig_default True"
  show i: "cached_inv list_lrus mem_wf mem_view ?s"
    by (rule cached_inv_new) (simp_all add: list_lrus_ok demo_leased_wf)
  show "cached_inv list_lrus mem_wf mem_view (on_epoch_change 2 (?s\<lparr> css_bulk_store := demo_store \<rparr>))"
    using epoch_change_restores_coherence [OF i demo_store_wf, of 2] by (simp add: cached_new_epoch)
qed

text \<open>
  The hypothesis on the epoch is needed: the listener stores the announced epoch and then adds
  one, and a server failure adds one more, so the local epoch runs ahead of the cluster's. An
  announcement one behind it then has no effect at all, and entries cached meanwhile stay valid.
\<close>

theorem epoch_change_lost:
  assumes "css_cache s \<noteq> None"
  shows "\<exists>t. t = on_cluster_event ls bulk (ServerFailed srv) (on_cluster_event ls bulk (EpochChanged 2) s)
    \<and> on_cluster_event ls bulk (EpochChanged 3) t = t"
proof -
  obtain c where c: "css_cache s = Some c" using assms by blast
  let ?t = "on_server_failure ls bulk srv (on_epoch_change 2 s)"
  obtain d where d: "css_cache ?t = Some d" "lc_current_epoch d = 4"
    using c by (simp add: on_server_failure_cache on_epoch_change_def css_invalidate_all_def
        css_set_epoch_def lc_invalidate_all_def lc_set_epoch_def)
  have "css_invalidate_all (css_set_epoch 3 ?t) = ?t"
    using d by (cases ?t) (simp add: css_invalidate_all_def css_set_epoch_def lc_invalidate_all_def
        lc_set_epoch_def)
  then show ?thesis by (simp add: on_cluster_event_def on_epoch_change_def)
qed

end
