(* ===== verification/Coord_Raft.thy ===== *)
theory Coord_Raft
  imports Memory_Store
begin

text \<open>
  \<open>crates/rustsmb-coord-raft\<close>: the replicated coordination state (\<open>state.rs\<close>) and the embedded
  coordinator on top of it (\<open>lib.rs\<close>). A broadcast channel is the list of the values sent on
  it. Requests are applied directly, as \<open>RaftCoordinator::apply\<close> does; the log replication of
  raft-rs (\<open>tick_and_process\<close>, \<open>propose\<close>) is not modelled.
\<close>

section \<open>Data\<close>

datatype CoordRequest =
    RegisterServer ServerRegistration
  | UnregisterServer string
  | UpdateHeartbeat string u64
  | IncrementEpoch
  | CreateLease LeaseEntry
  | UpdateLease LeaseEntry
  | DeleteLease string
  | GetLeasesForFile string
  | CheckLeaseConflict string "string option" u32
  | ReleaseLeasesForServer string
  | AcquireLock DistributedLock
  | ReleaseLock u64
  | ReleaseLocksForSession u64
  | ReleaseLocksForHandle u128
  | ReleaseLocksForServer string

datatype CoordResponse =
    CrOk
  | CrEpoch u64
  | CrServer "ServerRegistration option"
  | CrServers "ServerRegistration list"
  | CrLease "LeaseEntry option"
  | CrLeases "LeaseEntry list"
  | CrLeaseConflict LeaseConflictResult
  | CrLockGranted bool
  | CrLockGrantedWithId bool u64
  | CrLocks "DistributedLock list"
  | CrError string

record CoordinationState =
  cos_cache_epoch :: u64
  cos_servers :: "(string, ServerRegistration) hash_map"
  cos_leases :: "(string, LeaseEntry) hash_map"
  cos_locks :: "(string, DistributedLock list) hash_map"
  cos_next_lock_id :: u64

definition CoordinationState_new :: CoordinationState where
  "CoordinationState_new = \<lparr> cos_cache_epoch = 1, cos_servers = [], cos_leases = [],
     cos_locks = [], cos_next_lock_id = 1 \<rparr>"

section \<open>Queries\<close>

definition cos_get_server :: "CoordinationState \<Rightarrow> string \<Rightarrow> ServerRegistration option" where
  "cos_get_server s server_id = hm_get (cos_servers s) server_id"

definition cos_get_servers :: "CoordinationState \<Rightarrow> ServerRegistration list" where
  "cos_get_servers s = hm_values (cos_servers s)"

definition cos_get_lease :: "CoordinationState \<Rightarrow> string \<Rightarrow> LeaseEntry option" where
  "cos_get_lease s lease_key = hm_get (cos_leases s) lease_key"

definition cos_get_leases_for_file :: "CoordinationState \<Rightarrow> string \<Rightarrow> LeaseEntry list" where
  "cos_get_leases_for_file s file_path =
     filter (\<lambda>l. le_file_path l = file_path) (hm_values (cos_leases s))"

definition cos_leases_conflict :: "u32 \<Rightarrow> u32 \<Rightarrow> bool" where
  "cos_leases_conflict existing_state requested_state =
     (let existing_has_write = existing_state AND WRITE_CACHING \<noteq> 0;
          requested_has_write = requested_state AND WRITE_CACHING \<noteq> 0 in
      if existing_has_write \<and> requested_state \<noteq> 0 then True
      else if requested_has_write \<and> existing_state \<noteq> 0 then True
      else False)"

definition cos_reduce_lease_state :: "u32 \<Rightarrow> LeaseEntry list \<Rightarrow> u32" where
  "cos_reduce_lease_state requested_state conflicts =
     (let state = requested_state;
          any_write = list_ex (\<lambda>l. le_lease_state l AND WRITE_CACHING \<noteq> 0) conflicts in
      if any_write then 0
      else if state AND WRITE_CACHING \<noteq> 0 then state AND NOT WRITE_CACHING
      else state)"

definition cos_check_lease_conflict ::
  "CoordinationState \<Rightarrow> string \<Rightarrow> string option \<Rightarrow> u32 \<Rightarrow> LeaseConflictResult" where
  "cos_check_lease_conflict s file_path requestor_lease_key requested_state =
     (let existing_leases = filter (\<lambda>l. le_file_path l = file_path \<and>
            (case requestor_lease_key of None \<Rightarrow> True | Some k \<Rightarrow> le_lease_key l \<noteq> k))
            (hm_values (cos_leases s)) in
      if existing_leases = [] then LeaseConflictResult_granted requested_state
      else
        let conflicts = filter (\<lambda>l. cos_leases_conflict (le_lease_state l) requested_state) existing_leases;
            granted_state = (if conflicts \<noteq> [] then cos_reduce_lease_state requested_state conflicts
                             else requested_state)
        in if conflicts = [] then LeaseConflictResult_granted granted_state
           else LeaseConflictResult_conflict conflicts granted_state)"

definition cos_get_locks_for_file :: "CoordinationState \<Rightarrow> string \<Rightarrow> DistributedLock list" where
  "cos_get_locks_for_file s file_path =
     (case hm_get (cos_locks s) file_path of None \<Rightarrow> [] | Some ls \<Rightarrow> ls)"

definition cos_get_stale_servers :: "CoordinationState \<Rightarrow> u64 \<Rightarrow> string list" where
  "cos_get_stale_servers s threshold_timestamp =
     map fst (filter (\<lambda>(_, server). sr_last_heartbeat server < threshold_timestamp) (cos_servers s))"

section \<open>The state machine\<close>

text \<open>\<open>AcquireLock\<close> takes the next id and creates the file's list even when the lock is refused.\<close>

definition cos_acquire_lock ::
  "DistributedLock \<Rightarrow> CoordinationState \<Rightarrow> CoordResponse \<times> CoordinationState" where
  "cos_acquire_lock lock0 s =
     (let lock = lock0\<lparr> dl_lock_id := cos_next_lock_id s \<rparr>;
          path = dl_file_path lock;
          existing = cos_get_locks_for_file s path;
          s1 = s\<lparr> cos_next_lock_id := cos_next_lock_id s + 1,
                  cos_locks := hm_insert path existing (cos_locks s) \<rparr> in
      if list_ex (conflicts_with lock) existing then (CrLockGranted False, s1)
      else (CrLockGranted True, s1\<lparr> cos_locks := hm_insert path (existing @ [lock]) (cos_locks s1) \<rparr>))"

definition cos_retain_locks ::
  "(DistributedLock \<Rightarrow> bool) \<Rightarrow> CoordinationState \<Rightarrow> CoordResponse \<times> CoordinationState" where
  "cos_retain_locks P s = (CrOk, s\<lparr> cos_locks := hm_map_values (filter P) (cos_locks s) \<rparr>)"

fun cos_apply :: "CoordRequest \<Rightarrow> CoordinationState \<Rightarrow> CoordResponse \<times> CoordinationState" where
  "cos_apply (RegisterServer reg) s =
     (CrOk, s\<lparr> cos_servers := hm_insert (sr_server_id reg) reg (cos_servers s) \<rparr>)"
| "cos_apply (UnregisterServer server_id) s =
     (let s1 = s\<lparr> cos_servers := hm_remove server_id (cos_servers s),
                  cos_cache_epoch := cos_cache_epoch s + 1 \<rparr>
      in (CrEpoch (cos_cache_epoch s1), s1))"
| "cos_apply (UpdateHeartbeat server_id timestamp) s =
     (case hm_get (cos_servers s) server_id of
        None \<Rightarrow> (CrOk, s)
      | Some server \<Rightarrow> (CrOk, s\<lparr> cos_servers := hm_insert server_id
                                  (server\<lparr> sr_last_heartbeat := timestamp \<rparr>) (cos_servers s) \<rparr>))"
| "cos_apply IncrementEpoch s =
     (let s1 = s\<lparr> cos_cache_epoch := cos_cache_epoch s + 1 \<rparr> in (CrEpoch (cos_cache_epoch s1), s1))"
| "cos_apply (CreateLease lease) s =
     (if hm_contains (cos_leases s) (le_lease_key lease) then (CrError ''Lease already exists'', s)
      else (CrOk, s\<lparr> cos_leases := hm_insert (le_lease_key lease) lease (cos_leases s) \<rparr>))"
| "cos_apply (UpdateLease lease) s =
     (CrOk, s\<lparr> cos_leases := hm_insert (le_lease_key lease) lease (cos_leases s) \<rparr>)"
| "cos_apply (DeleteLease lease_key) s = (CrOk, s\<lparr> cos_leases := hm_remove lease_key (cos_leases s) \<rparr>)"
| "cos_apply (GetLeasesForFile file_path) s = (CrLeases (cos_get_leases_for_file s file_path), s)"
| "cos_apply (CheckLeaseConflict file_path requestor requested) s =
     (CrLeaseConflict (cos_check_lease_conflict s file_path requestor requested), s)"
| "cos_apply (ReleaseLeasesForServer server_id) s =
     (CrOk, s\<lparr> cos_leases := hm_retain (\<lambda>_ l. le_server_id l \<noteq> server_id) (cos_leases s) \<rparr>)"
| "cos_apply (AcquireLock lock) s = cos_acquire_lock lock s"
| "cos_apply (ReleaseLock lock_id) s = cos_retain_locks (\<lambda>l. dl_lock_id l \<noteq> lock_id) s"
| "cos_apply (ReleaseLocksForSession sid) s = cos_retain_locks (\<lambda>l. dl_session_id l \<noteq> sid) s"
| "cos_apply (ReleaseLocksForHandle pid) s = cos_retain_locks (\<lambda>l. dl_handle_id l \<noteq> pid) s"
| "cos_apply (ReleaseLocksForServer server_id) s = cos_retain_locks (\<lambda>l. dl_server_id l \<noteq> server_id) s"

section \<open>The embedded coordinator\<close>

record CoordinatorConfig =
  cc_node_id :: u64
  cc_node_addr :: string
  cc_heartbeat_timeout_secs :: u64
  cc_heartbeat_check_interval_secs :: u64
  cc_raft_tick_interval_ms :: u64
  cc_election_tick :: nat
  cc_heartbeat_tick :: nat

definition CoordinatorConfig_default :: CoordinatorConfig where
  "CoordinatorConfig_default = \<lparr> cc_node_id = 1, cc_node_addr = ''127.0.0.1:8080'',
     cc_heartbeat_timeout_secs = 15, cc_heartbeat_check_interval_secs = 5,
     cc_raft_tick_interval_ms = 100, cc_election_tick = 10, cc_heartbeat_tick = 3 \<rparr>"

record RaftCoordinator =
  rc_state_machine :: CoordinationState
  rc_config :: CoordinatorConfig
  rc_epoch_tx :: "u64 list"
  rc_failure_tx :: "string list"

definition RaftCoordinator_new :: "CoordinatorConfig \<Rightarrow> RaftCoordinator" where
  "RaftCoordinator_new config = \<lparr> rc_state_machine = CoordinationState_new, rc_config = config,
     rc_epoch_tx = [], rc_failure_tx = [] \<rparr>"

definition rc_apply :: "CoordRequest \<Rightarrow> RaftCoordinator \<Rightarrow> CoordResponse \<times> RaftCoordinator" where
  "rc_apply request s =
     (let (r, m) = cos_apply request (rc_state_machine s) in (r, s\<lparr> rc_state_machine := m \<rparr>))"

definition rc_broadcast_epoch :: "u64 \<Rightarrow> RaftCoordinator \<Rightarrow> RaftCoordinator" where
  "rc_broadcast_epoch epoch s = s\<lparr> rc_epoch_tx := rc_epoch_tx s @ [epoch] \<rparr>"

definition rc_broadcast_server_failure :: "string \<Rightarrow> RaftCoordinator \<Rightarrow> RaftCoordinator" where
  "rc_broadcast_server_failure server_id s = s\<lparr> rc_failure_tx := rc_failure_tx s @ [server_id] \<rparr>"

definition rc_handle_server_failure :: "string \<Rightarrow> RaftCoordinator \<Rightarrow> RaftCoordinator" where
  "rc_handle_server_failure server_id s =
     (let (response, s1) = rc_apply (UnregisterServer server_id) s;
          new_epoch = (case response of CrEpoch e \<Rightarrow> e | _ \<Rightarrow> cos_cache_epoch (rc_state_machine s1));
          s2 = rc_broadcast_server_failure server_id s1
      in rc_broadcast_epoch new_epoch s2)"

definition rc_check_heartbeats :: "u64 \<Rightarrow> RaftCoordinator \<Rightarrow> RaftCoordinator" where
  "rc_check_heartbeats now s =
     (let threshold = sat_sub now (cc_heartbeat_timeout_secs (rc_config s));
          stale_servers = cos_get_stale_servers (rc_state_machine s) threshold
      in fold rc_handle_server_failure stale_servers s)"

definition rc_update_heartbeat :: "u64 \<Rightarrow> string \<Rightarrow> RaftCoordinator \<Rightarrow> RaftCoordinator" where
  "rc_update_heartbeat now server_id s = snd (rc_apply (UpdateHeartbeat server_id now) s)"

definition rc_register_server :: "ServerRegistration \<Rightarrow> RaftCoordinator \<Rightarrow> RaftCoordinator" where
  "rc_register_server registration s = snd (rc_apply (RegisterServer registration) s)"

definition rc_increment_epoch :: "RaftCoordinator \<Rightarrow> u64 \<times> RaftCoordinator" where
  "rc_increment_epoch s =
     (let (response, s1) = rc_apply IncrementEpoch s in
      case response of
        CrEpoch e \<Rightarrow> (e, rc_broadcast_epoch e s1)
      | _ \<Rightarrow> (cos_cache_epoch (rc_state_machine s1), s1))"

section \<open>Locks stay exclusive\<close>

definition cos_run :: "CoordRequest list \<Rightarrow> CoordinationState" where
  "cos_run requests = fold (\<lambda>r s. snd (cos_apply r s)) requests CoordinationState_new"

definition cos_locks_ok :: "CoordinationState \<Rightarrow> bool" where
  "cos_locks_ok s \<longleftrightarrow> (\<forall>p. \<forall>a \<in> set (cos_get_locks_for_file s p). dl_file_path a = p \<and>
     (\<forall>b \<in> set (cos_get_locks_for_file s p). \<not> conflicts_with a b))"

text \<open>Every request leaves the lists, appends one lock to one of them, or filters all of them.\<close>

lemma locks_after_acquire:
  "cos_get_locks_for_file (snd (cos_acquire_lock l s)) p =
     (if p = dl_file_path l \<and> fst (cos_acquire_lock l s) = CrLockGranted True
      then cos_get_locks_for_file s p @ [l\<lparr> dl_lock_id := cos_next_lock_id s \<rparr>]
      else cos_get_locks_for_file s p)"
  by (simp add: cos_acquire_lock_def cos_get_locks_for_file_def Let_def hm_simps)

lemma acquire_granted_iff:
  "fst (cos_acquire_lock l s) = CrLockGranted True \<longleftrightarrow>
     (\<forall>b \<in> set (cos_get_locks_for_file s (dl_file_path l)).
        \<not> conflicts_with (l\<lparr> dl_lock_id := cos_next_lock_id s \<rparr>) b)"
  by (simp add: cos_acquire_lock_def Let_def list_ex_iff)

lemma locks_after_retain:
  "cos_get_locks_for_file (snd (cos_retain_locks P s)) p = filter P (cos_get_locks_for_file s p)"
  by (simp add: cos_retain_locks_def cos_get_locks_for_file_def hm_simps split: option.split)

lemma cos_locks_ok_acquire:
  assumes "cos_locks_ok s"
  shows "cos_locks_ok (snd (cos_acquire_lock l s))"
proof (cases "fst (cos_acquire_lock l s) = CrLockGranted True")
  case True
  have new: "\<not> conflicts_with (l\<lparr> dl_lock_id := cos_next_lock_id s \<rparr>) b"
      "\<not> conflicts_with b (l\<lparr> dl_lock_id := cos_next_lock_id s \<rparr>)"
    if "b \<in> set (cos_get_locks_for_file s (dl_file_path l))" for b
    using True that unfolding acquire_granted_iff conflicts_with_sym [of b] by blast+
  show ?thesis
    unfolding cos_locks_ok_def locks_after_acquire
    using assms new True
    by (simp add: cos_locks_ok_def ball_Un not_conflicts_with_self)
next
  case False
  with assms show ?thesis by (simp add: cos_locks_ok_def locks_after_acquire)
qed

lemma cos_locks_ok_retain: "cos_locks_ok s \<Longrightarrow> cos_locks_ok (snd (cos_retain_locks P s))"
  unfolding cos_locks_ok_def locks_after_retain by auto

lemma cos_locks_ok_frame: "cos_locks_ok s \<Longrightarrow> cos_locks s' = cos_locks s \<Longrightarrow> cos_locks_ok s'"
  by (simp add: cos_locks_ok_def cos_get_locks_for_file_def)

lemma cos_locks_ok_apply: "cos_locks_ok s \<Longrightarrow> cos_locks_ok (snd (cos_apply r s))"
  by (cases r)
    (auto simp: cos_locks_ok_acquire cos_locks_ok_retain Let_def elim: cos_locks_ok_frame
      split: option.split)

lemma cos_locks_ok_run: "cos_locks_ok (cos_run requests)"
proof -
  have "cos_locks_ok s \<Longrightarrow> cos_locks_ok (fold (\<lambda>r s. snd (cos_apply r s)) requests s)" for s
    by (induction requests arbitrary: s) (simp_all add: cos_locks_ok_apply)
  moreover have "cos_locks_ok CoordinationState_new"
    by (simp add: cos_locks_ok_def CoordinationState_new_def cos_get_locks_for_file_def)
  ultimately show ?thesis by (simp add: cos_run_def)
qed

lemma conflicts_same_file: "conflicts_with a b \<Longrightarrow> dl_file_path a = dl_file_path b"
  unfolding conflicts_with_def by (cases "dl_file_path a = dl_file_path b") simp_all

text \<open>C21. Whatever requests have been applied to the replicated coordination state, no two of the
  byte-range locks it has granted, on whichever files, are in conflict.\<close>

theorem raft_locks_mutual_exclusion:
  assumes "a \<in> set (cos_get_locks_for_file (cos_run requests) p)"
    and "b \<in> set (cos_get_locks_for_file (cos_run requests) q)"
  shows "dl_file_path a = p \<and> \<not> conflicts_with a b"
proof -
  note ok = cos_locks_ok_run [of requests, unfolded cos_locks_ok_def]
  have "conflicts_with a b \<Longrightarrow> p = q"
    using ok assms conflicts_same_file [of a b] by metis
  then show ?thesis using ok assms by blast
qed

lemma demo_locks_apart: "\<not> conflicts_with (demo_lock 2 2 10 10) (demo_lock 1 1 0 10)"
  by (simp add: conflicts_with_def demo_lock_def DistributedLock_new_def lock_end_def sat_add_def)

theorem raft_locks_mutual_exclusion_witness:
  "let reqs = [AcquireLock (demo_lock 1 1 0 10), AcquireLock (demo_lock 2 2 10 10)]
   in cos_get_locks_for_file (cos_run reqs) ''share/a.txt'' = [demo_lock 1 1 0 10, demo_lock 2 2 10 10] \<and>
      \<not> conflicts_with (demo_lock 1 1 0 10) (demo_lock 2 2 10 10)"
proof -
  let ?reqs = "[AcquireLock (demo_lock 1 1 0 10), AcquireLock (demo_lock 2 2 10 10)]"
  have ids: "(demo_lock i h x n)\<lparr> dl_lock_id := i \<rparr> = demo_lock i h x n"
    "dl_file_path (demo_lock i h x n) = ''share/a.txt''" for i h x n
    by (simp_all add: demo_lock_def DistributedLock_new_def)
  have locks: "cos_get_locks_for_file (cos_run ?reqs) ''share/a.txt''
      = [demo_lock 1 1 0 10, demo_lock 2 2 10 10]"
    by (simp add: cos_run_def cos_acquire_lock_def cos_get_locks_for_file_def Let_def hm_simps
        CoordinationState_new_def ids demo_locks_apart)
  show ?thesis
    unfolding Let_def using locks
      raft_locks_mutual_exclusion [of "demo_lock 1 1 0 10" ?reqs "''share/a.txt''"
        "demo_lock 2 2 10 10" "''share/a.txt''"] by simp
qed

section \<open>Lease decisions\<close>

lemma cos_lease_rules: "cos_leases_conflict = leases_conflict" "cos_reduce_lease_state = reduce_lease_state"
  by (simp_all add: fun_eq_iff cos_leases_conflict_def leases_conflict_def cos_reduce_lease_state_def
      reduce_lease_state_def)

lemma cos_check_lease_conflict_eq:
  "cos_check_lease_conflict s p (Some k) req =
     lease_grant (filter (\<lambda>l. le_file_path l = p \<and> le_lease_key l \<noteq> k) (hm_values (cos_leases s))) req"
proof -
  define ex where
    "ex = filter (\<lambda>l. le_file_path l = p \<and> le_lease_key l \<noteq> k) (hm_values (cos_leases s))"
  show ?thesis
    unfolding cos_check_lease_conflict_def lease_grant_def cos_lease_rules Let_def option.case
      ex_def [symmetric]
    by (cases "ex = []") simp_all
qed

text \<open>C37. The replicated state and the store decide a lease request alike: on the same lease table
  they name the same conflicting leases and grant the same state, which is part of what was asked
  for and compatible with every other client's lease on the file.\<close>

theorem raft_and_store_decide_leases_alike:
  assumes "cos_leases c = mem_leases m"
  shows "\<exists>res. fst (mem_check_and_create_lease p lease requested m) = Inr res \<and>
    cos_check_lease_conflict c p (Some (le_lease_key lease)) requested = res \<and>
    lcr_granted_state res AND NOT requested = 0 \<and>
    (\<forall>l. l \<in> set (hm_values (cos_leases c)) \<and> le_file_path l = p \<and> le_lease_key l \<noteq> le_lease_key lease
       \<longrightarrow> \<not> cos_leases_conflict (le_lease_state l) (lcr_granted_state res))"
proof -
  let ?res = "lease_grant (other_leases p lease m) requested"
  have "\<not> leases_conflict (le_lease_state l) (lcr_granted_state ?res)"
    if "l \<in> set (hm_values (cos_leases c))" "le_file_path l = p" "le_lease_key l \<noteq> le_lease_key lease"
    for l
    using that assms by (intro lease_grant_no_conflict) (simp add: other_leases_def)
  then show ?thesis
    using lease_grant_subset assms
    by (auto simp: mem_check_and_create_lease_eq Let_def cos_lease_rules
        cos_check_lease_conflict_eq other_leases_def)
qed

theorem raft_and_store_decide_leases_alike_witness:
  "cos_leases (CoordinationState_new\<lparr> cos_leases := mem_leases demo_leased \<rparr>) = mem_leases demo_leased \<and>
   fst (mem_check_and_create_lease ''share/a.txt'' (demo_lease ''k2'') 7 demo_leased) =
     Inr (cos_check_lease_conflict (CoordinationState_new\<lparr> cos_leases := mem_leases demo_leased \<rparr>)
       ''share/a.txt'' (Some ''k2'') 7)"
proof -
  let ?c = "CoordinationState_new\<lparr> cos_leases := mem_leases demo_leased \<rparr>"
  have eq: "cos_leases ?c = mem_leases demo_leased" by simp
  show ?thesis
    using raft_and_store_decide_leases_alike [OF eq, of "''share/a.txt''" "demo_lease ''k2''" 7] eq
    by (auto simp: demo_lease_def)
qed

section \<open>Failure detection\<close>

lemma rc_handle_server_failure_eq:
  "rc_handle_server_failure srv s = s
     \<lparr> rc_state_machine := (rc_state_machine s)
         \<lparr> cos_servers := hm_remove srv (cos_servers (rc_state_machine s)),
           cos_cache_epoch := cos_cache_epoch (rc_state_machine s) + 1 \<rparr>,
       rc_epoch_tx := rc_epoch_tx s @ [cos_cache_epoch (rc_state_machine s) + 1],
       rc_failure_tx := rc_failure_tx s @ [srv] \<rparr>"
  by (simp add: rc_handle_server_failure_def rc_apply_def rc_broadcast_epoch_def
      rc_broadcast_server_failure_def Let_def)

text \<open>The \<open>n\<close> epochs that follow \<open>e\<close>, in order.\<close>

definition next_epochs :: "u64 \<Rightarrow> nat \<Rightarrow> u64 list" where
  "next_epochs e n = map (\<lambda>i. e + of_nat (Suc i)) [0..<n]"

lemma next_epochs_Suc: "next_epochs e (Suc n) = (e + 1) # next_epochs (e + 1) n"
  by (simp add: next_epochs_def upt_rec [of 0] map_Suc_upt [symmetric] comp_def algebra_simps del: upt_Suc)

lemma next_epochs_add: "next_epochs e (m + n) = next_epochs e m @ next_epochs (e + of_nat m) n"
proof (induction m arbitrary: e)
  case (Suc m)
  then show ?case by (simp add: next_epochs_Suc algebra_simps)
qed (simp add: next_epochs_def)

lemma length_next_epochs [simp]: "length (next_epochs e n) = n"
  by (simp add: next_epochs_def)

lemma fold_handle_server_failure:
  "fold rc_handle_server_failure ids s = s
     \<lparr> rc_state_machine := (rc_state_machine s)
         \<lparr> cos_servers := fold hm_remove ids (cos_servers (rc_state_machine s)),
           cos_cache_epoch := cos_cache_epoch (rc_state_machine s) + of_nat (length ids) \<rparr>,
       rc_epoch_tx := rc_epoch_tx s @ next_epochs (cos_cache_epoch (rc_state_machine s)) (length ids),
       rc_failure_tx := rc_failure_tx s @ ids \<rparr>"
proof (induction ids arbitrary: s)
  case Nil
  then show ?case by (simp add: next_epochs_def)
next
  case (Cons i ids)
  then show ?case by (simp add: rc_handle_server_failure_eq next_epochs_Suc algebra_simps)
qed

lemma stale_iff: "hm_wf (cos_servers s) \<Longrightarrow> srv_id \<in> set (cos_get_stale_servers s t) \<longleftrightarrow>
  (\<exists>srv. hm_get (cos_servers s) srv_id = Some srv \<and> sr_last_heartbeat srv < t)"
  by (force simp: cos_get_stale_servers_def hm_get_in_set)


definition demo_raft :: RaftCoordinator where
  "demo_raft = rc_register_server (ServerRegistration_new 100 ''b'' ''hostb'' 445 ''addr'')
     (rc_register_server (ServerRegistration_new 50 ''a'' ''hosta'' 445 ''addr'')
       (RaftCoordinator_new CoordinatorConfig_default))"


section \<open>Announced epochs\<close>

text \<open>
  What the cache listeners rely on: a coordinator starts at epoch 1, and every step moves its
  epoch on by some number of increments and announces each of them in order. \<open>epoch_source\<close> is
  that contract; both the embedded coordinator and the coordinator service keep it.
\<close>

locale epoch_source =
  fixes start :: "'s \<Rightarrow> bool" and step :: "'s \<Rightarrow> 's \<Rightarrow> bool"
    and epoch :: "'s \<Rightarrow> u64" and announced :: "'s \<Rightarrow> u64 list"
  assumes at_start: "start s \<Longrightarrow> epoch s = 1 \<and> announced s = []"
    and at_step: "step s s' \<Longrightarrow>
      \<exists>n. epoch s' = epoch s + of_nat n \<and> announced s' = announced s @ next_epochs (epoch s) n"
begin

lemma announced_in_order:
  assumes "step\<^sup>*\<^sup>* s0 s" "start s0"
  shows "announced s = next_epochs 1 (length (announced s)) \<and> epoch s = 1 + of_nat (length (announced s))"
  using assms(1)
proof (induction rule: rtranclp_induct)
  case base
  with at_start [OF assms(2)] show ?case by (simp add: next_epochs_def)
next
  case (step y z)
  from at_step [OF step.hyps(2)] obtain n where n: "epoch z = epoch y + of_nat n"
    "announced z = announced y @ next_epochs (epoch y) n" by blast
  define m where "m = length (announced y)"
  have y: "announced y = next_epochs 1 m" "epoch y = 1 + of_nat m"
    using step.IH by (simp_all add: m_def)
  have "announced z = next_epochs 1 (m + n)" unfolding n(2) y next_epochs_add ..
  then show ?case using n(1) y(2) by simp
qed

end

inductive rc_step :: "RaftCoordinator \<Rightarrow> RaftCoordinator \<Rightarrow> bool" where
  "rc_step s (rc_register_server reg s)"
| "rc_step s (rc_update_heartbeat now srv s)"
| "rc_step s (snd (rc_increment_epoch s))"
| "rc_step s (rc_handle_server_failure srv s)"
| "rc_step s (rc_check_heartbeats now s)"

lemma rc_step_epochs:
  assumes "rc_step s s'"
  shows "\<exists>n. cos_cache_epoch (rc_state_machine s') = cos_cache_epoch (rc_state_machine s) + of_nat n \<and>
    rc_epoch_tx s' = rc_epoch_tx s @ next_epochs (cos_cache_epoch (rc_state_machine s)) n"
  using assms
proof cases
  case (1 reg)
  show ?thesis
    by (rule exI [of _ 0]) (simp add: 1 rc_register_server_def rc_apply_def next_epochs_def)
next
  case (2 now srv)
  show ?thesis
    by (rule exI [of _ 0])
      (simp add: 2 rc_update_heartbeat_def rc_apply_def next_epochs_def split: option.split)
next
  case 3
  show ?thesis
    by (rule exI [of _ 1])
      (simp add: 3 rc_increment_epoch_def rc_apply_def rc_broadcast_epoch_def next_epochs_def Let_def)
next
  case (4 srv)
  show ?thesis
    by (rule exI [of _ 1]) (simp add: 4 rc_handle_server_failure_eq next_epochs_def)
next
  case (5 now)
  show ?thesis
    unfolding 5 rc_check_heartbeats_def Let_def fold_handle_server_failure by simp blast
qed

interpretation raft: epoch_source "\<lambda>s. \<exists>config. s = RaftCoordinator_new config" rc_step
  "\<lambda>s. cos_cache_epoch (rc_state_machine s)" rc_epoch_tx
  by unfold_locales
    (auto simp: RaftCoordinator_new_def CoordinationState_new_def intro: rc_step_epochs)

end
