(* ===== verification/Coordinator_Service.thy ===== *)
theory Coordinator_Service
  imports Coord_Raft
begin

text \<open>
  The external coordinator: its state machine (\<open>crates/rustsmb-coordinator/src/state.rs\<close>), the
  gRPC service around it (\<open>service.rs\<close>) and the client SMB servers use
  (\<open>crates/rustsmb-coordinator-client/src/client.rs\<close>). Every service method takes the state's
  write lock for the whole of its update, so it is one transition; broadcast channels are the
  lists of events sent. The clock is an argument of each method, the transport's outcome an
  argument of each client method.
\<close>

section \<open>State machine\<close>

datatype SvcRequest =
    SvcRegisterServer ServerRegistration
  | SvcUnregisterServer string
  | SvcUpdateHeartbeat string u64 u64 u64
  | SvcIncrementEpoch string

datatype SvcResponse = SvOk | SvEpoch u64 | SvServers "ServerRegistration list" | SvError string

record SvcState =
  sst_cache_epoch :: u64
  sst_servers :: "(string, ServerRegistration) hash_map"

definition SvcState_new :: SvcState where
  "SvcState_new = \<lparr> sst_cache_epoch = 1, sst_servers = [] \<rparr>"

fun sst_apply :: "u64 \<Rightarrow> SvcRequest \<Rightarrow> SvcState \<Rightarrow> SvcResponse \<times> SvcState" where
  "sst_apply now (SvcRegisterServer reg) s =
     (let reg1 = reg\<lparr> sr_registered_at := now, sr_last_heartbeat := now \<rparr>;
          s1 = s\<lparr> sst_servers := hm_insert (sr_server_id reg1) reg1 (sst_servers s) \<rparr>
      in (SvEpoch (sst_cache_epoch s1), s1))"
| "sst_apply now (SvcUnregisterServer server_id) s =
     (let s1 = s\<lparr> sst_servers := hm_remove server_id (sst_servers s),
                  sst_cache_epoch := sst_cache_epoch s + 1 \<rparr>
      in (SvEpoch (sst_cache_epoch s1), s1))"
| "sst_apply now (SvcUpdateHeartbeat server_id timestamp sessions handles) s =
     (case hm_get (sst_servers s) server_id of
        Some server \<Rightarrow> (SvOk, s\<lparr> sst_servers := hm_insert server_id
            (server\<lparr> sr_last_heartbeat := timestamp, sr_active_sessions := sessions,
                     sr_active_handles := handles \<rparr>) (sst_servers s) \<rparr>)
      | None \<Rightarrow> (SvError (''Server not found: '' @ server_id), s))"
| "sst_apply now (SvcIncrementEpoch reason) s =
     (let s1 = s\<lparr> sst_cache_epoch := sst_cache_epoch s + 1 \<rparr> in (SvEpoch (sst_cache_epoch s1), s1))"

definition sst_get_servers :: "SvcState \<Rightarrow> ServerRegistration list" where
  "sst_get_servers s = hm_values (sst_servers s)"

definition sst_get_stale_servers :: "u64 \<Rightarrow> u64 \<Rightarrow> SvcState \<Rightarrow> string list" where
  "sst_get_stale_servers now timeout_secs s =
     (let cutoff = sat_sub now timeout_secs in
      map fst (filter (\<lambda>(_, server). sr_last_heartbeat server < cutoff) (sst_servers s)))"

section \<open>The service\<close>

record EpochChangeEvent =
  ece_new_epoch :: u64
  ece_reason :: string
  ece_timestamp :: u64

record ServerFailureEvent =
  sfe_failed_server_id :: string
  sfe_new_epoch :: u64
  sfe_timestamp :: u64

datatype Status = InvalidArgument string | NotFoundStatus string | TransportStatus string

record CoordinatorServiceImpl =
  svc_state :: SvcState
  svc_heartbeat_timeout_secs :: u64
  svc_epoch_tx :: "EpochChangeEvent list"
  svc_failure_tx :: "ServerFailureEvent list"

definition CoordinatorServiceImpl_new :: "u64 \<Rightarrow> CoordinatorServiceImpl" where
  "CoordinatorServiceImpl_new timeout = \<lparr> svc_state = SvcState_new,
     svc_heartbeat_timeout_secs = timeout, svc_epoch_tx = [], svc_failure_tx = [] \<rparr>"

text \<open>The wire form of a registration, from the service's protobuf definition.\<close>

record ProtoServerRegistration =
  pr_server_id :: string
  pr_hostname :: string
  pr_port :: u32
  pr_registered_at :: u64
  pr_last_heartbeat :: u64
  pr_active_sessions :: u64
  pr_active_handles :: u64

definition to_proto :: "ServerRegistration \<Rightarrow> ProtoServerRegistration" where
  "to_proto r = \<lparr> pr_server_id = sr_server_id r, pr_hostname = sr_hostname r,
     pr_port = ucast (sr_port r), pr_registered_at = sr_registered_at r,
     pr_last_heartbeat = sr_last_heartbeat r, pr_active_sessions = sr_active_sessions r,
     pr_active_handles = sr_active_handles r \<rparr>"

definition from_proto :: "ProtoServerRegistration \<Rightarrow> ServerRegistration" where
  "from_proto p = \<lparr> sr_server_id = pr_server_id p, sr_hostname = pr_hostname p,
     sr_port = ucast (pr_port p), sr_raft_addr = [], sr_registered_at = pr_registered_at p,
     sr_last_heartbeat = pr_last_heartbeat p, sr_active_sessions = pr_active_sessions p,
     sr_active_handles = pr_active_handles p \<rparr>"

type_synonym 'a svc_op = "(CoordinatorServiceImpl, Status, 'a) op"

text \<open>\<open>match response { Epoch(e) => e, _ => state.get_epoch() }\<close> after an \<open>apply\<close>.\<close>

definition svc_apply_epoch ::
  "u64 \<Rightarrow> SvcRequest \<Rightarrow> CoordinatorServiceImpl \<Rightarrow> u64 \<times> CoordinatorServiceImpl" where
  "svc_apply_epoch now request s =
     (let (response, st) = sst_apply now request (svc_state s)
      in ((case response of SvEpoch e \<Rightarrow> e | _ \<Rightarrow> sst_cache_epoch st), s\<lparr> svc_state := st \<rparr>))"

definition svc_send_epoch ::
  "u64 \<Rightarrow> string \<Rightarrow> u64 \<Rightarrow> CoordinatorServiceImpl \<Rightarrow> CoordinatorServiceImpl" where
  "svc_send_epoch new_epoch reason timestamp s = s\<lparr> svc_epoch_tx := svc_epoch_tx s @
     [\<lparr> ece_new_epoch = new_epoch, ece_reason = reason, ece_timestamp = timestamp \<rparr>] \<rparr>"

text \<open>One iteration of the monitor's loop over the stale servers.\<close>

definition svc_fail_server ::
  "u64 \<Rightarrow> string \<Rightarrow> CoordinatorServiceImpl \<Rightarrow> CoordinatorServiceImpl" where
  "svc_fail_server now server_id s =
     (let (new_epoch, s1) = svc_apply_epoch now (SvcUnregisterServer server_id) s;
          s2 = s1\<lparr> svc_failure_tx := svc_failure_tx s1 @
                 [\<lparr> sfe_failed_server_id = server_id, sfe_new_epoch = new_epoch,
                    sfe_timestamp = now \<rparr>] \<rparr>
      in svc_send_epoch new_epoch (''server_failure:'' @ server_id) now s2)"

text \<open>One round of the heartbeat monitor; \<open>stamp\<close> is the clock while a failure is announced.\<close>

definition svc_monitor ::
  "u64 \<Rightarrow> (string \<Rightarrow> u64) \<Rightarrow> CoordinatorServiceImpl \<Rightarrow> CoordinatorServiceImpl" where
  "svc_monitor now stamp s =
     (let stale_servers = sst_get_stale_servers now (svc_heartbeat_timeout_secs s) (svc_state s)
      in fold (\<lambda>i. svc_fail_server (stamp i) i) stale_servers s)"

definition svc_register_server ::
  "u64 \<Rightarrow> ProtoServerRegistration option \<Rightarrow> (u64 \<times> u32) svc_op" where
  "svc_register_server now registration s =
     (case registration of
        None \<Rightarrow> (Inl (InvalidArgument ''Missing registration''), s)
      | Some proto_reg \<Rightarrow>
          let (epoch, s1) = svc_apply_epoch now (SvcRegisterServer (from_proto proto_reg)) s
          in (Inr (epoch, of_nat (length (sst_servers (svc_state s1)))), s1))"

definition svc_heartbeat :: "u64 \<Rightarrow> string \<Rightarrow> u64 \<Rightarrow> u64 \<Rightarrow> u64 svc_op" where
  "svc_heartbeat now server_id sessions handles s =
     (let (response, st) = sst_apply now (SvcUpdateHeartbeat server_id now sessions handles) (svc_state s)
      in case response of
           SvError e \<Rightarrow> (Inl (NotFoundStatus e), s\<lparr> svc_state := st \<rparr>)
         | _ \<Rightarrow> (Inr (sst_cache_epoch st), s\<lparr> svc_state := st \<rparr>))"

definition svc_leave_cluster :: "u64 \<Rightarrow> string \<Rightarrow> unit svc_op" where
  "svc_leave_cluster now server_id s =
     (let (new_epoch, s1) = svc_apply_epoch now (SvcUnregisterServer server_id) s
      in (Inr (), svc_send_epoch new_epoch (''server_leave:'' @ server_id) now s1))"

definition svc_get_servers :: "ProtoServerRegistration list svc_op" where
  "svc_get_servers s = (Inr (map to_proto (sst_get_servers (svc_state s))), s)"

definition svc_get_epoch :: "u64 svc_op" where
  "svc_get_epoch s = (Inr (sst_cache_epoch (svc_state s)), s)"

definition svc_increment_epoch :: "u64 \<Rightarrow> string \<Rightarrow> u64 svc_op" where
  "svc_increment_epoch now reason s =
     (let (new_epoch, s1) = svc_apply_epoch now (SvcIncrementEpoch reason) s
      in (Inr new_epoch, svc_send_epoch new_epoch reason now s1))"

section \<open>The client\<close>

record CoordinatorClient =
  cl_server_id :: "string option"
  cl_cached_epoch :: u64
  cl_epoch_tx :: "u64 list"
  cl_connected :: bool

definition CoordinatorClient_new :: CoordinatorClient where
  "CoordinatorClient_new = \<lparr> cl_server_id = None, cl_cached_epoch = 0, cl_epoch_tx = [],
     cl_connected = True \<rparr>"

definition cl_send_epoch :: "u64 \<Rightarrow> CoordinatorClient \<Rightarrow> CoordinatorClient" where
  "cl_send_epoch e c = c\<lparr> cl_cached_epoch := e, cl_epoch_tx := cl_epoch_tx c @ [e] \<rparr>"

text \<open>A failed call ends in \<open>CoordError::Internal\<close> with the text of the gRPC status.\<close>

definition grpc_error :: "(Status \<Rightarrow> string) \<Rightarrow> Status \<Rightarrow> CoordError" where
  "grpc_error status_text e = CeInternal (''gRPC error: '' @ status_text e)"

definition cl_on_epoch_event :: "EpochChangeEvent \<Rightarrow> CoordinatorClient \<Rightarrow> CoordinatorClient" where
  "cl_on_epoch_event event c = cl_send_epoch (ece_new_epoch event) c"

definition cl_register_server ::
  "(Status \<Rightarrow> string) \<Rightarrow> ServerRegistration \<Rightarrow> Status + u64 \<times> u32
     \<Rightarrow> (CoordinatorClient, CoordError, unit) op" where
  "cl_register_server status_text registration rpc c =
     (case rpc of
        Inl e \<Rightarrow> (Inl (grpc_error status_text e), c)
      | Inr (current_epoch, cluster_size) \<Rightarrow>
          (Inr (), c\<lparr> cl_server_id := Some (sr_server_id registration),
                      cl_cached_epoch := current_epoch \<rparr>))"

definition cl_heartbeat ::
  "(Status \<Rightarrow> string) \<Rightarrow> Status + u64 \<Rightarrow> (CoordinatorClient, CoordError, unit) op" where
  "cl_heartbeat status_text rpc c =
     (case rpc of
        Inl e \<Rightarrow> (Inl (grpc_error status_text e), c)
      | Inr current_epoch \<Rightarrow>
          (Inr (), if current_epoch \<noteq> cl_cached_epoch c then cl_send_epoch current_epoch c else c))"

definition cl_leave_cluster ::
  "(Status \<Rightarrow> string) \<Rightarrow> (string \<Rightarrow> Status + unit) \<Rightarrow> (CoordinatorClient, CoordError, unit) op" where
  "cl_leave_cluster status_text rpc c =
     (case cl_server_id c of
        None \<Rightarrow> (Inl (CeInternal ''Not registered''), c)
      | Some server_id \<Rightarrow>
          (case rpc server_id of
             Inl e \<Rightarrow> (Inl (grpc_error status_text e), c)
           | Inr _ \<Rightarrow> (Inr (), c\<lparr> cl_server_id := None, cl_connected := False \<rparr>)))"

definition cl_get_servers ::
  "(Status \<Rightarrow> string) \<Rightarrow> Status + ProtoServerRegistration list
     \<Rightarrow> (CoordinatorClient, CoordError, ServerRegistration list) op" where
  "cl_get_servers status_text rpc c =
     (case rpc of
        Inl e \<Rightarrow> (Inl (grpc_error status_text e), c)
      | Inr servers \<Rightarrow> (Inr (map from_proto servers), c))"

definition cl_get_epoch ::
  "(Status \<Rightarrow> string) \<Rightarrow> Status + u64 \<Rightarrow> (CoordinatorClient, CoordError, u64) op" where
  "cl_get_epoch status_text rpc c =
     (let cached = cl_cached_epoch c in
      if 0 < cached then (Inr cached, c)
      else case rpc of
             Inl e \<Rightarrow> (Inl (grpc_error status_text e), c)
           | Inr epoch \<Rightarrow> (Inr epoch, c\<lparr> cl_cached_epoch := epoch \<rparr>))"

definition cl_increment_epoch ::
  "(Status \<Rightarrow> string) \<Rightarrow> Status + u64 \<Rightarrow> (CoordinatorClient, CoordError, u64) op" where
  "cl_increment_epoch status_text rpc c =
     (case rpc of
        Inl e \<Rightarrow> (Inl (grpc_error status_text e), c)
      | Inr new_epoch \<Rightarrow> (Inr new_epoch, cl_send_epoch new_epoch c))"

section \<open>Epochs announced by the service\<close>

lemma svc_fail_server_eq:
  "svc_fail_server now srv s = s
     \<lparr> svc_state := \<lparr> sst_cache_epoch = sst_cache_epoch (svc_state s) + 1,
                      sst_servers = hm_remove srv (sst_servers (svc_state s)) \<rparr>,
       svc_epoch_tx := svc_epoch_tx s @ [\<lparr> ece_new_epoch = sst_cache_epoch (svc_state s) + 1,
         ece_reason = ''server_failure:'' @ srv, ece_timestamp = now \<rparr>],
       svc_failure_tx := svc_failure_tx s @ [\<lparr> sfe_failed_server_id = srv,
         sfe_new_epoch = sst_cache_epoch (svc_state s) + 1, sfe_timestamp = now \<rparr>] \<rparr>"
  by (simp add: svc_fail_server_def svc_apply_epoch_def svc_send_epoch_def Let_def)

inductive svc_step :: "CoordinatorServiceImpl \<Rightarrow> CoordinatorServiceImpl \<Rightarrow> bool" where
  "svc_step s (snd (svc_register_server now reg s))"
| "svc_step s (snd (svc_heartbeat now srv a b s))"
| "svc_step s (snd (svc_leave_cluster now srv s))"
| "svc_step s (snd (svc_increment_epoch now reason s))"
| "svc_step s (svc_monitor now stamp s)"

definition svc_epochs :: "CoordinatorServiceImpl \<Rightarrow> u64 list" where
  "svc_epochs s = map ece_new_epoch (svc_epoch_tx s)"

lemma fold_fail_server_epochs:
  "sst_cache_epoch (svc_state (fold (\<lambda>i. svc_fail_server (stamp i) i) ids s)) =
     sst_cache_epoch (svc_state s) + of_nat (length ids)"
  "svc_epochs (fold (\<lambda>i. svc_fail_server (stamp i) i) ids s) =
     svc_epochs s @ next_epochs (sst_cache_epoch (svc_state s)) (length ids)"
  "sst_servers (svc_state (fold (\<lambda>i. svc_fail_server (stamp i) i) ids s)) =
     fold hm_remove ids (sst_servers (svc_state s))"
  by (induction ids arbitrary: s)
    (simp_all add: svc_fail_server_eq svc_epochs_def next_epochs_Suc next_epochs_def [of _ 0] algebra_simps)

lemma svc_step_epochs:
  assumes "svc_step s s'"
  shows "\<exists>n. sst_cache_epoch (svc_state s') = sst_cache_epoch (svc_state s) + of_nat n \<and>
    svc_epochs s' = svc_epochs s @ next_epochs (sst_cache_epoch (svc_state s)) n"
  using assms
proof cases
  case (1 now reg)
  show ?thesis
    by (rule exI [of _ 0])
      (simp add: 1 svc_register_server_def svc_apply_epoch_def svc_epochs_def next_epochs_def Let_def
        split: option.split)
next
  case (2 now srv a b)
  show ?thesis
    by (rule exI [of _ 0])
      (simp add: 2 svc_heartbeat_def svc_epochs_def next_epochs_def Let_def split: option.split)
next
  case (3 now srv)
  show ?thesis
    by (rule exI [of _ 1])
      (simp add: 3 svc_leave_cluster_def svc_apply_epoch_def svc_send_epoch_def svc_epochs_def
        next_epochs_def Let_def)
next
  case (4 now reason)
  show ?thesis
    by (rule exI [of _ 1])
      (simp add: 4 svc_increment_epoch_def svc_apply_epoch_def svc_send_epoch_def svc_epochs_def
        next_epochs_def Let_def)
next
  case (5 now stamp)
  show ?thesis
    unfolding 5 svc_monitor_def Let_def fold_fail_server_epochs by blast
qed

lemma service_start:
  "svc_epochs (CoordinatorServiceImpl_new timeout) = []"
  "sst_cache_epoch (svc_state (CoordinatorServiceImpl_new timeout)) = 1"
  by (simp_all add: CoordinatorServiceImpl_new_def SvcState_new_def svc_epochs_def)

interpretation svc: epoch_source "\<lambda>s. \<exists>timeout. s = CoordinatorServiceImpl_new timeout" svc_step
  "\<lambda>s. sst_cache_epoch (svc_state s)" svc_epochs
  by unfold_locales
    (auto simp: service_start intro: svc_step_epochs)



section \<open>Membership\<close>

text \<open>A registration survives the trip to the service and back to another client.\<close>

lemma proto_roundtrip: "from_proto (to_proto r) = r\<lparr> sr_raft_addr := [] \<rparr>"
proof -
  have "ucast (ucast (p :: u16) :: u32) = p" for p
    by (rule bit_word_eqI) (auto simp: bit_simps dest: bit_imp_le_length)
  then show ?thesis by (cases r) (simp add: from_proto_def to_proto_def)
qed

text \<open>The calls other servers and the monitor make while one server stays quiet.\<close>

datatype svc_call =
    CallRegister u64 "ProtoServerRegistration option"
  | CallHeartbeat u64 string u64 u64
  | CallLeave u64 string
  | CallIncrement u64 string
  | CallMonitor u64 "string \<Rightarrow> u64"

fun svc_exec :: "svc_call \<Rightarrow> CoordinatorServiceImpl \<Rightarrow> CoordinatorServiceImpl" where
  "svc_exec (CallRegister now reg) s = snd (svc_register_server now reg s)"
| "svc_exec (CallHeartbeat now srv a b) s = snd (svc_heartbeat now srv a b s)"
| "svc_exec (CallLeave now srv) s = snd (svc_leave_cluster now srv s)"
| "svc_exec (CallIncrement now reason) s = snd (svc_increment_epoch now reason s)"
| "svc_exec (CallMonitor now stamp) s = svc_monitor now stamp s"

fun call_time :: "svc_call \<Rightarrow> u64" where
  "call_time (CallRegister now _) = now"
| "call_time (CallHeartbeat now _ _ _) = now"
| "call_time (CallLeave now _) = now"
| "call_time (CallIncrement now _) = now"
| "call_time (CallMonitor now _) = now"

text \<open>\<open>srv\<close> is registered with a heartbeat no older than \<open>t\<close>.\<close>

definition alive_since :: "u64 \<Rightarrow> string \<Rightarrow> CoordinatorServiceImpl \<Rightarrow> bool" where
  "alive_since t srv s \<longleftrightarrow>
     (\<exists>r. hm_get (sst_servers (svc_state s)) srv = Some r \<and> t \<le> sr_last_heartbeat r)"

lemma svc_stale_iff:
  "hm_wf (sst_servers s) \<Longrightarrow> srv \<in> set (sst_get_stale_servers now timeout s) \<longleftrightarrow>
     (\<exists>r. hm_get (sst_servers s) srv = Some r \<and> sr_last_heartbeat r < sat_sub now timeout)"
  by (force simp: sst_get_stale_servers_def hm_get_in_set)

lemma monitor_servers:
  "hm_wf (sst_servers (svc_state s)) \<Longrightarrow> hm_get (sst_servers (svc_state (svc_monitor now stamp s))) srv =
     (case hm_get (sst_servers (svc_state s)) srv of
        None \<Rightarrow> None
      | Some r \<Rightarrow> if sr_last_heartbeat r < sat_sub now (svc_heartbeat_timeout_secs s) then None else Some r)"
  by (simp add: svc_monitor_def Let_def fold_fail_server_epochs hm_get_fold_remove svc_stale_iff
      split: option.split)

definition quiet_call :: "u64 \<Rightarrow> u64 \<Rightarrow> string \<Rightarrow> svc_call \<Rightarrow> bool" where
  "quiet_call t timeout srv c \<longleftrightarrow> t \<le> call_time c \<and> sat_sub (call_time c) timeout \<le> t \<and>
     (case c of CallLeave _ i \<Rightarrow> i \<noteq> srv | _ \<Rightarrow> True)"

definition svc_wf :: "CoordinatorServiceImpl \<Rightarrow> bool" where
  "svc_wf s \<longleftrightarrow> hm_wf (sst_servers (svc_state s))"

lemmas svc_defs = svc_register_server_def svc_heartbeat_def svc_leave_cluster_def
  svc_increment_epoch_def svc_apply_epoch_def svc_send_epoch_def Let_def

lemma svc_exec_wf: "svc_wf s \<Longrightarrow> svc_wf (svc_exec c s)"
  by (cases c)
    (simp_all add: svc_wf_def svc_defs svc_monitor_def fold_fail_server_epochs hm_wf_fold_remove
      split: option.split)

lemma fold_fail_server_timeout:
  "svc_heartbeat_timeout_secs (fold (\<lambda>i. svc_fail_server (stamp i) i) ids s) = svc_heartbeat_timeout_secs s"
  by (induction ids arbitrary: s) (simp_all add: svc_fail_server_eq)

lemma svc_exec_timeout: "svc_heartbeat_timeout_secs (svc_exec c s) = svc_heartbeat_timeout_secs s"
  by (cases c)
    (simp_all add: svc_defs svc_monitor_def fold_fail_server_timeout split: option.split)

lemma alive_since_exec:
  assumes "svc_wf s" "alive_since t srv s" "quiet_call t (svc_heartbeat_timeout_secs s) srv c"
  shows "alive_since t srv (svc_exec c s)"
proof (cases c)
  case (CallMonitor now stamp)
  with assms show ?thesis
    by (auto simp: alive_since_def quiet_call_def svc_wf_def monitor_servers)
qed (use assms in \<open>auto simp: alive_since_def quiet_call_def svc_defs hm_simps from_proto_def
       split: option.split\<close>)

lemma alive_since_run:
  assumes "svc_wf s" "alive_since t srv s" "list_all (quiet_call t (svc_heartbeat_timeout_secs s) srv) calls"
  shows "alive_since t srv (fold svc_exec calls s)"
  using assms
  by (induction calls arbitrary: s) (simp_all add: svc_exec_wf alive_since_exec svc_exec_timeout)



end
