(* ===== verification/Cluster_Cache.thy ===== *)
theory Cluster_Cache
  imports Server_Coordination Coordinator_Service
begin

text \<open>
  One server's cached store in a cluster: its own operations, the writes other servers make to the
  shared store behind it, and the epochs the coordinator announces, in any interleaving. The
  external coordinator's client never reports server failures (\<open>failure_tx\<close> of
  \<open>CoordinatorClient\<close> is subscribed to but never sent on), so epoch announcements are the only
  cluster events; they arrive in the order \<open>service_announces_every_epoch\<close> gives them.
\<close>

section \<open>What survives foreign writes\<close>

definition bounded :: "('c, 'k, 'd CacheEntry) lru_lib \<Rightarrow> u64 \<Rightarrow> 'c \<Rightarrow> bool" where
  "bounded l epoch c \<longleftrightarrow> (\<forall>k e. lru_peek l c k = Some e \<longrightarrow> ce_epoch e \<le> epoch)"

definition cache_bounded :: "('a, 'b, 'c) lru_libs \<Rightarrow> ('a, 'b, 'c) LocalCache \<Rightarrow> bool" where
  "cache_bounded ls c \<longleftrightarrow> bounded (lib_sessions ls) (lc_current_epoch c) (lc_sessions c) \<and>
     bounded (lib_handles ls) (lc_current_epoch c) (lc_handles c) \<and>
     bounded (lib_trees ls) (lc_current_epoch c) (lc_trees c)"

definition store_bounded :: "('a, 'b, 'c) lru_libs \<Rightarrow> ('s, 'a, 'b, 'c) CachedStateStore \<Rightarrow> bool" where
  "store_bounded ls s \<longleftrightarrow> (\<forall>c. css_cache s = Some c \<longrightarrow> cache_bounded ls c)"

lemma bounded_put:
  assumes "lru_ok l" "bounded l epoch c" "ce_epoch e \<le> epoch"
  shows "bounded l epoch (lru_put l k e c)"
  unfolding bounded_def
proof (intro allI impI)
  fix j e'
  assume j: "lru_peek l (lru_put l k e c) j = Some e'"
  show "ce_epoch e' \<le> epoch"
  proof (cases "j = k")
    case True
    with j assms show ?thesis by (simp add: lru_ok_def)
  next
    case False
    with assms(1) have "lru_peek l (lru_put l k e c) j \<in> {None, lru_peek l c j}"
      by (simp add: lru_ok_def)
    with j assms(2) show ?thesis by (auto simp: bounded_def)
  qed
qed

lemma bounded_pop: "lru_ok l \<Longrightarrow> bounded l epoch c \<Longrightarrow> bounded l epoch (lru_pop l k c)"
  by (simp add: bounded_def lru_ok_def)

lemma bounded_read:
  assumes "lru_ok l" "bounded l epoch c"
  shows "bounded l epoch (snd (lru_read l now epoch k c))"
proof -
  obtain r c1 where g: "lru_get l k c = (r, c1)" by fastforce
  from assms(1) have "lru_peek l (snd (lru_get l k c)) = lru_peek l c" unfolding lru_ok_def by blast
  with g assms(2) have b1: "bounded l epoch c1" by (simp add: bounded_def)
  show ?thesis
    using b1 bounded_pop [OF assms(1) b1] by (simp add: lru_read_def g split: option.split)
qed

lemma cache_bounded_ops:
  assumes "lru_libs_ok ls" "cache_bounded ls c"
  shows "cache_bounded ls (lc_put_session ls x c)" "cache_bounded ls (lc_put_handle ls h c)"
    "cache_bounded ls (lc_put_tree ls t c)" "cache_bounded ls (lc_remove_session ls sid c)"
    "cache_bounded ls (lc_remove_handle ls pid c)" "cache_bounded ls (lc_remove_tree ls sid tid c)"
    "cache_bounded ls (snd (lc_get_session ls sid c))" "cache_bounded ls (snd (lc_get_handle ls pid c))"
    "cache_bounded ls (snd (lc_get_tree ls sid tid c))"
  using assms
  by (simp_all add: cache_bounded_def lru_libs_ok_def lc_defs split_beta bounded_put bounded_pop bounded_read)

lemma coherent_bounded: "coherent ls c v \<Longrightarrow> cache_bounded ls c"
  by (auto simp: coherent_def cache_bounded_def backed_def bounded_def)

lemma bounded_backed_later: "bounded l e c \<Longrightarrow> e < epoch \<Longrightarrow> backed l epoch c m"
  by (fastforce simp: bounded_def backed_def)

lemma bounded_coherent_later:
  "cache_bounded ls c \<Longrightarrow> lc_current_epoch c < epoch \<Longrightarrow> coherent ls (c\<lparr> lc_current_epoch := epoch \<rparr>) v"
  by (auto simp: cache_bounded_def coherent_def intro: bounded_backed_later)

section \<open>The server's own operations\<close>

text \<open>\<open>local_inv\<close> holds whatever other servers write; \<open>e\<close> is the cache's epoch.\<close>

definition local_inv ::
  "('a, 'b, 'c) lru_libs \<Rightarrow> u64 \<Rightarrow> (MemoryStateStore, 'a, 'b, 'c) CachedStateStore \<Rightarrow> bool" where
  "local_inv ls e s \<longleftrightarrow> mem_wf (css_bulk_store s) \<and> store_bounded ls s \<and> css_epoch s = e"

definition keeps :: "('s \<Rightarrow> bool) \<Rightarrow> ('s, 'e, 'x) op \<Rightarrow> bool" where
  "keeps P m \<longleftrightarrow> (\<forall>s. P s \<longrightarrow> P (snd (m s)))"

lemma commits_keeps: "commits P view f m \<Longrightarrow> keeps P m"
  unfolding keeps_def commits_def by (metis surjective_pairing)

lemma answers_keeps: "answers P view f m \<Longrightarrow> keeps P m"
  unfolding keeps_def answers_def by (metis surjective_pairing)

definition epoch_kept :: "(('a, 'b, 'c) LocalCache \<Rightarrow> ('a, 'b, 'c) LocalCache) \<Rightarrow> bool" where
  "epoch_kept g \<longleftrightarrow> (\<forall>c. lc_current_epoch (g c) = lc_current_epoch c)"

lemma via_bulk_keeps: "keeps mem_wf m \<Longrightarrow> keeps (local_inv ls e) (via_bulk m)"
  by (auto simp: keeps_def local_inv_def via_bulk_def store_bounded_def css_epoch_def Let_def split_beta)

lemma write_through_keeps:
  assumes "keeps mem_wf m" "\<And>c. cache_bounded ls c \<Longrightarrow> cache_bounded ls (g c)" "epoch_kept g"
  shows "keeps (local_inv ls e) (write_through m g)"
  unfolding keeps_def
proof (intro allI impI)
  fix s
  assume s: "local_inv ls e s"
  obtain r b where b: "m (css_bulk_store s) = (r, b)" by fastforce
  with s assms(1) have "mem_wf b" by (metis keeps_def local_inv_def snd_conv)
  with s assms(2,3) show "local_inv ls e (snd (write_through m g s))"
    by (cases r; cases "css_cache s")
      (simp_all add: write_through_cases b local_inv_def store_bounded_def css_epoch_def epoch_kept_def)
qed

lemma read_through_keeps:
  assumes "keeps mem_wf m" "\<And>c. cache_bounded ls c \<Longrightarrow> cache_bounded ls (snd (g c))"
    "\<And>c x. cache_bounded ls c \<Longrightarrow> cache_bounded ls (put x c)" "epoch_kept (\<lambda>c. snd (g c))" "\<And>x. epoch_kept (put x)"
  shows "keeps (local_inv ls e) (read_through g m put)"
  unfolding keeps_def
proof (intro allI impI)
  fix s
  assume s: "local_inv ls e s"
  obtain r b where b: "m (css_bulk_store s) = (r, b)" by fastforce
  with s assms(1) have wf: "mem_wf b" by (metis keeps_def local_inv_def snd_conv)
  show "local_inv ls e (snd (read_through g m put s))"
  proof (cases "css_cache s")
    case None
    with s wf show ?thesis
      by (simp add: read_through_cases via_bulk_def b local_inv_def store_bounded_def css_epoch_def)
  next
    case (Some c)
    obtain h c' where g: "g c = (h, c')" by fastforce
    have "cache_bounded ls c" "lc_current_epoch c = e"
      using s Some by (simp_all add: local_inv_def store_bounded_def css_epoch_def)
    moreover have "lc_current_epoch (snd (g c)) = lc_current_epoch c"
      using assms(4) by (simp add: epoch_kept_def)
    ultimately have c': "cache_bounded ls c'" "lc_current_epoch c' = e"
      using assms(2) [of c] g by simp_all
    show ?thesis
      using s Some g wf c' assms(3) [OF c'(1)] assms(5)
      by (simp add: read_through_cases b local_inv_def store_bounded_def css_epoch_def epoch_kept_def
          split: option.split sum.split)
  qed
qed

lemma lc_epoch_kept:
  "epoch_kept (lc_put_session ls x)" "epoch_kept (lc_put_handle ls h)" "epoch_kept (lc_put_tree ls t)"
  "epoch_kept (lc_remove_session ls sid)" "epoch_kept (lc_remove_handle ls pid)"
  "epoch_kept (lc_remove_tree ls sid tid)" "epoch_kept (\<lambda>c. snd (lc_get_session ls sid c))"
  "epoch_kept (\<lambda>c. snd (lc_get_handle ls pid c))" "epoch_kept (\<lambda>c. snd (lc_get_tree ls sid tid c))"
  by (simp_all add: epoch_kept_def lc_defs split_beta)

text \<open>The methods of the cached store, with the results dropped.\<close>

inductive own_step ::
  "('a, 'b, 'c) lru_libs \<Rightarrow> (MemoryStateStore, 'a, 'b, 'c) CachedStateStore
     \<Rightarrow> (MemoryStateStore, 'a, 'b, 'c) CachedStateStore \<Rightarrow> bool"
  for ls :: "('a, 'b, 'c) lru_libs" where
  "own_step ls s (snd (st_create_session (cached_store ls memory_store) x s))"
| "own_step ls s (snd (st_get_session (cached_store ls memory_store) sid s))"
| "own_step ls s (snd (st_update_session (cached_store ls memory_store) x s))"
| "own_step ls s (snd (st_delete_session (cached_store ls memory_store) sid s))"
| "own_step ls s (snd (st_refresh_session (cached_store ls memory_store) now sid ttl s))"
| "own_step ls s (snd (st_create_tree (cached_store ls memory_store) t s))"
| "own_step ls s (snd (st_get_tree (cached_store ls memory_store) sid tid s))"
| "own_step ls s (snd (st_delete_tree (cached_store ls memory_store) sid tid s))"
| "own_step ls s (snd (st_create_handle (cached_store ls memory_store) h s))"
| "own_step ls s (snd (st_get_handle (cached_store ls memory_store) pid s))"
| "own_step ls s (snd (st_update_handle (cached_store ls memory_store) h s))"
| "own_step ls s (snd (st_delete_handle (cached_store ls memory_store) pid s))"
| "own_step ls s (snd (st_delete_lease (cached_store ls memory_store) k s))"
| "own_step ls s (snd (st_release_file_lock (cached_store ls memory_store) lid s))"
| "own_step ls s (snd (st_release_file_locks_for_session (cached_store ls memory_store) sid s))"
| "own_step ls s (snd (st_release_file_locks_for_handle (cached_store ls memory_store) pid s))"

lemma own_ops_keep:
  assumes ls: "lru_libs_ok ls"
  shows "keeps (local_inv ls e) (st_create_session (cached_store ls memory_store) x)"
    "keeps (local_inv ls e) (st_get_session (cached_store ls memory_store) sid)"
    "keeps (local_inv ls e) (st_update_session (cached_store ls memory_store) x)"
    "keeps (local_inv ls e) (st_delete_session (cached_store ls memory_store) sid)"
    "keeps (local_inv ls e) (st_refresh_session (cached_store ls memory_store) now sid ttl)"
    "keeps (local_inv ls e) (st_create_tree (cached_store ls memory_store) t)"
    "keeps (local_inv ls e) (st_get_tree (cached_store ls memory_store) sid tid)"
    "keeps (local_inv ls e) (st_delete_tree (cached_store ls memory_store) sid tid)"
    "keeps (local_inv ls e) (st_create_handle (cached_store ls memory_store) h)"
    "keeps (local_inv ls e) (st_get_handle (cached_store ls memory_store) pid)"
    "keeps (local_inv ls e) (st_update_handle (cached_store ls memory_store) h)"
    "keeps (local_inv ls e) (st_delete_handle (cached_store ls memory_store) pid)"
proof -
  note cb = cache_bounded_ops [OF ls]
  note wt = write_through_keeps [OF commits_keeps]
  note rt = read_through_keeps [OF answers_keeps]
  note ops = wt [OF mem.create_session cb(1) lc_epoch_kept(1)]
    rt [OF mem.get_session cb(7) cb(1) lc_epoch_kept(7) lc_epoch_kept(1)]
    wt [OF mem.update_session cb(1) lc_epoch_kept(1)]
    wt [OF mem.delete_session cb(4) lc_epoch_kept(4)]
    wt [OF mem.refresh_session cb(4) lc_epoch_kept(4)]
    wt [OF mem.create_tree cb(3) lc_epoch_kept(3)]
    rt [OF mem.get_tree cb(9) cb(3) lc_epoch_kept(9) lc_epoch_kept(3)]
    wt [OF mem.delete_tree cb(6) lc_epoch_kept(6)]
    wt [OF mem.create_handle cb(2) lc_epoch_kept(2)]
    rt [OF mem.get_handle cb(8) cb(2) lc_epoch_kept(8) lc_epoch_kept(2)]
    wt [OF mem.update_handle cb(2) lc_epoch_kept(2)]
    wt [OF mem.delete_handle cb(5) lc_epoch_kept(5)]
  show "keeps (local_inv ls e) (st_create_session (cached_store ls memory_store) x)"
    "keeps (local_inv ls e) (st_get_session (cached_store ls memory_store) sid)"
    "keeps (local_inv ls e) (st_update_session (cached_store ls memory_store) x)"
    "keeps (local_inv ls e) (st_delete_session (cached_store ls memory_store) sid)"
    "keeps (local_inv ls e) (st_refresh_session (cached_store ls memory_store) now sid ttl)"
    "keeps (local_inv ls e) (st_create_tree (cached_store ls memory_store) t)"
    "keeps (local_inv ls e) (st_get_tree (cached_store ls memory_store) sid tid)"
    "keeps (local_inv ls e) (st_delete_tree (cached_store ls memory_store) sid tid)"
    "keeps (local_inv ls e) (st_create_handle (cached_store ls memory_store) h)"
    "keeps (local_inv ls e) (st_get_handle (cached_store ls memory_store) pid)"
    "keeps (local_inv ls e) (st_update_handle (cached_store ls memory_store) h)"
    "keeps (local_inv ls e) (st_delete_handle (cached_store ls memory_store) pid)"
    unfolding cached_store_def state_store.simps css_op_defs by (rule ops; assumption)+
qed

lemma own_bulk_ops_keep:
  "keeps (local_inv ls e) (st_delete_lease (cached_store ls memory_store) k)"
  "keeps (local_inv ls e) (st_release_file_lock (cached_store ls memory_store) lid)"
  "keeps (local_inv ls e) (st_release_file_locks_for_session (cached_store ls memory_store) sid)"
  "keeps (local_inv ls e) (st_release_file_locks_for_handle (cached_store ls memory_store) pid)"
  unfolding cached_store_def state_store.simps
  by (rule via_bulk_keeps [OF commits_keeps], rule mem.delete_lease mem.release_file_lock
      mem.release_file_locks_for_session mem.release_file_locks_for_handle)+

lemma own_step_local_inv:
  assumes "lru_libs_ok ls" "own_step ls s s'" "local_inv ls e s"
  shows "local_inv ls e s'"
  using assms(2) own_ops_keep [OF assms(1)] own_bulk_ops_keep [of ls] assms(3)
  by (cases rule: own_step.cases) (simp_all only: keeps_def)

text \<open>And, as long as nobody else writes, every own step keeps the cache exact.\<close>

lemma own_step_cached_inv:
  assumes ls: "lru_libs_ok ls" and step: "own_step ls s s'" and inv: "cached_inv ls mem_wf mem_view s"
  shows "cached_inv ls mem_wf mem_view s'"
proof -
  note c = cached_cluster_store [OF mem.cluster_store_axioms ls]
  note ss = cluster_store.axioms(1) [OF c]
  note keep = session_store.create_session [OF ss, THEN commits_keeps]
    session_store.get_session [OF ss, THEN answers_keeps]
    session_store.update_session [OF ss, THEN commits_keeps]
    session_store.delete_session [OF ss, THEN commits_keeps]
    session_store.refresh_session [OF ss, THEN commits_keeps]
    session_store.create_tree [OF ss, THEN commits_keeps]
    session_store.get_tree [OF ss, THEN answers_keeps]
    session_store.delete_tree [OF ss, THEN commits_keeps]
    session_store.create_handle [OF ss, THEN commits_keeps]
    session_store.get_handle [OF ss, THEN answers_keeps]
    session_store.update_handle [OF ss, THEN commits_keeps]
    session_store.delete_handle [OF ss, THEN commits_keeps]
    session_store.delete_lease [OF ss, THEN commits_keeps]
    cluster_store.release_file_lock [OF c, THEN commits_keeps]
    cluster_store.release_file_locks_for_session [OF c, THEN commits_keeps]
    cluster_store.release_file_locks_for_handle [OF c, THEN commits_keeps]
  show ?thesis
    using step keep inv by (cases rule: own_step.cases) (simp_all only: keeps_def)
qed

section \<open>A server in a cluster\<close>

text \<open>
  \<open>cluster_run ls (s, n, dirty)\<close>: the cached store has come to state \<open>s\<close>, \<open>n\<close> is the last epoch
  announced, and \<open>dirty\<close> says whether another server has written to the shared store since.
\<close>

inductive cluster_run ::
  "('a, 'b, 'c) lru_libs \<Rightarrow> (MemoryStateStore, 'a, 'b, 'c) CachedStateStore \<times> u64 \<times> bool \<Rightarrow> bool"
  for ls :: "('a, 'b, 'c) lru_libs" where
  start: "mem_wf b \<Longrightarrow> cluster_run ls (CachedStateStore_new ls clock b config True, 1, False)"
| own: "cluster_run ls (s, n, d) \<Longrightarrow> own_step ls s s' \<Longrightarrow> cluster_run ls (s', n, d)"
| clock: "cluster_run ls (s, n, d) \<Longrightarrow>
    cluster_run ls (s\<lparr> css_cache := map_option (lc_clock_update (\<lambda>_. t)) (css_cache s) \<rparr>, n, d)"
| foreign: "cluster_run ls (s, n, d) \<Longrightarrow> mem_wf b \<Longrightarrow> cluster_run ls (s\<lparr> css_bulk_store := b \<rparr>, n, True)"
| announce: "cluster_run ls (s, n, d) \<Longrightarrow> n + 1 \<noteq> - 1 \<Longrightarrow> n \<noteq> - 1 \<Longrightarrow>
    cluster_run ls (on_epoch_change (n + 1) s, n + 1, False)"

definition cluster_inv ::
  "('a, 'b, 'c) lru_libs \<Rightarrow> (MemoryStateStore, 'a, 'b, 'c) CachedStateStore \<times> u64 \<times> bool \<Rightarrow> bool" where
  "cluster_inv ls = (\<lambda>(s, n, dirty). local_inv ls (css_epoch s) s \<and> css_epoch s \<le> n + 1 \<and>
     (\<not> dirty \<longrightarrow> cached_inv ls mem_wf mem_view s))"

lemma cached_inv_local: "cached_inv ls mem_wf mem_view s \<Longrightarrow> local_inv ls (css_epoch s) s"
  by (auto simp: cached_inv_def local_inv_def store_bounded_def intro: coherent_bounded)

lemma epoch_change_exact:
  assumes "local_inv ls (css_epoch s) s" "css_epoch s \<le> n" "n \<noteq> - 1"
  shows "cached_inv ls mem_wf mem_view (on_epoch_change n s) \<and> css_epoch (on_epoch_change n s) \<le> n + 1"
proof -
  have "css_epoch s < n + 1" by (rule le_less_trans [OF assms(2) word_less_add_one [OF assms(3)]])
  then show ?thesis
    using assms(1)
    by (cases "css_cache s")
      (auto simp: local_inv_def store_bounded_def cached_inv_def on_epoch_change_def css_epoch_def
        css_invalidate_all_def css_set_epoch_def lc_invalidate_all_def lc_set_epoch_def
        intro: bounded_coherent_later)
qed

lemma cluster_run_inv:
  assumes "lru_libs_ok ls" "cluster_run ls x"
  shows "cluster_inv ls x"
  using assms(2)
proof (induction rule: cluster_run.induct)
  case (start b clock config)
  then have "cached_inv ls mem_wf mem_view (CachedStateStore_new ls clock b config True)"
    by (intro cached_inv_new assms(1))
  from this cached_inv_local [OF this] show ?case by (simp add: cluster_inv_def cached_new_epoch)
next
  case (own s n d s')
  then have i: "local_inv ls (css_epoch s) s" by (simp add: cluster_inv_def)
  have "local_inv ls (css_epoch s) s'" by (rule own_step_local_inv [OF assms(1) own.hyps(2) i])
  then show ?case
    using own own_step_cached_inv [OF assms(1) own.hyps(2)] by (simp add: cluster_inv_def local_inv_def)
next
  case (clock s n d t)
  then show ?case
    by (cases "css_cache s")
      (auto simp: cluster_inv_def local_inv_def store_bounded_def cache_bounded_def css_epoch_def
        cached_inv_def coherent_def)
next
  case (foreign s n d b)
  then show ?case by (simp add: cluster_inv_def local_inv_def store_bounded_def css_epoch_def)
next
  case (announce s n d)
  then show ?case
    using epoch_change_exact [of ls s "n + 1"] cached_inv_local by (auto simp: cluster_inv_def)
qed



end
