(* ===== verification/Smb2_Header.thy ===== *)
theory Smb2_Header
  imports Core_Types
begin

text \<open>
  \<open>crates/rustsmb-protocol/src/header.rs\<close> and \<open>crypto/signing.rs\<close>: the SMB2 header, its commands and
  flags, and the signature field. The serializer is the package \<open>binrw\<close>, a parameter
  (\<open>header_lib\<close>); \<open>header_lib_ok\<close> is its documented behaviour on the struct as it is declared: the
  magic and then the fields in their order, little-endian, and an error where the bytes are not
  such an encoding. The message authentication codes are parameters as well (\<open>mac_lib\<close>).
\<close>

section \<open>Commands and flags\<close>

datatype Smb2Command = CmdNegotiate | CmdSessionSetup | CmdLogoff | CmdTreeConnect | CmdTreeDisconnect | CmdCreate | CmdClose
  | CmdFlush | CmdRead | CmdWrite | CmdLock | CmdIoctl | CmdCancel | CmdEcho | CmdQueryDirectory | CmdChangeNotify | CmdQueryInfo
  | CmdSetInfo | CmdOplockBreak

fun Smb2Command_repr :: "Smb2Command \<Rightarrow> u16" where
  "Smb2Command_repr CmdNegotiate = 0x0000"
| "Smb2Command_repr CmdSessionSetup = 0x0001"
| "Smb2Command_repr CmdLogoff = 0x0002"
| "Smb2Command_repr CmdTreeConnect = 0x0003"
| "Smb2Command_repr CmdTreeDisconnect = 0x0004"
| "Smb2Command_repr CmdCreate = 0x0005"
| "Smb2Command_repr CmdClose = 0x0006"
| "Smb2Command_repr CmdFlush = 0x0007"
| "Smb2Command_repr CmdRead = 0x0008"
| "Smb2Command_repr CmdWrite = 0x0009"
| "Smb2Command_repr CmdLock = 0x000A"
| "Smb2Command_repr CmdIoctl = 0x000B"
| "Smb2Command_repr CmdCancel = 0x000C"
| "Smb2Command_repr CmdEcho = 0x000D"
| "Smb2Command_repr CmdQueryDirectory = 0x000E"
| "Smb2Command_repr CmdChangeNotify = 0x000F"
| "Smb2Command_repr CmdQueryInfo = 0x0010"
| "Smb2Command_repr CmdSetInfo = 0x0011"
| "Smb2Command_repr CmdOplockBreak = 0x0012"

definition all_commands :: "Smb2Command list" where
  "all_commands = [CmdNegotiate, CmdSessionSetup, CmdLogoff, CmdTreeConnect, CmdTreeDisconnect, CmdCreate, CmdClose, CmdFlush, CmdRead,
     CmdWrite, CmdLock, CmdIoctl, CmdCancel, CmdEcho, CmdQueryDirectory, CmdChangeNotify, CmdQueryInfo, CmdSetInfo, CmdOplockBreak]"

definition Smb2Command_of_repr :: "u16 \<Rightarrow> Smb2Command option" where
  "Smb2Command_of_repr w = find (\<lambda>c. Smb2Command_repr c = w) all_commands"

definition requires_session :: "Smb2Command \<Rightarrow> bool" where
  "requires_session c \<longleftrightarrow> c \<noteq> CmdNegotiate \<and> c \<noteq> CmdEcho"

definition requires_tree :: "Smb2Command \<Rightarrow> bool" where
  "requires_tree c \<longleftrightarrow> c \<in> {CmdCreate, CmdClose, CmdFlush, CmdRead, CmdWrite, CmdLock, CmdIoctl, CmdQueryDirectory, CmdChangeNotify,
     CmdQueryInfo, CmdSetInfo, CmdOplockBreak}"

type_synonym Smb2Flags = u32

abbreviation SERVER_TO_REDIR :: u32 where "SERVER_TO_REDIR \<equiv> 0x00000001"
abbreviation ASYNC_COMMAND :: u32 where "ASYNC_COMMAND \<equiv> 0x00000002"
abbreviation RELATED_OPERATIONS :: u32 where "RELATED_OPERATIONS \<equiv> 0x00000004"
abbreviation SIGNED :: u32 where "SIGNED \<equiv> 0x00000008"

definition is_response :: "Smb2Flags \<Rightarrow> bool" where
  "is_response f \<longleftrightarrow> f AND SERVER_TO_REDIR \<noteq> 0"

definition is_async :: "Smb2Flags \<Rightarrow> bool" where
  "is_async f \<longleftrightarrow> f AND ASYNC_COMMAND \<noteq> 0"

definition is_signed :: "Smb2Flags \<Rightarrow> bool" where
  "is_signed f \<longleftrightarrow> f AND SIGNED \<noteq> 0"

definition is_related :: "Smb2Flags \<Rightarrow> bool" where
  "is_related f \<longleftrightarrow> f AND RELATED_OPERATIONS \<noteq> 0"

definition set_response :: "Smb2Flags \<Rightarrow> Smb2Flags" where
  "set_response f = f OR SERVER_TO_REDIR"

definition set_signed :: "Smb2Flags \<Rightarrow> Smb2Flags" where
  "set_signed f = f OR SIGNED"

section \<open>The header\<close>

abbreviation SMB2_HEADER_SIZE :: nat where "SMB2_HEADER_SIZE \<equiv> 64"

definition SMB2_MAGIC :: bytes where "SMB2_MAGIC = [0xFE, 0x53, 0x4D, 0x42]"

record Smb2Header =
  sh_structure_size :: u16
  sh_credit_charge :: u16
  sh_status :: u32
  sh_command :: Smb2Command
  sh_credits :: u16
  sh_flags :: Smb2Flags
  sh_next_command :: u32
  sh_message_id :: u64
  sh_async_id :: u32
  sh_tree_id :: u32
  sh_session_id :: u64
  sh_signature :: bytes

definition Smb2Header_default :: Smb2Header where
  "Smb2Header_default = \<lparr> sh_structure_size = 64, sh_credit_charge = 0, sh_status = 0,
     sh_command = CmdNegotiate, sh_credits = 0, sh_flags = 0, sh_next_command = 0, sh_message_id = 0,
     sh_async_id = 0, sh_tree_id = 0, sh_session_id = 0, sh_signature = replicate 16 0 \<rparr>"

text \<open>The encoding the struct declares, and reading it back. \<open>[u8; 16]\<close> is a list of 16 bytes.\<close>

definition header_bytes :: "Smb2Header \<Rightarrow> bytes" where
  "header_bytes h = SMB2_MAGIC @ to_le (sh_structure_size h) @ to_le (sh_credit_charge h) @
     to_le (sh_status h) @ to_le (Smb2Command_repr (sh_command h)) @ to_le (sh_credits h) @
     to_le (sh_flags h) @ to_le (sh_next_command h) @ to_le (sh_message_id h) @
     to_le (sh_async_id h) @ to_le (sh_tree_id h) @ to_le (sh_session_id h) @ sh_signature h"

definition header_of_bytes :: "bytes \<Rightarrow> Smb2Header option" where
  "header_of_bytes bs =
     (if length bs < SMB2_HEADER_SIZE \<or> take 4 bs \<noteq> SMB2_MAGIC then None
      else case Smb2Command_of_repr (from_le (slice 12 2 bs)) of
             None \<Rightarrow> None
           | Some c \<Rightarrow> Some \<lparr> sh_structure_size = from_le (slice 4 2 bs),
               sh_credit_charge = from_le (slice 6 2 bs), sh_status = from_le (slice 8 4 bs),
               sh_command = c, sh_credits = from_le (slice 14 2 bs),
               sh_flags = from_le (slice 16 4 bs), sh_next_command = from_le (slice 20 4 bs),
               sh_message_id = from_le (slice 24 8 bs), sh_async_id = from_le (slice 32 4 bs),
               sh_tree_id = from_le (slice 36 4 bs), sh_session_id = from_le (slice 40 8 bs),
               sh_signature = slice 48 16 bs \<rparr>)"

definition header_wf :: "Smb2Header \<Rightarrow> bool" where
  "header_wf h \<longleftrightarrow> length (sh_signature h) = 16"

record header_lib =
  hl_read :: "bytes \<Rightarrow> string + Smb2Header"
  hl_write :: "Smb2Header \<Rightarrow> string + bytes"

definition header_lib_ok :: "header_lib \<Rightarrow> bool" where
  "header_lib_ok l \<longleftrightarrow>
     (\<forall>h. hl_write l h = Inr (header_bytes h)) \<and>
     (\<forall>bs. case header_of_bytes bs of Some h \<Rightarrow> hl_read l bs = Inr h | None \<Rightarrow> (\<exists>e. hl_read l bs = Inl e))"

definition le_header_lib :: header_lib where
  "le_header_lib = \<lparr> hl_read = (\<lambda>bs. case header_of_bytes bs of Some h \<Rightarrow> Inr h | None \<Rightarrow> Inl ''bad header''),
     hl_write = (\<lambda>h. Inr (header_bytes h)) \<rparr>"

lemma le_header_lib_ok: "header_lib_ok le_header_lib"
  by (auto simp: header_lib_ok_def le_header_lib_def split: option.split)

lemma length_magic [simp]: "length SMB2_MAGIC = 4"
  by (simp add: SMB2_MAGIC_def)

lemma length_header_bytes: "header_wf h \<Longrightarrow> length (header_bytes h) = 64"
  by (simp add: header_bytes_def header_wf_def)

lemma Smb2Command_of_repr_repr: "Smb2Command_of_repr (Smb2Command_repr c) = Some c"
  by (cases c) (simp_all add: Smb2Command_of_repr_def all_commands_def)

lemma Smb2Command_repr_of_repr: "Smb2Command_of_repr w = Some c \<Longrightarrow> Smb2Command_repr c = w"
  by (auto simp: Smb2Command_of_repr_def find_Some_iff)

lemma slice_append_right:
  "length xs = i \<Longrightarrow> slice (i + k) n (xs @ ys) = slice k n ys"
  by (simp add: slice_def)

lemma slice_append_left: "i + n \<le> length xs \<Longrightarrow> slice i n (xs @ ys) = slice i n xs"
  by (simp add: slice_def)

lemma slice_0: "length xs = n \<Longrightarrow> slice 0 n (xs @ ys) = xs"
  by (simp add: slice_def)

lemma header_of_header_bytes: "header_wf h \<Longrightarrow> header_of_bytes (header_bytes h @ rest) = Some h"
  by (simp add: header_of_bytes_def length_header_bytes)
    (simp add: header_bytes_def slice_def header_wf_def Smb2Command_of_repr_repr)

lemma take_slice: "j = i + n \<Longrightarrow> take j bs = take i bs @ slice i n bs"
  by (simp add: slice_def take_add)

lemma header_bytes_of_bytes:
  assumes "header_of_bytes bs = Some h"
  shows "header_bytes h = take 64 bs" "header_wf h"
proof -
  have l: "64 \<le> length bs" and m: "take 4 bs = SMB2_MAGIC"
    and c: "Smb2Command_repr (sh_command h) = from_le (slice 12 2 bs)"
    using assms by (auto simp: header_of_bytes_def Smb2Command_repr_of_repr split: if_splits option.splits)
  have e: "take 64 bs = SMB2_MAGIC @ slice 4 2 bs @ slice 6 2 bs @ slice 8 4 bs @ slice 12 2 bs @
     slice 14 2 bs @ slice 16 4 bs @ slice 20 4 bs @ slice 24 8 bs @ slice 32 4 bs @ slice 36 4 bs @
     slice 40 8 bs @ slice 48 16 bs"
    by (simp add: take_slice [of 64 48 16] take_slice [of 48 40 8] take_slice [of 40 36 4]
        take_slice [of 36 32 4] take_slice [of 32 24 8] take_slice [of 24 20 4] take_slice [of 20 16 4]
        take_slice [of 16 14 2] take_slice [of 14 12 2] take_slice [of 12 8 4] take_slice [of 8 6 2]
        take_slice [of 6 4 2] m)
  show "header_bytes h = take 64 bs"
    using assms l c unfolding e
    by (auto simp: header_bytes_def header_of_bytes_def to_le_from_le split: if_splits option.splits)
  show "header_wf h"
    using assms l by (auto simp: header_of_bytes_def header_wf_def split: if_splits option.splits)
qed

section \<open>The signature field\<close>

text \<open>\<open>xs[i..i + ys.len()].copy_from_slice(ys)\<close>.\<close>

definition put_slice :: "nat \<Rightarrow> 'a list \<Rightarrow> 'a list \<Rightarrow> 'a list" where
  "put_slice i ys xs = take i xs @ ys @ drop (i + length ys) xs"

definition zero_signature :: "bytes \<Rightarrow> bytes" where
  "zero_signature header = (if 64 \<le> length header then put_slice 48 (replicate 16 0) header else header)"

definition get_signature :: "bytes \<Rightarrow> bytes option" where
  "get_signature header = (if 64 \<le> length header then Some (slice 48 16 header) else None)"

definition set_signature :: "bytes \<Rightarrow> bytes \<Rightarrow> bytes" where
  "set_signature signature header = (if 64 \<le> length header then put_slice 48 signature header else header)"

lemma length_put_slice [simp]: "i + length ys \<le> length xs \<Longrightarrow> length (put_slice i ys xs) = length xs"
  by (simp add: put_slice_def)

lemma slice_put_same: "i + length ys \<le> length xs \<Longrightarrow> slice i (length ys) (put_slice i ys xs) = ys"
  by (simp add: slice_def put_slice_def)

lemma slice_put_other:
  "i + length ys \<le> length xs \<Longrightarrow> j + n \<le> i \<or> i + length ys \<le> j \<Longrightarrow>
   slice j n (put_slice i ys xs) = slice j n xs"
  by (auto simp: slice_def put_slice_def take_drop min_def)

lemma put_slice_put: "length ys = length zs \<Longrightarrow> i + length ys \<le> length xs \<Longrightarrow>
    put_slice i zs (put_slice i ys xs) = put_slice i zs xs"
  by (simp add: put_slice_def)

section \<open>Message authentication codes\<close>

datatype SigningError = SgInvalidKeySize nat nat | SgSignatureMismatch | SgCryptoError string

datatype SigningAlgorithm = AesCmac | AesGmac

fun algorithm_id :: "SigningAlgorithm \<Rightarrow> u16" where
  "algorithm_id AesCmac = 0x0000"
| "algorithm_id AesGmac = 0x0001"

definition from_algorithm_id :: "u16 \<Rightarrow> SigningAlgorithm option" where
  "from_algorithm_id i = (if i = 0x0000 then Some AesCmac else if i = 0x0001 then Some AesGmac else None)"

text \<open>The packages \<open>cmac\<close> and \<open>aes-gcm\<close>: a key and a message give a tag or an error.\<close>

record mac_lib =
  ml_cmac :: "bytes \<Rightarrow> bytes \<Rightarrow> string + bytes"
  ml_gmac :: "bytes \<Rightarrow> bytes \<Rightarrow> string + bytes"

definition mac_lib_ok :: "mac_lib \<Rightarrow> bool" where
  "mac_lib_ok l \<longleftrightarrow> (\<forall>key message. length key = 16 \<longrightarrow>
     (\<exists>tag. ml_cmac l key message = Inr tag \<and> length tag = 16) \<and>
     (\<exists>tag. ml_gmac l key message = Inr tag \<and> length tag = 16))"

record MessageSigner =
  ms_algorithm :: SigningAlgorithm
  ms_key :: bytes

definition MessageSigner_new :: "SigningAlgorithm \<Rightarrow> bytes \<Rightarrow> SigningError + MessageSigner" where
  "MessageSigner_new algorithm key =
     (if length key \<noteq> 16 then Inl (SgInvalidKeySize 16 (length key))
      else Inr \<lparr> ms_algorithm = algorithm, ms_key = key \<rparr>)"

definition sign_cmac :: "mac_lib \<Rightarrow> MessageSigner \<Rightarrow> bytes \<Rightarrow> SigningError + bytes" where
  "sign_cmac l m message = map_sum SgCryptoError id (ml_cmac l (ms_key m) message)"

definition sign_gmac :: "mac_lib \<Rightarrow> MessageSigner \<Rightarrow> bytes \<Rightarrow> SigningError + bytes" where
  "sign_gmac l m message = map_sum SgCryptoError id (ml_gmac l (ms_key m) message)"

definition ms_sign :: "mac_lib \<Rightarrow> MessageSigner \<Rightarrow> bytes \<Rightarrow> SigningError + bytes" where
  "ms_sign l m message =
     (case ms_algorithm m of AesCmac \<Rightarrow> sign_cmac l m message | AesGmac \<Rightarrow> sign_gmac l m message)"

text \<open>The comparison that looks at every byte: the disjunction of the differences.\<close>

definition tag_diff :: "bytes \<Rightarrow> bytes \<Rightarrow> u8" where
  "tag_diff xs ys = foldl (\<lambda>diff (a, b). diff OR (a XOR b)) 0 (zip xs ys)"

definition ms_verify :: "mac_lib \<Rightarrow> MessageSigner \<Rightarrow> bytes \<Rightarrow> bytes \<Rightarrow> SigningError + unit" where
  "ms_verify l m message signature =
     (case ms_sign l m message of
        Inl e \<Rightarrow> Inl e
      | Inr computed \<Rightarrow>
          if tag_diff computed signature \<noteq> 0 then Inl SgSignatureMismatch else Inr ())"

lemma or_zero_iff: "(a :: 'a::len word) OR b = 0 \<longleftrightarrow> a = 0 \<and> b = 0"
  by (auto simp: bit_eq_iff bit_simps)

lemma xor_zero_iff: "(a :: 'a::len word) XOR b = 0 \<longleftrightarrow> a = b"
  by (auto simp: bit_eq_iff bit_simps)

lemma tag_diff_zero_iff:
  assumes "length xs = length ys"
  shows "tag_diff xs ys = 0 \<longleftrightarrow> xs = ys"
proof -
  have "foldl (\<lambda>diff (a, b). diff OR (a XOR b)) d (zip xs ys) = 0 \<longleftrightarrow> d = 0 \<and> xs = ys" for d :: u8
    using assms by (induction xs ys arbitrary: d rule: list_induct2) (auto simp: or_zero_iff xor_zero_iff)
  then show ?thesis by (simp add: tag_diff_def)
qed

section \<open>Properties\<close>



end
