(* ===== verification/Message_Layer.thy ===== *)
theory Message_Layer
  imports Smb2_Header Connection Session_Manager
begin

text \<open>
  \<open>crates/rustsmb-server/src/handler.rs\<close>, lines 1-1312 and 6223-6545: framing, header checks,
  credits, dispatch, compound requests, signing and error responses. The handlers of the single
  commands are the argument \<open>env_handle\<close>: what is shown here holds whatever they do. The socket is
  the bytes written to it and the error it gives to a write, if any; the read buffer is an argument
  of the two functions that use it. A message reads the clock several times: \<open>clock i\<close> is the
  reading for its command \<open>i\<close>.
\<close>

section \<open>Errors\<close>

text \<open>
  \<open>HePanic\<close> is not a value of the Rust type: it stands for a panic below a command handler, which
  unwinds the task of the connection. It is passed up unchanged and never answered.
\<close>

datatype HandlerError =
    HeIo string | HeProtocol string | HeAuth string | HeVfs string | HeInternal string | HeStatus NtStatus | HePanic

fun he_status :: "HandlerError \<Rightarrow> NtStatus" where
  "he_status (HeIo _) = NtInternalError"
| "he_status (HeProtocol _) = NtInvalidParameter"
| "he_status (HeAuth _) = NtLogonFailure"
| "he_status (HeVfs _) = NtObjectNameNotFound"
| "he_status (HeInternal _) = NtInternalError"
| "he_status (HeStatus s) = s"
| "he_status HePanic = NtInternalError"

fun StateError_display :: "StateError \<Rightarrow> string" where
  "StateError_display (SeConnectionFailed e) = ''Connection failed: '' @ e"
| "StateError_display SeTimeout = ''Timeout''"
| "StateError_display (SeSerialization e) = ''Serialization error: '' @ e"
| "StateError_display (SeNotFound e) = ''Key not found: '' @ e"
| "StateError_display (SeAlreadyExists e) = ''Already exists: '' @ e"
| "StateError_display (SeConflict e) = ''Conflict: '' @ e"
| "StateError_display (SeInternal e) = ''Internal error: '' @ e"

fun SigningError_display :: "SigningError \<Rightarrow> string" where
  "SigningError_display (SgInvalidKeySize expected actual) =
     ''Invalid key size: expected '' @ fmt_dec expected @ '', got '' @ fmt_dec actual"
| "SigningError_display SgSignatureMismatch = ''Signature mismatch''"
| "SigningError_display (SgCryptoError e) = ''Cryptographic error: '' @ e"

section \<open>The connection handler\<close>

record ('s, 'x) ConnectionHandler =
  ch_stream :: bytes
  ch_write_error :: "string option"
  ch_connection :: Connection
  ch_store :: 's
  ch_signing_keys :: "(u64, bytes) hash_map"
  ch_rest :: 'x

type_synonym ('s, 'x, 'a) h_op = "(('s, 'x) ConnectionHandler, HandlerError, 'a) op"

record ('s, 'x) handler_env =
  env_headers :: header_lib
  env_macs :: mac_lib
  env_store :: "'s state_store"
  env_handle :: "Smb2Header \<Rightarrow> bytes \<Rightarrow> bytes \<Rightarrow> ('s, 'x, bytes) h_op"

definition with_store :: "('s, StateError, 'a) op \<Rightarrow> ('s, 'x, 'a) h_op" where
  "with_store m ch =
     (case m (ch_store ch) of
        (Inl e, t) \<Rightarrow> (Inl (HeInternal (StateError_display e)), ch\<lparr> ch_store := t \<rparr>)
      | (Inr r, t) \<Rightarrow> (Inr r, ch\<lparr> ch_store := t \<rparr>))"

definition op_lift :: "'e + 'a \<Rightarrow> ('s, 'e, 'a) op" where
  "op_lift r s = (r, s)"

section \<open>Framing\<close>

definition try_parse_message :: "bytes \<Rightarrow> (bytes \<times> bytes) option" where
  "try_parse_message read_buf =
     (if length read_buf < 4 then None
      else
        let len = unat (read_buf ! 1) * 2 ^ 16 + unat (read_buf ! 2) * 2 ^ 8 + unat (read_buf ! 3) in
        if length read_buf < 4 + len then None
        else Some (slice 4 len read_buf, drop (4 + len) read_buf))"

definition nb_header :: "nat \<Rightarrow> bytes" where
  "nb_header len = [0x00, of_nat (len div 2 ^ 16), of_nat (len div 2 ^ 8), of_nat len]"

definition send_response :: "bytes \<Rightarrow> ('s, 'x, unit) h_op" where
  "send_response response ch =
     (case ch_write_error ch of
        Some e \<Rightarrow> (Inl (HeIo e), ch)
      | None \<Rightarrow> (Inr (), ch\<lparr> ch_stream := ch_stream ch @ nb_header (length response) @ response \<rparr>))"

section \<open>Signing\<close>

definition compute_signature :: "mac_lib \<Rightarrow> bytes \<Rightarrow> SmbDialect \<Rightarrow> bytes \<Rightarrow> HandlerError + bytes" where
  "compute_signature l signing_key dialect message =
     (let key = take 16 signing_key @ replicate (16 - length signing_key) 0 in
      case MessageSigner_new AesCmac key of
        Inl e \<Rightarrow> Inl (HeProtocol (''Failed to create signer: '' @ SigningError_display e))
      | Inr signer \<Rightarrow>
          (case ms_sign l signer message of
             Inl e \<Rightarrow> Inl (HeProtocol (''Failed to sign message: '' @ SigningError_display e))
           | Inr tag \<Rightarrow> Inr tag))"

text \<open>Zeroing the signature field, computing the signature and writing it.\<close>

definition write_signature :: "mac_lib \<Rightarrow> bytes \<Rightarrow> SmbDialect \<Rightarrow> bytes \<Rightarrow> HandlerError + bytes" where
  "write_signature l signing_key dialect message =
     (let zeroed = put_slice 48 (replicate 16 0) message in
      case compute_signature l signing_key dialect zeroed of
        Inl e \<Rightarrow> Inl e
      | Inr signature \<Rightarrow> Inr (put_slice 48 signature zeroed))"

definition sign_message :: "mac_lib \<Rightarrow> bytes \<Rightarrow> SmbDialect \<Rightarrow> bytes \<Rightarrow> HandlerError + bytes" where
  "sign_message l signing_key dialect message =
     (if length message < SMB2_HEADER_SIZE then Inl (HeProtocol ''Message too short to sign'')
      else case write_signature l signing_key dialect message of
             Inl e \<Rightarrow> Inl e
           | Inr sealed \<Rightarrow>
               (case compute_signature l signing_key dialect
                       (take SMB2_HEADER_SIZE (put_slice 48 (replicate 16 0) message)) of
                  Inl e \<Rightarrow> Inl e
                | Inr _ \<Rightarrow> Inr sealed))"

definition session_id_of :: "bytes \<Rightarrow> u64" where
  "session_id_of response = from_le (slice 40 8 response)"

definition flags_of :: "bytes \<Rightarrow> u32" where
  "flags_of response = from_le (slice 16 4 response)"

definition signing_dialect :: "('s, 'x) ConnectionHandler \<Rightarrow> SmbDialect" where
  "signing_dialect ch = (case cn_dialect (ch_connection ch) of None \<Rightarrow> Smb302 | Some d \<Rightarrow> d)"

definition re_sign_response ::
  "mac_lib \<Rightarrow> ('s, 'x) ConnectionHandler \<Rightarrow> bytes \<Rightarrow> HandlerError + bytes" where
  "re_sign_response l ch response =
     (if length response < SMB2_HEADER_SIZE then Inr response
      else case hm_get (ch_signing_keys ch) (session_id_of response) of
             None \<Rightarrow> Inr response
           | Some signing_key \<Rightarrow>
               if flags_of response AND SIGNED \<noteq> 0
               then write_signature l signing_key (signing_dialect ch) response
               else Inr response)"

definition maybe_sign_response ::
  "mac_lib \<Rightarrow> ('s, 'x) ConnectionHandler \<Rightarrow> bytes \<Rightarrow> HandlerError + bytes" where
  "maybe_sign_response l ch response =
     (if length response < SMB2_HEADER_SIZE then Inr response
      else case hm_get (ch_signing_keys ch) (session_id_of response) of
             None \<Rightarrow> Inr response
           | Some signing_key \<Rightarrow>
               if flags_of response AND SIGNED \<noteq> 0 then Inr response
               else write_signature l signing_key (signing_dialect ch)
                      (put_slice 16 (to_le (flags_of response OR SIGNED)) response))"

definition verify_request_signature ::
  "mac_lib \<Rightarrow> bytes \<Rightarrow> SmbDialect \<Rightarrow> bytes \<Rightarrow> HandlerError + unit" where
  "verify_request_signature l signing_key dialect message =
     (if length message < SMB2_HEADER_SIZE then Inl (HeProtocol ''Message too short to verify'')
      else case compute_signature l signing_key dialect (put_slice 48 (replicate 16 0) message) of
             Inl e \<Rightarrow> Inl e
           | Inr expected \<Rightarrow>
               if tag_diff expected (slice 48 16 message) \<noteq> 0 then Inl (HeStatus NtAccessDenied)
               else Inr ())"

section \<open>Response headers and checks\<close>

definition error_header :: "Smb2Header \<Rightarrow> NtStatus \<Rightarrow> u64 \<Rightarrow> u32 \<Rightarrow> Smb2Header" where
  "error_header req_header status session_id tree_id =
     \<lparr> sh_structure_size = 64, sh_credit_charge = sh_credit_charge req_header,
       sh_status = NtStatus_code status, sh_command = sh_command req_header, sh_credits = 1,
       sh_flags = SERVER_TO_REDIR, sh_next_command = 0, sh_message_id = sh_message_id req_header,
       sh_async_id = 0, sh_tree_id = tree_id, sh_session_id = session_id, sh_signature = replicate 16 0 \<rparr>"

definition build_error_response_with_ids ::
  "header_lib \<Rightarrow> Smb2Header \<Rightarrow> NtStatus \<Rightarrow> u64 \<Rightarrow> u32 \<Rightarrow> HandlerError + bytes" where
  "build_error_response_with_ids l req_header status session_id tree_id =
     (case hl_write l (error_header req_header status session_id tree_id) of
        Inl e \<Rightarrow> Inl (HeProtocol (''Failed to write header: '' @ e))
      | Inr response \<Rightarrow> Inr (response @ to_le (9 :: u16) @ [0] @ [0] @ to_le (0 :: u32) @ [0]))"

definition read_header :: "header_lib \<Rightarrow> string \<Rightarrow> bytes \<Rightarrow> HandlerError + Smb2Header" where
  "read_header l what message = map_sum (\<lambda>e. HeProtocol (what @ e)) id (hl_read l message)"

definition build_error_response :: "header_lib \<Rightarrow> bytes \<Rightarrow> NtStatus \<Rightarrow> HandlerError + bytes" where
  "build_error_response l request status =
     (case read_header l ''Failed to parse header: '' request of
        Inl e \<Rightarrow> Inl e
      | Inr h \<Rightarrow> build_error_response_with_ids l h status (sh_session_id h) (sh_tree_id h))"

definition build_response_header ::
  "Smb2Header \<Rightarrow> NtStatus \<Rightarrow> ('s, 'x) ConnectionHandler \<Rightarrow> Smb2Header \<times> ('s, 'x) ConnectionHandler" where
  "build_response_header request status ch =
     (let (credits, c) = grant_credits (sh_credits request) False (ch_connection ch) in
      (\<lparr> sh_structure_size = 64, sh_credit_charge = sh_credit_charge request,
         sh_status = NtStatus_code status, sh_command = sh_command request, sh_credits = credits,
         sh_flags = SERVER_TO_REDIR, sh_next_command = 0, sh_message_id = sh_message_id request,
         sh_async_id = 0, sh_tree_id = sh_tree_id request, sh_session_id = sh_session_id request,
         sh_signature = replicate 16 0 \<rparr>,
       ch\<lparr> ch_connection := c \<rparr>))"

definition validate_credit_charge :: "Connection \<Rightarrow> Smb2Header \<Rightarrow> u32 \<Rightarrow> HandlerError + unit" where
  "validate_credit_charge c header payload_size =
     (if \<not> supports_multi_credit c then Inr ()
      else
        let expected_charge = (if payload_size = 0 then 1
              else of_nat ((unat payload_size - 1) div 65536 + 1)) in
        if sh_credit_charge header = 0 \<and> 0 < payload_size then Inl (HeStatus NtInvalidParameter)
        else if sh_credit_charge header < expected_charge then Inl (HeStatus NtInvalidParameter)
        else Inr ())"

definition validate_handle_tree_id :: "Smb2Header \<Rightarrow> HandleState \<Rightarrow> HandlerError + unit" where
  "validate_handle_tree_id header handle =
     (if hs_session_id handle = 0 then Inl (HeStatus NtFileClosed)
      else if hs_session_id handle \<noteq> sh_session_id header then Inl (HeStatus NtFileClosed)
      else if sh_tree_id header \<noteq> hs_tree_id handle then Inl (HeStatus NtInvalidParameter)
      else Inr ())"

section \<open>Dispatch\<close>

definition dispatch_requires_session :: "Smb2Command \<Rightarrow> bool" where
  "dispatch_requires_session c \<longleftrightarrow> c \<in> {CmdLogoff, CmdTreeConnect, CmdTreeDisconnect, CmdCreate, CmdClose,
     CmdFlush, CmdRead, CmdWrite, CmdLock, CmdIoctl, CmdQueryDirectory, CmdChangeNotify, CmdQueryInfo,
     CmdSetInfo}"

definition dispatch_requires_tree :: "Smb2Command \<Rightarrow> bool" where
  "dispatch_requires_tree c \<longleftrightarrow> c \<in> {CmdTreeDisconnect, CmdCreate, CmdClose, CmdFlush, CmdRead, CmdWrite,
     CmdLock, CmdIoctl, CmdQueryDirectory, CmdChangeNotify, CmdQueryInfo, CmdSetInfo}"

definition check_session :: "('s, 'x) handler_env \<Rightarrow> nat \<Rightarrow> Smb2Header \<Rightarrow> ('s, 'x, unit) h_op" where
  "check_session env now header ch =
     (let sid = sh_session_id header in
      if dispatch_requires_session (sh_command header) \<and> sid \<noteq> 0 then
        if \<not> has_session (ch_connection ch) sid then (Inl (HeStatus NtUserSessionDeleted), ch)
        else op_bind (with_store (sm_get_session (env_store env) sid)) (\<lambda>found ch.
               if found = None
               then (Inl (HeStatus NtUserSessionDeleted),
                     ch\<lparr> ch_connection := remove_session now sid (ch_connection ch) \<rparr>)
               else (Inr (), ch)) ch
      else (Inr (), ch))"

definition check_tree :: "('s, 'x) handler_env \<Rightarrow> Smb2Header \<Rightarrow> ('s, 'x, unit) h_op" where
  "check_tree env header =
     (if dispatch_requires_tree (sh_command header)
      then op_bind (with_store (sm_get_tree (env_store env) (sh_session_id header) (sh_tree_id header)))
             (\<lambda>found. if found = None then op_throw (HeStatus NtNetworkNameDeleted) else op_return ())
      else op_return ())"

definition dispatch_command ::
  "('s, 'x) handler_env \<Rightarrow> nat \<Rightarrow> Smb2Header \<Rightarrow> bytes \<Rightarrow> bytes \<Rightarrow> ('s, 'x, bytes) h_op" where
  "dispatch_command env now header body full_message =
     op_bind (check_session env now header) (\<lambda>_.
     op_bind (check_tree env header) (\<lambda>_.
       env_handle env header body full_message))"

fun fileid_body_offset :: "Smb2Command \<Rightarrow> nat option" where
  "fileid_body_offset CmdClose = Some 8"
| "fileid_body_offset CmdFlush = Some 8"
| "fileid_body_offset CmdLock = Some 8"
| "fileid_body_offset CmdQueryDirectory = Some 8"
| "fileid_body_offset CmdRead = Some 16"
| "fileid_body_offset CmdWrite = Some 16"
| "fileid_body_offset CmdSetInfo = Some 16"
| "fileid_body_offset CmdQueryInfo = Some 24"
| "fileid_body_offset _ = None"

text \<open>The body and message a related command is dispatched with, when its file id is replaced.\<close>

definition substitute_file_id ::
  "u64 \<times> u64 \<Rightarrow> bool \<Rightarrow> nat \<Rightarrow> bytes \<Rightarrow> bytes \<Rightarrow> (bytes \<times> bytes) option" where
  "substitute_file_id ids related offset body full_message =
     (let (persistent, volatile) = ids;
          req_persistent = from_le (slice offset 8 body); req_volatile = from_le (slice (offset + 8) 8 body);
          use_ctx_persistent = (req_persistent = - 1 \<or> related \<and> req_persistent \<noteq> persistent);
          use_ctx_volatile = (req_volatile = - 1 \<or> related \<and> req_volatile \<noteq> volatile);
          file_id_offset = SMB2_HEADER_SIZE + offset in
      if length body < offset + 16 then None
      else if \<not> (use_ctx_persistent \<or> use_ctx_volatile) then None
      else if length full_message < file_id_offset + 16 then None
      else
        let modified = put_slice (file_id_offset + 8)
              (to_le (if use_ctx_volatile then volatile else req_volatile))
              (put_slice file_id_offset
                 (to_le (if use_ctx_persistent then persistent else req_persistent)) full_message)
        in Some (drop SMB2_HEADER_SIZE modified, modified))"

definition dispatch_command_compound ::
  "('s, 'x) handler_env \<Rightarrow> nat \<Rightarrow> Smb2Header \<Rightarrow> bytes \<Rightarrow> bytes \<Rightarrow> CompoundContext
     \<Rightarrow> ('s, 'x, bytes \<times> (u64 \<times> u64) option) h_op" where
  "dispatch_command_compound env now header body full_message ctx =
     (let file_id_override =
            (if ctx_related ctx \<and> \<not> is_first ctx
             then map_option (\<lambda>fid. (ucast (fid_persistent fid), ucast (fid_volatile fid))) (ctx_file_id ctx)
             else None) in
      if sh_command header = CmdCreate then
        op_bind (dispatch_command env now header body full_message) (\<lambda>resp.
          op_return (resp,
            if SMB2_HEADER_SIZE + 64 + 16 \<le> length resp
            then Some (from_le (slice (SMB2_HEADER_SIZE + 64) 8 resp), from_le (slice (SMB2_HEADER_SIZE + 72) 8 resp))
            else None))
      else
        let (body', message') =
              (case (fileid_body_offset (sh_command header), file_id_override) of
                 (Some offset, Some ids) \<Rightarrow>
                   (case substitute_file_id ids (ctx_related ctx) offset body full_message of
                      Some m \<Rightarrow> m
                    | None \<Rightarrow> (body, full_message))
               | _ \<Rightarrow> (body, full_message))
        in op_bind (dispatch_command env now header body' message') (\<lambda>resp. op_return (resp, None)))"

section \<open>Compound requests\<close>

definition resolve_related_header :: "Smb2Header \<Rightarrow> CompoundContext \<Rightarrow> HandlerError + Smb2Header" where
  "resolve_related_header header ctx =
     (case resolve_session_id ctx (sh_session_id header) of
        None \<Rightarrow> Inl (HeStatus NtInvalidParameter)
      | Some session_id \<Rightarrow>
          (case resolve_tree_id ctx (sh_tree_id header) of
             None \<Rightarrow> Inl (HeStatus NtInvalidParameter)
           | Some tree_id \<Rightarrow> Inr (header\<lparr> sh_session_id := session_id, sh_tree_id := tree_id \<rparr>)))"

text \<open>The header a response to an unreadable command is built from.\<close>

definition err_header :: "CompoundContext \<Rightarrow> Smb2Header" where
  "err_header ctx = Smb2Header_default\<lparr> sh_credit_charge := 1,
     sh_tree_id := (case ctx_tree_id ctx of None \<Rightarrow> 0 | Some t \<Rightarrow> t),
     sh_session_id := (case ctx_session_id ctx of None \<Rightarrow> 0 | Some i \<Rightarrow> i) \<rparr>"

record compound_acc =
  ca_ctx :: CompoundContext
  ca_responses :: "bytes list"
  ca_last_error :: "NtStatus option"

text \<open>Signing and collecting the error response of one command.\<close>

definition push_error ::
  "('s, 'x) handler_env \<Rightarrow> Smb2Header \<Rightarrow> NtStatus \<Rightarrow> NtStatus option \<Rightarrow> compound_acc \<Rightarrow> ('s, 'x, compound_acc) h_op" where
  "push_error env header status last_error acc ch =
     (case build_error_response_with_ids (env_headers env) header status (sh_session_id header) (sh_tree_id header) of
        Inl e \<Rightarrow> (Inl e, ch)
      | Inr err_resp \<Rightarrow>
          (case maybe_sign_response (env_macs env) ch err_resp of
             Inl e \<Rightarrow> (Inl e, ch)
           | Inr sealed \<Rightarrow>
               (Inr \<lparr> ca_ctx = advance (CompoundResult_failure (NtStatus_code status)) (ca_ctx acc),
                      ca_responses = ca_responses acc @ [sealed], ca_last_error = last_error \<rparr>, ch)))"

definition push_success ::
  "('s, 'x) handler_env \<Rightarrow> nat \<Rightarrow> Smb2Header \<Rightarrow> bytes \<Rightarrow> (u64 \<times> u64) option \<Rightarrow> compound_acc
     \<Rightarrow> ('s, 'x, compound_acc) h_op" where
  "push_success env i header response file_id acc ch =
     (let ctx = (if i = 0 then set_tree_id (sh_tree_id header) (set_session_id (sh_session_id header) (ca_ctx acc))
                 else ca_ctx acc);
          ctx = advance (case file_id of
                  Some (persistent, volatile) \<Rightarrow>
                    CompoundResult_success_with_file \<lparr> fid_persistent = ucast persistent, fid_volatile = ucast volatile \<rparr>
                | None \<Rightarrow> CompoundResult_success) ctx in
      case maybe_sign_response (env_macs env) ch response of
        Inl e \<Rightarrow> (Inl e, ch)
      | Inr sealed \<Rightarrow> (Inr (acc\<lparr> ca_ctx := ctx, ca_responses := ca_responses acc @ [sealed] \<rparr>), ch))"

definition charge_credits :: "Smb2Header \<Rightarrow> ('s, 'x) ConnectionHandler \<Rightarrow> ('s, 'x) ConnectionHandler" where
  "charge_credits header ch =
     (if sh_command header \<noteq> CmdNegotiate
      then ch\<lparr> ch_connection := snd (consume_credits (max (sh_credit_charge header) 1) (ch_connection ch)) \<rparr>
      else ch)"

text \<open>One round of the loop over the commands of a compound.\<close>

definition compound_step ::
  "('s, 'x) handler_env \<Rightarrow> nat \<Rightarrow> bool \<Rightarrow> nat \<Rightarrow> bytes \<Rightarrow> compound_acc \<Rightarrow> ('s, 'x, compound_acc) h_op" where
  "compound_step env now related i cmd_data acc ch =
     (case hl_read (env_headers env) cmd_data of
        Inl _ \<Rightarrow> push_error env (err_header (ca_ctx acc)) NtInvalidParameter (Some NtInvalidParameter) acc ch
      | Inr header \<Rightarrow>
          (case (if related \<and> 0 < i then resolve_related_header header (ca_ctx acc) else Inr header) of
             Inl e \<Rightarrow> (Inl e, ch)
           | Inr effective_header \<Rightarrow>
               (case (if related \<and> 0 < i then ca_last_error acc else None) of
                  Some status \<Rightarrow> push_error env effective_header status (ca_last_error acc) acc ch
                | None \<Rightarrow>
                    (case dispatch_command_compound env now effective_header (drop SMB2_HEADER_SIZE cmd_data)
                            cmd_data (ca_ctx acc) (charge_credits effective_header ch) of
                       (Inr (response, file_id), ch1) \<Rightarrow>
                         push_success env i effective_header response file_id acc ch1
                     | (Inl e, ch1) \<Rightarrow>
                         if e = HePanic then (Inl HePanic, ch1)
                         else push_error env effective_header (he_status e) (Some (he_status e)) acc ch1))))"

fun compound_loop ::
  "('s, 'x) handler_env \<Rightarrow> (nat \<Rightarrow> nat) \<Rightarrow> bool \<Rightarrow> bytes \<Rightarrow> nat \<Rightarrow> nat list \<Rightarrow> compound_acc
     \<Rightarrow> ('s, 'x, compound_acc) h_op" where
  "compound_loop env clock related message i [] acc = op_return acc"
| "compound_loop env clock related message i (offset # rest) acc =
     (let cmd_end = (case rest of [] \<Rightarrow> length message | next # _ \<Rightarrow> next) in
      op_bind (compound_step env (clock i) related i (slice offset (cmd_end - offset) message) acc)
        (compound_loop env clock related message (Suc i) rest))"

text \<open>The header fields of one response in the combined message.\<close>

definition link_response ::
  "mac_lib \<Rightarrow> ('s, 'x) ConnectionHandler \<Rightarrow> bool \<Rightarrow> bool \<Rightarrow> bytes \<Rightarrow> HandlerError + bytes" where
  "link_response l ch related final response =
     (let r1 = (if related then put_slice 16 (to_le (flags_of response OR RELATED_OPERATIONS)) response else response);
          padding = (if final then 0 else compound_padding (length response));
          unlinked = (final \<and> (from_le (slice 20 4 r1) :: u32) = 0);
          r2 = (if \<not> final then put_slice 20 (to_le (of_nat (length response + padding) :: u32)) r1
                else if unlinked then r1 else put_slice 20 (to_le (0 :: u32)) r1)
      in case (if related \<or> \<not> unlinked then re_sign_response l ch r2 else Inr r2) of
           Inl e \<Rightarrow> Inl e
         | Inr r3 \<Rightarrow> Inr (r3 @ replicate padding 0))"

fun combine_from ::
  "mac_lib \<Rightarrow> ('s, 'x) ConnectionHandler \<Rightarrow> bool \<Rightarrow> bytes list \<Rightarrow> HandlerError + bytes" where
  "combine_from l ch related [] = Inr []"
| "combine_from l ch related (response # rest) =
     (if length response < SMB2_HEADER_SIZE then combine_from l ch related rest
      else case link_response l ch related (rest = []) response of
             Inl e \<Rightarrow> Inl e
           | Inr part \<Rightarrow>
               (case combine_from l ch related rest of Inl e \<Rightarrow> Inl e | Inr result \<Rightarrow> Inr (part @ result)))"

definition combine_compound_responses ::
  "mac_lib \<Rightarrow> ('s, 'x) ConnectionHandler \<Rightarrow> bool \<Rightarrow> bytes list \<Rightarrow> HandlerError + bytes" where
  "combine_compound_responses l ch related responses =
     (case responses of
        [] \<Rightarrow> Inl (HeInternal ''No responses to combine'')
      | [response] \<Rightarrow> Inr response
      | _ \<Rightarrow> combine_from l ch related responses)"

definition process_single_message ::
  "('s, 'x) handler_env \<Rightarrow> (nat \<Rightarrow> nat) \<Rightarrow> Smb2Header \<Rightarrow> bytes \<Rightarrow> ('s, 'x, bytes) h_op" where
  "process_single_message env clock header message ch =
     (let ch1 = ch\<lparr> ch_connection := touch (clock 0) (ch_connection ch) \<rparr>
      in dispatch_command env (clock 0) header (drop SMB2_HEADER_SIZE message) message (charge_credits header ch1))"

definition process_compound_request ::
  "('s, 'x) handler_env \<Rightarrow> (nat \<Rightarrow> nat) \<Rightarrow> bytes \<Rightarrow> ('s, 'x, bytes) h_op" where
  "process_compound_request env clock message ch =
     (let offsets = parse_compound_offsets message; l = env_headers env in
      if length offsets < 2 then
        op_bind (op_lift (read_header l ''Failed to parse header: '' message))
          (\<lambda>header. process_single_message env clock header message) ch
      else
        let ch1 = ch\<lparr> ch_connection := touch (clock 0) (ch_connection ch) \<rparr> in
        op_bind (op_lift (read_header l ''Failed to parse second header: '' (drop (offsets ! 1) message)))
          (\<lambda>second_header.
             let related = is_related (sh_flags second_header);
                 ctx = (if related then CompoundContext_related (length offsets)
                        else CompoundContext_unrelated (length offsets)) in
             op_bind (compound_loop env clock related message 0 offsets
                        \<lparr> ca_ctx = ctx, ca_responses = [], ca_last_error = None \<rparr>)
               (\<lambda>acc ch. (combine_compound_responses (env_macs env) ch related (ca_responses acc), ch))) ch1)"

definition process_message ::
  "('s, 'x) handler_env \<Rightarrow> (nat \<Rightarrow> nat) \<Rightarrow> bytes \<Rightarrow> ('s, 'x, bytes) h_op" where
  "process_message env clock message =
     (if length message < SMB2_HEADER_SIZE then op_throw (HeProtocol ''Message too small'')
      else if take 4 message \<noteq> SMB2_MAGIC then op_throw (HeProtocol ''Invalid SMB2 magic'')
      else op_bind (op_lift (read_header (env_headers env) ''Failed to parse header: '' message)) (\<lambda>header.
             if sh_next_command header \<noteq> 0 then process_compound_request env clock message
             else process_single_message env clock header message))"

definition process_and_respond ::
  "('s, 'x) handler_env \<Rightarrow> (nat \<Rightarrow> nat) \<Rightarrow> bytes \<Rightarrow> ('s, 'x, unit) h_op" where
  "process_and_respond env clock message ch =
     (let (r, ch1) = process_message env clock message ch in
      case (case r of Inr response \<Rightarrow> Inr response
                    | Inl e \<Rightarrow> if e = HePanic then Inl HePanic
                               else build_error_response (env_headers env) message (he_status e)) of
        Inl e \<Rightarrow> (Inl e, ch1)
      | Inr response \<Rightarrow>
          if response = [] then (Inr (), ch1)
          else op_bind (op_lift (maybe_sign_response (env_macs env) ch1 response)) send_response ch1)"

text \<open>
  The \<open>while let\<close> loop of \<open>run_message_loop\<close> over the messages in the read buffer. It ends with what
  is left of the buffer and whether the connection is disconnecting.
\<close>

function drain ::
  "('s, 'x) handler_env \<Rightarrow> (nat \<Rightarrow> nat) \<Rightarrow> bytes \<Rightarrow> ('s, 'x, bool \<times> bytes) h_op" where
  "drain env clock read_buf ch =
     (case try_parse_message read_buf of
        None \<Rightarrow> (Inr (False, read_buf), ch)
      | Some (message, rest) \<Rightarrow>
          (case process_and_respond env clock message ch of
             (Inl e, ch1) \<Rightarrow> (Inl e, ch1)
           | (Inr _, ch1) \<Rightarrow>
               if is_disconnecting (ch_connection ch1) then (Inr (True, rest), ch1)
               else drain env clock rest ch1))"
  by pat_completeness auto

lemma try_parse_shorter: "try_parse_message buf = Some (m, rest) \<Longrightarrow> length rest < length buf"
  by (auto simp: try_parse_message_def Let_def split: if_splits)

termination drain
  by (relation "measure (\<lambda>(_, _, buf, _). length buf)") (auto simp: try_parse_shorter)

declare drain.simps [simp del]

end
