(* ===== verification/Command_Structures.thy ===== *)
theory Command_Structures
  imports Smb_Prelude
begin

text \<open>
  The wire structures of \<open>crates/rustsmb-protocol/src/commands\<close> that the command handlers read and
  write. Their encoding is derived by a package: the record \<open>codec\<close> has one function per structure and
  direction, and \<open>le_codec\<close> is the layout the derive attributes ask for. The hand-written parser of the
  server-side copy request is translated. Newtypes over an integer (flags, states) are that integer.
\<close>

section \<open>Wire structures\<close>

text \<open>LOGOFF, TREE_DISCONNECT, FLUSH, LOCK and ECHO are answered with the same two fields.\<close>

record PlainResponse =
  pl_structure_size :: u16
  pl_reserved :: u16

record CloseRequest =
  clq_structure_size :: u16
  clq_flags :: u16
  clq_reserved :: u32
  clq_file_id_persistent :: u64
  clq_file_id_volatile :: u64

record CloseResponse =
  clr_structure_size :: u16
  clr_flags :: u16
  clr_reserved :: u32
  clr_creation_time :: u64
  clr_last_access_time :: u64
  clr_last_write_time :: u64
  clr_change_time :: u64
  clr_allocation_size :: u64
  clr_end_of_file :: u64
  clr_file_attributes :: u32

record ReadRequest =
  rdq_structure_size :: u16
  rdq_padding :: u8
  rdq_flags :: u8
  rdq_length :: u32
  rdq_offset :: u64
  rdq_file_id_persistent :: u64
  rdq_file_id_volatile :: u64
  rdq_minimum_count :: u32
  rdq_channel :: u32
  rdq_remaining_bytes :: u32
  rdq_read_channel_info_offset :: u16
  rdq_read_channel_info_length :: u16

record ReadResponse =
  rdr_structure_size :: u16
  rdr_data_offset :: u8
  rdr_reserved :: u8
  rdr_data_length :: u32
  rdr_data_remaining :: u32
  rdr_flags :: u32

record WriteRequest =
  wrq_structure_size :: u16
  wrq_data_offset :: u16
  wrq_length :: u32
  wrq_offset :: u64
  wrq_file_id_persistent :: u64
  wrq_file_id_volatile :: u64
  wrq_channel :: u32
  wrq_remaining_bytes :: u32
  wrq_write_channel_info_offset :: u16
  wrq_write_channel_info_length :: u16
  wrq_flags :: u32

record WriteResponse =
  wrr_structure_size :: u16
  wrr_reserved :: u16
  wrr_count :: u32
  wrr_remaining :: u32
  wrr_write_channel_info_offset :: u16
  wrr_write_channel_info_length :: u16

record LockRequest =
  lkq_structure_size :: u16
  lkq_lock_count :: u16
  lkq_lock_sequence :: u32
  lkq_file_id_persistent :: u64
  lkq_file_id_volatile :: u64

record LockElement =
  lke_offset :: u64
  lke_length :: u64
  lke_flags :: u32
  lke_reserved :: u32

definition is_shared :: "u32 \<Rightarrow> bool" where "is_shared flags \<longleftrightarrow> flags AND 0x01 \<noteq> 0"
definition is_exclusive :: "u32 \<Rightarrow> bool" where "is_exclusive flags \<longleftrightarrow> flags AND 0x02 \<noteq> 0"
definition is_unlock :: "u32 \<Rightarrow> bool" where "is_unlock flags \<longleftrightarrow> flags AND 0x04 \<noteq> 0"
definition fail_immediately :: "u32 \<Rightarrow> bool" where "fail_immediately flags \<longleftrightarrow> flags AND 0x10 \<noteq> 0"

record TreeConnectRequest =
  tcq_structure_size :: u16
  tcq_flags :: u16
  tcq_path_offset :: u16
  tcq_path_length :: u16

datatype ShareType = ShareDisk | SharePipe | SharePrint

record TreeConnectResponse =
  tcr_structure_size :: u16
  tcr_share_type :: ShareType
  tcr_reserved :: u8
  tcr_share_flags :: u32
  tcr_capabilities :: u32
  tcr_maximal_access :: u32

record IoctlRequest =
  ioq_structure_size :: u16
  ioq_reserved :: u16
  ioq_ctl_code :: u32
  ioq_file_id_persistent :: u64
  ioq_file_id_volatile :: u64
  ioq_input_offset :: u32
  ioq_input_count :: u32
  ioq_max_input_response :: u32
  ioq_output_offset :: u32
  ioq_output_count :: u32
  ioq_max_output_response :: u32
  ioq_flags :: u32
  ioq_reserved2 :: u32

record IoctlResponse =
  ior_structure_size :: u16
  ior_reserved :: u16
  ior_ctl_code :: u32
  ior_file_id_persistent :: u64
  ior_file_id_volatile :: u64
  ior_input_offset :: u32
  ior_input_count :: u32
  ior_output_offset :: u32
  ior_output_count :: u32
  ior_flags :: u32
  ior_reserved2 :: u32

datatype FsctlCode =
    FsDfsGetReferrals | FsPipePeek | FsPipeWait | FsPipeTransceive | FsSrvRequestResumeKey | FsSrvReadHash
  | FsSrvCopychunk | FsSrvCopychunkWrite | FsLmrRequestResiliency | FsQueryNetworkInterfaceInfo
  | FsSetReparsePoint | FsGetReparsePoint | FsDeleteReparsePoint | FsFileLevelTrim | FsValidateNegotiateInfo

definition FsctlCode_from_u32 :: "u32 \<Rightarrow> FsctlCode option" where
  "FsctlCode_from_u32 v =
     (if v = 0x00060194 then Some FsDfsGetReferrals else if v = 0x0011400C then Some FsPipePeek
      else if v = 0x00110018 then Some FsPipeWait else if v = 0x0011C017 then Some FsPipeTransceive
      else if v = 0x00140078 then Some FsSrvRequestResumeKey else if v = 0x001441BB then Some FsSrvReadHash
      else if v = 0x001440F2 then Some FsSrvCopychunk else if v = 0x001480F2 then Some FsSrvCopychunkWrite
      else if v = 0x001401D4 then Some FsLmrRequestResiliency else if v = 0x001401FC then Some FsQueryNetworkInterfaceInfo
      else if v = 0x000900A4 then Some FsSetReparsePoint else if v = 0x000900A8 then Some FsGetReparsePoint
      else if v = 0x000900AC then Some FsDeleteReparsePoint else if v = 0x00098208 then Some FsFileLevelTrim
      else if v = 0x00140204 then Some FsValidateNegotiateInfo else None)"

record SrvRequestResumeKeyResponse =
  rkr_resume_key :: bytes
  rkr_context_length :: u32
  rkr_reserved :: u32

record SrvCopychunkCopyChunk =
  ckc_source_offset :: u64
  ckc_target_offset :: u64
  ckc_length :: u32
  ckc_reserved :: u32

record SrvCopychunkCopy =
  ckq_source_key :: bytes
  ckq_chunk_count :: u32
  ckq_reserved :: u32
  ckq_chunks :: "SrvCopychunkCopyChunk list"

definition copychunk_at :: "bytes \<Rightarrow> nat \<Rightarrow> SrvCopychunkCopyChunk" where
  "copychunk_at dat i =
     (let offset = 32 + i * 24 in
      \<lparr> ckc_source_offset = from_le (slice offset 8 dat), ckc_target_offset = from_le (slice (offset + 8) 8 dat),
        ckc_length = from_le (slice (offset + 16) 4 dat), ckc_reserved = from_le (slice (offset + 20) 4 dat) \<rparr>)"

text \<open>The I/O error of a short buffer is its message.\<close>

definition SrvCopychunkCopy_parse :: "bytes \<Rightarrow> string + SrvCopychunkCopy" where
  "SrvCopychunkCopy_parse dat =
     (if length dat < 32 then Inl ''SRV_COPYCHUNK_COPY buffer too small''
      else
        let chunk_count = from_le (slice 24 4 dat) :: u32 in
        if length dat < 32 + unat chunk_count * 24
        then Inl (''SRV_COPYCHUNK_COPY buffer too small for '' @ fmt_dec (unat chunk_count) @ '' chunks'')
        else Inr \<lparr> ckq_source_key = slice 0 24 dat, ckq_chunk_count = chunk_count,
               ckq_reserved = from_le (slice 28 4 dat),
               ckq_chunks = map (copychunk_at dat) [0..<unat chunk_count] \<rparr>)"

record SrvCopychunkResponse =
  ckr_chunks_written :: u32
  ckr_chunk_bytes_written :: u32
  ckr_total_bytes_written :: u32

datatype FileInformationClass =
    FileDirectoryInformation | FileFullDirectoryInformation | FileBothDirectoryInformation | FileNamesInformation
  | FileIdBothDirectoryInformation | FileIdFullDirectoryInformation | FileIdExtdDirectoryInformation

record QueryDirectoryRequest =
  qdq_structure_size :: u16
  qdq_file_information_class :: FileInformationClass
  qdq_flags :: u8
  qdq_file_index :: u32
  qdq_file_id_persistent :: u64
  qdq_file_id_volatile :: u64
  qdq_file_name_offset :: u16
  qdq_file_name_length :: u16
  qdq_output_buffer_length :: u32

datatype InfoType = InfoFile | InfoFileSystem | InfoSecurity | InfoQuota

record QueryInfoRequest =
  qiq_structure_size :: u16
  qiq_info_type :: InfoType
  qiq_file_info_class :: u8
  qiq_output_buffer_length :: u32
  qiq_input_buffer_offset :: u16
  qiq_reserved :: u16
  qiq_input_buffer_length :: u32
  qiq_additional_information :: u32
  qiq_flags :: u32
  qiq_file_id_persistent :: u64
  qiq_file_id_volatile :: u64

text \<open>QUERY_DIRECTORY and QUERY_INFO are answered with the same fields.\<close>

record QueryResponse =
  qyr_structure_size :: u16
  qyr_output_buffer_offset :: u16
  qyr_output_buffer_length :: u32

record SetInfoRequest =
  siq_structure_size :: u16
  siq_info_type :: InfoType
  siq_file_info_class :: u8
  siq_buffer_length :: u32
  siq_buffer_offset :: u16
  siq_reserved :: u16
  siq_additional_information :: u32
  siq_file_id_persistent :: u64
  siq_file_id_volatile :: u64

record SetInfoResponse =
  sir_structure_size :: u16

datatype SetFileInfoClass =
    SfBasic | SfRename | SfLink | SfDisposition | SfPosition | SfFullEa | SfMode | SfAllocation | SfEndOfFile
  | SfPipe | SfValidDataLength | SfShortName

definition SetFileInfoClass_from_u8 :: "u8 \<Rightarrow> SetFileInfoClass option" where
  "SetFileInfoClass_from_u8 v =
     (if v = 4 then Some SfBasic else if v = 10 then Some SfRename else if v = 11 then Some SfLink
      else if v = 13 then Some SfDisposition else if v = 14 then Some SfPosition else if v = 15 then Some SfFullEa
      else if v = 16 then Some SfMode else if v = 19 then Some SfAllocation else if v = 20 then Some SfEndOfFile
      else if v = 23 then Some SfPipe else if v = 39 then Some SfValidDataLength
      else if v = 40 then Some SfShortName else None)"

record FileRenameInformation =
  fri_replace_if_exists :: u8
  fri_reserved :: bytes
  fri_root_directory :: u64
  fri_file_name_length :: u32

datatype OplockLevel = OlNone | OlLevelII | OlExclusive | OlBatch | OlLease

fun OplockLevel_as_u8 :: "OplockLevel \<Rightarrow> u8" where
  "OplockLevel_as_u8 OlNone = 0x00"
| "OplockLevel_as_u8 OlLevelII = 0x01"
| "OplockLevel_as_u8 OlExclusive = 0x08"
| "OplockLevel_as_u8 OlBatch = 0x09"
| "OplockLevel_as_u8 OlLease = 0xFF"

definition OplockLevel_from_u8 :: "u8 \<Rightarrow> OplockLevel" where
  "OplockLevel_from_u8 v =
     (if v = 0x00 then OlNone else if v = 0x01 then OlLevelII else if v = 0x08 then OlExclusive
      else if v = 0x09 then OlBatch else if v = 0xFF then OlLease else OlNone)"

text \<open>The acknowledgment of an oplock break and its response have the same fields, as have those of a lease break.\<close>

record OplockBreak =
  opb_structure_size :: u16
  opb_oplock_level :: OplockLevel
  opb_reserved :: u8
  opb_reserved2 :: u32
  opb_file_id_persistent :: u64
  opb_file_id_volatile :: u64

record LeaseBreak =
  leb_structure_size :: u16
  leb_reserved :: u16
  leb_flags :: u32
  leb_lease_key :: bytes
  leb_lease_state :: u32
  leb_lease_duration :: u64

record NegotiateRequest =
  ngq_structure_size :: u16
  ngq_dialect_count :: u16
  ngq_security_mode :: u16
  ngq_reserved :: u16
  ngq_capabilities :: u32
  ngq_client_guid :: bytes
  ngq_negotiate_context_offset :: u32
  ngq_negotiate_context_count :: u16
  ngq_reserved2 :: u16

record NegotiateResponse =
  ngr_structure_size :: u16
  ngr_security_mode :: u16
  ngr_dialect_revision :: u16
  ngr_negotiate_context_count :: u16
  ngr_server_guid :: bytes
  ngr_capabilities :: u32
  ngr_max_transact_size :: u32
  ngr_max_read_size :: u32
  ngr_max_write_size :: u32
  ngr_system_time :: u64
  ngr_server_start_time :: u64
  ngr_security_buffer_offset :: u16
  ngr_security_buffer_length :: u16
  ngr_negotiate_context_offset :: u32

record SessionSetupRequest =
  ssq_structure_size :: u16
  ssq_flags :: u8
  ssq_security_mode :: u8
  ssq_capabilities :: u32
  ssq_channel :: u32
  ssq_security_buffer_offset :: u16
  ssq_security_buffer_length :: u16
  ssq_previous_session_id :: u64

definition is_binding :: "u8 \<Rightarrow> bool" where
  "is_binding flags \<longleftrightarrow> flags AND 0x01 \<noteq> 0"

record SessionSetupResponse =
  ssr_structure_size :: u16
  ssr_session_flags :: u16
  ssr_security_buffer_offset :: u16
  ssr_security_buffer_length :: u16

record CreateRequest =
  crq_structure_size :: u16
  crq_security_flags :: u8
  crq_requested_oplock_level :: OplockLevel
  crq_impersonation_level :: u32
  crq_smb_create_flags :: u64
  crq_reserved :: u64
  crq_desired_access :: u32
  crq_file_attributes :: u32
  crq_share_access :: u32
  crq_create_disposition :: u32
  crq_create_options :: u32
  crq_name_offset :: u16
  crq_name_length :: u16
  crq_create_contexts_offset :: u32
  crq_create_contexts_length :: u32

record CreateResponse =
  crr_structure_size :: u16
  crr_oplock_level :: OplockLevel
  crr_flags :: u8
  crr_create_action :: u32
  crr_creation_time :: u64
  crr_last_access_time :: u64
  crr_last_write_time :: u64
  crr_change_time :: u64
  crr_allocation_size :: u64
  crr_end_of_file :: u64
  crr_file_attributes :: u32
  crr_reserved2 :: u32
  crr_file_id_persistent :: u64
  crr_file_id_volatile :: u64
  crr_create_contexts_offset :: u32
  crr_create_contexts_length :: u32

section \<open>The codec package\<close>

record codec =
  cd_tree_connect_request :: "bytes \<Rightarrow> string + TreeConnectRequest"
  cd_close_request :: "bytes \<Rightarrow> string + CloseRequest"
  cd_read_request :: "bytes \<Rightarrow> string + ReadRequest"
  cd_write_request :: "bytes \<Rightarrow> string + WriteRequest"
  cd_lock_request :: "bytes \<Rightarrow> string + LockRequest"
  cd_lock_element :: "bytes \<Rightarrow> string + LockElement"
  cd_plain_response :: "PlainResponse \<Rightarrow> string + bytes"
  cd_tree_connect_response :: "TreeConnectResponse \<Rightarrow> string + bytes"
  cd_close_response :: "CloseResponse \<Rightarrow> string + bytes"
  cd_read_response :: "ReadResponse \<Rightarrow> string + bytes"
  cd_write_response :: "WriteResponse \<Rightarrow> string + bytes"
  cd_ioctl_request :: "bytes \<Rightarrow> string + IoctlRequest"
  cd_query_directory_request :: "bytes \<Rightarrow> string + QueryDirectoryRequest"
  cd_query_info_request :: "bytes \<Rightarrow> string + QueryInfoRequest"
  cd_set_info_request :: "bytes \<Rightarrow> string + SetInfoRequest"
  cd_rename_information :: "bytes \<Rightarrow> string + FileRenameInformation"
  cd_disposition_information :: "bytes \<Rightarrow> string + u8"
  cd_end_of_file_information :: "bytes \<Rightarrow> string + u64"
  cd_oplock_break :: "bytes \<Rightarrow> string + OplockBreak"
  cd_lease_break :: "bytes \<Rightarrow> string + LeaseBreak"
  cd_negotiate_request :: "bytes \<Rightarrow> string + NegotiateRequest"
  cd_session_setup_request :: "bytes \<Rightarrow> string + SessionSetupRequest"
  cd_create_request :: "bytes \<Rightarrow> string + CreateRequest"
  cd_ioctl_response :: "IoctlResponse \<Rightarrow> string + bytes"
  cd_resume_key_response :: "SrvRequestResumeKeyResponse \<Rightarrow> string + bytes"
  cd_copychunk_response :: "SrvCopychunkResponse \<Rightarrow> string + bytes"
  cd_query_response :: "QueryResponse \<Rightarrow> string + bytes"
  cd_set_info_response :: "SetInfoResponse \<Rightarrow> string + bytes"
  cd_oplock_break_response :: "OplockBreak \<Rightarrow> string + bytes"
  cd_lease_break_response :: "LeaseBreak \<Rightarrow> string + bytes"
  cd_negotiate_response :: "NegotiateResponse \<Rightarrow> string + bytes"
  cd_session_setup_response :: "SessionSetupResponse \<Rightarrow> string + bytes"
  cd_create_response :: "CreateResponse \<Rightarrow> string + bytes"

section \<open>The little-endian layout\<close>

text \<open>The encoding the derive attributes of the structures ask for: the fields in order, little-endian.\<close>

definition ShareType_repr :: "ShareType \<Rightarrow> u8" where
  "ShareType_repr t = (case t of ShareDisk \<Rightarrow> 1 | SharePipe \<Rightarrow> 2 | SharePrint \<Rightarrow> 3)"

definition InfoType_of :: "u8 \<Rightarrow> InfoType option" where
  "InfoType_of v = (if v = 1 then Some InfoFile else if v = 2 then Some InfoFileSystem
     else if v = 3 then Some InfoSecurity else if v = 4 then Some InfoQuota else None)"

definition FileInformationClass_of :: "u8 \<Rightarrow> FileInformationClass option" where
  "FileInformationClass_of v =
     (if v = 1 then Some FileDirectoryInformation else if v = 2 then Some FileFullDirectoryInformation
      else if v = 3 then Some FileBothDirectoryInformation else if v = 12 then Some FileNamesInformation
      else if v = 37 then Some FileIdBothDirectoryInformation else if v = 38 then Some FileIdFullDirectoryInformation
      else if v = 60 then Some FileIdExtdDirectoryInformation else None)"

definition read_fixed :: "nat \<Rightarrow> (bytes \<Rightarrow> 'a) \<Rightarrow> bytes \<Rightarrow> string + 'a" where
  "read_fixed n f b = (if length b < n then Inl ''unexpected end of file'' else Inr (f b))"

definition read_enum :: "'b option \<Rightarrow> ('b \<Rightarrow> string + 'a) \<Rightarrow> string + 'a" where
  "read_enum v f = (case v of None \<Rightarrow> Inl ''no variants matched'' | Some x \<Rightarrow> f x)"

definition le_codec :: codec where
  "le_codec = \<lparr>
     cd_tree_connect_request = read_fixed 8 (\<lambda>b. \<lparr> tcq_structure_size = from_le (slice 0 2 b),
       tcq_flags = from_le (slice 2 2 b), tcq_path_offset = from_le (slice 4 2 b), tcq_path_length = from_le (slice 6 2 b) \<rparr>),
     cd_close_request = read_fixed 24 (\<lambda>b. \<lparr> clq_structure_size = from_le (slice 0 2 b), clq_flags = from_le (slice 2 2 b),
       clq_reserved = from_le (slice 4 4 b), clq_file_id_persistent = from_le (slice 8 8 b),
       clq_file_id_volatile = from_le (slice 16 8 b) \<rparr>),
     cd_read_request = read_fixed 48 (\<lambda>b. \<lparr> rdq_structure_size = from_le (slice 0 2 b), rdq_padding = from_le (slice 2 1 b),
       rdq_flags = from_le (slice 3 1 b), rdq_length = from_le (slice 4 4 b), rdq_offset = from_le (slice 8 8 b),
       rdq_file_id_persistent = from_le (slice 16 8 b), rdq_file_id_volatile = from_le (slice 24 8 b),
       rdq_minimum_count = from_le (slice 32 4 b), rdq_channel = from_le (slice 36 4 b),
       rdq_remaining_bytes = from_le (slice 40 4 b), rdq_read_channel_info_offset = from_le (slice 44 2 b),
       rdq_read_channel_info_length = from_le (slice 46 2 b) \<rparr>),
     cd_write_request = read_fixed 48 (\<lambda>b. \<lparr> wrq_structure_size = from_le (slice 0 2 b), wrq_data_offset = from_le (slice 2 2 b),
       wrq_length = from_le (slice 4 4 b), wrq_offset = from_le (slice 8 8 b),
       wrq_file_id_persistent = from_le (slice 16 8 b), wrq_file_id_volatile = from_le (slice 24 8 b),
       wrq_channel = from_le (slice 32 4 b), wrq_remaining_bytes = from_le (slice 36 4 b),
       wrq_write_channel_info_offset = from_le (slice 40 2 b), wrq_write_channel_info_length = from_le (slice 42 2 b),
       wrq_flags = from_le (slice 44 4 b) \<rparr>),
     cd_lock_request = read_fixed 24 (\<lambda>b. \<lparr> lkq_structure_size = from_le (slice 0 2 b), lkq_lock_count = from_le (slice 2 2 b),
       lkq_lock_sequence = from_le (slice 4 4 b), lkq_file_id_persistent = from_le (slice 8 8 b),
       lkq_file_id_volatile = from_le (slice 16 8 b) \<rparr>),
     cd_lock_element = read_fixed 24 (\<lambda>b. \<lparr> lke_offset = from_le (slice 0 8 b), lke_length = from_le (slice 8 8 b),
       lke_flags = from_le (slice 16 4 b), lke_reserved = from_le (slice 20 4 b) \<rparr>),
     cd_plain_response = (\<lambda>r. Inr (to_le (pl_structure_size r) @ to_le (pl_reserved r))),
     cd_tree_connect_response = (\<lambda>r. Inr (to_le (tcr_structure_size r) @ to_le (ShareType_repr (tcr_share_type r)) @
       to_le (tcr_reserved r) @ to_le (tcr_share_flags r) @ to_le (tcr_capabilities r) @ to_le (tcr_maximal_access r))),
     cd_close_response = (\<lambda>r. Inr (to_le (clr_structure_size r) @ to_le (clr_flags r) @ to_le (clr_reserved r) @
       to_le (clr_creation_time r) @ to_le (clr_last_access_time r) @ to_le (clr_last_write_time r) @
       to_le (clr_change_time r) @ to_le (clr_allocation_size r) @ to_le (clr_end_of_file r) @
       to_le (clr_file_attributes r))),
     cd_read_response = (\<lambda>r. Inr (to_le (rdr_structure_size r) @ to_le (rdr_data_offset r) @ to_le (rdr_reserved r) @
       to_le (rdr_data_length r) @ to_le (rdr_data_remaining r) @ to_le (rdr_flags r))),
     cd_write_response = (\<lambda>r. Inr (to_le (wrr_structure_size r) @ to_le (wrr_reserved r) @ to_le (wrr_count r) @
       to_le (wrr_remaining r) @ to_le (wrr_write_channel_info_offset r) @ to_le (wrr_write_channel_info_length r))),
     cd_ioctl_request = read_fixed 56 (\<lambda>b. \<lparr> ioq_structure_size = from_le (slice 0 2 b), ioq_reserved = from_le (slice 2 2 b),
       ioq_ctl_code = from_le (slice 4 4 b), ioq_file_id_persistent = from_le (slice 8 8 b),
       ioq_file_id_volatile = from_le (slice 16 8 b), ioq_input_offset = from_le (slice 24 4 b),
       ioq_input_count = from_le (slice 28 4 b), ioq_max_input_response = from_le (slice 32 4 b),
       ioq_output_offset = from_le (slice 36 4 b), ioq_output_count = from_le (slice 40 4 b),
       ioq_max_output_response = from_le (slice 44 4 b), ioq_flags = from_le (slice 48 4 b),
       ioq_reserved2 = from_le (slice 52 4 b) \<rparr>),
     cd_query_directory_request = (\<lambda>b. read_enum (FileInformationClass_of (from_le (slice 2 1 b))) (\<lambda>c. read_fixed 32 (\<lambda>b.
       \<lparr> qdq_structure_size = from_le (slice 0 2 b), qdq_file_information_class = c, qdq_flags = from_le (slice 3 1 b),
       qdq_file_index = from_le (slice 4 4 b), qdq_file_id_persistent = from_le (slice 8 8 b),
       qdq_file_id_volatile = from_le (slice 16 8 b), qdq_file_name_offset = from_le (slice 24 2 b),
       qdq_file_name_length = from_le (slice 26 2 b), qdq_output_buffer_length = from_le (slice 28 4 b) \<rparr>) b)),
     cd_query_info_request = (\<lambda>b. read_enum (InfoType_of (from_le (slice 2 1 b))) (\<lambda>t. read_fixed 40 (\<lambda>b.
       \<lparr> qiq_structure_size = from_le (slice 0 2 b), qiq_info_type = t, qiq_file_info_class = from_le (slice 3 1 b),
       qiq_output_buffer_length = from_le (slice 4 4 b), qiq_input_buffer_offset = from_le (slice 8 2 b),
       qiq_reserved = from_le (slice 10 2 b), qiq_input_buffer_length = from_le (slice 12 4 b),
       qiq_additional_information = from_le (slice 16 4 b), qiq_flags = from_le (slice 20 4 b),
       qiq_file_id_persistent = from_le (slice 24 8 b), qiq_file_id_volatile = from_le (slice 32 8 b) \<rparr>) b)),
     cd_set_info_request = (\<lambda>b. read_enum (InfoType_of (from_le (slice 2 1 b))) (\<lambda>t. read_fixed 32 (\<lambda>b.
       \<lparr> siq_structure_size = from_le (slice 0 2 b), siq_info_type = t, siq_file_info_class = from_le (slice 3 1 b),
       siq_buffer_length = from_le (slice 4 4 b), siq_buffer_offset = from_le (slice 8 2 b),
       siq_reserved = from_le (slice 10 2 b), siq_additional_information = from_le (slice 12 4 b),
       siq_file_id_persistent = from_le (slice 16 8 b), siq_file_id_volatile = from_le (slice 24 8 b) \<rparr>) b)),
     cd_rename_information = read_fixed 20 (\<lambda>b. \<lparr> fri_replace_if_exists = from_le (slice 0 1 b), fri_reserved = slice 1 7 b,
       fri_root_directory = from_le (slice 8 8 b), fri_file_name_length = from_le (slice 16 4 b) \<rparr>),
     cd_disposition_information = read_fixed 1 (\<lambda>b. from_le (slice 0 1 b)),
     cd_end_of_file_information = read_fixed 8 (\<lambda>b. from_le (slice 0 8 b)),
     cd_oplock_break = (\<lambda>b. if from_le (slice 2 1 b) \<in> OplockLevel_as_u8 ` {OlNone, OlLevelII, OlExclusive, OlBatch, OlLease}
       then read_fixed 24 (\<lambda>b. \<lparr> opb_structure_size = from_le (slice 0 2 b),
         opb_oplock_level = OplockLevel_from_u8 (from_le (slice 2 1 b)), opb_reserved = from_le (slice 3 1 b),
         opb_reserved2 = from_le (slice 4 4 b), opb_file_id_persistent = from_le (slice 8 8 b),
         opb_file_id_volatile = from_le (slice 16 8 b) \<rparr>) b
       else Inl ''no variants matched''),
     cd_lease_break = read_fixed 36 (\<lambda>b. \<lparr> leb_structure_size = from_le (slice 0 2 b), leb_reserved = from_le (slice 2 2 b),
       leb_flags = from_le (slice 4 4 b), leb_lease_key = slice 8 16 b, leb_lease_state = from_le (slice 24 4 b),
       leb_lease_duration = from_le (slice 28 8 b) \<rparr>),
     cd_negotiate_request = read_fixed 36 (\<lambda>b. \<lparr> ngq_structure_size = from_le (slice 0 2 b),
       ngq_dialect_count = from_le (slice 2 2 b), ngq_security_mode = from_le (slice 4 2 b), ngq_reserved = from_le (slice 6 2 b),
       ngq_capabilities = from_le (slice 8 4 b), ngq_client_guid = slice 12 16 b,
       ngq_negotiate_context_offset = from_le (slice 28 4 b), ngq_negotiate_context_count = from_le (slice 32 2 b),
       ngq_reserved2 = from_le (slice 34 2 b) \<rparr>),
     cd_session_setup_request = read_fixed 24 (\<lambda>b. \<lparr> ssq_structure_size = from_le (slice 0 2 b),
       ssq_flags = from_le (slice 2 1 b), ssq_security_mode = from_le (slice 3 1 b), ssq_capabilities = from_le (slice 4 4 b),
       ssq_channel = from_le (slice 8 4 b), ssq_security_buffer_offset = from_le (slice 12 2 b),
       ssq_security_buffer_length = from_le (slice 14 2 b), ssq_previous_session_id = from_le (slice 16 8 b) \<rparr>),
     cd_create_request = read_fixed 56 (\<lambda>b. \<lparr> crq_structure_size = from_le (slice 0 2 b),
       crq_security_flags = from_le (slice 2 1 b), crq_requested_oplock_level = OplockLevel_from_u8 (from_le (slice 3 1 b)),
       crq_impersonation_level = from_le (slice 4 4 b), crq_smb_create_flags = from_le (slice 8 8 b),
       crq_reserved = from_le (slice 16 8 b), crq_desired_access = from_le (slice 24 4 b),
       crq_file_attributes = from_le (slice 28 4 b), crq_share_access = from_le (slice 32 4 b),
       crq_create_disposition = from_le (slice 36 4 b), crq_create_options = from_le (slice 40 4 b),
       crq_name_offset = from_le (slice 44 2 b), crq_name_length = from_le (slice 46 2 b),
       crq_create_contexts_offset = from_le (slice 48 4 b), crq_create_contexts_length = from_le (slice 52 4 b) \<rparr>),
     cd_ioctl_response = (\<lambda>r. Inr (to_le (ior_structure_size r) @ to_le (ior_reserved r) @ to_le (ior_ctl_code r) @
       to_le (ior_file_id_persistent r) @ to_le (ior_file_id_volatile r) @ to_le (ior_input_offset r) @
       to_le (ior_input_count r) @ to_le (ior_output_offset r) @ to_le (ior_output_count r) @ to_le (ior_flags r) @
       to_le (ior_reserved2 r))),
     cd_resume_key_response = (\<lambda>r. Inr (rkr_resume_key r @ to_le (rkr_context_length r) @ to_le (rkr_reserved r))),
     cd_copychunk_response = (\<lambda>r. Inr (to_le (ckr_chunks_written r) @ to_le (ckr_chunk_bytes_written r) @
       to_le (ckr_total_bytes_written r))),
     cd_query_response = (\<lambda>r. Inr (to_le (qyr_structure_size r) @ to_le (qyr_output_buffer_offset r) @
       to_le (qyr_output_buffer_length r))),
     cd_set_info_response = (\<lambda>r. Inr (to_le (sir_structure_size r))),
     cd_oplock_break_response = (\<lambda>r. Inr (to_le (opb_structure_size r) @ to_le (OplockLevel_as_u8 (opb_oplock_level r)) @
       to_le (opb_reserved r) @ to_le (opb_reserved2 r) @ to_le (opb_file_id_persistent r) @ to_le (opb_file_id_volatile r))),
     cd_lease_break_response = (\<lambda>r. Inr (to_le (leb_structure_size r) @ to_le (leb_reserved r) @ to_le (leb_flags r) @
       leb_lease_key r @ to_le (leb_lease_state r) @ to_le (leb_lease_duration r))),
     cd_negotiate_response = (\<lambda>r. Inr (to_le (ngr_structure_size r) @ to_le (ngr_security_mode r) @
       to_le (ngr_dialect_revision r) @ to_le (ngr_negotiate_context_count r) @ ngr_server_guid r @ to_le (ngr_capabilities r) @
       to_le (ngr_max_transact_size r) @ to_le (ngr_max_read_size r) @ to_le (ngr_max_write_size r) @
       to_le (ngr_system_time r) @ to_le (ngr_server_start_time r) @ to_le (ngr_security_buffer_offset r) @
       to_le (ngr_security_buffer_length r) @ to_le (ngr_negotiate_context_offset r))),
     cd_session_setup_response = (\<lambda>r. Inr (to_le (ssr_structure_size r) @ to_le (ssr_session_flags r) @
       to_le (ssr_security_buffer_offset r) @ to_le (ssr_security_buffer_length r))),
     cd_create_response = (\<lambda>r. Inr (to_le (crr_structure_size r) @ to_le (OplockLevel_as_u8 (crr_oplock_level r)) @
       to_le (crr_flags r) @ to_le (crr_create_action r) @ to_le (crr_creation_time r) @ to_le (crr_last_access_time r) @
       to_le (crr_last_write_time r) @ to_le (crr_change_time r) @ to_le (crr_allocation_size r) @ to_le (crr_end_of_file r) @
       to_le (crr_file_attributes r) @ to_le (crr_reserved2 r) @ to_le (crr_file_id_persistent r) @
       to_le (crr_file_id_volatile r) @ to_le (crr_create_contexts_offset r) @ to_le (crr_create_contexts_length r))) \<rparr>"

end
