(* ===== verification/Server_Config.thy ===== *)
theory Server_Config
  imports Smb_Prelude
begin

text \<open>
  \<open>crates/rustsmb-server/src/config.rs\<close>: the server's configuration, its defaults and the hex form of
  the server GUID. Addresses and file names are strings, durations are seconds. Reading the file and
  the TOML package around the fields are left out.
\<close>

section \<open>Configuration\<close>

record SessionConfig =
  scf_timeout :: nat
  scf_max_sessions_per_connection :: nat
  scf_require_signing :: bool
  scf_require_encryption :: bool
  scf_idle_timeout :: nat

definition SessionConfig_default :: SessionConfig where
  "SessionConfig_default = \<lparr> scf_timeout = 3600, scf_max_sessions_per_connection = 16,
     scf_require_signing = False, scf_require_encryption = False, scf_idle_timeout = 900 \<rparr>"

record ServerSideCopyConfig =
  ssc_max_chunk_size :: u32
  ssc_max_data_size :: u32
  ssc_max_number_of_chunks :: u32

definition ServerSideCopyConfig_default :: ServerSideCopyConfig where
  "ServerSideCopyConfig_default =
     \<lparr> ssc_max_chunk_size = 1048576, ssc_max_data_size = 16777216, ssc_max_number_of_chunks = 256 \<rparr>"

record CacheLayerConfig =
  clc_max_sessions :: nat
  clc_max_handles :: nat
  clc_max_trees :: nat
  clc_default_ttl_secs :: u64

definition CacheLayerConfig_default :: CacheLayerConfig where
  "CacheLayerConfig_default = \<lparr> clc_max_sessions = 10000, clc_max_handles = 1000000, clc_max_trees = 50000,
     clc_default_ttl_secs = 300 \<rparr>"

record CoordinationConfig =
  cco_enabled :: bool
  cco_server_id :: string
  cco_coordinator_endpoint :: string
  cco_raft_addr :: string
  cco_heartbeat_interval_secs :: u64
  cco_heartbeat_timeout_secs :: u64
  cco_cache :: CacheLayerConfig

definition CoordinationConfig_default :: CoordinationConfig where
  "CoordinationConfig_default = \<lparr> cco_enabled = False, cco_server_id = [], cco_coordinator_endpoint = [],
     cco_raft_addr = ''127.0.0.1:8080'', cco_heartbeat_interval_secs = 5, cco_heartbeat_timeout_secs = 15,
     cco_cache = CacheLayerConfig_default \<rparr>"

definition use_external_coordinator :: "CoordinationConfig \<Rightarrow> bool" where
  "use_external_coordinator c \<longleftrightarrow> cco_coordinator_endpoint c \<noteq> []"

record ServerConfig =
  svc_listen_addr :: string
  svc_tls_enabled :: bool
  svc_tls_cert :: "string option"
  svc_tls_key :: "string option"
  svc_max_connections :: nat
  svc_worker_threads :: nat
  svc_session :: SessionConfig
  svc_server_name :: string
  svc_server_guid :: bytes
  svc_enable_encryption :: bool
  svc_enable_signing :: bool
  svc_require_signing :: bool
  svc_dialects :: "string list"
  svc_coordination :: CoordinationConfig
  svc_server_side_copy :: ServerSideCopyConfig

definition ServerConfig_default :: ServerConfig where
  "ServerConfig_default = \<lparr> svc_listen_addr = ''0.0.0.0:445'', svc_tls_enabled = False, svc_tls_cert = None,
     svc_tls_key = None, svc_max_connections = 1000, svc_worker_threads = 0, svc_session = SessionConfig_default,
     svc_server_name = ''RUSTSMB'', svc_server_guid = replicate 16 0, svc_enable_encryption = True,
     svc_enable_signing = True, svc_require_signing = False,
     svc_dialects = [''SMB 3.1.1'', ''SMB 3.0.2'', ''SMB 3.0'', ''SMB 2.1'', ''SMB 2.0.2''],
     svc_coordination = CoordinationConfig_default, svc_server_side_copy = ServerSideCopyConfig_default \<rparr>"

text \<open>The random bytes and the number of processors are arguments.\<close>

definition ensure_guid :: "bytes \<Rightarrow> ServerConfig \<Rightarrow> ServerConfig" where
  "ensure_guid random c =
     (if svc_server_guid c = replicate 16 0 then c\<lparr> svc_server_guid := random \<rparr> else c)"

definition effective_worker_threads :: "nat \<Rightarrow> ServerConfig \<Rightarrow> nat" where
  "effective_worker_threads num_cpus c = (if svc_worker_threads c = 0 then num_cpus else svc_worker_threads c)"

section \<open>The GUID as a hex string\<close>

definition guid_serialize :: "bytes \<Rightarrow> string" where
  "guid_serialize guid = concat (map (\<lambda>b. fmt_hex 2 (unat b)) guid)"

definition hex_digit :: "char \<Rightarrow> nat option" where
  "hex_digit c =
     (let n = of_char c in
      if 48 \<le> n \<and> n \<le> 57 then Some (n - 48)
      else if 97 \<le> n \<and> n \<le> 102 then Some (n - 87)
      else if 65 \<le> n \<and> n \<le> 70 then Some (n - 55)
      else None)"

text \<open>\<open>u8::from_str_radix(s, 16)\<close> on one or two characters: a leading plus sign is accepted.\<close>

definition u8_from_hex :: "string \<Rightarrow> u8 option" where
  "u8_from_hex s =
     (case s of
        [a] \<Rightarrow> map_option of_nat (hex_digit a)
      | [a, b] \<Rightarrow>
          if a = CHR ''+'' then map_option of_nat (hex_digit b)
          else (case (hex_digit a, hex_digit b) of
                  (Some x, Some y) \<Rightarrow> Some (of_nat (16 * x + y))
                | _ \<Rightarrow> None)
      | _ \<Rightarrow> None)"

fun guid_chunks :: "string \<Rightarrow> bytes option" where
  "guid_chunks (a # b # s) =
     (case u8_from_hex [a, b] of
        None \<Rightarrow> None
      | Some x \<Rightarrow> map_option ((#) x) (guid_chunks s))"
| "guid_chunks _ = Some []"

definition guid_deserialize :: "string \<Rightarrow> bytes option" where
  "guid_deserialize s =
     (if s = [] then Some (replicate 16 0) else if length s \<noteq> 32 then None else guid_chunks s)"

lemma hex_digit_char: "d < 16 \<Longrightarrow> hex_digit (digit_char d) = Some d \<and> digit_char d \<noteq> CHR ''+''"
  by (auto simp: hex_digit_def digit_char_def Let_def char_of_eq_iff take_bit_eq_mod of_char_eq_iff)

lemma u8_from_fmt_hex: "u8_from_hex (fmt_hex 2 (unat b)) = Some (b :: u8)"
proof -
  have "unat b < 256" using unat_lt_exp [of b] by simp
  then have "unat b div 16 mod 16 = unat b div 16" "unat b div 16 < 16" "unat b mod 16 < 16" by auto
  then show ?thesis
    using hex_digit_char [of "unat b div 16"] hex_digit_char [of "unat b mod 16"]
    by (simp add: numeral_2_eq_2 u8_from_hex_def)
qed

lemma guid_chunks_serialize: "guid_chunks (guid_serialize g) = Some g"
proof (induction g)
  case (Cons b g)
  obtain x y where xy: "fmt_hex 2 (unat b) = [x, y]" by (simp add: numeral_2_eq_2)
  then show ?case using Cons u8_from_fmt_hex [of b] by (simp add: guid_serialize_def)
qed (simp add: guid_serialize_def)

text \<open>A server GUID survives being written to and read back from the configuration file.\<close>

lemma server_guid_roundtrip:
  assumes "length g = 16"
  shows "guid_deserialize (guid_serialize g) = Some g"
proof -
  have "length (guid_serialize g) = 2 * length g" by (simp add: guid_serialize_def length_concat o_def sum_list_triv)
  then show ?thesis using assms guid_chunks_serialize [of g] by (auto simp: guid_deserialize_def)
qed

text \<open>Not only hex digits are read: a plus sign stands for a leading zero.\<close>

lemma guid_accepts_plus: "guid_deserialize (concat (replicate 16 ''+f'')) = Some (replicate 16 15)"
  by (simp add: guid_deserialize_def numeral_eq_Suc u8_from_hex_def hex_digit_def)

end
