(* ===== verification/Shares.thy ===== *)
theory Shares
  imports Smb_Prelude
begin

text \<open>
  Share names and the share table: the string conversions of
  \<open>crates/rustsmb-server/src/helpers/strings.rs\<close> and the \<open>ShareManager\<close> of
  \<open>crates/rustsmb-server/src/shares.rs\<close>. A Rust string is the list of its UTF-8 bytes. A share refers
  to its backend, an object that other shares may use as well, by an address. Unicode lower-casing
  is a table of the standard library and an argument of the functions that use it.
\<close>

section \<open>Strings (helpers/strings.rs)\<close>

text \<open>\<open>String::from_utf16_lossy\<close>: the code points of a sequence of UTF-16 units, with the replacement
  character for an unpaired surrogate, in UTF-8.\<close>

fun decode_utf16 :: "u16 list \<Rightarrow> nat list" where
  "decode_utf16 [] = []"
| "decode_utf16 (u # us) =
     (if u < 0xD800 \<or> 0xE000 \<le> u then unat u # decode_utf16 us
      else if 0xDC00 \<le> u then 0xFFFD # decode_utf16 us
      else case us of
             [] \<Rightarrow> [0xFFFD]
           | v # vs \<Rightarrow>
               if 0xDC00 \<le> v \<and> v < 0xE000
               then (0x10000 + (unat u - 0xD800) * 0x400 + (unat v - 0xDC00)) # decode_utf16 vs
               else 0xFFFD # decode_utf16 us)"

definition encode_utf8 :: "nat \<Rightarrow> string" where
  "encode_utf8 c = map char_of
     (if c < 0x80 then [c]
      else if c < 0x800 then [0xC0 + c div 64, 0x80 + c mod 64]
      else if c < 0x10000 then [0xE0 + c div 4096, 0x80 + c div 64 mod 64, 0x80 + c mod 64]
      else [0xF0 + c div 262144, 0x80 + c div 4096 mod 64, 0x80 + c div 64 mod 64, 0x80 + c mod 64])"

definition from_utf16_lossy :: "u16 list \<Rightarrow> string" where
  "from_utf16_lossy us = concat (map encode_utf8 (decode_utf16 us))"

fun utf16_units :: "bytes \<Rightarrow> u16 list" where
  "utf16_units (lo # hi # bs) = (ucast lo OR push_bit 8 (ucast hi)) # utf16_units bs"
| "utf16_units _ = []"

definition parse_utf16_string :: "bytes \<Rightarrow> string" where
  "parse_utf16_string bs = from_utf16_lossy (takeWhile (\<lambda>c. c \<noteq> 0) (utf16_units bs))"

definition decode_utf16le :: "bytes \<Rightarrow> string" where
  "decode_utf16le bs = from_utf16_lossy (utf16_units bs)"

abbreviation (input) BACKSLASH :: char where "BACKSLASH \<equiv> CHR 0x5C"

definition extract_share_name :: "string \<Rightarrow> string" where
  "extract_share_name path0 =
     (let path = dropWhile (\<lambda>c. c = BACKSLASH) path0 in
      if BACKSLASH \<in> set path
      then takeWhile (\<lambda>c. c \<noteq> BACKSLASH) (tl (dropWhile (\<lambda>c. c \<noteq> BACKSLASH) path))
      else path)"

section \<open>Shares (shares.rs)\<close>

record ShareConfig =
  shc_name :: string
  shc_path :: string
  shc_read_only :: bool
  shc_guest_ok :: bool
  shc_valid_users :: "string list"
  shc_browseable :: bool

definition ShareConfig_default :: ShareConfig where
  "ShareConfig_default = \<lparr> shc_name = [], shc_path = [], shc_read_only = False, shc_guest_ok = False,
     shc_valid_users = [], shc_browseable = True \<rparr>"

record Share =
  shr_config :: ShareConfig
  shr_backend :: nat

type_synonym ShareManager = "(string, Share) hash_map"

definition add_share ::
  "(string \<Rightarrow> string) \<Rightarrow> string \<Rightarrow> nat \<Rightarrow> ShareConfig \<Rightarrow> ShareManager \<Rightarrow> ShareManager" where
  "add_share to_lowercase name backend config shares =
     hm_insert (to_lowercase name) \<lparr> shr_config = config\<lparr> shc_name := name \<rparr>, shr_backend = backend \<rparr> shares"

definition get_share :: "(string \<Rightarrow> string) \<Rightarrow> ShareManager \<Rightarrow> string \<Rightarrow> nat option" where
  "get_share to_lowercase shares name = map_option shr_backend (hm_get shares (to_lowercase name))"

definition get_share_config :: "(string \<Rightarrow> string) \<Rightarrow> ShareManager \<Rightarrow> string \<Rightarrow> ShareConfig option" where
  "get_share_config to_lowercase shares name = map_option shr_config (hm_get shares (to_lowercase name))"

definition list_shares :: "ShareManager \<Rightarrow> string list" where
  "list_shares shares = hm_keys shares"

definition can_access :: "(string \<Rightarrow> string) \<Rightarrow> ShareManager \<Rightarrow> string \<Rightarrow> string \<Rightarrow> bool \<Rightarrow> bool" where
  "can_access to_lowercase shares share_name username is_guest =
     (case hm_get shares (to_lowercase share_name) of
        None \<Rightarrow> False
      | Some share \<Rightarrow>
          if is_guest \<and> \<not> shc_guest_ok (shr_config share) then False
          else if shc_valid_users (shr_config share) = [] then True
          else username \<in> set (shc_valid_users (shr_config share)))"

section \<open>UNC paths of ASCII names\<close>

text \<open>The bytes a client sends for an ASCII string.\<close>

definition ascii_utf16le :: "string \<Rightarrow> bytes" where
  "ascii_utf16le s = concat (map (\<lambda>c. [of_nat (of_char c), 0]) s)"

lemma decode_ascii: "(\<forall>c \<in> set s. of_char c < (0x80 :: nat)) \<Longrightarrow> decode_utf16le (ascii_utf16le s) = s"
proof (induction s)
  case (Cons c s)
  let ?n = "of_char c :: nat" and ?u = "ucast (of_nat (of_char c) :: u8) :: u16"
  have n: "?n < 0x80" using Cons.prems by simp
  then have u: "unat ?u = ?n" by (simp add: unsigned_ucast_eq unsigned_of_nat take_bit_eq_mod)
  then have "?u < 0xD800" using n by (simp add: word_less_nat_alt)
  then have "decode_utf16 (utf16_units (ascii_utf16le (c # s))) = ?n # decode_utf16 (utf16_units (ascii_utf16le s))"
    using u by (simp add: ascii_utf16le_def)
  then show ?case using Cons n
    by (simp add: decode_utf16le_def from_utf16_lossy_def encode_utf8_def)
qed (simp add: decode_utf16le_def ascii_utf16le_def from_utf16_lossy_def)

lemma extract_unc:
  assumes "BACKSLASH \<notin> set server" "server \<noteq> []" "BACKSLASH \<notin> set share"
  shows "extract_share_name ([BACKSLASH, BACKSLASH] @ server @ BACKSLASH # share) = share"
proof -
  have "dropWhile (\<lambda>c. c = BACKSLASH) (server @ BACKSLASH # share) = server @ BACKSLASH # share"
    using assms(1,2) by (cases server) auto
  moreover have "dropWhile (\<lambda>c. c \<noteq> BACKSLASH) (server @ BACKSLASH # share) = BACKSLASH # share"
    using assms(1) by (subst dropWhile_append2) auto
  ultimately show ?thesis using assms(3) by (auto simp: extract_share_name_def takeWhile_eq_all_conv)
qed

end
