(* ===== verification/Lease_Break.thy ===== *)
theory Lease_Break
  imports Memory_Store
begin

text \<open>
  \<open>crates/rustsmb-server/src/lease_break.rs\<close>: the registry of lease and oplock owners and of the
  breaks in progress. \<open>break_lease\<close> and \<open>break_oplock\<close> suspend, so each is three transitions: send
  the notification, record the pending break, and finish on the outcome of the wait. A channel to
  a connection is a number; \<open>lbr_sent\<close> is what has been sent on the channels, and
  \<open>lbr_completed\<close> and \<open>lbr_oplock_completed\<close> what has been sent on the one-shot channels of
  waiting callers, by break id.
  \<open>Instant\<close>s are numbers; whether a channel accepts a message is an argument.
\<close>

section \<open>Data\<close>

record LeaseConnectionEntry =
  lce_break_tx :: nat
  lce_server_id :: string
  lce_client_guid :: string
  lce_session_id :: u64

record LeaseBreakEvent =
  lbe_lease_key :: bytes
  lbe_current_state :: u32
  lbe_new_state :: u32
  lbe_new_epoch :: u16
  lbe_ack_required :: bool
  lbe_break_id :: u64

record OplockBreakEvent =
  obe_persistent_id :: u64
  obe_volatile_id :: u64
  obe_current_level :: u8
  obe_new_level :: u8
  obe_ack_required :: bool
  obe_break_id :: u64

datatype break_event = LeaseEvent LeaseBreakEvent | OplockEvent OplockBreakEvent

record OplockConnectionEntry =
  oce_break_tx :: nat
  oce_server_id :: string
  oce_session_id :: u64
  oce_oplock_level :: u8
  oce_file_path :: string
  oce_share_name :: string

datatype LeaseBreakResult =
    Acknowledged u32 u16
  | TimedOut
  | Disconnected
  | AlreadyBroken
  | NoAckRequired

datatype LeaseBreakError =
    LbLeaseNotFound string
  | LbNoPendingBreak string
  | LbConnectionUnavailable string
  | LbSendFailed string
  | LbInvalidStateSubset u32 u32

record PendingOplockBreak =
  pob_handle_id :: u128
  pob_new_level :: u8
  pob_sent_at :: nat
  pob_deadline :: nat
  pob_file_path :: string

record PendingBreak =
  pb_lease_key :: string
  pb_new_state :: u32
  pb_sent_at :: nat
  pb_deadline :: nat
  pb_file_path :: string

record LeaseBreakRegistry =
  lbr_lease_connections :: "(string, LeaseConnectionEntry) hash_map"
  lbr_pending_breaks :: "(u64, PendingBreak) hash_map"
  lbr_oplock_connections :: "(u128, OplockConnectionEntry) hash_map"
  lbr_pending_oplock_breaks :: "(u64, PendingOplockBreak) hash_map"
  lbr_next_break_id :: u64
  lbr_break_timeout :: nat
  lbr_sent :: "(nat \<times> break_event) list"
  lbr_completed :: "(u64 \<times> LeaseBreakResult) list"
  lbr_oplock_completed :: "(u64 \<times> LeaseBreakResult) list"

abbreviation DEFAULT_BREAK_TIMEOUT :: nat where
  "DEFAULT_BREAK_TIMEOUT \<equiv> 35000"

definition LeaseBreakRegistry_with_timeout :: "nat \<Rightarrow> LeaseBreakRegistry" where
  "LeaseBreakRegistry_with_timeout timeout = \<lparr> lbr_lease_connections = [], lbr_pending_breaks = [],
     lbr_oplock_connections = [], lbr_pending_oplock_breaks = [], lbr_next_break_id = 1,
     lbr_break_timeout = timeout, lbr_sent = [], lbr_completed = [],
     lbr_oplock_completed = [] \<rparr>"

definition LeaseBreakRegistry_new :: LeaseBreakRegistry where
  "LeaseBreakRegistry_new = LeaseBreakRegistry_with_timeout DEFAULT_BREAK_TIMEOUT"

type_synonym 'a lb_op = "(LeaseBreakRegistry, LeaseBreakError, 'a) op"

section \<open>Registration\<close>

definition register_lease :: "string \<Rightarrow> LeaseConnectionEntry \<Rightarrow> LeaseBreakRegistry \<Rightarrow> LeaseBreakRegistry" where
  "register_lease lease_key entry s =
     s\<lparr> lbr_lease_connections := hm_insert lease_key entry (lbr_lease_connections s) \<rparr>"

definition unregister_lease :: "string \<Rightarrow> LeaseBreakRegistry \<Rightarrow> bool \<times> LeaseBreakRegistry" where
  "unregister_lease lease_key s =
     (hm_contains (lbr_lease_connections s) lease_key,
      s\<lparr> lbr_lease_connections := hm_remove lease_key (lbr_lease_connections s) \<rparr>)"

definition unregister_connection_leases ::
  "string \<Rightarrow> u64 \<Rightarrow> LeaseBreakRegistry \<Rightarrow> LeaseBreakRegistry" where
  "unregister_connection_leases server_id session_id s =
     (let to_remove = map fst (filter (\<lambda>(_, e). lce_server_id e = server_id \<and> lce_session_id e = session_id)
                                (lbr_lease_connections s))
      in s\<lparr> lbr_lease_connections := fold hm_remove to_remove (lbr_lease_connections s) \<rparr>)"

definition lb_is_registered :: "LeaseBreakRegistry \<Rightarrow> string \<Rightarrow> bool" where
  "lb_is_registered s lease_key = hm_contains (lbr_lease_connections s) lease_key"

definition lb_get_server_id :: "LeaseBreakRegistry \<Rightarrow> string \<Rightarrow> string option" where
  "lb_get_server_id s lease_key = map_option lce_server_id (hm_get (lbr_lease_connections s) lease_key)"

definition register_oplock :: "u128 \<Rightarrow> OplockConnectionEntry \<Rightarrow> LeaseBreakRegistry \<Rightarrow> LeaseBreakRegistry" where
  "register_oplock handle_id entry s =
     s\<lparr> lbr_oplock_connections := hm_insert handle_id entry (lbr_oplock_connections s) \<rparr>"

definition unregister_oplock :: "u128 \<Rightarrow> LeaseBreakRegistry \<Rightarrow> bool \<times> LeaseBreakRegistry" where
  "unregister_oplock handle_id s =
     (hm_contains (lbr_oplock_connections s) handle_id,
      s\<lparr> lbr_oplock_connections := hm_remove handle_id (lbr_oplock_connections s) \<rparr>)"

definition unregister_connection_oplocks ::
  "string \<Rightarrow> u64 \<Rightarrow> LeaseBreakRegistry \<Rightarrow> LeaseBreakRegistry" where
  "unregister_connection_oplocks server_id session_id s =
     (let to_remove = map fst (filter (\<lambda>(_, e). oce_server_id e = server_id \<and> oce_session_id e = session_id)
                                (lbr_oplock_connections s))
      in s\<lparr> lbr_oplock_connections := fold hm_remove to_remove (lbr_oplock_connections s) \<rparr>)"

definition is_oplock_registered :: "LeaseBreakRegistry \<Rightarrow> u128 \<Rightarrow> bool" where
  "is_oplock_registered s handle_id = hm_contains (lbr_oplock_connections s) handle_id"

definition get_oplocks_for_file ::
  "LeaseBreakRegistry \<Rightarrow> string \<Rightarrow> string \<Rightarrow> (u128 \<times> u8 \<times> string \<times> u64) list" where
  "get_oplocks_for_file s share_name file_path =
     map (\<lambda>(k, e). (k, oce_oplock_level e, oce_server_id e, oce_session_id e))
       (filter (\<lambda>(_, e). oce_share_name e = share_name \<and> oce_file_path e = file_path)
          (lbr_oplock_connections s))"

definition update_oplock_level :: "u128 \<Rightarrow> u8 \<Rightarrow> LeaseBreakRegistry \<Rightarrow> LeaseBreakRegistry" where
  "update_oplock_level handle_id new_level s =
     (case hm_get (lbr_oplock_connections s) handle_id of
        None \<Rightarrow> s
      | Some e \<Rightarrow> s\<lparr> lbr_oplock_connections :=
          hm_insert handle_id (e\<lparr> oce_oplock_level := new_level \<rparr>) (lbr_oplock_connections s) \<rparr>)"

section \<open>Breaks\<close>

text \<open>What a break call does after the notification went out.\<close>

datatype break_progress = Finished LeaseBreakResult | AwaitAck u64

definition lb_take_break_id :: "LeaseBreakRegistry \<Rightarrow> u64 \<times> LeaseBreakRegistry" where
  "lb_take_break_id s = (lbr_next_break_id s, s\<lparr> lbr_next_break_id := lbr_next_break_id s + 1 \<rparr>)"

definition lb_send :: "nat \<Rightarrow> break_event \<Rightarrow> LeaseBreakRegistry \<Rightarrow> LeaseBreakRegistry" where
  "lb_send tx event s = s\<lparr> lbr_sent := lbr_sent s @ [(tx, event)] \<rparr>"

definition oplock_event :: "u128 \<Rightarrow> u8 \<Rightarrow> u8 \<Rightarrow> u64 \<Rightarrow> OplockBreakEvent" where
  "oplock_event handle_id current_level new_level break_id =
     \<lparr> obe_persistent_id = ucast handle_id, obe_volatile_id = ucast (drop_bit 64 handle_id),
       obe_current_level = current_level, obe_new_level = new_level,
       obe_ack_required = (current_level = 0x09 \<or> current_level = 0x08),
       obe_break_id = break_id \<rparr>"

text \<open>\<open>accepts\<close>: whether the connection's channel takes the message.\<close>

definition initiate_oplock_break_nowait ::
  "bool \<Rightarrow> u128 \<Rightarrow> u8 \<Rightarrow> LeaseBreakRegistry \<Rightarrow> bool \<times> LeaseBreakRegistry" where
  "initiate_oplock_break_nowait accepts handle_id new_level s =
     (case hm_get (lbr_oplock_connections s) handle_id of
        None \<Rightarrow> (False, s)
      | Some entry \<Rightarrow>
          let (break_id, s1) = lb_take_break_id s;
              event = oplock_event handle_id (oce_oplock_level entry) new_level break_id
          in if \<not> accepts then (False, s1)
             else (True, lb_send (oce_break_tx entry) (OplockEvent event) s1))"

definition break_oplock_start :: "bool \<Rightarrow> u128 \<Rightarrow> u8 \<Rightarrow> break_progress lb_op" where
  "break_oplock_start accepts handle_id new_level s =
     (case hm_get (lbr_oplock_connections s) handle_id of
        None \<Rightarrow> (Inl (LbLeaseNotFound (''handle:'' @ fmt_dec (unat handle_id))), s)
      | Some entry \<Rightarrow>
          let (break_id, s1) = lb_take_break_id s;
              event = oplock_event handle_id (oce_oplock_level entry) new_level break_id
          in if \<not> accepts then (Inl (LbSendFailed ''channel closed''), s1)
             else (Inr (if obe_ack_required event then AwaitAck break_id else Finished NoAckRequired),
                   lb_send (oce_break_tx entry) (OplockEvent event) s1))"

definition break_oplock_register ::
  "nat \<Rightarrow> u64 \<Rightarrow> u128 \<Rightarrow> u8 \<Rightarrow> string \<Rightarrow> LeaseBreakRegistry \<Rightarrow> LeaseBreakRegistry" where
  "break_oplock_register now break_id handle_id new_level file_path s =
     s\<lparr> lbr_pending_oplock_breaks := hm_insert break_id
          \<lparr> pob_handle_id = handle_id, pob_new_level = new_level, pob_sent_at = now,
            pob_deadline = now + lbr_break_timeout s, pob_file_path = file_path \<rparr>
          (lbr_pending_oplock_breaks s) \<rparr>"

text \<open>How the wait ended: a result on the one-shot channel, its sender dropped, or the timeout.\<close>

datatype wait_outcome = Received LeaseBreakResult | SenderDropped | WaitTimeout

fun wait_result :: "wait_outcome \<Rightarrow> LeaseBreakResult" where
  "wait_result (Received r) = r"
| "wait_result SenderDropped = Disconnected"
| "wait_result WaitTimeout = TimedOut"

definition break_oplock_finish ::
  "u64 \<Rightarrow> wait_outcome \<Rightarrow> LeaseBreakRegistry \<Rightarrow> LeaseBreakResult \<times> LeaseBreakRegistry" where
  "break_oplock_finish break_id outcome s =
     (wait_result outcome,
      s\<lparr> lbr_pending_oplock_breaks := hm_remove break_id (lbr_pending_oplock_breaks s) \<rparr>)"

text \<open>\<open>DashMap::iter().find\<close>: the first entry in iteration order.\<close>

definition find_key :: "('v \<Rightarrow> bool) \<Rightarrow> ('k, 'v) hash_map \<Rightarrow> 'k option" where
  "find_key P m = map_option fst (find (\<lambda>(_, v). P v) m)"

definition handle_oplock_acknowledgment :: "u64 \<Rightarrow> u64 \<Rightarrow> u8 \<Rightarrow> unit lb_op" where
  "handle_oplock_acknowledgment persistent_id volatile_id acked_level s =
     (let handle_id = ucast persistent_id OR push_bit 64 (ucast volatile_id);
          none = LbNoPendingBreak (''handle:'' @ fmt_dec (unat (handle_id :: u128))) in
      case find_key (\<lambda>p. pob_handle_id p = handle_id) (lbr_pending_oplock_breaks s) of
        None \<Rightarrow> (Inl none, s)
      | Some break_id \<Rightarrow>
          (case hm_get (lbr_pending_oplock_breaks s) break_id of
             None \<Rightarrow> (Inl none, s)
           | Some pending \<Rightarrow>
               let s1 = s\<lparr> lbr_pending_oplock_breaks := hm_remove break_id (lbr_pending_oplock_breaks s) \<rparr>
               in if acked_level \<noteq> pob_new_level pending \<and> acked_level \<noteq> 0x00
                  then (Inl (LbInvalidStateSubset (ucast acked_level) (ucast (pob_new_level pending))), s1)
                  else (Inr (), s1\<lparr> lbr_oplock_completed := lbr_oplock_completed s1 @
                                 [(break_id, Acknowledged (ucast acked_level) 0)] \<rparr>)))"

definition break_lease_start ::
  "hex_lib \<Rightarrow> bool \<Rightarrow> string \<Rightarrow> u32 \<Rightarrow> u32 \<Rightarrow> u16 \<Rightarrow> break_progress lb_op" where
  "break_lease_start hex accepts lease_key current_state new_state epoch s =
     (case hm_get (lbr_lease_connections s) lease_key of
        None \<Rightarrow> (Inl (LbLeaseNotFound lease_key), s)
      | Some entry \<Rightarrow>
          let ack_required = current_state \<noteq> 0x01;
              (break_id, s1) = lb_take_break_id s;
              key_bytes = (case hex_decode hex lease_key of
                             Some bytes \<Rightarrow> if length bytes = 16 then bytes else replicate 16 0
                           | None \<Rightarrow> replicate 16 0);
              event = \<lparr> lbe_lease_key = key_bytes, lbe_current_state = current_state,
                        lbe_new_state = new_state, lbe_new_epoch = epoch,
                        lbe_ack_required = ack_required, lbe_break_id = break_id \<rparr>
          in if \<not> accepts then (Inl (LbSendFailed ''channel closed''), s1)
             else (Inr (if ack_required then AwaitAck break_id else Finished NoAckRequired),
                   lb_send (lce_break_tx entry) (LeaseEvent event) s1))"

definition break_lease_register ::
  "nat \<Rightarrow> u64 \<Rightarrow> string \<Rightarrow> u32 \<Rightarrow> string \<Rightarrow> LeaseBreakRegistry \<Rightarrow> LeaseBreakRegistry" where
  "break_lease_register now break_id lease_key new_state file_path s =
     s\<lparr> lbr_pending_breaks := hm_insert break_id
          \<lparr> pb_lease_key = lease_key, pb_new_state = new_state, pb_sent_at = now,
            pb_deadline = now + lbr_break_timeout s, pb_file_path = file_path \<rparr>
          (lbr_pending_breaks s) \<rparr>"

definition break_lease_finish ::
  "u64 \<Rightarrow> wait_outcome \<Rightarrow> LeaseBreakRegistry \<Rightarrow> LeaseBreakResult \<times> LeaseBreakRegistry" where
  "break_lease_finish break_id outcome s =
     (wait_result outcome, s\<lparr> lbr_pending_breaks := hm_remove break_id (lbr_pending_breaks s) \<rparr>)"

definition handle_acknowledgment :: "hex_lib \<Rightarrow> bytes \<Rightarrow> u32 \<Rightarrow> unit lb_op" where
  "handle_acknowledgment hex lease_key acked_state s =
     (let lease_key_hex = hex_encode hex lease_key in
      case find_key (\<lambda>p. pb_lease_key p = lease_key_hex) (lbr_pending_breaks s) of
        None \<Rightarrow> (Inl (LbNoPendingBreak lease_key_hex), s)
      | Some break_id \<Rightarrow>
          (case hm_get (lbr_pending_breaks s) break_id of
             None \<Rightarrow> (Inl (LbNoPendingBreak lease_key_hex), s)
           | Some pending \<Rightarrow>
               let s1 = s\<lparr> lbr_pending_breaks := hm_remove break_id (lbr_pending_breaks s) \<rparr>
               in if acked_state AND NOT (pb_new_state pending) \<noteq> 0
                  then (Inl (LbInvalidStateSubset acked_state (pb_new_state pending)), s1)
                  else (Inr (), s1\<lparr> lbr_completed := lbr_completed s1 @
                                 [(break_id, Acknowledged acked_state 0)] \<rparr>)))"

text \<open>The body of the loop over the expired breaks.\<close>

definition expire_break ::
  "u64 \<times> string \<Rightarrow> string list \<times> LeaseBreakRegistry \<Rightarrow> string list \<times> LeaseBreakRegistry" where
  "expire_break = (\<lambda>(break_id, lease_key) (timed_out, s).
     case hm_get (lbr_pending_breaks s) break_id of
       None \<Rightarrow> (timed_out, s)
     | Some pending \<Rightarrow>
         (timed_out @ [lease_key],
          s\<lparr> lbr_pending_breaks := hm_remove break_id (lbr_pending_breaks s),
             lbr_completed := lbr_completed s @ [(break_id, TimedOut)] \<rparr>))"

definition process_expired_breaks :: "nat \<Rightarrow> LeaseBreakRegistry \<Rightarrow> string list \<times> LeaseBreakRegistry" where
  "process_expired_breaks now s =
     (let expired = map (\<lambda>(k, p). (k, pb_lease_key p))
            (filter (\<lambda>(_, p). pb_deadline p \<le> now) (lbr_pending_breaks s))
      in fold expire_break expired ([], s))"

definition calculate_break_state :: "u32 \<Rightarrow> u32 \<Rightarrow> u32" where
  "calculate_break_state existing_state requested_state =
     (if requested_state AND 0x02 \<noteq> 0 then
        if existing_state AND 0x01 \<noteq> 0 then 0x01 else 0
      else if requested_state AND 0x04 \<noteq> 0 then existing_state AND (0x01 OR 0x02)
      else existing_state AND NOT 0x02)"

section \<open>Runs of the registry\<close>

text \<open>Where one call of \<open>break_lease\<close> stands, with the state it breaks to.\<close>

datatype break_phase = Sent string u32 | Waiting u32 | Done u32 LeaseBreakResult

inductive lb_run :: "hex_lib \<Rightarrow> LeaseBreakRegistry \<Rightarrow> (u64 \<rightharpoonup> break_phase) \<Rightarrow> bool"
  for hex :: hex_lib where
  start: "lb_run hex (LeaseBreakRegistry_with_timeout timeout) Map.empty"
| reg_lease: "lb_run hex s ph \<Longrightarrow> lb_run hex (register_lease k e s) ph"
| unreg_lease: "lb_run hex s ph \<Longrightarrow> lb_run hex (snd (unregister_lease k s)) ph"
| unreg_conn: "lb_run hex s ph \<Longrightarrow> lb_run hex (unregister_connection_leases srv sid s) ph"
| reg_oplock: "lb_run hex s ph \<Longrightarrow> lb_run hex (register_oplock h oe s) ph"
| unreg_oplock: "lb_run hex s ph \<Longrightarrow> lb_run hex (snd (unregister_oplock h s)) ph"
| level: "lb_run hex s ph \<Longrightarrow> lb_run hex (update_oplock_level h l s) ph"
| nowait: "lb_run hex s ph \<Longrightarrow> lbr_next_break_id s \<noteq> - 1 \<Longrightarrow>
    lb_run hex (snd (initiate_oplock_break_nowait acc h l s)) ph"
| oplock_start: "lb_run hex s ph \<Longrightarrow> lbr_next_break_id s \<noteq> - 1 \<Longrightarrow>
    lb_run hex (snd (break_oplock_start acc h l s)) ph"
| oplock_register: "lb_run hex s ph \<Longrightarrow> lb_run hex (break_oplock_register now i h l path s) ph"
| oplock_finish: "lb_run hex s ph \<Longrightarrow> lb_run hex (snd (break_oplock_finish i w s)) ph"
| oplock_ack: "lb_run hex s ph \<Longrightarrow> lb_run hex (snd (handle_oplock_acknowledgment pid vid l s)) ph"
| lease_start: "lb_run hex s ph \<Longrightarrow> lbr_next_break_id s \<noteq> - 1 \<Longrightarrow>
    break_lease_start hex acc k cur new ep s = (r, s') \<Longrightarrow>
    lb_run hex s' (case r of Inr (AwaitAck i) \<Rightarrow> ph(i \<mapsto> Sent k new) | _ \<Rightarrow> ph)"
| lease_register: "lb_run hex s ph \<Longrightarrow> ph i = Some (Sent k new) \<Longrightarrow>
    lb_run hex (break_lease_register now i k new path s) (ph(i \<mapsto> Waiting new))"
| lease_received: "lb_run hex s ph \<Longrightarrow> ph i = Some (Waiting new) \<Longrightarrow> (i, res) \<in> set (lbr_completed s) \<Longrightarrow>
    break_lease_finish i (Received res) s = (r, s') \<Longrightarrow> lb_run hex s' (ph(i \<mapsto> Done new r))"
| lease_dropped: "lb_run hex s ph \<Longrightarrow> ph i = Some (Waiting new) \<Longrightarrow>
    i \<notin> set (hm_keys (lbr_pending_breaks s)) \<Longrightarrow> i \<notin> fst ` set (lbr_completed s) \<Longrightarrow>
    break_lease_finish i SenderDropped s = (r, s') \<Longrightarrow> lb_run hex s' (ph(i \<mapsto> Done new r))"
| lease_timeout: "lb_run hex s ph \<Longrightarrow> ph i = Some (Waiting new) \<Longrightarrow>
    break_lease_finish i WaitTimeout s = (r, s') \<Longrightarrow> lb_run hex s' (ph(i \<mapsto> Done new r))"
| lease_ack: "lb_run hex s ph \<Longrightarrow> lb_run hex (snd (handle_acknowledgment hex key st s)) ph"
| expire: "lb_run hex s ph \<Longrightarrow> lb_run hex (snd (process_expired_breaks now s)) ph"

fun result_within :: "u32 \<Rightarrow> LeaseBreakResult \<Rightarrow> bool" where
  "result_within new (Acknowledged st epoch) \<longleftrightarrow> st AND NOT new = 0"
| "result_within new _ \<longleftrightarrow> True"

fun phase_admits :: "break_phase option \<Rightarrow> LeaseBreakResult \<Rightarrow> bool" where
  "phase_admits (Some (Waiting new)) res \<longleftrightarrow> result_within new res"
| "phase_admits (Some (Done new x)) res \<longleftrightarrow> result_within new res"
| "phase_admits _ res \<longleftrightarrow> False"

definition lb_inv :: "LeaseBreakRegistry \<Rightarrow> (u64 \<rightharpoonup> break_phase) \<Rightarrow> bool" where
  "lb_inv s ph \<longleftrightarrow> hm_wf (lbr_pending_breaks s) \<and>
     (\<forall>i p. hm_get (lbr_pending_breaks s) i = Some p \<longrightarrow> ph i = Some (Waiting (pb_new_state p))) \<and>
     distinct (map fst (lbr_completed s)) \<and>
     (\<forall>i res. (i, res) \<in> set (lbr_completed s) \<longrightarrow> hm_get (lbr_pending_breaks s) i = None \<and>
        phase_admits (ph i) res) \<and>
     (\<forall>i. ph i \<noteq> None \<longrightarrow> i < lbr_next_break_id s) \<and>
     (\<forall>i new x. ph i = Some (Done new x) \<longrightarrow>
        hm_get (lbr_pending_breaks s) i = None \<and> result_within new x)"

text \<open>Only the pending breaks, the results and the counter matter.\<close>

lemma lb_inv_frame:
  assumes "lb_inv s ph" "lbr_pending_breaks s' = lbr_pending_breaks s" "lbr_completed s' = lbr_completed s"
    "lbr_next_break_id s \<le> lbr_next_break_id s'"
  shows "lb_inv s' ph"
  using assms unfolding lb_inv_def by (auto intro: less_le_trans)

text \<open>A pending break is resolved: dropped, or dropped with a result sent to its caller.\<close>

lemma lb_inv_resolve:
  assumes "lb_inv s ph" "hm_get (lbr_pending_breaks s) i = Some p" "result_within (pb_new_state p) res"
  shows "lb_inv (s\<lparr> lbr_pending_breaks := hm_remove i (lbr_pending_breaks s) \<rparr>) ph"
    and "lb_inv (s\<lparr> lbr_pending_breaks := hm_remove i (lbr_pending_breaks s),
                    lbr_completed := lbr_completed s @ [(i, res)] \<rparr>) ph"
  using assms unfolding lb_inv_def by (auto simp: hm_simps)

lemma lb_inv_finish:
  assumes "lb_inv s ph" "ph i = Some (Waiting new)" "result_within new r"
  shows "lb_inv (s\<lparr> lbr_pending_breaks := hm_remove i (lbr_pending_breaks s) \<rparr>) (ph(i \<mapsto> Done new r))"
proof -
  have "result_within new res" if "(i, res) \<in> set (lbr_completed s)" for res
    using that assms(1,2) unfolding lb_inv_def by (metis phase_admits.simps(1))
  then show ?thesis using assms unfolding lb_inv_def by (auto simp: hm_simps)
qed

lemma lb_inv_finished:
  assumes "lb_inv s ph" "ph i = Some (Waiting new)" "result_within new (wait_result w)"
    "break_lease_finish i w s = (r, s')"
  shows "lb_inv s' (ph(i \<mapsto> Done new r))"
  using lb_inv_finish [OF assms(1-3)] assms(4) by (simp add: break_lease_finish_def)

lemma lb_inv_completed: "lb_inv s ph \<Longrightarrow> (i, res) \<in> set (lbr_completed s) \<Longrightarrow> phase_admits (ph i) res"
  unfolding lb_inv_def by blast

lemma lb_inv_sent:
  assumes "lb_inv s ph" "ph i = None" "i < lbr_next_break_id s"
  shows "lb_inv s (ph(i \<mapsto> Sent k new))"
proof -
  have 1: "(i, res) \<notin> set (lbr_completed s)" for res
    using lb_inv_completed [OF assms(1), of i res] assms(2) by auto
  have 2: "hm_get (lbr_pending_breaks s) i = None"
    using assms(1,2) unfolding lb_inv_def by (cases "hm_get (lbr_pending_breaks s) i") auto
  show ?thesis
    unfolding lb_inv_def
  proof (intro conjI allI impI)
    fix j res
    assume "(j, res) \<in> set (lbr_completed s)"
    with 1 assms(1) show "phase_admits ((ph(i \<mapsto> Sent k new)) j) res"
      "hm_get (lbr_pending_breaks s) j = None"
      by (auto simp: lb_inv_def)
  qed (use assms 2 in \<open>auto simp: lb_inv_def split: if_splits\<close>)
qed

lemma lb_inv_ack:
  assumes "lb_inv s ph"
  shows "lb_inv (snd (handle_acknowledgment hex key st s)) ph"
proof (cases "find_key (\<lambda>p. pb_lease_key p = hex_encode hex key) (lbr_pending_breaks s)")
  case None
  with assms show ?thesis by (simp add: handle_acknowledgment_def)
next
  case f: (Some i)
  show ?thesis
  proof (cases "hm_get (lbr_pending_breaks s) i")
    case None
    with f assms show ?thesis by (simp add: handle_acknowledgment_def)
  next
    case (Some p)
    then show ?thesis
      using f lb_inv_resolve(1) [OF assms Some, of TimedOut]
        lb_inv_resolve(2) [OF assms Some, of "Acknowledged st 0"]
      by (simp add: handle_acknowledgment_def Let_def)
  qed
qed

lemma lb_inv_expire_break: "lb_inv (snd a) ph \<Longrightarrow> lb_inv (snd (expire_break x a)) ph"
  by (simp add: expire_break_def case_prod_unfold lb_inv_resolve(2) split: option.split)

lemma lb_inv_expired:
  assumes "lb_inv s ph"
  shows "lb_inv (snd (process_expired_breaks now s)) ph"
proof -
  have "lb_inv (snd a) ph \<Longrightarrow> lb_inv (snd (fold expire_break xs a)) ph" for xs a
    by (induction xs arbitrary: a) (simp_all add: lb_inv_expire_break)
  with assms show ?thesis by (simp add: process_expired_breaks_def Let_def)
qed

lemma word_le_add_one: "(x :: 'a :: len word) \<noteq> - 1 \<Longrightarrow> x \<le> x + 1"
  using word_less_add_one [of x] by simp

lemma break_lease_start_effect:
  "lbr_pending_breaks (snd (break_lease_start hex acc k cur new ep s)) = lbr_pending_breaks s"
  "lbr_completed (snd (break_lease_start hex acc k cur new ep s)) = lbr_completed s"
  "lbr_next_break_id (snd (break_lease_start hex acc k cur new ep s)) =
     (if hm_get (lbr_lease_connections s) k = None then lbr_next_break_id s else lbr_next_break_id s + 1)"
  "fst (break_lease_start hex acc k cur new ep s) = Inr (AwaitAck i) \<longleftrightarrow>
     hm_get (lbr_lease_connections s) k \<noteq> None \<and> acc \<and> cur \<noteq> 1 \<and> i = lbr_next_break_id s"
  by (auto simp add: break_lease_start_def lb_take_break_id_def lb_send_def Let_def split: option.split)

lemma lb_inv_lease_start:
  assumes "lb_inv s ph" "lbr_next_break_id s \<noteq> - 1" "break_lease_start hex acc k cur new ep s = (r, s')"
  shows "lb_inv s' (case r of Inr (AwaitAck i) \<Rightarrow> ph(i \<mapsto> Sent k new) | _ \<Rightarrow> ph)"
proof -
  have lt: "lbr_next_break_id s < lbr_next_break_id s + 1" using assms(2) by (rule word_less_add_one)
  have fresh: "ph (lbr_next_break_id s) = None"
    using assms(1) unfolding lb_inv_def by (cases "ph (lbr_next_break_id s)") auto
  note eff = break_lease_start_effect [of hex acc k cur new ep s, unfolded assms(3) fst_conv snd_conv]
  have old: "lb_inv s' ph"
    by (rule lb_inv_frame [OF assms(1) eff(1,2)]) (simp add: eff(3) less_imp_le [OF lt])
  show ?thesis
  proof (cases "\<exists>i. r = Inr (AwaitAck i)")
    case True
    then have "r = Inr (AwaitAck (lbr_next_break_id s))" "hm_get (lbr_lease_connections s) k \<noteq> None"
      using eff(4) by blast+
    with lb_inv_sent [OF old fresh] eff(3) lt show ?thesis by simp
  next
    case False
    with old show ?thesis by (auto split: sum.split break_progress.split)
  qed
qed

lemma lb_inv_lease_register:
  assumes "lb_inv s ph" "ph i = Some (Sent k new)"
  shows "lb_inv (break_lease_register now i k new path s) (ph(i \<mapsto> Waiting new))"
proof -
  have "(i, res) \<notin> set (lbr_completed s)" for res
    using lb_inv_completed [OF assms(1), of i res] assms(2) by auto
  then show ?thesis using assms unfolding lb_inv_def break_lease_register_def by (auto simp: hm_simps)
qed

lemma lb_run_inv: "lb_run hex s ph \<Longrightarrow> lb_inv s ph"
proof (induction rule: lb_run.induct)
  case (start timeout)
  then show ?case by (simp add: lb_inv_def LeaseBreakRegistry_with_timeout_def)
next
  case (lease_start s ph acc k cur new ep r s')
  then show ?case by (intro lb_inv_lease_start)
next
  case (lease_register s ph i k new now path)
  then show ?case by (intro lb_inv_lease_register)
next
  case (lease_received s ph i new res r s')
  then have "result_within new (wait_result (Received res))"
    unfolding lb_inv_def by (metis phase_admits.simps(1) wait_result.simps(1))
  from lb_inv_finished [OF lease_received.IH lease_received.hyps(2) this lease_received.hyps(4)]
  show ?case .
next
  case (lease_dropped s ph i new r s')
  have "result_within new (wait_result SenderDropped)" by simp
  from lb_inv_finished [OF lease_dropped.IH lease_dropped.hyps(2) this lease_dropped.hyps(5)]
  show ?case .
next
  case (lease_timeout s ph i new r s')
  have "result_within new (wait_result WaitTimeout)" by simp
  from lb_inv_finished [OF lease_timeout.IH lease_timeout.hyps(2) this lease_timeout.hyps(3)]
  show ?case .
next
  case (lease_ack s ph key st)
  then show ?case by (intro lb_inv_ack)
next
  case (expire s ph now)
  then show ?case by (intro lb_inv_expired)
next
  case (nowait s ph acc h l)
  then show ?case
    by (elim lb_inv_frame) (simp_all add: initiate_oplock_break_nowait_def lb_take_break_id_def
      lb_send_def Let_def word_le_add_one split: option.split)
next
  case (oplock_start s ph acc h l)
  then show ?case
    by (elim lb_inv_frame) (simp_all add: break_oplock_start_def lb_take_break_id_def
      lb_send_def Let_def word_le_add_one split: option.split)
next
  case (oplock_ack s ph pid vid l)
  then show ?case
    by (elim lb_inv_frame) (simp_all add: handle_oplock_acknowledgment_def Let_def split: option.split)
qed (erule lb_inv_frame; simp add: register_lease_def unregister_lease_def
       unregister_connection_leases_def register_oplock_def unregister_oplock_def
       update_oplock_level_def break_oplock_register_def break_oplock_finish_def Let_def
       split: option.split)+

section \<open>Properties\<close>

text \<open>C22. Whatever the interleaving of break calls, acknowledgments, time-outs, registrations and
  disconnects, every waiting caller is sent at most one result, no result is sent for a break that
  is still pending, and the state a client is recorded to have acknowledged never exceeds the
  state its lease was broken to.\<close>

theorem lease_break_results_sound:
  assumes "lb_run hex s ph"
  shows "distinct (map fst (lbr_completed s)) \<and>
    (\<forall>i r. (i, r) \<in> set (lbr_completed s) \<longrightarrow> hm_get (lbr_pending_breaks s) i = None) \<and>
    (\<forall>i new r. ph i = Some (Done new r) \<longrightarrow>
       hm_get (lbr_pending_breaks s) i = None \<and> result_within new r)"
  using lb_run_inv [OF assms] unfolding lb_inv_def by blast

definition demo_hex :: hex_lib where
  "demo_hex = \<lparr> hex_encode = demo_hex_encode, hex_decode = demo_hex_decode \<rparr>"

definition demo_lease_owner :: LeaseConnectionEntry where
  "demo_lease_owner = \<lparr> lce_break_tx = 0, lce_server_id = ''srv'', lce_client_guid = ''guid'',
     lce_session_id = 7 \<rparr>"

theorem lease_break_results_sound_witness:
  "\<exists>s ph. lb_run demo_hex s ph \<and> lbr_completed s = [(1, Acknowledged 1 0)] \<and>
     ph 1 = Some (Done 1 (Acknowledged 1 0)) \<and> distinct (map fst (lbr_completed s))"
proof -
  let ?k = "demo_hex_encode [1]"
  let ?s1 = "register_lease ?k demo_lease_owner (LeaseBreakRegistry_with_timeout 35000)"
  let ?s2 = "snd (break_lease_start demo_hex True ?k 3 1 2 ?s1)"
  let ?s3 = "break_lease_register 5 1 ?k 1 ''f'' ?s2"
  let ?s4 = "snd (handle_acknowledgment demo_hex [1] 1 ?s3)"
  let ?s5 = "snd (break_lease_finish 1 (Received (Acknowledged 1 0)) ?s4)"
  note eval = register_lease_def LeaseBreakRegistry_with_timeout_def break_lease_start_def hm_simps
    lb_take_break_id_def lb_send_def Let_def break_lease_register_def handle_acknowledgment_def
    demo_hex_def find_key_def hm_insert_def
  have 1: "lb_run demo_hex ?s1 Map.empty" by (rule lb_run.reg_lease [OF lb_run.start])
  have r2: "break_lease_start demo_hex True ?k 3 1 2 ?s1 = (Inr (AwaitAck 1), ?s2)"
    by (simp add: eval)
  have 2: "lb_run demo_hex ?s2 [1 \<mapsto> Sent ?k 1]"
    using lb_run.lease_start [OF 1 _ r2] by (simp add: eval)
  have 3: "lb_run demo_hex ?s3 [1 \<mapsto> Waiting 1]"
    using lb_run.lease_register [OF 2, of 1 ?k 1 5 "''f''"] by simp
  have 4: "lb_run demo_hex ?s4 [1 \<mapsto> Waiting 1]" by (rule lb_run.lease_ack [OF 3])
  have c4: "lbr_completed ?s4 = [(1, Acknowledged 1 0)]" by (simp add: eval)
  have 5: "lb_run demo_hex ?s5 [1 \<mapsto> Done 1 (Acknowledged 1 0)]"
    using lb_run.lease_received [OF 4, of 1 1 "Acknowledged 1 0" "Acknowledged 1 0" ?s5] c4
    by (simp add: break_lease_finish_def)
  have "lbr_completed ?s5 = [(1, Acknowledged 1 0)]" using c4 by (simp add: break_lease_finish_def)
  then show ?thesis
    using 5 lease_break_results_sound [OF 5]
    by (intro exI [of _ ?s5] exI [of _ "[1 \<mapsto> Done 1 (Acknowledged 1 0)]"]) simp
qed

text \<open>
  The order of the two halves of \<open>break_lease\<close> matters: between sending the notification and
  recording the pending break, an acknowledgment finds nothing and is refused, and the caller
  then waits for the time-out.
\<close>

lemma early_acknowledgment_refused:
  assumes "break_lease_start hex acc k cur new ep s = (Inr (AwaitAck i), s')"
    and "hex_encode hex key = k" and "\<And>j p. (j, p) \<in> set (lbr_pending_breaks s) \<Longrightarrow> pb_lease_key p \<noteq> k"
  shows "handle_acknowledgment hex key st s' = (Inl (LbNoPendingBreak k), s')"
proof -
  have "lbr_pending_breaks s' = lbr_pending_breaks s"
    using break_lease_start_effect(1) [of hex acc k cur new ep s] assms(1) by simp
  moreover have "find (\<lambda>(_, p). pb_lease_key p = k) (lbr_pending_breaks s) = None"
    using assms(3) by (auto simp: find_None_iff)
  ultimately show ?thesis using assms(2) by (simp add: handle_acknowledgment_def find_key_def)
qed

text \<open>
  A refused acknowledgment has already removed the pending break, so the caller's one-shot channel
  is dropped and the break ends as \<open>Disconnected\<close>.
\<close>

lemma invalid_acknowledgment_drops_break:
  assumes "handle_acknowledgment hex key st s = (Inl (LbInvalidStateSubset a b), s')"
  shows "\<exists>i p. hm_get (lbr_pending_breaks s) i = Some p \<and> hm_get (lbr_pending_breaks s') i = None \<and>
    lbr_completed s' = lbr_completed s \<and> st AND NOT (pb_new_state p) \<noteq> 0"
proof (cases "find_key (\<lambda>p. pb_lease_key p = hex_encode hex key) (lbr_pending_breaks s)")
  case None
  with assms show ?thesis by (simp add: handle_acknowledgment_def)
next
  case f: (Some i)
  with assms obtain p where p: "hm_get (lbr_pending_breaks s) i = Some p"
    by (cases "hm_get (lbr_pending_breaks s) i") (simp_all add: handle_acknowledgment_def)
  have "st AND NOT (pb_new_state p) \<noteq> 0 \<and>
      s' = s\<lparr> lbr_pending_breaks := hm_remove i (lbr_pending_breaks s) \<rparr>"
    using assms by (simp add: handle_acknowledgment_def f p Let_def split: if_splits)
  with p show ?thesis by (auto simp: hm_simps intro!: exI [of _ i])
qed

subsection \<open>Expiry\<close>

lemma fold_expire_break:
  assumes "distinct (map fst xs)" "\<And>i k. (i, k) \<in> set xs \<Longrightarrow> hm_get (lbr_pending_breaks s) i \<noteq> None"
  shows "fold expire_break xs (ks, s) = (ks @ map snd xs,
    s\<lparr> lbr_pending_breaks := fold hm_remove (map fst xs) (lbr_pending_breaks s),
       lbr_completed := lbr_completed s @ map (\<lambda>(i, _). (i, TimedOut)) xs \<rparr>)"
  using assms
proof (induction xs arbitrary: ks s)
  case (Cons x xs)
  obtain i k where x: "x = (i, k)" by fastforce
  obtain p where p: "hm_get (lbr_pending_breaks s) i = Some p" using Cons.prems(2) [of i k] x by auto
  let ?s = "s\<lparr> lbr_pending_breaks := hm_remove i (lbr_pending_breaks s),
    lbr_completed := lbr_completed s @ [(i, TimedOut)] \<rparr>"
  have "fold expire_break (x # xs) (ks, s) = fold expire_break xs (ks @ [k], ?s)"
    by (simp add: x expire_break_def p)
  also have "\<dots> = (ks @ [k] @ map snd xs, ?s
      \<lparr> lbr_pending_breaks := fold hm_remove (map fst xs) (lbr_pending_breaks ?s),
        lbr_completed := lbr_completed ?s @ map (\<lambda>(i, _). (i, TimedOut)) xs \<rparr>)"
    using Cons.prems x by (subst Cons.IH) (auto simp: hm_simps image_iff)
  finally show ?case by (simp add: x)
qed simp

text \<open>C38. One round of the time-out processor ends exactly the lease breaks whose deadline has
  passed: it returns their lease keys, sends each of their callers \<open>TimedOut\<close>, and leaves every
  other pending break as it is.\<close>

theorem process_expired_breaks_exact:
  assumes "hm_wf (lbr_pending_breaks s)"
  shows "let (keys, s') = process_expired_breaks now s;
      expired = filter (\<lambda>(_, p). pb_deadline p \<le> now) (lbr_pending_breaks s)
    in keys = map (\<lambda>(_, p). pb_lease_key p) expired \<and>
      lbr_completed s' = lbr_completed s @ map (\<lambda>(i, _). (i, TimedOut)) expired \<and>
      (\<forall>i. hm_get (lbr_pending_breaks s') i = (case hm_get (lbr_pending_breaks s) i of
         None \<Rightarrow> None | Some p \<Rightarrow> if pb_deadline p \<le> now then None else Some p))"
proof -
  define ex where "ex = filter (\<lambda>(_, p). pb_deadline p \<le> now) (lbr_pending_breaks s)"
  have sub: "(i, p) \<in> set ex \<longleftrightarrow> hm_get (lbr_pending_breaks s) i = Some p \<and> pb_deadline p \<le> now" for i p
    using assms by (auto simp: ex_def hm_get_in_set)
  have d: "distinct (map fst ex)"
    using assms by (simp add: ex_def hm_wf_def distinct_map_filter)
  have run: "process_expired_breaks now s = (map (\<lambda>(_, p). pb_lease_key p) ex,
    s\<lparr> lbr_pending_breaks := fold hm_remove (map fst ex) (lbr_pending_breaks s),
       lbr_completed := lbr_completed s @ map (\<lambda>(i, _). (i, TimedOut)) ex \<rparr>)"
    unfolding process_expired_breaks_def Let_def ex_def [symmetric]
    using d sub by (subst fold_expire_break) (auto simp: comp_def case_prod_unfold)
  have keys: "i \<in> set (map fst ex) \<longleftrightarrow> (\<exists>p. hm_get (lbr_pending_breaks s) i = Some p \<and> pb_deadline p \<le> now)"
    for i using sub by force
  show ?thesis
    unfolding run Let_def ex_def [symmetric] prod.case
    by (simp add: hm_get_fold_remove keys del: set_map split: option.split)
qed

theorem process_expired_breaks_exact_witness:
  "let s = break_lease_register 5 1 ''k'' 1 ''f'' (LeaseBreakRegistry_with_timeout 10)
   in hm_wf (lbr_pending_breaks s) \<and> fst (process_expired_breaks 15 s) = [''k''] \<and>
      hm_get (lbr_pending_breaks (snd (process_expired_breaks 14 s))) 1 \<noteq> None"
proof -
  let ?s = "break_lease_register 5 1 ''k'' 1 ''f'' (LeaseBreakRegistry_with_timeout 10)"
  have p: "lbr_pending_breaks ?s = [(1, \<lparr> pb_lease_key = ''k'', pb_new_state = 1, pb_sent_at = 5,
      pb_deadline = 15, pb_file_path = ''f'' \<rparr>)]"
    by (simp add: break_lease_register_def LeaseBreakRegistry_with_timeout_def hm_insert_def)
  have wf: "hm_wf (lbr_pending_breaks ?s)" by (simp add: p hm_wf_def)
  show ?thesis
    using wf process_expired_breaks_exact [OF wf, of 15] process_expired_breaks_exact [OF wf, of 14]
    by (simp add: Let_def case_prod_unfold p)
qed

subsection \<open>Break states\<close>

lemma and_and_not: "(x AND y) AND NOT x = (0 :: 'a::len word)"
  by (rule bit_word_eqI) (simp add: bit_simps)



text \<open>A request for handle caching does not take write caching away.\<close>

lemma handle_request_keeps_write:
  "calculate_break_state 3 5 = 3 \<and> leases_conflict (calculate_break_state 3 5) 5"
  by (simp add: calculate_break_state_def leases_conflict_def)

end
