(* ===== verification/Vfs_Types.thy ===== *)
theory Vfs_Types
  imports Core_Types
begin

text \<open>
  \<open>crates/rustsmb-vfs\<close>: the types of the storage interface (\<open>types.rs\<close>) and the trait
  \<open>StorageBackend\<close> as a record of operations (\<open>traits.rs\<close>). A backend method returns a
  \<open>VfsError\<close>, or panics where the Rust code would.
\<close>

datatype vfs_fault = Vfs VfsError | Panic

record FileHandle =
  fh_id :: u64
  fh_persistent_id :: u128
  fh_volatile_id :: u128
  fh_backend_internal_id :: "u64 option"

text \<open>The value of the function-local static counter is the first argument.\<close>

definition FileHandle_new :: "u64 \<Rightarrow> FileHandle" where
  "FileHandle_new c = \<lparr> fh_id = c, fh_persistent_id = ucast c, fh_volatile_id = ucast c,
     fh_backend_internal_id = None \<rparr>"

definition FileHandle_with_ids :: "u64 \<Rightarrow> u128 \<Rightarrow> u128 \<Rightarrow> FileHandle" where
  "FileHandle_with_ids c persistent_id volatile_id = \<lparr> fh_id = c, fh_persistent_id = persistent_id,
     fh_volatile_id = volatile_id, fh_backend_internal_id = None \<rparr>"

definition FileHandle_with_backend_id :: "u64 \<Rightarrow> u128 \<Rightarrow> u128 \<Rightarrow> u64 option \<Rightarrow> FileHandle" where
  "FileHandle_with_backend_id c persistent_id volatile_id backend_internal_id =
     \<lparr> fh_id = c, fh_persistent_id = persistent_id, fh_volatile_id = volatile_id,
       fh_backend_internal_id = backend_internal_id \<rparr>"

section \<open>Open flags and create parameters\<close>

type_synonym OpenFlags = u32

abbreviation (input) OF_READ :: u32 where "OF_READ \<equiv> 0x0001"
abbreviation (input) OF_WRITE :: u32 where "OF_WRITE \<equiv> 0x0002"
abbreviation (input) OF_CREATE :: u32 where "OF_CREATE \<equiv> 0x0040"
abbreviation (input) OF_EXCL :: u32 where "OF_EXCL \<equiv> 0x0080"
abbreviation (input) OF_TRUNC :: u32 where "OF_TRUNC \<equiv> 0x0200"
abbreviation (input) OF_DIRECTORY :: u32 where "OF_DIRECTORY \<equiv> 0x10000"

definition is_read :: "OpenFlags \<Rightarrow> bool" where "is_read f \<longleftrightarrow> f AND OF_READ \<noteq> 0"
definition is_write :: "OpenFlags \<Rightarrow> bool" where "is_write f \<longleftrightarrow> f AND OF_WRITE \<noteq> 0"
definition is_create :: "OpenFlags \<Rightarrow> bool" where "is_create f \<longleftrightarrow> f AND OF_CREATE \<noteq> 0"
definition is_excl :: "OpenFlags \<Rightarrow> bool" where "is_excl f \<longleftrightarrow> f AND OF_EXCL \<noteq> 0"
definition is_trunc :: "OpenFlags \<Rightarrow> bool" where "is_trunc f \<longleftrightarrow> f AND OF_TRUNC \<noteq> 0"
definition is_directory :: "OpenFlags \<Rightarrow> bool" where "is_directory f \<longleftrightarrow> f AND OF_DIRECTORY \<noteq> 0"

record CreateParams =
  cp_desired_access :: u32
  cp_share_access :: u32
  cp_create_disposition :: u32
  cp_create_options :: u32
  cp_file_attributes :: u32

definition cp_is_directory :: "CreateParams \<Rightarrow> bool" where
  "cp_is_directory p \<longleftrightarrow> cp_create_options p AND 0x00000001 \<noteq> 0"

definition wants_read :: "CreateParams \<Rightarrow> bool" where
  "wants_read p \<longleftrightarrow> cp_desired_access p AND 0x00000001 \<noteq> 0 \<or> cp_desired_access p AND 0x80000000 \<noteq> 0
     \<or> cp_desired_access p AND 0x10000000 \<noteq> 0"

definition wants_write :: "CreateParams \<Rightarrow> bool" where
  "wants_write p \<longleftrightarrow> cp_desired_access p AND 0x00000002 \<noteq> 0 \<or> cp_desired_access p AND 0x40000000 \<noteq> 0
     \<or> cp_desired_access p AND 0x10000000 \<noteq> 0"

definition disposition_flags :: "u32 \<Rightarrow> u32" where
  "disposition_flags d =
     (if d = 2 then OF_CREATE OR OF_EXCL
      else if d = 1 then 0
      else if d = 3 then OF_CREATE
      else if d = 4 then OF_TRUNC
      else if d = 5 \<or> d = 0 then OF_CREATE OR OF_TRUNC
      else 0)"

definition to_open_flags :: "CreateParams \<Rightarrow> OpenFlags" where
  "to_open_flags p =
     (let flags = 0;
          flags = (if wants_read p then flags OR OF_READ else flags);
          flags = (if wants_write p then flags OR OF_WRITE else flags);
          flags = flags OR disposition_flags (cp_create_disposition p)
      in if cp_is_directory p then flags OR OF_DIRECTORY else flags)"

section \<open>Metadata, directory entries, locks\<close>

datatype FileType = FtRegular | FtDirectory | FtSymlink | FtBlockDevice | FtCharDevice | FtFifo | FtSocket

record Metadata =
  md_file_type :: FileType
  md_size :: u64
  md_blocks :: u64
  md_block_size :: u32
  md_mode :: u32
  md_uid :: u32
  md_gid :: u32
  md_nlink :: u32
  md_rdev :: u64
  md_ino :: u64
  md_atime :: nat
  md_mtime :: nat
  md_ctime :: nat
  md_crtime :: "nat option"

record DirEntry =
  de_name :: string
  de_metadata :: Metadata

datatype LockType = LtShared | LtExclusive

record FileLock =
  fl_lock_type :: LockType
  fl_start :: u64
  fl_length :: u64
  fl_pid :: u32

record BackendCapabilities =
  bc_locking :: bool
  bc_notify :: bool
  bc_sparse :: bool
  bc_xattr :: bool
  bc_hard_links :: bool
  bc_symlinks :: bool
  bc_max_file_size :: u64
  bc_max_path_length :: u32
  bc_case_sensitive :: bool
  bc_atomic_rename :: bool

record FsStats =
  fs_blocks :: u64
  fs_blocks_free :: u64
  fs_blocks_available :: u64
  fs_block_size :: u32
  fs_files :: u64
  fs_files_free :: u64
  fs_fsid :: u64
  fs_namelen :: u32

section \<open>The trait\<close>

type_synonym ('s, 'a) vfs_op = "('s, vfs_fault, 'a) op"

text \<open>Methods that read the clock take it as their first argument, one number per reading.\<close>

record 's storage_backend =
  vb_open :: "(nat \<Rightarrow> nat) \<Rightarrow> string \<Rightarrow> CreateParams \<Rightarrow> ('s, FileHandle) vfs_op"
  vb_read :: "FileHandle \<Rightarrow> u64 \<Rightarrow> u32 \<Rightarrow> ('s, bytes) vfs_op"
  vb_write :: "(nat \<Rightarrow> nat) \<Rightarrow> FileHandle \<Rightarrow> u64 \<Rightarrow> bytes \<Rightarrow> ('s, u32) vfs_op"
  vb_close :: "FileHandle \<Rightarrow> ('s, unit) vfs_op"
  vb_fsync :: "FileHandle \<Rightarrow> ('s, unit) vfs_op"
  vb_stat :: "string \<Rightarrow> ('s, Metadata) vfs_op"
  vb_fstat :: "FileHandle \<Rightarrow> ('s, Metadata) vfs_op"
  vb_chmod :: "(nat \<Rightarrow> nat) \<Rightarrow> string \<Rightarrow> u32 \<Rightarrow> ('s, unit) vfs_op"
  vb_chown :: "(nat \<Rightarrow> nat) \<Rightarrow> string \<Rightarrow> u32 \<Rightarrow> u32 \<Rightarrow> ('s, unit) vfs_op"
  vb_truncate :: "(nat \<Rightarrow> nat) \<Rightarrow> string \<Rightarrow> u64 \<Rightarrow> ('s, unit) vfs_op"
  vb_utimes :: "(nat \<Rightarrow> nat) \<Rightarrow> string \<Rightarrow> nat \<Rightarrow> nat \<Rightarrow> ('s, unit) vfs_op"
  vb_mkdir :: "(nat \<Rightarrow> nat) \<Rightarrow> string \<Rightarrow> u32 \<Rightarrow> ('s, unit) vfs_op"
  vb_rmdir :: "string \<Rightarrow> ('s, unit) vfs_op"
  vb_readdir :: "string \<Rightarrow> ('s, DirEntry list) vfs_op"
  vb_unlink :: "string \<Rightarrow> ('s, unit) vfs_op"
  vb_rename :: "string \<Rightarrow> string \<Rightarrow> ('s, unit) vfs_op"
  vb_link :: "string \<Rightarrow> string \<Rightarrow> ('s, unit) vfs_op"
  vb_symlink :: "(nat \<Rightarrow> nat) \<Rightarrow> string \<Rightarrow> string \<Rightarrow> ('s, unit) vfs_op"
  vb_readlink :: "string \<Rightarrow> ('s, string) vfs_op"
  vb_lock :: "FileHandle \<Rightarrow> FileLock \<Rightarrow> ('s, unit) vfs_op"
  vb_unlock :: "FileHandle \<Rightarrow> FileLock \<Rightarrow> ('s, unit) vfs_op"
  vb_getxattr :: "string \<Rightarrow> string \<Rightarrow> ('s, bytes) vfs_op"
  vb_setxattr :: "string \<Rightarrow> string \<Rightarrow> bytes \<Rightarrow> ('s, unit) vfs_op"
  vb_listxattr :: "string \<Rightarrow> ('s, string list) vfs_op"
  vb_removexattr :: "string \<Rightarrow> string \<Rightarrow> ('s, unit) vfs_op"
  vb_capabilities :: BackendCapabilities
  vb_statfs :: "('s, FsStats) vfs_op"

section \<open>What a create disposition asks for\<close>

lemma flag_bits:
  "is_create (to_open_flags p) \<longleftrightarrow> cp_create_disposition p \<in> {0, 2, 3, 5}"
  "is_excl (to_open_flags p) \<longleftrightarrow> cp_create_disposition p = 2"
  "is_trunc (to_open_flags p) \<longleftrightarrow> cp_create_disposition p \<in> {0, 4, 5}"
  "is_directory (to_open_flags p) \<longleftrightarrow> cp_is_directory p"
  by (auto simp: to_open_flags_def disposition_flags_def is_create_def is_excl_def is_trunc_def
      is_directory_def)

end
