(* ===== verification/File_Handlers.thy ===== *)
theory File_Handlers
  imports Message_Layer Command_Structures Server_Config Shares Lease_Break Vfs_Types
begin

text \<open>
  Command handlers of \<open>crates/rustsmb-server/src/handler.rs\<close>: LOGOFF, TREE_CONNECT, TREE_DISCONNECT,
  CLOSE, FLUSH, READ, WRITE, LOCK, CANCEL, ECHO and CHANGE_NOTIFY, over any codec of the wire structures, any state
  store and any type of storage backends. \<open>now\<close> is the time in seconds, \<open>readings\<close> the readings of the backend's clock.
\<close>

section \<open>State and environment\<close>

text \<open>The fields of the connection handler that only command handlers use. Backends are shared
  objects: \<open>hp_backends\<close> is the store of their states.\<close>

record 'b handler_parts =
  hp_server_id :: string
  hp_shares :: ShareManager
  hp_backends :: "nat \<Rightarrow> 'b"
  hp_registry :: LeaseBreakRegistry
  hp_fh_counter :: u64

record ('s, 'b) command_env =
  ce_headers :: header_lib
  ce_codec :: codec
  ce_store :: "'s state_store"
  ce_backend :: "'b storage_backend"
  ce_lowercase :: "string \<Rightarrow> string"
  ce_hex :: hex_lib
  ce_config :: ServerConfig

type_synonym ('s, 'b, 'a) c_op = "('s, 'b handler_parts, 'a) h_op"

fun VfsError_display :: "VfsError \<Rightarrow> string" where
  "VfsError_display (VfsNotFound e) = ''Not found: '' @ e"
| "VfsError_display (VfsAccessDenied e) = ''Access denied: '' @ e"
| "VfsError_display (VfsAlreadyExists e) = ''Already exists: '' @ e"
| "VfsError_display (VfsNotADirectory e) = ''Not a directory: '' @ e"
| "VfsError_display (VfsIsADirectory e) = ''Is a directory: '' @ e"
| "VfsError_display (VfsDirectoryNotEmpty e) = ''Directory not empty: '' @ e"
| "VfsError_display (VfsInvalidPath e) = ''Invalid path: '' @ e"
| "VfsError_display VfsDiskFull = ''Disk full''"
| "VfsError_display VfsFileTooLarge = ''File too large''"
| "VfsError_display (VfsSharingViolation e) = ''Sharing violation: '' @ e"
| "VfsError_display VfsLockConflict = ''Lock conflict''"
| "VfsError_display VfsInvalidHandle = ''Invalid handle''"
| "VfsError_display (VfsBackend e) = ''Backend error: '' @ e"
| "VfsError_display (VfsIo e) = ''I/O error: '' @ e"
| "VfsError_display (VfsNotSupported e) = ''Not supported: '' @ e"
| "VfsError_display VfsReadOnly = ''Read-only filesystem''"
| "VfsError_display VfsCrossDevice = ''Cross-device link''"
| "VfsError_display (VfsNameTooLong e) = ''Name too long: '' @ e"

definition parse_as :: "string \<Rightarrow> string + 'a \<Rightarrow> ('s, 'b, 'a) c_op" where
  "parse_as context r = op_lift (map_sum (\<lambda>e. HeProtocol (context @ e)) id r)"

text \<open>A store call whose error is looked at, or dropped, by the caller.\<close>

definition try_store :: "('s, StateError, 'a) op \<Rightarrow> ('s, 'b, StateError + 'a) c_op" where
  "try_store m ch = (case m (ch_store ch) of (r, t) \<Rightarrow> (Inr r, ch\<lparr> ch_store := t \<rparr>))"

text \<open>A call of the backend at an address; a panic is not a result.\<close>

definition on_backend :: "nat \<Rightarrow> ('b, 'a) vfs_op \<Rightarrow> ('s, 'b, VfsError + 'a) c_op" where
  "on_backend i m ch =
     (case m (hp_backends (ch_rest ch) i) of (r, b) \<Rightarrow>
        ((case r of Inl Panic \<Rightarrow> Inl HePanic | Inl (Vfs e) \<Rightarrow> Inr (Inl e) | Inr x \<Rightarrow> Inr (Inr x)),
         ch\<lparr> ch_rest := (ch_rest ch)\<lparr> hp_backends := (hp_backends (ch_rest ch))(i := b) \<rparr> \<rparr>))"

definition vfs_err :: "VfsError + 'a \<Rightarrow> ('s, 'b, 'a) c_op" where
  "vfs_err r = op_lift (map_sum (\<lambda>e. HeVfs (VfsError_display e)) id r)"

definition ask_registry :: "'a lb_op \<Rightarrow> ('s, 'b, LeaseBreakError + 'a) c_op" where
  "ask_registry m ch =
     (case m (hp_registry (ch_rest ch)) of (r, g) \<Rightarrow>
        (Inr r, ch\<lparr> ch_rest := (ch_rest ch)\<lparr> hp_registry := g \<rparr> \<rparr>))"

definition on_registry :: "(LeaseBreakRegistry \<Rightarrow> bool \<times> LeaseBreakRegistry) \<Rightarrow> ('s, 'b, unit) c_op" where
  "on_registry f ch =
     (Inr (), ch\<lparr> ch_rest := (ch_rest ch)\<lparr> hp_registry := snd (f (hp_registry (ch_rest ch))) \<rparr> \<rparr>)"

text \<open>The header and the structure after it; handlers differ in what they say when the latter fails.\<close>

definition serialize_as ::
  "header_lib \<Rightarrow> string \<Rightarrow> Smb2Header \<Rightarrow> string + bytes \<Rightarrow> HandlerError + bytes" where
  "serialize_as l context header body =
     (case hl_write l header of
        Inl e \<Rightarrow> Inl (HeProtocol (''Failed to write header: '' @ e))
      | Inr header_buf \<Rightarrow>
          (case body of
             Inl e \<Rightarrow> Inl (HeProtocol (context @ e))
           | Inr body_buf \<Rightarrow> Inr (header_buf @ body_buf)))"

definition serialize_response :: "header_lib \<Rightarrow> Smb2Header \<Rightarrow> string + bytes \<Rightarrow> HandlerError + bytes" where
  "serialize_response l = serialize_as l ''Failed to write body: ''"

text \<open>The last two statements of most handlers.\<close>

definition respond :: "('s, 'b) command_env \<Rightarrow> Smb2Header \<Rightarrow> string + bytes \<Rightarrow> ('s, 'b, bytes) c_op" where
  "respond env header body ch =
     (let (resp_header, ch1) = build_response_header header NtSuccess ch
      in (serialize_response (ce_headers env) resp_header body, ch1))"

definition plain_response :: "('s, 'b) command_env \<Rightarrow> string + bytes" where
  "plain_response env = cd_plain_response (ce_codec env) \<lparr> pl_structure_size = 4, pl_reserved = 0 \<rparr>"

definition join_file_id :: "u64 \<Rightarrow> u64 \<Rightarrow> u128" where
  "join_file_id persistent volatile = push_bit 64 (ucast volatile) OR ucast persistent"

definition find_backend :: "('s, 'b) command_env \<Rightarrow> TreeState \<Rightarrow> ('s, 'b, nat) c_op" where
  "find_backend env tree ch =
     ok_or (HeStatus NtBadNetworkName) (get_share (ce_lowercase env) (hp_shares (ch_rest ch)) (ts_share_name tree)) ch"

text \<open>\<open>FileHandle::with_backend_id\<close> for the ids of a handle.\<close>

definition backend_handle :: "HandleState \<Rightarrow> ('s, 'b, FileHandle) c_op" where
  "backend_handle handle ch =
     (Inr (FileHandle_with_backend_id (hp_fh_counter (ch_rest ch)) (hs_persistent_id handle)
             (hs_volatile_id handle) (hs_backend_internal_id handle)),
      ch\<lparr> ch_rest := (ch_rest ch)\<lparr> hp_fh_counter := hp_fh_counter (ch_rest ch) + 1 \<rparr> \<rparr>)"

section \<open>Sessions and trees\<close>

definition handle_logoff ::
  "('s, 'b) command_env \<Rightarrow> (nat \<Rightarrow> nat) \<Rightarrow> (u128 \<Rightarrow> u64) \<Rightarrow> Smb2Header \<Rightarrow> ('s, 'b, bytes) c_op" where
  "handle_logoff env readings now_at header =
     op_bind (with_store (sm_get_session (ce_store env) (sh_session_id header))) (\<lambda>session.
     if session = None then op_throw (HeStatus NtUserSessionDeleted)
     else
       (\<lambda>ch. let sid = sh_session_id header;
                 ch1 = ch\<lparr> ch_connection := remove_session (readings 0) sid (ch_connection ch),
                           ch_signing_keys := hm_remove sid (ch_signing_keys ch) \<rparr>
             in op_bind (try_store (sm_delete_session (ce_store env) now_at sid)) (\<lambda>_.
                  respond env header (plain_response env)) ch1))"

definition maximal_access :: "ShareConfig \<Rightarrow> u32" where
  "maximal_access config = (if shc_read_only config then 0x001200A9 else 0x001F01FF)"

definition handle_tree_connect ::
  "('s, 'b) command_env \<Rightarrow> u64 \<Rightarrow> Smb2Header \<Rightarrow> bytes \<Rightarrow> ('s, 'b, bytes) c_op" where
  "handle_tree_connect env now header body =
     op_bind (parse_as ''Failed to parse tree_connect: '' (cd_tree_connect_request (ce_codec env) body)) (\<lambda>request.
     let body_offset = unat (tcq_path_offset request) - SMB2_HEADER_SIZE;
         path_len = unat (tcq_path_length request);
         path_bytes = (if body_offset + path_len \<le> length body then slice body_offset path_len body else []);
         share_name = extract_share_name (decode_utf16le path_bytes) in
     op_bind (\<lambda>ch. ok_or (HeStatus NtBadNetworkName)
                (get_share_config (ce_lowercase env) (hp_shares (ch_rest ch)) share_name) ch) (\<lambda>share_config.
     op_bind (with_store (st_next_tree_id (ce_store env) (sh_session_id header))) (\<lambda>tree_id.
     op_bind (with_store (sm_create_tree (ce_store env)
         \<lparr> ts_tree_id = tree_id, ts_session_id = sh_session_id header, ts_share_name = share_name,
           ts_share_path = shc_path share_config, ts_access_flags = maximal_access share_config,
           ts_is_dfs = False, ts_created_at = now \<rparr>)) (\<lambda>_ ch.
       let (resp_header, ch1) = build_response_header header NtSuccess ch;
           response = \<lparr> tcr_structure_size = 16, tcr_share_type = ShareDisk, tcr_reserved = 0,
             tcr_share_flags = 0, tcr_capabilities = 0, tcr_maximal_access = maximal_access share_config \<rparr>
       in (serialize_response (ce_headers env) (resp_header\<lparr> sh_tree_id := tree_id \<rparr>)
             (cd_tree_connect_response (ce_codec env) response), ch1)))))"

definition handle_tree_disconnect :: "('s, 'b) command_env \<Rightarrow> Smb2Header \<Rightarrow> ('s, 'b, bytes) c_op" where
  "handle_tree_disconnect env header =
     op_bind (with_store (sm_get_tree (ce_store env) (sh_session_id header) (sh_tree_id header))) (\<lambda>tree.
     if tree = None then op_throw (HeStatus NtNetworkNameDeleted)
     else op_bind (try_store (sm_delete_tree (ce_store env) (sh_session_id header) (sh_tree_id header))) (\<lambda>_.
            respond env header (plain_response env)))"

section \<open>Files\<close>

definition close_lease :: "('s, 'b) command_env \<Rightarrow> HandleState \<Rightarrow> ('s, 'b, unit) c_op" where
  "close_lease env handle =
     (case hs_lease_key handle of
        None \<Rightarrow> op_return ()
      | Some lease_key \<Rightarrow>
          op_bind (on_registry (unregister_lease lease_key)) (\<lambda>_.
          op_bind (try_store (st_delete_lease (ce_store env) lease_key)) (\<lambda>_. op_return ())))"

definition delete_closed_file :: "('s, 'b) command_env \<Rightarrow> Smb2Header \<Rightarrow> HandleState \<Rightarrow> ('s, 'b, unit) c_op" where
  "delete_closed_file env header handle =
     (if \<not> hs_delete_on_close handle then op_return ()
      else op_bind (try_store (sm_get_tree (ce_store env) (sh_session_id header) (sh_tree_id header))) (\<lambda>found ch.
        case found of
          Inr (Some tree) \<Rightarrow>
            (case get_share (ce_lowercase env) (hp_shares (ch_rest ch)) (ts_share_name tree) of
               None \<Rightarrow> (Inr (), ch)
             | Some backend \<Rightarrow>
                 op_bind (on_backend backend (vb_unlink (ce_backend env) (hs_path handle))) (\<lambda>_. op_return ()) ch)
        | _ \<Rightarrow> (Inr (), ch)))"

definition handle_close :: "('s, 'b) command_env \<Rightarrow> Smb2Header \<Rightarrow> bytes \<Rightarrow> ('s, 'b, bytes) c_op" where
  "handle_close env header body =
     op_bind (parse_as ''Failed to parse close: '' (cd_close_request (ce_codec env) body)) (\<lambda>request.
     let handle_id = join_file_id (clq_file_id_persistent request) (clq_file_id_volatile request) in
     op_bind (with_store (sm_get_handle (ce_store env) handle_id)) (\<lambda>found.
     op_bind (ok_or (HeStatus NtFileClosed) found) (\<lambda>handle.
     op_bind (op_lift (validate_handle_tree_id header handle)) (\<lambda>_.
     op_bind (close_lease env handle) (\<lambda>_.
     op_bind (if hs_lease_key handle = None \<and> hs_oplock_level handle \<noteq> 0
              then on_registry (unregister_oplock handle_id) else op_return ()) (\<lambda>_.
     op_bind (try_store (st_release_file_locks_for_handle (ce_store env) handle_id)) (\<lambda>_.
     op_bind (delete_closed_file env header handle) (\<lambda>_.
     op_bind (try_store (sm_delete_handle (ce_store env) handle_id)) (\<lambda>_.
       respond env header (cd_close_response (ce_codec env)
         \<lparr> clr_structure_size = 60, clr_flags = 0, clr_reserved = 0, clr_creation_time = 0,
           clr_last_access_time = 0, clr_last_write_time = 0, clr_change_time = 0,
           clr_allocation_size = 0, clr_end_of_file = 0, clr_file_attributes = 0 \<rparr>))))))))))"

definition handle_flush :: "('s, 'b) command_env \<Rightarrow> Smb2Header \<Rightarrow> ('s, 'b, bytes) c_op" where
  "handle_flush env header = respond env header (plain_response env)"

text \<open>Looking up the handle, its tree and its backend, as READ and WRITE do; \<open>check\<close> is what READ tests in between.\<close>

definition open_backend ::
  "('s, 'b) command_env \<Rightarrow> Smb2Header \<Rightarrow> u128 \<Rightarrow> (HandleState \<Rightarrow> HandlerError + unit)
     \<Rightarrow> ('s, 'b, HandleState \<times> nat \<times> FileHandle) c_op" where
  "open_backend env header handle_id check =
     op_bind (with_store (sm_get_handle (ce_store env) handle_id)) (\<lambda>found.
     op_bind (ok_or (HeStatus NtInvalidHandle) found) (\<lambda>handle.
     op_bind (op_lift (validate_handle_tree_id header handle)) (\<lambda>_.
     op_bind (op_lift (check handle)) (\<lambda>_.
     op_bind (with_store (sm_get_tree (ce_store env) (sh_session_id header) (sh_tree_id header))) (\<lambda>tree0.
     op_bind (ok_or (HeStatus NtInvalidParameter) tree0) (\<lambda>tree.
     op_bind (find_backend env tree) (\<lambda>backend.
     op_bind (backend_handle handle) (\<lambda>file_handle.
       op_return (handle, backend, file_handle)))))))))"

definition read_access :: "HandleState \<Rightarrow> HandlerError + unit" where
  "read_access handle =
     (if hs_is_directory handle \<and> \<not> hs_is_persistent handle then Inl (HeStatus NtInvalidDeviceRequest)
      else if hs_access_mask handle AND (0x0001 OR 0x0020 OR 0x80000000 OR 0x10000000) = 0
      then Inl (HeStatus NtAccessDenied)
      else Inr ())"

definition handle_read :: "('s, 'b) command_env \<Rightarrow> u64 \<Rightarrow> Smb2Header \<Rightarrow> bytes \<Rightarrow> ('s, 'b, bytes) c_op" where
  "handle_read env now header body =
     op_bind (parse_as ''Failed to parse read: '' (cd_read_request (ce_codec env) body)) (\<lambda>request.
     op_bind (\<lambda>ch. op_lift (validate_credit_charge (ch_connection ch) header (rdq_length request)) ch) (\<lambda>_.
     op_bind (open_backend env header
                (join_file_id (rdq_file_id_persistent request) (rdq_file_id_volatile request)) read_access)
       (\<lambda>(handle, backend, file_handle).
     op_bind (on_backend backend (vb_read (ce_backend env) file_handle (rdq_offset request) (rdq_length request)))
       (\<lambda>r.
     op_bind (vfs_err r) (\<lambda>dat.
     if dat = [] \<and> 0 < rdq_length request then op_throw (HeStatus NtEndOfFile)
     else if (of_nat (length dat) :: u32) < rdq_minimum_count request then op_throw (HeStatus NtEndOfFile)
     else
       op_bind (with_store (sm_update_handle (ce_store env)
                  (handle\<lparr> hs_file_offset := rdq_offset request + of_nat (length dat), hs_last_access := now \<rparr>)))
         (\<lambda>_.
       op_bind (respond env header (cd_read_response (ce_codec env)
                  \<lparr> rdr_structure_size = 17, rdr_data_offset = 80, rdr_reserved = 0,
                    rdr_data_length = of_nat (length dat), rdr_data_remaining = 0, rdr_flags = 0 \<rparr>)) (\<lambda>result.
         op_return (result @ dat))))))))"

definition write_data :: "WriteRequest \<Rightarrow> bytes \<Rightarrow> bytes" where
  "write_data request body =
     (let data_len = unat (wrq_length request);
          body_offset = unat (wrq_data_offset request) - SMB2_HEADER_SIZE
      in if body_offset + data_len \<le> length body then slice body_offset data_len body else [])"

definition handle_write ::
  "('s, 'b) command_env \<Rightarrow> u64 \<Rightarrow> (nat \<Rightarrow> nat) \<Rightarrow> Smb2Header \<Rightarrow> bytes \<Rightarrow> ('s, 'b, bytes) c_op" where
  "handle_write env now readings header body =
     op_bind (parse_as ''Failed to parse write: '' (cd_write_request (ce_codec env) body)) (\<lambda>request.
     op_bind (\<lambda>ch. op_lift (validate_credit_charge (ch_connection ch) header (wrq_length request)) ch) (\<lambda>_.
     op_bind (open_backend env header
                (join_file_id (wrq_file_id_persistent request) (wrq_file_id_volatile request)) (\<lambda>_. Inr ()))
       (\<lambda>(handle, backend, file_handle).
     op_bind (on_backend backend
                (vb_write (ce_backend env) readings file_handle (wrq_offset request) (write_data request body))) (\<lambda>r.
     op_bind (vfs_err r) (\<lambda>bytes_written.
     op_bind (if hs_is_durable handle \<or> hs_is_persistent handle
              then op_bind (try_store (sm_update_handle (ce_store env)
                     (handle\<lparr> hs_file_offset := wrq_offset request + ucast bytes_written, hs_last_access := now \<rparr>)))
                     (\<lambda>_. op_return ())
              else op_return ()) (\<lambda>_.
       respond env header (cd_write_response (ce_codec env)
         \<lparr> wrr_structure_size = 17, wrr_reserved = 0, wrr_count = bytes_written, wrr_remaining = 0,
           wrr_write_channel_info_offset = 0, wrr_write_channel_info_length = 0 \<rparr>)))))))"

section \<open>Byte-range locks\<close>

fun parse_lock_elements :: "codec \<Rightarrow> bytes \<Rightarrow> nat \<Rightarrow> nat \<Rightarrow> HandlerError + LockElement list" where
  "parse_lock_elements cd body i 0 = Inr []"
| "parse_lock_elements cd body i (Suc n) =
     (let elem_start = 24 + i * 24 in
      if length body < elem_start + 24 then Inl (HeStatus NtInvalidParameter)
      else case cd_lock_element cd (drop elem_start body) of
             Inl e \<Rightarrow> Inl (HeProtocol (''Failed to parse LockElement: '' @ e))
           | Inr element \<Rightarrow> map_sum id (\<lambda>rest. element # rest) (parse_lock_elements cd body (Suc i) n))"

definition check_multi :: "LockElement list \<Rightarrow> HandlerError + unit" where
  "check_multi locks =
     (if 1 < length locks \<and> list_ex (\<lambda>l. \<not> is_unlock (lke_flags l) \<and> \<not> fail_immediately (lke_flags l)) locks
      then Inl (HeStatus NtInvalidParameter) else Inr ())"

definition check_element :: "LockElement \<Rightarrow> HandlerError + unit" where
  "check_element lock =
     (let flags = lke_flags lock; e = unat (lke_offset lock) + unat (lke_length lock) in
      if \<not> is_unlock flags \<and> \<not> is_shared flags \<and> \<not> is_exclusive flags then Inl (HeStatus NtInvalidParameter)
      else if is_shared flags \<and> is_exclusive flags then Inl (HeStatus NtInvalidParameter)
      else if is_unlock flags \<and> (is_shared flags \<or> is_exclusive flags) then Inl (HeStatus NtInvalidParameter)
      else if 2 ^ 64 \<le> e \<or> 2 ^ 63 - 1 < e then Inl (HeStatus NtInvalidLockRange)
      else Inr ())"

definition element_lock :: "LockElement \<Rightarrow> FileLock" where
  "element_lock lock = \<lparr> fl_lock_type = (if is_exclusive (lke_flags lock) then LtExclusive else LtShared),
     fl_start = lke_offset lock, fl_length = lke_length lock, fl_pid = 0 \<rparr>"

definition lock_error :: "LockElement \<Rightarrow> HandlerError" where
  "lock_error lock = HeStatus (if fail_immediately (lke_flags lock) then NtLockNotGranted else NtFileLockConflict)"

text \<open>What a lock request works on: the handle, its id, the backend and the file handle.\<close>

record lock_target =
  lt_handle_id :: u128
  lt_handle :: HandleState
  lt_backend :: nat
  lt_file :: FileHandle

definition file_locks :: "('s, 'b) command_env \<Rightarrow> string \<Rightarrow> ('s, 'b, DistributedLock list) c_op" where
  "file_locks env path =
     op_bind (try_store (st_get_file_locks (ce_store env) path)) (\<lambda>r.
       op_return (case r of Inl _ \<Rightarrow> [] | Inr ls \<Rightarrow> ls))"

definition unlock_element :: "('s, 'b) command_env \<Rightarrow> lock_target \<Rightarrow> LockElement \<Rightarrow> ('s, 'b, unit) c_op" where
  "unlock_element env t lock =
     op_bind (file_locks env (hs_path (lt_handle t))) (\<lambda>existing.
     op_bind (case find (\<lambda>e. dl_handle_id e = lt_handle_id t \<and> dl_offset e = lke_offset lock \<and>
                             dl_length e = lke_length lock) existing of
                None \<Rightarrow> op_return ()
              | Some e \<Rightarrow> op_bind (try_store (st_release_file_lock (ce_store env) (dl_lock_id e))) (\<lambda>_. op_return ()))
       (\<lambda>_.
     op_bind (on_backend (lt_backend t) (vb_unlock (ce_backend env) (lt_file t) (element_lock lock))) (\<lambda>r.
       case r of
         Inr _ \<Rightarrow> op_return ()
       | Inl VfsLockConflict \<Rightarrow> op_throw (HeStatus NtInvalidLockRange)
       | Inl e \<Rightarrow> op_throw (HeVfs (VfsError_display e)))))"

definition rollback_locks :: "('s, 'b) command_env \<Rightarrow> u64 list \<Rightarrow> ('s, 'b, unit) c_op" where
  "rollback_locks env ids =
     op_for (\<lambda>i. op_bind (try_store (st_release_file_lock (ce_store env) i)) (\<lambda>_. op_return ())) ids"

definition fail_lock :: "('s, 'b) command_env \<Rightarrow> u64 list \<Rightarrow> HandlerError \<Rightarrow> ('s, 'b, 'a) c_op" where
  "fail_lock env ids e = op_bind (rollback_locks env ids) (\<lambda>_. op_throw e)"

text \<open>Recording a lock the backend has granted; the ids taken so far grow by the new one.\<close>

definition record_lock ::
  "('s, 'b) command_env \<Rightarrow> u64 \<Rightarrow> Smb2Header \<Rightarrow> lock_target \<Rightarrow> LockElement \<Rightarrow> u64 list \<Rightarrow> ('s, 'b, u64 list) c_op" where
  "record_lock env now header t lock ids =
     op_bind (try_store (st_next_file_lock_id (ce_store env))) (\<lambda>r.
       case r of
         Inl _ \<Rightarrow> op_return ids
       | Inr lock_id \<Rightarrow> (\<lambda>ch.
           op_bind (try_store (st_acquire_file_lock (ce_store env)
               (DistributedLock_new now lock_id (lt_handle_id t) (sh_session_id header)
                  (hp_server_id (ch_rest ch)) (hs_path (lt_handle t)) (lke_offset lock) (lke_length lock)
                  (is_exclusive (lke_flags lock)))))
             (\<lambda>_. op_return (ids @ [lock_id])) ch))"

definition lock_element ::
  "('s, 'b) command_env \<Rightarrow> u64 \<Rightarrow> Smb2Header \<Rightarrow> lock_target \<Rightarrow> LockElement \<Rightarrow> u64 list \<Rightarrow> ('s, 'b, u64 list) c_op" where
  "lock_element env now header t lock ids =
     op_bind (file_locks env (hs_path (lt_handle t))) (\<lambda>existing ch.
       let new_lock = DistributedLock_new now 0 (lt_handle_id t) (sh_session_id header) (hp_server_id (ch_rest ch))
             (hs_path (lt_handle t)) (lke_offset lock) (lke_length lock) (is_exclusive (lke_flags lock)) in
       if list_ex (conflicts_with new_lock) existing then fail_lock env ids (lock_error lock) ch
       else op_bind (on_backend (lt_backend t) (vb_lock (ce_backend env) (lt_file t) (element_lock lock))) (\<lambda>r.
              case r of
                Inr _ \<Rightarrow> record_lock env now header t lock ids
              | Inl VfsLockConflict \<Rightarrow> fail_lock env ids (lock_error lock)
              | Inl e \<Rightarrow> fail_lock env ids (HeVfs (VfsError_display e))) ch)"

fun lock_loop ::
  "('s, 'b) command_env \<Rightarrow> u64 \<Rightarrow> Smb2Header \<Rightarrow> lock_target \<Rightarrow> LockElement list \<Rightarrow> u64 list \<Rightarrow> ('s, 'b, unit) c_op" where
  "lock_loop env now header t [] ids = op_return ()"
| "lock_loop env now header t (lock # locks) ids =
     op_bind (op_lift (check_element lock)) (\<lambda>_.
     op_bind (if is_unlock (lke_flags lock)
              then op_bind (unlock_element env t lock) (\<lambda>_. op_return ids)
              else lock_element env now header t lock ids) (\<lambda>ids'.
       lock_loop env now header t locks ids'))"

definition lock_lookup :: "('s, 'b) command_env \<Rightarrow> Smb2Header \<Rightarrow> bytes \<Rightarrow> LockRequest \<Rightarrow>
    ('s, 'b, lock_target \<times> LockElement list) c_op" where
  "lock_lookup env header body request =
     (let handle_id = join_file_id (lkq_file_id_persistent request) (lkq_file_id_volatile request) in
      op_bind (with_store (sm_get_handle (ce_store env) handle_id)) (\<lambda>found.
      op_bind (ok_or (HeStatus NtFileClosed) found) (\<lambda>handle.
      if hs_session_id handle \<noteq> sh_session_id header then op_throw (HeStatus NtFileClosed)
      else
      op_bind (op_lift (validate_handle_tree_id header handle)) (\<lambda>_.
      op_bind (op_lift (parse_lock_elements (ce_codec env) body 0 (unat (lkq_lock_count request)))) (\<lambda>locks.
      op_bind (op_lift (check_multi locks)) (\<lambda>_.
      op_bind (with_store (sm_get_tree (ce_store env) (sh_session_id header) (hs_tree_id handle))) (\<lambda>tree0.
      op_bind (ok_or (HeStatus NtNetworkNameDeleted) tree0) (\<lambda>tree.
      op_bind (find_backend env tree) (\<lambda>backend.
        op_return (\<lparr> lt_handle_id = handle_id, lt_handle = handle, lt_backend = backend,
          lt_file = \<lparr> fh_id = ucast handle_id, fh_persistent_id = handle_id, fh_volatile_id = handle_id,
                      fh_backend_internal_id = hs_backend_internal_id handle \<rparr> \<rparr>, locks))))))))))"

definition handle_lock :: "('s, 'b) command_env \<Rightarrow> u64 \<Rightarrow> Smb2Header \<Rightarrow> bytes \<Rightarrow> ('s, 'b, bytes) c_op" where
  "handle_lock env now header body =
     op_bind (parse_as ''Failed to parse LOCK: '' (cd_lock_request (ce_codec env) body)) (\<lambda>request.
     if lkq_lock_count request = 0 then op_throw (HeStatus NtInvalidParameter)
     else op_bind (lock_lookup env header body request) (\<lambda>(t, locks).
          op_bind (lock_loop env now header t locks []) (\<lambda>_.
            respond env header (plain_response env))))"

section \<open>Other commands\<close>

definition handle_cancel :: "Smb2Header \<Rightarrow> ('s, 'b, bytes) c_op" where
  "handle_cancel header ch =
     (let c = ch_connection ch in
      (Inr [], ch\<lparr> ch_connection := c\<lparr> cn_async_requests :=
         snd (at_cancel_by_message_id (sh_message_id header) (cn_async_requests c)) \<rparr> \<rparr>))"

definition handle_echo :: "('s, 'b) command_env \<Rightarrow> Smb2Header \<Rightarrow> ('s, 'b, bytes) c_op" where
  "handle_echo env header = respond env header (plain_response env)"

definition handle_change_notify :: "('s, 'b, bytes) c_op" where
  "handle_change_notify = op_throw (HeStatus NtNotSupported)"

end
