(* ===== verification/Info_Builders.thy ===== *)
theory Info_Builders
  imports Shares Vfs_Types
begin

text \<open>
  The answers to QUERY_INFO and QUERY_DIRECTORY: \<open>crates/rustsmb-server/src/helpers/time.rs\<close> and
  \<open>helpers/info_builders.rs\<close>, with the UTF-16 encoding of a string they use. A system time is the
  number of nanoseconds since 1970; \<open>clock k\<close> is the reading of call \<open>k\<close> of \<open>current_filetime\<close>.
\<close>

section \<open>Time (helpers/time.rs)\<close>

abbreviation EPOCH_DIFF :: u64 where "EPOCH_DIFF \<equiv> 11644473600"

abbreviation TICKS_PER_SEC :: u64 where "TICKS_PER_SEC \<equiv> 10000000"

definition current_filetime :: "nat \<Rightarrow> u64" where
  "current_filetime t =
     (of_nat (t div 1000000000) + EPOCH_DIFF) * TICKS_PER_SEC + of_nat (t mod 1000000000 div 100)"

definition filetime_to_unix :: "u64 \<Rightarrow> u64" where
  "filetime_to_unix filetime =
     (let seconds_since_1601 = filetime div TICKS_PER_SEC in
      if seconds_since_1601 < EPOCH_DIFF then 0 else seconds_since_1601 - EPOCH_DIFF)"

section \<open>UTF-16 of a string\<close>

fun utf8_code_points :: "string \<Rightarrow> nat list" where
  "utf8_code_points [] = []"
| "utf8_code_points (c # cs) =
     (let n = of_char c in
      if n < 0x80 then n # utf8_code_points cs
      else case cs of
        [] \<Rightarrow> []
      | c1 # cs1 \<Rightarrow>
          if n < 0xE0 then ((n - 0xC0) * 64 + (of_char c1 - 0x80)) # utf8_code_points cs1
          else case cs1 of
            [] \<Rightarrow> []
          | c2 # cs2 \<Rightarrow>
              if n < 0xF0
              then ((n - 0xE0) * 4096 + (of_char c1 - 0x80) * 64 + (of_char c2 - 0x80)) # utf8_code_points cs2
              else case cs2 of
                [] \<Rightarrow> []
              | c3 # cs3 \<Rightarrow>
                  ((n - 0xF0) * 262144 + (of_char c1 - 0x80) * 4096 + (of_char c2 - 0x80) * 64 + (of_char c3 - 0x80))
                    # utf8_code_points cs3)"

definition utf16_of :: "nat \<Rightarrow> u16 list" where
  "utf16_of c =
     (if c < 0x10000 then [of_nat c]
      else [of_nat (0xD800 + (c - 0x10000) div 0x400), of_nat (0xDC00 + (c - 0x10000) mod 0x400)])"

definition encode_utf16 :: "string \<Rightarrow> u16 list" where
  "encode_utf16 s = concat (map utf16_of (utf8_code_points s))"

definition utf16_bytes :: "u16 list \<Rightarrow> bytes" where
  "utf16_bytes us = concat (map to_le us)"

section \<open>Sizes (helpers/info_builders.rs)\<close>

definition file_info_min_size :: "u8 \<Rightarrow> u32" where
  "file_info_min_size info_class =
     (if info_class = 4 then 40 else if info_class = 5 then 24 else if info_class = 6 then 8
      else if info_class = 7 then 4 else if info_class = 8 then 4 else if info_class = 14 then 8
      else if info_class = 16 then 4 else if info_class = 17 then 4 else if info_class = 18 then 96
      else if info_class = 34 then 56 else 0)"

definition fs_info_min_size :: "u8 \<Rightarrow> u32" where
  "fs_info_min_size info_class =
     (if info_class = 1 then 18 else if info_class = 3 then 24 else if info_class = 4 then 8
      else if info_class = 5 then 12 else if info_class = 7 then 32 else 0)"

section \<open>Builders\<close>

definition file_attributes_from_metadata :: "Metadata \<Rightarrow> u32" where
  "file_attributes_from_metadata metadata =
     (let attrs = (if md_file_type metadata = FtDirectory then 0x10 else 0x20);
          attrs = (if md_mode metadata AND 0x92 = 0 then attrs OR 0x01 else attrs)
      in if attrs = 0 then 0x80 else attrs)"

definition directory_entry :: "(nat \<Rightarrow> nat) \<Rightarrow> nat \<Rightarrow> DirEntry \<Rightarrow> bytes" where
  "directory_entry clock next_offset entry =
     to_le (of_nat next_offset :: u32) @ to_le (0 :: u32) @
     to_le (current_filetime (clock 0)) @ to_le (current_filetime (clock 1)) @
     to_le (current_filetime (clock 2)) @ to_le (current_filetime (clock 3)) @
     to_le (md_size (de_metadata entry)) @ to_le (md_size (de_metadata entry)) @
     to_le (file_attributes_from_metadata (de_metadata entry)) @
     to_le (of_nat (length (encode_utf16 (de_name entry)) * 2) :: u32) @ to_le (0 :: u32) @ [0, 0] @
     replicate 24 0 @ utf16_bytes (encode_utf16 (de_name entry))"

fun directory_entries :: "(nat \<Rightarrow> nat) \<Rightarrow> nat \<Rightarrow> DirEntry list \<Rightarrow> bytes" where
  "directory_entries clock i [] = []"
| "directory_entries clock i (entry # entries) =
     (let entry_size = 94 + length (encode_utf16 (de_name entry)) * 2;
          next_offset = (if entries \<noteq> [] then (entry_size + 7) div 8 * 8 else 0)
      in directory_entry (\<lambda>k. clock (4 * i + k)) next_offset entry @
         (if 0 < next_offset then replicate (next_offset - entry_size) 0 else []) @
         directory_entries clock (Suc i) entries)"

definition build_directory_info :: "(nat \<Rightarrow> nat) \<Rightarrow> DirEntry list \<Rightarrow> bytes" where
  "build_directory_info clock entries = directory_entries clock 0 entries"

definition basic_information :: "(nat \<Rightarrow> nat) \<Rightarrow> Metadata \<Rightarrow> bytes" where
  "basic_information clock metadata =
     to_le (current_filetime (clock 0)) @ to_le (current_filetime (clock 1)) @
     to_le (current_filetime (clock 2)) @ to_le (current_filetime (clock 3)) @
     to_le (file_attributes_from_metadata metadata) @ to_le (0 :: u32)"

definition standard_information :: "Metadata \<Rightarrow> bytes" where
  "standard_information metadata =
     to_le (md_size metadata) @ to_le (md_size metadata) @ to_le (1 :: u32) @
     [0, if md_file_type metadata = FtDirectory then 1 else 0] @ [0, 0]"

definition build_file_info ::
  "(nat \<Rightarrow> nat) \<Rightarrow> Metadata \<Rightarrow> u8 \<Rightarrow> u64 option \<Rightarrow> u32 option \<Rightarrow> bytes" where
  "build_file_info clock metadata info_class position access_mask =
     (let current = (case position of None \<Rightarrow> 0 | Some p \<Rightarrow> p) in
      if info_class = 4 then basic_information clock metadata
      else if info_class = 5 then standard_information metadata
      else if info_class = 18 then
        basic_information clock metadata @ standard_information metadata @ to_le (0 :: u64) @ to_le (0 :: u32) @
        to_le (0 :: u32) @ to_le current @ to_le (0 :: u32) @ to_le (0 :: u32) @ to_le (0 :: u32)
      else if info_class = 8 then to_le (case access_mask of None \<Rightarrow> 0x1F01FF | Some m \<Rightarrow> m)
      else if info_class = 14 then to_le current
      else replicate 8 0)"

definition build_fs_info :: "(nat \<Rightarrow> nat) \<Rightarrow> FsStats \<Rightarrow> u8 \<Rightarrow> bytes" where
  "build_fs_info clock fs_stats info_class =
     (if info_class = 1 then
        to_le (current_filetime (clock 0)) @ take 4 (to_le (fs_fsid fs_stats)) @
        to_le (of_nat (length (encode_utf16 ''RustSMB'') * 2) :: u32) @ [0, 0] @
        utf16_bytes (encode_utf16 ''RustSMB'')
      else if info_class = 3 then
        to_le (fs_blocks fs_stats) @ to_le (fs_blocks_available fs_stats) @ to_le (1 :: u32) @
        to_le (fs_block_size fs_stats)
      else if info_class = 4 then to_le (0x00000007 :: u32) @ to_le (0x00000020 :: u32)
      else if info_class = 5 then
        to_le (0x00000003 :: u32) @ to_le (255 :: u32) @
        to_le (of_nat (length (encode_utf16 ''NTFS'') * 2) :: u32) @ utf16_bytes (encode_utf16 ''NTFS'')
      else if info_class = 7 then
        to_le (fs_blocks fs_stats) @ to_le (fs_blocks_available fs_stats) @ to_le (fs_blocks_free fs_stats) @
        to_le (1 :: u32) @ to_le (fs_block_size fs_stats)
      else replicate 8 0)"

definition build_security_info :: "u32 \<Rightarrow> bytes" where
  "build_security_info additional_info =
     [1, 0] @ to_le (0x8004 :: u16) @
     (if additional_info AND 0x04 \<noteq> 0
      then to_le (0 :: u32) @ to_le (0 :: u32) @ to_le (0 :: u32) @ to_le (20 :: u32) @
           [2, 0] @ to_le (8 :: u16) @ to_le (0 :: u16) @ to_le (0 :: u16)
      else to_le (0 :: u32) @ to_le (0 :: u32) @ to_le (0 :: u32) @ to_le (0 :: u32))"

section \<open>Times\<close>

text \<open>The seconds of the current time are read back from its FILETIME, for the next 50,000 years.\<close>

lemma filetime_roundtrip:
  assumes "t div 1000000000 < 2 ^ 40"
  shows "unat (filetime_to_unix (current_filetime t)) = t div 1000000000"
proof -
  let ?s = "t div 1000000000" and ?r = "t mod 1000000000 div 100"
  have r: "?r < 10000000" by (simp add: div_less_iff_less_mult)
  let ?n = "(?s + 11644473600) * 10000000 + ?r"
  have n: "?n < 2 ^ 64" using assms r by simp
  have "current_filetime t = of_nat ?n" by (simp add: current_filetime_def)
  moreover have "unat (of_nat m :: u64) = m" if "m < 2 ^ 64" for m using that by (simp add: unat_of_nat)
  ultimately have u: "unat (current_filetime t) = ?n" using n by (simp only:)
  have d: "?n div 10000000 = ?s + 11644473600" using r by simp
  have q: "unat (current_filetime t div TICKS_PER_SEC) = ?s + 11644473600"
    unfolding unat_div_distrib u using d by simp
  then have "\<not> current_filetime t div TICKS_PER_SEC < EPOCH_DIFF" by (simp add: word_less_nat_alt)
  moreover from this have "unat (current_filetime t div TICKS_PER_SEC - EPOCH_DIFF) = ?s"
    using q by (simp add: unat_sub_if_size word_le_nat_alt)
  ultimately show ?thesis by (simp add: filetime_to_unix_def Let_def)
qed

section \<open>Sizes of the answers\<close>

text \<open>For most classes the answer has the size announced.\<close>

lemma length_file_info:
  "length (build_file_info clock md c p a) =
     (if c = 4 then 40 else if c = 5 then 24 else if c = 18 then 100 else if c = 8 then 4 else 8)"
  by (simp add: build_file_info_def basic_information_def standard_information_def Let_def)

lemma file_info_size_mismatch:
  "unat (file_info_min_size c) < length (build_file_info clock md c p a) \<longleftrightarrow>
   c \<notin> {4, 5, 6, 8, 14, 34}"
  by (simp add: length_file_info file_info_min_size_def)

section \<open>Names\<close>

text \<open>The values of type \<open>String\<close> are the UTF-8 encodings of sequences of scalar values.\<close>

definition scalar :: "nat \<Rightarrow> bool" where
  "scalar c \<longleftrightarrow> c < 0xD800 \<or> 0xE000 \<le> c \<and> c < 0x110000"

definition rust_string :: "string \<Rightarrow> bool" where
  "rust_string s \<longleftrightarrow> (\<exists>cs. list_all scalar cs \<and> s = concat (map encode_utf8 cs))"

lemma of_char_of_small: "n < 256 \<Longrightarrow> of_char (char_of n) = (n :: nat)"
  by simp

lemma split_sixtyfours: "c div 4096 * 4096 + c div 64 mod 64 * 64 + c mod 64 = (c :: nat)"
proof -
  have "c div 64 div 64 = c div 4096" by (simp add: div_mult2_eq [symmetric])
  then show ?thesis using mod_div_mult_eq [of c 64] mod_div_mult_eq [of "c div 64" 64] by linarith
qed

lemma code_points_encode: "scalar c \<Longrightarrow> utf8_code_points (encode_utf8 c @ s) = c # utf8_code_points s"
proof -
  assume "scalar c"
  then have "c < 0x110000" by (auto simp: scalar_def)
  then consider "c < 0x80" | "0x80 \<le> c" "c < 0x800" | "0x800 \<le> c" "c < 0x10000" | "0x10000 \<le> c" "c < 0x110000"
    by linarith
  then show ?thesis
  proof cases
    case 2
    then have "c div 64 < 32" "2 \<le> c div 64" by auto
    then show ?thesis using 2 by (simp add: encode_utf8_def of_char_of_small Let_def)
  next
    case 3
    then have "c div 4096 < 16" by auto
    then show ?thesis using 3 split_sixtyfours [of c] by (simp add: encode_utf8_def of_char_of_small Let_def)
  next
    case 4
    have "c div 4096 div 64 = c div 262144" by (simp add: div_mult2_eq [symmetric])
    then have "c div 262144 < 5" "c div 262144 * 262144 + c div 4096 mod 64 * 4096 + c div 64 mod 64 * 64 + c mod 64 = c"
      using 4 split_sixtyfours [of c] mod_div_mult_eq [of "c div 4096" 64] by auto
    then show ?thesis using 4 by (simp add: encode_utf8_def of_char_of_small Let_def)
  qed (simp add: encode_utf8_def of_char_of_small Let_def)
qed

lemma decode_utf16_of: "scalar c \<Longrightarrow> decode_utf16 (utf16_of c @ us) = c # decode_utf16 us"
proof (cases "c < 0x10000")
  case True
  assume "scalar c"
  moreover have "unat (of_nat c :: u16) = c" using True by (simp add: unat_of_nat)
  ultimately show ?thesis using True by (auto simp: utf16_of_def scalar_def word_less_nat_alt word_le_nat_alt)
next
  case False
  assume "scalar c"
  let ?h = "0xD800 + (c - 0x10000) div 0x400" and ?l = "0xDC00 + (c - 0x10000) mod 0x400"
  have "c < 0x110000" using \<open>scalar c\<close> by (auto simp: scalar_def)
  then have h: "?h < 0xDC00" by auto
  have l: "?l < 0xE000" by simp
  have u: "unat (of_nat ?h :: u16) = ?h" "unat (of_nat ?l :: u16) = ?l"
    using h l by (simp_all only: unat_of_nat) simp_all
  have "decode_utf16 (of_nat ?h # of_nat ?l # us) = (0x10000 + (?h - 0xD800) * 0x400 + (?l - 0xDC00)) # decode_utf16 us"
    using h l by (simp add: word_less_nat_alt word_le_nat_alt u del: of_nat_add)
  then show ?thesis using False by (simp add: utf16_of_def del: of_nat_add)
qed

lemma utf16_of_string: "rust_string s \<Longrightarrow> from_utf16_lossy (encode_utf16 s) = s"
proof -
  assume "rust_string s"
  then obtain cs where cs: "list_all scalar cs" "s = concat (map encode_utf8 cs)" by (auto simp: rust_string_def)
  have "utf8_code_points (concat (map encode_utf8 cs)) = cs" using cs(1)
    by (induction cs) (simp_all add: code_points_encode)
  moreover have "decode_utf16 (concat (map utf16_of cs)) = cs" using cs(1)
    by (induction cs) (simp_all add: decode_utf16_of)
  ultimately show ?thesis by (simp add: from_utf16_lossy_def encode_utf16_def cs(2))
qed

lemma length_utf16_bytes [simp]: "length (utf16_bytes us) = 2 * length us"
  by (induction us) (simp_all add: utf16_bytes_def)

lemma utf16_units_bytes [simp]: "utf16_units (utf16_bytes us) = us"
proof (induction us)
  case (Cons u us)
  obtain a b where ab: "to_le u = [a, b]" by (simp add: to_le_def numeral_2_eq_2)
  have "from_le [a, b] = u" using from_le_to_le_u16 [of u] ab by simp
  moreover have "ucast a + push_bit 8 (ucast b) = (ucast a OR push_bit 8 (ucast b) :: u16)"
    by (rule disjunctive_add) (auto simp: bit_simps dest: bit_imp_le_length)
  then have "from_le [a, b] = (ucast a OR push_bit 8 (ucast b) :: u16)"
    by (simp add: from_le_def push_bit_eq_mult mult.commute)
  ultimately show ?case using Cons ab by (simp add: utf16_bytes_def)
qed (simp add: utf16_bytes_def)

section \<open>Walking a directory listing\<close>

text \<open>How a client reads a listing: the name, the size and the attributes of an entry are at fixed
  offsets, the next entry is found by the first field, which is zero in the last one.\<close>

definition entry_at :: "bytes \<Rightarrow> string \<times> u64 \<times> u32" where
  "entry_at buf =
     (from_utf16_lossy (utf16_units (slice 94 (unat (from_le (slice 60 4 buf) :: u32)) buf)),
      from_le (slice 40 8 buf), from_le (slice 56 4 buf))"

fun walk_entries :: "nat \<Rightarrow> bytes \<Rightarrow> (string \<times> u64 \<times> u32) list" where
  "walk_entries 0 buf = []"
| "walk_entries (Suc fuel) buf =
     (let next_offset = unat (from_le (slice 0 4 buf) :: u32) in
      entry_at buf # (if next_offset = 0 then [] else walk_entries fuel (drop next_offset buf)))"

lemma length_directory_entry:
  "length (directory_entry clock n e) = 94 + length (encode_utf16 (de_name e)) * 2"
  by (simp add: directory_entry_def)

lemma entry_at_directory_entry:
  assumes "rust_string (de_name e)" "length (encode_utf16 (de_name e)) * 2 < 2 ^ 32"
  shows "entry_at (directory_entry clock n e @ rest) =
    (de_name e, md_size (de_metadata e), file_attributes_from_metadata (de_metadata e))"
proof -
  let ?n = "length (encode_utf16 (de_name e)) * 2"
  have "unat (of_nat ?n :: u32) = ?n" using assms(2) by (simp only: unat_of_nat) simp
  then show ?thesis
    using assms(1) by (simp add: entry_at_def directory_entry_def slice_def utf16_of_string mult.commute del: of_nat_mult)
qed

lemma first_offset:
  "n < 2 ^ 32 \<Longrightarrow> unat (from_le (slice 0 4 (directory_entry clock n e @ rest)) :: u32) = n"
  by (simp add: directory_entry_def slice_def unat_of_nat)

lemma walk_directory_entries:
  assumes "list_all (\<lambda>e. rust_string (de_name e)) entries" "entries \<noteq> []"
    and "length (directory_entries clock i entries) < 2 ^ 32" "length entries \<le> fuel"
  shows "walk_entries fuel (directory_entries clock i entries) =
    map (\<lambda>e. (de_name e, md_size (de_metadata e), file_attributes_from_metadata (de_metadata e))) entries"
  using assms
proof (induction entries arbitrary: i fuel)
  case (Cons e entries)
  obtain fuel' where f: "fuel = Suc fuel'" "length entries \<le> fuel'" using Cons.prems(4) by (cases fuel) auto
  let ?size = "94 + length (encode_utf16 (de_name e)) * 2"
  let ?next = "if entries \<noteq> [] then (?size + 7) div 8 * 8 else 0"
  let ?clock = "\<lambda>k. clock (4 * i + k)" and ?rest = "directory_entries clock (Suc i) entries"
  let ?pad = "if 0 < ?next then replicate (?next - ?size) 0 else ([] :: bytes)"
  have buf: "directory_entries clock i (e # entries) = directory_entry ?clock ?next e @ ?pad @ ?rest"
    by (simp add: Let_def)
  have size: "?size \<le> (?size + 7) div 8 * 8" by linarith
  have bound: "?size < 2 ^ 32" "?next < 2 ^ 32" "length ?rest < 2 ^ 32"
    using Cons.prems(3) size unfolding buf by (auto simp: length_directory_entry split: if_splits)
  have e: "entry_at (directory_entries clock i (e # entries)) =
      (de_name e, md_size (de_metadata e), file_attributes_from_metadata (de_metadata e))"
    unfolding buf using Cons.prems(1) bound(1) by (intro entry_at_directory_entry) auto
  have n: "unat (from_le (slice 0 4 (directory_entries clock i (e # entries))) :: u32) = ?next"
    unfolding buf using bound(2) by (rule first_offset)
  show ?case
  proof (cases "entries = []")
    case True
    then show ?thesis using e n by (simp add: f Let_def del: directory_entries.simps)
  next
    case False
    then have "drop ?next (directory_entries clock i (e # entries)) = ?rest"
      unfolding buf using size by (simp add: length_directory_entry)
    moreover have "?next \<noteq> 0" using False by simp
    ultimately show ?thesis
      using Cons.IH [of "Suc i" fuel'] Cons.prems(1) bound(3) f e n False
      by (simp add: Let_def del: directory_entries.simps)
  qed
qed simp

text \<open>Walking a listing with as many steps as it has bytes gives the entries it was built from.\<close>

lemma walk_directory_info:
  assumes "list_all (\<lambda>e. rust_string (de_name e)) entries" "entries \<noteq> []"
    and "length (build_directory_info clock entries) < 2 ^ 32"
  shows "walk_entries (length (build_directory_info clock entries)) (build_directory_info clock entries) =
    map (\<lambda>e. (de_name e, md_size (de_metadata e), file_attributes_from_metadata (de_metadata e))) entries"
proof -
  have "length es \<le> length (directory_entries clock i es)" for i es
  proof (induction es arbitrary: i)
    case (Cons e es)
    from Cons.IH [of "Suc i"] show ?case by (simp add: Let_def length_directory_entry)
  qed simp
  then show ?thesis using assms unfolding build_directory_info_def by (intro walk_directory_entries)
qed

end
