(* ===== verification/Paths.thy ===== *)
theory Paths
  imports Core_Types
begin

text \<open>
  Slash-separated paths as the memory backend handles them
  (\<open>crates/rustsmb-backend-memory/src/lib.rs\<close>, \<open>normalize_path\<close> and \<open>split_path\<close>), with the
  functions of \<open>str\<close> they use. A clean path is the join of components none of which is empty,
  a dot or a double dot; on those, splitting inverts joining.
\<close>

definition trim_slash :: "string \<Rightarrow> string" where
  "trim_slash s = rev (dropWhile (\<lambda>c. c = CHR ''/'') (rev (dropWhile (\<lambda>c. c = CHR ''/'') s)))"

fun split_slash :: "string \<Rightarrow> string list" where
  "split_slash [] = [[]]"
| "split_slash (x # xs) =
     (if x = CHR ''/'' then [] # split_slash xs
      else (x # hd (split_slash xs)) # tl (split_slash xs))"

fun join_slash :: "string list \<Rightarrow> string" where
  "join_slash [] = []"
| "join_slash [x] = x"
| "join_slash (x # y # ys) = x @ CHR ''/'' # join_slash (y # ys)"

text \<open>One round of the loop over \<open>path.split('/')\<close>.\<close>

definition norm_step :: "string list \<Rightarrow> string \<Rightarrow> string list" where
  "norm_step components part =
     (if part = ''.'' \<or> part = [] then components
      else if part = ''..'' then butlast components
      else components @ [part])"

definition normalize_path :: "string \<Rightarrow> string" where
  "normalize_path path =
     (let path = trim_slash path in
      if path = [] then [] else join_slash (foldl norm_step [] (split_slash path)))"

definition split_path :: "string \<Rightarrow> (string \<times> string) option" where
  "split_path path =
     (let path = trim_slash path in
      if path = [] then None
      else if CHR ''/'' \<in> set path then
        Some (rev (tl (dropWhile (\<lambda>c. c \<noteq> CHR ''/'') (rev path))),
              rev (takeWhile (\<lambda>c. c \<noteq> CHR ''/'') (rev path)))
      else Some ([], path))"

section \<open>Components\<close>

definition clean :: "string \<Rightarrow> bool" where
  "clean c \<longleftrightarrow> c \<noteq> [] \<and> c \<noteq> ''.'' \<and> c \<noteq> ''..'' \<and> CHR ''/'' \<notin> set c"

definition path_components :: "string \<Rightarrow> string list" where
  "path_components path = foldl norm_step [] (split_slash (trim_slash path))"

lemma normalize_path_eq: "normalize_path p = join_slash (path_components p)"
  by (simp add: normalize_path_def path_components_def Let_def norm_step_def)

lemma split_slash_not_Nil [simp]: "split_slash s \<noteq> []"
  by (cases s) auto

lemma split_slash_no_slash: "c \<in> set (split_slash s) \<Longrightarrow> CHR ''/'' \<notin> set c"
proof (induction s arbitrary: c)
  case (Cons x xs)
  have "hd (split_slash xs) \<in> set (split_slash xs)" by (rule list.set_sel(1)) simp
  moreover have "set (tl (split_slash xs)) \<subseteq> set (split_slash xs)"
    by (cases "split_slash xs") auto
  ultimately show ?case using Cons by (auto split: if_splits)
qed simp

lemma clean_components: "list_all clean (path_components p)"
proof -
  have "list_all clean acc \<Longrightarrow> (\<And>c. c \<in> set parts \<Longrightarrow> CHR ''/'' \<notin> set c)
      \<Longrightarrow> list_all clean (foldl norm_step acc parts)" for acc parts
  proof (induction parts arbitrary: acc)
    case (Cons part parts)
    have "list_all clean (norm_step acc part)"
      using Cons.prems by (auto simp: norm_step_def clean_def list_all_iff dest: in_set_butlastD)
    with Cons show ?case by simp
  qed simp
  then show ?thesis by (simp add: path_components_def split_slash_no_slash)
qed

lemma split_slash_append:
  "CHR ''/'' \<notin> set c \<Longrightarrow> split_slash (c @ CHR ''/'' # s) = c # split_slash s"
  by (induction c) auto

lemma split_slash_plain: "CHR ''/'' \<notin> set c \<Longrightarrow> split_slash c = [c]"
  by (induction c) auto

lemma split_join: "list_all clean cs \<Longrightarrow> cs \<noteq> [] \<Longrightarrow> split_slash (join_slash cs) = cs"
  by (induction cs rule: join_slash.induct)
    (simp_all add: clean_def split_slash_append split_slash_plain)

lemma join_slash_Nil_iff: "list_all clean cs \<Longrightarrow> join_slash cs = [] \<longleftrightarrow> cs = []"
  by (induction cs rule: join_slash.induct) (auto simp: clean_def)

lemma clean_hd_last: "clean c \<Longrightarrow> hd c \<noteq> CHR ''/'' \<and> last c \<noteq> CHR ''/''"
  by (metis clean_def hd_in_set last_in_set)

lemma hd_join: "list_all clean cs \<Longrightarrow> cs \<noteq> [] \<Longrightarrow> hd (join_slash cs) \<noteq> CHR ''/''"
  by (cases cs rule: join_slash.cases) (auto simp: clean_hd_last hd_append clean_def)

lemma last_join: "list_all clean cs \<Longrightarrow> cs \<noteq> [] \<Longrightarrow> last (join_slash cs) \<noteq> CHR ''/''"
proof (induction cs rule: join_slash.induct)
  case (3 x y ys)
  then have "join_slash (y # ys) \<noteq> []" by (simp add: join_slash_Nil_iff)
  with 3 show ?case by simp
qed (simp_all add: clean_hd_last)

lemma trim_slash_id: "hd s \<noteq> CHR ''/'' \<Longrightarrow> last s \<noteq> CHR ''/'' \<Longrightarrow> trim_slash s = s"
proof (cases "s = []")
  case False
  assume hl: "hd s \<noteq> CHR ''/''" "last s \<noteq> CHR ''/''"
  have "dropWhile (\<lambda>c. c = CHR ''/'') s = s" using hl(1) False by (cases s) auto
  moreover have "dropWhile (\<lambda>c. c = CHR ''/'') (rev s) = rev s"
    using hl(2) False by (cases s rule: rev_cases) auto
  ultimately show ?thesis by (simp add: trim_slash_def)
qed (simp add: trim_slash_def)

lemma trim_join: "list_all clean cs \<Longrightarrow> trim_slash (join_slash cs) = join_slash cs"
proof (cases "cs = []")
  case False
  assume "list_all clean cs"
  with False show ?thesis by (intro trim_slash_id hd_join last_join)
qed (simp add: trim_slash_def)

lemma components_join: "list_all clean cs \<Longrightarrow> path_components (join_slash cs) = cs"
proof -
  assume cs: "list_all clean cs"
  have "list_all clean ds \<Longrightarrow> foldl norm_step acc ds = acc @ ds" for acc ds
    by (induction ds arbitrary: acc) (auto simp: norm_step_def clean_def)
  then show ?thesis
    using cs by (cases "cs = []")
      (simp_all add: path_components_def trim_join split_join, simp add: norm_step_def trim_slash_def)
qed

lemma normalize_join: "list_all clean cs \<Longrightarrow> normalize_path (join_slash cs) = join_slash cs"
  by (simp add: normalize_path_eq components_join)

lemma slash_in_join: "list_all clean cs \<Longrightarrow> CHR ''/'' \<in> set (join_slash cs) \<longleftrightarrow> 2 \<le> length cs"
  by (induction cs rule: join_slash.induct) (auto simp: clean_def)

lemma join_snoc: "cs \<noteq> [] \<Longrightarrow> join_slash (cs @ [c]) = join_slash cs @ CHR ''/'' # c"
  by (induction cs rule: join_slash.induct) auto

lemma split_path_join:
  assumes "list_all clean (cs @ [c])"
  shows "split_path (join_slash (cs @ [c])) = Some (join_slash cs, c)"
proof (cases "cs = []")
  case True
  with assms show ?thesis
    by (auto simp: split_path_def Let_def clean_def trim_slash_id clean_hd_last)
next
  case False
  have c: "CHR ''/'' \<notin> set c" using assms by (simp add: clean_def)
  have j: "join_slash (cs @ [c]) = join_slash cs @ CHR ''/'' # c" by (rule join_snoc [OF False])
  have t: "trim_slash (join_slash (cs @ [c])) = join_slash (cs @ [c])" by (rule trim_join [OF assms])
  have "takeWhile (\<lambda>x. x \<noteq> CHR ''/'') (rev c @ CHR ''/'' # rev (join_slash cs)) = rev c"
    using c by (subst takeWhile_append2) auto
  moreover have "dropWhile (\<lambda>x. x \<noteq> CHR ''/'') (rev c @ CHR ''/'' # rev (join_slash cs))
      = CHR ''/'' # rev (join_slash cs)"
    using c by (subst dropWhile_append2) auto
  ultimately show ?thesis unfolding split_path_def Let_def j t [unfolded j] by simp
qed

section \<open>Properties\<close>

text \<open>C28. Whatever a client sends as a path, the normalised path has no empty, \<open>.\<close> or \<open>..\<close>
  component, so walking it from the share's root never leaves the share; splitting it gives its
  components back, and normalising again changes nothing.\<close>

theorem normalize_path_safe:
  "list_all clean (path_components p) \<and>
   (normalize_path p = [] \<longleftrightarrow> path_components p = []) \<and>
   split_slash (normalize_path p) = (if path_components p = [] then [[]] else path_components p) \<and>
   normalize_path (normalize_path p) = normalize_path p"
proof -
  note c = clean_components [of p]
  show ?thesis
    unfolding normalize_path_eq components_join [OF c]
    using c by (simp add: join_slash_Nil_iff split_join)
qed

end
