(* ===== verification/Info_Handlers.thy ===== *)
theory Info_Handlers
  imports File_Handlers Info_Builders Paths
begin

text \<open>
  QUERY_DIRECTORY, QUERY_INFO and SET_INFO (\<open>crates/rustsmb-server/src/handler.rs\<close>), with
  \<open>std::path::Path::parent\<close> for Unix paths, which a relative rename uses. \<open>filetimes\<close> are the clock
  readings of the answers, \<open>readings\<close> those of the backend.
\<close>

section \<open>The parent of a path\<close>

text \<open>The length of the root slash or of a leading current-directory dot.\<close>

definition before_body :: "string \<Rightarrow> nat" where
  "before_body path = (if take 1 path = ''/'' \<or> path = ''.'' \<or> take 2 path = ''./'' then 1 else 0)"

definition last_component :: "string \<Rightarrow> string" where
  "last_component path = rev (takeWhile (\<lambda>c. c \<noteq> CHR ''/'') (rev (drop (before_body path) path)))"

definition back_size :: "string \<Rightarrow> nat" where
  "back_size path =
     length (last_component path) + (if CHR ''/'' \<in> set (drop (before_body path) path) then 1 else 0)"

lemma back_size_pos: "before_body path < length path \<Longrightarrow> 0 < back_size path"
proof -
  assume "before_body path < length path"
  then obtain c xs where r: "rev (drop (before_body path) path) = c # xs"
    by (cases "rev (drop (before_body path) path)") auto
  show ?thesis
  proof (cases "c = CHR ''/''")
    case True
    then have "CHR ''/'' \<in> set (drop (before_body path) path)"
      using r by (metis list.set_intros(1) set_rev)
    then show ?thesis by (simp add: back_size_def)
  qed (simp add: back_size_def last_component_def r)
qed

text \<open>Empty components and dots at the end do not count.\<close>

function trim_back :: "string \<Rightarrow> string" where
  "trim_back path =
     (if before_body path < length path \<and> last_component path \<in> {[], ''.''}
      then trim_back (take (length path - back_size path) path)
      else path)"
  by auto

termination
proof (relation "measure length")
  fix path assume "before_body path < length path \<and> last_component path \<in> {[], ''.''}"
  then have "0 < back_size path" "0 < length path" using back_size_pos by auto
  then show "(take (length path - back_size path) path, path) \<in> measure length" by simp
qed simp

declare trim_back.simps [simp del]

definition path_parent :: "string \<Rightarrow> string option" where
  "path_parent path =
     (let p = trim_back path in
      if before_body p < length p then Some (trim_back (take (length p - back_size p) p))
      else if p \<noteq> [] \<and> hd p \<noteq> CHR ''/'' then Some []
      else None)"

section \<open>Queries\<close>

text \<open>The handle of a request, its tree and its backend.\<close>

definition find_open ::
  "('s, 'b) command_env \<Rightarrow> Smb2Header \<Rightarrow> u128 \<Rightarrow> ('s, 'b, HandleState \<times> nat) c_op" where
  "find_open env header handle_id =
     op_bind (with_store (sm_get_handle (ce_store env) handle_id)) (\<lambda>found.
     op_bind (ok_or (HeStatus NtInvalidHandle) found) (\<lambda>handle.
     op_bind (op_lift (validate_handle_tree_id header handle)) (\<lambda>_.
     op_bind (with_store (sm_get_tree (ce_store env) (sh_session_id header) (sh_tree_id header))) (\<lambda>tree0.
     op_bind (ok_or (HeStatus NtInvalidParameter) tree0) (\<lambda>tree.
     op_bind (find_backend env tree) (\<lambda>backend.
       op_return (handle, backend)))))))"

text \<open>A call of the backend whose error ends the request.\<close>

definition backend_call :: "nat \<Rightarrow> ('b, 'a) vfs_op \<Rightarrow> ('s, 'b, 'a) c_op" where
  "backend_call backend m = op_bind (on_backend backend m) vfs_err"

text \<open>A response with a buffer after it.\<close>

definition respond_with ::
  "('s, 'b) command_env \<Rightarrow> Smb2Header \<Rightarrow> bytes \<Rightarrow> ('s, 'b, bytes) c_op" where
  "respond_with env header output_buffer =
     op_bind (respond env header (cd_query_response (ce_codec env)
                \<lparr> qyr_structure_size = 9, qyr_output_buffer_offset = 72,
                  qyr_output_buffer_length = of_nat (length output_buffer) \<rparr>)) (\<lambda>result.
       op_return (result @ output_buffer))"

definition handle_query_directory ::
  "('s, 'b) command_env \<Rightarrow> (nat \<Rightarrow> nat) \<Rightarrow> Smb2Header \<Rightarrow> bytes \<Rightarrow> ('s, 'b, bytes) c_op" where
  "handle_query_directory env filetimes header body =
     op_bind (parse_as ''Failed to parse query_dir: '' (cd_query_directory_request (ce_codec env) body)) (\<lambda>request.
     op_bind (\<lambda>ch. op_lift (validate_credit_charge (ch_connection ch) header (qdq_output_buffer_length request)) ch)
       (\<lambda>_.
     op_bind (find_open env header (join_file_id (qdq_file_id_persistent request) (qdq_file_id_volatile request)))
       (\<lambda>(handle, backend).
     op_bind (backend_call backend (vb_readdir (ce_backend env) (hs_path handle))) (\<lambda>entries.
       respond_with env header (build_directory_info filetimes entries)))))"

definition query_min_size :: "QueryInfoRequest \<Rightarrow> u32" where
  "query_min_size request =
     (case qiq_info_type request of
        InfoFile \<Rightarrow> file_info_min_size (qiq_file_info_class request)
      | InfoFileSystem \<Rightarrow> fs_info_min_size (qiq_file_info_class request)
      | InfoSecurity \<Rightarrow> 20
      | InfoQuota \<Rightarrow> 0)"

definition query_output ::
  "('s, 'b) command_env \<Rightarrow> (nat \<Rightarrow> nat) \<Rightarrow> QueryInfoRequest \<Rightarrow> HandleState \<Rightarrow> nat \<Rightarrow> ('s, 'b, bytes) c_op" where
  "query_output env filetimes request handle backend =
     (case qiq_info_type request of
        InfoFile \<Rightarrow>
          op_bind (backend_call backend (vb_stat (ce_backend env) (hs_path handle))) (\<lambda>metadata.
            op_return (build_file_info filetimes metadata (qiq_file_info_class request)
              (Some (hs_file_offset handle)) (Some (hs_access_mask handle))))
      | InfoFileSystem \<Rightarrow>
          op_bind (backend_call backend (vb_statfs (ce_backend env))) (\<lambda>fs_stats.
            op_return (build_fs_info filetimes fs_stats (qiq_file_info_class request)))
      | InfoSecurity \<Rightarrow> op_return (build_security_info (qiq_additional_information request))
      | InfoQuota \<Rightarrow> op_throw (HeStatus NtNotSupported))"

definition handle_query_info ::
  "('s, 'b) command_env \<Rightarrow> (nat \<Rightarrow> nat) \<Rightarrow> Smb2Header \<Rightarrow> bytes \<Rightarrow> ('s, 'b, bytes) c_op" where
  "handle_query_info env filetimes header body =
     op_bind (parse_as ''Failed to parse query_info: '' (cd_query_info_request (ce_codec env) body)) (\<lambda>request.
     op_bind (\<lambda>ch. op_lift (validate_credit_charge (ch_connection ch) header (qiq_output_buffer_length request)) ch)
       (\<lambda>_.
     if 0 < query_min_size request \<and> qiq_output_buffer_length request < query_min_size request
     then op_throw (HeStatus NtInfoLengthMismatch)
     else
     op_bind (find_open env header (join_file_id (qiq_file_id_persistent request) (qiq_file_id_volatile request)))
       (\<lambda>(handle, backend).
     op_bind (query_output env filetimes request handle backend) (\<lambda>output_buffer.
     if qiq_output_buffer_length request < of_nat (length output_buffer) then op_throw (HeStatus NtBufferTooSmall)
     else respond_with env header output_buffer))))"

section \<open>Changes\<close>

definition apply_readonly_attribute ::
  "('s, 'b) command_env \<Rightarrow> (nat \<Rightarrow> nat) \<Rightarrow> nat \<Rightarrow> string \<Rightarrow> bool \<Rightarrow> ('s, 'b, unit) c_op" where
  "apply_readonly_attribute env readings backend path readonly =
     op_bind (backend_call backend (vb_stat (ce_backend env) path)) (\<lambda>metadata.
     let mode = (if readonly then md_mode metadata AND NOT 0x92 else md_mode metadata OR 0x80) in
     backend_call backend (vb_chmod (ce_backend env) readings path mode))"

text \<open>\<open>UNIX_EPOCH + Duration::from_secs\<close> in nanoseconds.\<close>

definition filetime_instant :: "u64 \<Rightarrow> nat" where
  "filetime_instant filetime = unat (filetime_to_unix filetime) * 1000000000"

definition set_basic_info ::
  "('s, 'b) command_env \<Rightarrow> (nat \<Rightarrow> nat) \<Rightarrow> (nat \<Rightarrow> nat) \<Rightarrow> HandleState \<Rightarrow> nat \<Rightarrow> bytes \<Rightarrow> ('s, 'b, unit) c_op" where
  "set_basic_info env readings readings2 handle backend buffer =
     (if length buffer < 40 then op_throw (HeStatus NtInvalidParameter)
      else
        let last_access_time = from_le (slice 8 8 buffer) :: u64;
            last_write_time = from_le (slice 16 8 buffer) :: u64;
            attributes = from_le (slice 32 4 buffer) :: u32;
            has_access_time = last_access_time \<noteq> 0 \<and> last_access_time \<noteq> - 1;
            has_modify_time = last_write_time \<noteq> 0 \<and> last_write_time \<noteq> - 1 in
        op_bind (if has_access_time \<or> has_modify_time
                 then op_bind (backend_call backend (vb_stat (ce_backend env) (hs_path handle))) (\<lambda>current_meta.
                        backend_call backend (vb_utimes (ce_backend env) readings (hs_path handle)
                          (if has_access_time then filetime_instant last_access_time else md_atime current_meta)
                          (if has_modify_time then filetime_instant last_write_time else md_mtime current_meta)))
                 else op_return ()) (\<lambda>_.
        if attributes \<noteq> 0
        then apply_readonly_attribute env readings2 backend (hs_path handle) (attributes AND 0x01 \<noteq> 0)
        else op_return ()))"

definition set_disposition_info :: "('s, 'b) command_env \<Rightarrow> HandleState \<Rightarrow> bytes \<Rightarrow> ('s, 'b, unit) c_op" where
  "set_disposition_info env handle buffer =
     (if buffer = [] then op_throw (HeStatus NtInvalidParameter)
      else op_bind (parse_as ''Failed to parse: '' (cd_disposition_information (ce_codec env) buffer))
             (\<lambda>delete_pending.
           if delete_pending \<noteq> 0
           then with_store (sm_update_handle (ce_store env) (handle\<lparr> hs_delete_on_close := True \<rparr>))
           else op_return ()))"

definition rename_target :: "string \<Rightarrow> string \<Rightarrow> string" where
  "rename_target path new_name =
     (let new_path = map (\<lambda>c. if c = BACKSLASH then CHR ''/'' else c) new_name in
      if take 1 new_path \<noteq> ''/''
      then case path_parent path of
             Some parent \<Rightarrow> parent @ ''/'' @ new_path
           | None \<Rightarrow> ''/'' @ new_path
      else new_path)"

definition set_rename_info ::
  "('s, 'b) command_env \<Rightarrow> HandleState \<Rightarrow> nat \<Rightarrow> bytes \<Rightarrow> ('s, 'b, unit) c_op" where
  "set_rename_info env handle backend buffer =
     (if length buffer < 20 then op_throw (HeStatus NtInvalidParameter)
      else op_bind (parse_as ''Failed to parse: '' (cd_rename_information (ce_codec env) buffer)) (\<lambda>info.
        let name_len = unat (fri_file_name_length info) in
        if length buffer < 20 + name_len then op_throw (HeStatus NtInvalidParameter)
        else
          let new_path = rename_target (hs_path handle) (parse_utf16_string (slice 20 name_len buffer)) in
          op_bind (if fri_replace_if_exists info = 0
                   then op_bind (on_backend backend (vb_stat (ce_backend env) new_path)) (\<lambda>r.
                          case r of
                            Inr _ \<Rightarrow> op_throw (HeStatus NtObjectNameCollision)
                          | Inl (VfsNotFound _) \<Rightarrow> op_return ()
                          | Inl (VfsInvalidPath _) \<Rightarrow> op_return ()
                          | Inl e \<Rightarrow> op_throw (HeVfs (VfsError_display e)))
                   else op_return ()) (\<lambda>_.
          op_bind (backend_call backend (vb_rename (ce_backend env) (hs_path handle) new_path)) (\<lambda>_.
            with_store (sm_update_handle (ce_store env) (handle\<lparr> hs_path := new_path \<rparr>))))))"

definition handle_set_file_info ::
  "('s, 'b) command_env \<Rightarrow> (nat \<Rightarrow> nat) \<Rightarrow> (nat \<Rightarrow> nat) \<Rightarrow> HandleState \<Rightarrow> nat \<Rightarrow> u8 \<Rightarrow> bytes
     \<Rightarrow> ('s, 'b, unit) c_op" where
  "handle_set_file_info env readings readings2 handle backend info_class buffer =
     (case SetFileInfoClass_from_u8 info_class of
        Some SfBasic \<Rightarrow> set_basic_info env readings readings2 handle backend buffer
      | Some SfDisposition \<Rightarrow> set_disposition_info env handle buffer
      | Some SfRename \<Rightarrow> set_rename_info env handle backend buffer
      | Some SfEndOfFile \<Rightarrow>
          if length buffer < 8 then op_throw (HeStatus NtInvalidParameter)
          else op_bind (parse_as ''Failed to parse: '' (cd_end_of_file_information (ce_codec env) buffer))
                 (\<lambda>end_of_file. backend_call backend
                    (vb_truncate (ce_backend env) readings (hs_path handle) end_of_file))
      | Some SfAllocation \<Rightarrow>
          if length buffer < 8 then op_throw (HeStatus NtInvalidParameter)
          else backend_call backend
                 (vb_truncate (ce_backend env) readings (hs_path handle) (from_le (slice 0 8 buffer)))
      | Some SfPosition \<Rightarrow>
          if 8 \<le> length buffer
          then with_store (sm_update_handle (ce_store env) (handle\<lparr> hs_file_offset := from_le (slice 0 8 buffer) \<rparr>))
          else op_return ()
      | Some SfMode \<Rightarrow> op_return ()
      | _ \<Rightarrow> op_throw (HeStatus NtNotSupported))"

definition set_info_buffer :: "SetInfoRequest \<Rightarrow> bytes \<Rightarrow> bytes option" where
  "set_info_buffer request body =
     (let buffer_start = (if 64 < siq_buffer_offset request then unat (siq_buffer_offset request) - 64 else 33);
          buffer_len = unat (siq_buffer_length request)
      in if length body < buffer_start + buffer_len then None else Some (slice buffer_start buffer_len body))"

definition handle_set_info ::
  "('s, 'b) command_env \<Rightarrow> (nat \<Rightarrow> nat) \<Rightarrow> (nat \<Rightarrow> nat) \<Rightarrow> Smb2Header \<Rightarrow> bytes \<Rightarrow> ('s, 'b, bytes) c_op" where
  "handle_set_info env readings readings2 header body =
     op_bind (parse_as ''Failed to parse set_info: '' (cd_set_info_request (ce_codec env) body)) (\<lambda>request.
     if siq_buffer_length request = 0 then op_throw (HeStatus NtInvalidParameter)
     else
     op_bind (find_open env header (join_file_id (siq_file_id_persistent request) (siq_file_id_volatile request)))
       (\<lambda>(handle, backend).
     op_bind (ok_or (HeStatus NtInvalidParameter) (set_info_buffer request body)) (\<lambda>buffer.
     op_bind (case siq_info_type request of
                InfoFile \<Rightarrow>
                  handle_set_file_info env readings readings2 handle backend (siq_file_info_class request) buffer
              | InfoSecurity \<Rightarrow> op_return ()
              | _ \<Rightarrow> op_throw (HeStatus NtNotSupported)) (\<lambda>_.
       respond env header (cd_set_info_response (ce_codec env) \<lparr> sir_structure_size = 2 \<rparr>)))))"

end
