(* ===== verification/Ioctl_Handlers.thy ===== *)
theory Ioctl_Handlers
  imports File_Handlers
begin

text \<open>
  IOCTL (\<open>crates/rustsmb-server/src/handler.rs\<close>, \<open>handle_ioctl\<close> and the functions it calls): the check
  of the negotiation, resume keys, and server-side copy.
\<close>

section \<open>Responses\<close>

text \<open>The statements that end every branch: the IOCTL response, then the output buffer.\<close>

definition ioctl_response ::
  "('s, 'b) command_env \<Rightarrow> Smb2Header \<Rightarrow> IoctlRequest \<Rightarrow> NtStatus \<Rightarrow> bytes \<Rightarrow> ('s, 'b, bytes) c_op" where
  "ioctl_response env header request status output_buffer ch =
     (let output_offset = of_nat (SMB2_HEADER_SIZE + 49 - 1);
          (resp_header, ch1) = build_response_header header status ch;
          response = \<lparr> ior_structure_size = 49, ior_reserved = 0, ior_ctl_code = ioq_ctl_code request,
            ior_file_id_persistent = ioq_file_id_persistent request,
            ior_file_id_volatile = ioq_file_id_volatile request, ior_input_offset = 0, ior_input_count = 0,
            ior_output_offset = output_offset, ior_output_count = of_nat (length output_buffer),
            ior_flags = 0, ior_reserved2 = 0 \<rparr>
      in (map_sum id (\<lambda>result. result @ output_buffer)
            (serialize_as (ce_headers env) ''Failed to write IOCTL response: '' resp_header
               (cd_ioctl_response (ce_codec env) response)), ch1))"

definition ioctl_input :: "IoctlRequest \<Rightarrow> bytes \<Rightarrow> bytes option" where
  "ioctl_input request body =
     (let input_count = unat (ioq_input_count request);
          body_offset = unat (ioq_input_offset request) - SMB2_HEADER_SIZE
      in if length body < body_offset + input_count then None else Some (slice body_offset input_count body))"

section \<open>Validating the negotiation\<close>

definition dialect_offered :: "bytes \<Rightarrow> nat \<Rightarrow> SmbDialect \<Rightarrow> bool" where
  "dialect_offered input dialect_count dialect =
     list_ex (\<lambda>i. let offset = 24 + i * 2 in
        offset + 2 \<le> length input \<and> from_le (slice offset 2 input) = revision dialect) [0..<dialect_count]"

definition server_capabilities :: "SmbDialect \<Rightarrow> u32" where
  "server_capabilities dialect =
     (let caps = 0x00000004;
          caps = (if dialect \<ge> Smb210 then caps OR 0x00000002 else caps)
      in if dialect \<ge> Smb300 then caps OR (0x00000040 OR 0x00000020) else caps)"

definition handle_validate_negotiate_info ::
  "('s, 'b) command_env \<Rightarrow> Smb2Header \<Rightarrow> IoctlRequest \<Rightarrow> bytes \<Rightarrow> ('s, 'b, bytes) c_op" where
  "handle_validate_negotiate_info env header request body ch =
     (case (if ioq_input_count request < 24 then None else ioctl_input request body) of
        None \<Rightarrow> (Inl (HeStatus NtInvalidParameter), ch)
      | Some input \<Rightarrow>
          let client_guid = slice 4 16 input;
              dialect_count = unat (from_le (slice 22 2 input) :: u16) in
          if client_guid \<noteq> cn_client_guid (ch_connection ch) then (Inl (HeStatus NtAccessDenied), ch)
          else (case cn_dialect (ch_connection ch) of
                  None \<Rightarrow> (Inl (HeStatus NtInvalidParameter), ch)
                | Some negotiated_dialect \<Rightarrow>
                    if \<not> dialect_offered input dialect_count negotiated_dialect
                    then (Inl (HeStatus NtAccessDenied), ch)
                    else ioctl_response env header request NtSuccess
                           (to_le (server_capabilities negotiated_dialect) @ svc_server_guid (ce_config env) @
                            to_le (0x0001 :: u16) @ to_le (revision negotiated_dialect)) ch))"

section \<open>Resume keys\<close>

definition handle_request_resume_key ::
  "('s, 'b) command_env \<Rightarrow> Smb2Header \<Rightarrow> IoctlRequest \<Rightarrow> ('s, 'b, bytes) c_op" where
  "handle_request_resume_key env header request =
     (if ioq_max_output_response request < 32 then op_throw (HeStatus NtInvalidParameter)
      else
        let handle_id = join_file_id (ioq_file_id_persistent request) (ioq_file_id_volatile request) in
        op_bind (with_store (sm_get_handle (ce_store env) handle_id)) (\<lambda>found.
        op_bind (ok_or (HeStatus NtFileClosed) found) (\<lambda>handle.
        op_bind (op_lift (validate_handle_tree_id header handle)) (\<lambda>_.
        op_bind (parse_as ''Failed to write resume key: '' (cd_resume_key_response (ce_codec env)
                   \<lparr> rkr_resume_key = to_le (hs_persistent_id handle) @ to_le (sh_session_id header),
                     rkr_context_length = 0, rkr_reserved = 0 \<rparr>)) (\<lambda>output_buffer.
          ioctl_response env header request NtSuccess output_buffer)))))"

section \<open>Server-side copy\<close>

definition build_copychunk_error_response ::
  "('s, 'b) command_env \<Rightarrow> Smb2Header \<Rightarrow> IoctlRequest \<Rightarrow> u32 \<Rightarrow> u32 \<Rightarrow> u32 \<Rightarrow> ('s, 'b, bytes) c_op" where
  "build_copychunk_error_response env header request max_chunks max_chunk_size max_data_size =
     op_bind (parse_as ''Failed to write copychunk limits: '' (cd_copychunk_response (ce_codec env)
                \<lparr> ckr_chunks_written = max_chunks, ckr_chunk_bytes_written = max_chunk_size,
                  ckr_total_bytes_written = max_data_size \<rparr>)) (\<lambda>output_buffer.
       ioctl_response env header request NtInvalidParameter output_buffer)"

definition build_copychunk_lock_error_response ::
  "('s, 'b) command_env \<Rightarrow> Smb2Header \<Rightarrow> IoctlRequest \<Rightarrow> ('s, 'b, bytes) c_op" where
  "build_copychunk_lock_error_response env header request =
     op_bind (parse_as ''Failed to write copychunk response: '' (cd_copychunk_response (ce_codec env)
                \<lparr> ckr_chunks_written = 0, ckr_chunk_bytes_written = 0, ckr_total_bytes_written = 0 \<rparr>))
       (\<lambda>output_buffer. ioctl_response env header request NtFileLockConflict output_buffer)"

text \<open>The loop over the chunks that adds up their lengths; \<open>None\<close> is its early return.\<close>

fun chunk_total :: "u32 \<Rightarrow> SrvCopychunkCopyChunk list \<Rightarrow> u64 \<Rightarrow> u64 option" where
  "chunk_total max_chunk_size [] total_data = Some total_data"
| "chunk_total max_chunk_size (chunk # chunks) total_data =
     (if ckc_length chunk = 0 \<or> max_chunk_size < ckc_length chunk then None
      else chunk_total max_chunk_size chunks (total_data + ucast (ckc_length chunk)))"

definition check_lock_conflict :: "DistributedLock list \<Rightarrow> u128 \<Rightarrow> u64 \<Rightarrow> u32 \<Rightarrow> bool" where
  "check_lock_conflict locks handle_id offset len =
     list_ex (\<lambda>lock.
        dl_handle_id lock \<noteq> handle_id \<and> dl_exclusive lock \<and>
        (let lock_end = (if dl_length lock = 0 then - 1 else sat_add (dl_offset lock) (dl_length lock));
             range_end = sat_add offset (ucast len)
         in offset < lock_end \<and> dl_offset lock < range_end)) locks"

definition chunk_conflict :: "DistributedLock list \<Rightarrow> DistributedLock list \<Rightarrow> HandleState \<Rightarrow> HandleState
    \<Rightarrow> SrvCopychunkCopyChunk \<Rightarrow> bool" where
  "chunk_conflict source_locks dest_locks source dest chunk \<longleftrightarrow>
     check_lock_conflict source_locks (hs_persistent_id source) (ckc_source_offset chunk) (ckc_length chunk) \<or>
     check_lock_conflict dest_locks (hs_persistent_id dest) (ckc_target_offset chunk) (ckc_length chunk)"

text \<open>The copy itself; \<open>clock i\<close> are the readings of the backend's clock for chunk \<open>i\<close>.\<close>

definition copy_chunk ::
  "('s, 'b) command_env \<Rightarrow> (nat \<Rightarrow> nat) \<Rightarrow> nat \<Rightarrow> FileHandle \<Rightarrow> FileHandle \<Rightarrow> SrvCopychunkCopyChunk
     \<Rightarrow> ('s, 'b, nat) c_op" where
  "copy_chunk env clock backend source_file dest_file chunk =
     op_bind (on_backend backend (vb_read (ce_backend env) source_file (ckc_source_offset chunk) (ckc_length chunk)))
       (\<lambda>r. op_bind (vfs_err r) (\<lambda>dat.
     op_bind (if 0 < length dat
              then op_bind (on_backend backend (vb_write (ce_backend env) clock dest_file (ckc_target_offset chunk) dat))
                     (\<lambda>w. op_bind (vfs_err w) (\<lambda>_. op_return ()))
              else op_return ()) (\<lambda>_. op_return (length dat))))"

fun copy_chunks ::
  "('s, 'b) command_env \<Rightarrow> (nat \<Rightarrow> nat \<Rightarrow> nat) \<Rightarrow> nat \<Rightarrow> FileHandle \<Rightarrow> FileHandle
     \<Rightarrow> SrvCopychunkCopyChunk list \<Rightarrow> u32 \<Rightarrow> u32 \<Rightarrow> ('s, 'b, u32 \<times> u32) c_op" where
  "copy_chunks env clock backend source_file dest_file [] chunks_written total_bytes_written =
     op_return (chunks_written, total_bytes_written)"
| "copy_chunks env clock backend source_file dest_file (chunk # chunks) chunks_written total_bytes_written =
     op_bind (copy_chunk env (clock 0) backend source_file dest_file chunk) (\<lambda>n.
       copy_chunks env (\<lambda>i. clock (Suc i)) backend source_file dest_file chunks (chunks_written + 1)
         (total_bytes_written + of_nat n))"

text \<open>The two handles of a copy request, with the checks the source makes of them.\<close>

definition copychunk_handles ::
  "('s, 'b) command_env \<Rightarrow> Smb2Header \<Rightarrow> IoctlRequest \<Rightarrow> SrvCopychunkCopy \<Rightarrow> bool
     \<Rightarrow> ('s, 'b, HandleState \<times> HandleState) c_op" where
  "copychunk_handles env header request copy_req is_write_variant =
     (let source_persistent_id = from_le (take 16 (ckq_source_key copy_req));
          source_session_id = from_le (slice 16 8 (ckq_source_key copy_req));
          dest_handle_id = join_file_id (ioq_file_id_persistent request) (ioq_file_id_volatile request) in
      if source_session_id \<noteq> sh_session_id header then op_throw (HeStatus NtObjectNameNotFound)
      else
      op_bind (with_store (sm_get_handle (ce_store env) source_persistent_id)) (\<lambda>found.
      op_bind (ok_or (HeStatus NtObjectNameNotFound) found) (\<lambda>source_handle.
      if hs_session_id source_handle \<noteq> sh_session_id header then op_throw (HeStatus NtObjectNameNotFound)
      else
      op_bind (with_store (sm_get_handle (ce_store env) dest_handle_id)) (\<lambda>found.
      op_bind (ok_or (HeStatus NtFileClosed) found) (\<lambda>dest_handle.
      op_bind (op_lift (validate_handle_tree_id header dest_handle)) (\<lambda>_.
      if hs_access_mask source_handle AND (0x00000001 OR 0x00000020) = 0 then op_throw (HeStatus NtAccessDenied)
      else if hs_access_mask dest_handle AND 0x00000002 = 0 then op_throw (HeStatus NtAccessDenied)
      else if \<not> is_write_variant \<and> hs_access_mask dest_handle AND 0x00000001 = 0
      then op_throw (HeStatus NtAccessDenied)
      else op_return (source_handle, dest_handle)))))))"

definition handle_copychunk ::
  "('s, 'b) command_env \<Rightarrow> (nat \<Rightarrow> nat \<Rightarrow> nat) \<Rightarrow> Smb2Header \<Rightarrow> IoctlRequest \<Rightarrow> bytes \<Rightarrow> bool
     \<Rightarrow> ('s, 'b, bytes) c_op" where
  "handle_copychunk env clock header request body is_write_variant =
     op_bind (ok_or (HeStatus NtInvalidParameter) (ioctl_input request body)) (\<lambda>input.
     op_bind (op_lift (map_sum (\<lambda>_. HeStatus NtInvalidParameter) id (SrvCopychunkCopy_parse input))) (\<lambda>copy_req.
     let config = svc_server_side_copy (ce_config env);
         limits_exceeded = build_copychunk_error_response env header request (ssc_max_number_of_chunks config)
           (ssc_max_chunk_size config) (ssc_max_data_size config) in
     if ckq_chunk_count copy_req = 0 then op_throw (HeStatus NtInvalidParameter)
     else if ssc_max_number_of_chunks config < ckq_chunk_count copy_req then limits_exceeded
     else case chunk_total (ssc_max_chunk_size config) (ckq_chunks copy_req) 0 of
       None \<Rightarrow> limits_exceeded
     | Some total_data \<Rightarrow>
     if ucast (ssc_max_data_size config) < total_data then limits_exceeded
     else
     op_bind (copychunk_handles env header request copy_req is_write_variant) (\<lambda>(source_handle, dest_handle).
     op_bind (with_store (sm_get_tree (ce_store env) (sh_session_id header) (sh_tree_id header))) (\<lambda>tree0.
     op_bind (ok_or (HeStatus NtInvalidParameter) tree0) (\<lambda>tree.
     op_bind (find_backend env tree) (\<lambda>backend.
     op_bind (backend_handle source_handle) (\<lambda>source_file.
     op_bind (backend_handle dest_handle) (\<lambda>dest_file.
     op_bind (file_locks env (hs_path source_handle)) (\<lambda>source_locks.
     op_bind (file_locks env (hs_path dest_handle)) (\<lambda>dest_locks.
     if list_ex (chunk_conflict source_locks dest_locks source_handle dest_handle) (ckq_chunks copy_req)
     then build_copychunk_lock_error_response env header request
     else
     op_bind (copy_chunks env clock backend source_file dest_file (ckq_chunks copy_req) 0 0) (\<lambda>(written, total).
     op_bind (parse_as ''Failed to write copychunk response: '' (cd_copychunk_response (ce_codec env)
                \<lparr> ckr_chunks_written = written, ckr_chunk_bytes_written = 0, ckr_total_bytes_written = total \<rparr>))
       (\<lambda>output_buffer. ioctl_response env header request NtSuccess output_buffer))))))))))))"

definition handle_ioctl ::
  "('s, 'b) command_env \<Rightarrow> (nat \<Rightarrow> nat \<Rightarrow> nat) \<Rightarrow> Smb2Header \<Rightarrow> bytes \<Rightarrow> ('s, 'b, bytes) c_op" where
  "handle_ioctl env clock header body =
     op_bind (parse_as ''Failed to parse IOCTL: '' (cd_ioctl_request (ce_codec env) body)) (\<lambda>request.
     op_bind (\<lambda>ch. op_lift (validate_credit_charge (ch_connection ch) header
                (max (ioq_input_count request) (ioq_max_output_response request))) ch) (\<lambda>_.
     case FsctlCode_from_u32 (ioq_ctl_code request) of
       Some FsValidateNegotiateInfo \<Rightarrow> handle_validate_negotiate_info env header request body
     | Some FsSrvRequestResumeKey \<Rightarrow> handle_request_resume_key env header request
     | Some FsSrvCopychunk \<Rightarrow> handle_copychunk env clock header request body False
     | Some FsSrvCopychunkWrite \<Rightarrow> handle_copychunk env clock header request body True
     | _ \<Rightarrow> op_throw (HeStatus NtNotSupported)))"

end
