(* ===== verification/Break_Handlers.thy ===== *)
theory Break_Handlers
  imports File_Handlers
begin

text \<open>
  OPLOCK_BREAK (\<open>crates/rustsmb-server/src/handler.rs\<close>): the acknowledgments of oplock and lease breaks.
\<close>

definition break_response ::
  "('s, 'b) command_env \<Rightarrow> Smb2Header \<Rightarrow> string + bytes \<Rightarrow> ('s, 'b, bytes) c_op" where
  "break_response env header response ch =
     (let (resp_header, ch1) = build_response_header header NtSuccess ch
      in (serialize_as (ce_headers env) ''Failed to write response: '' resp_header response, ch1))"

definition handle_oplock_break_ack ::
  "('s, 'b) command_env \<Rightarrow> Smb2Header \<Rightarrow> bytes \<Rightarrow> ('s, 'b, bytes) c_op" where
  "handle_oplock_break_ack env header body =
     op_bind (parse_as ''Failed to parse oplock ack: '' (cd_oplock_break (ce_codec env) body)) (\<lambda>ack.
     let handle_id = join_file_id (opb_file_id_persistent ack) (opb_file_id_volatile ack);
         acked_level = OplockLevel_as_u8 (opb_oplock_level ack) in
     op_bind (with_store (sm_get_handle (ce_store env) handle_id)) (\<lambda>found.
     op_bind (ok_or (HeStatus NtFileClosed) found) (\<lambda>handle.
     op_bind (ask_registry (handle_oplock_acknowledgment (opb_file_id_persistent ack) (opb_file_id_volatile ack)
                acked_level)) (\<lambda>_.
     op_bind (on_registry (\<lambda>g. (True, update_oplock_level handle_id acked_level g))) (\<lambda>_.
     op_bind (try_store (st_update_handle (ce_store env) (handle\<lparr> hs_oplock_level := acked_level \<rparr>))) (\<lambda>_.
       break_response env header (cd_oplock_break_response (ce_codec env)
         \<lparr> opb_structure_size = 24, opb_oplock_level = opb_oplock_level ack, opb_reserved = 0, opb_reserved2 = 0,
           opb_file_id_persistent = opb_file_id_persistent ack,
           opb_file_id_volatile = opb_file_id_volatile ack \<rparr>)))))))"

definition update_acked_lease :: "('s, 'b) command_env \<Rightarrow> string \<Rightarrow> u32 \<Rightarrow> ('s, 'b, unit) c_op" where
  "update_acked_lease env lease_key acked_state =
     op_bind (try_store (st_get_lease (ce_store env) lease_key)) (\<lambda>r.
       case r of
         Inr (Some lease) \<Rightarrow>
           op_bind (try_store (st_update_lease (ce_store env)
             (lease\<lparr> le_lease_state := acked_state, le_epoch := le_epoch lease + 1, le_breaking := False,
                le_break_to_state := 0, le_break_started_at := None \<rparr>))) (\<lambda>_. op_return ())
       | _ \<Rightarrow> op_return ())"

definition handle_lease_break_ack ::
  "('s, 'b) command_env \<Rightarrow> Smb2Header \<Rightarrow> bytes \<Rightarrow> ('s, 'b, bytes) c_op" where
  "handle_lease_break_ack env header body =
     op_bind (parse_as ''Failed to parse lease ack: '' (cd_lease_break (ce_codec env) body)) (\<lambda>ack.
     op_bind (ask_registry (handle_acknowledgment (ce_hex env) (leb_lease_key ack) (leb_lease_state ack))) (\<lambda>r.
       case r of
         Inr _ \<Rightarrow>
           op_bind (update_acked_lease env (hex_encode (ce_hex env) (leb_lease_key ack)) (leb_lease_state ack)) (\<lambda>_.
             break_response env header (cd_lease_break_response (ce_codec env)
               \<lparr> leb_structure_size = 36, leb_reserved = 0, leb_flags = 0, leb_lease_key = leb_lease_key ack,
                 leb_lease_state = leb_lease_state ack, leb_lease_duration = 0 \<rparr>))
       | Inl (LbNoPendingBreak _) \<Rightarrow> op_throw (HeStatus NtInvalidParameter)
       | Inl (LbInvalidStateSubset _ _) \<Rightarrow> op_throw (HeStatus NtRequestNotAccepted)
       | Inl _ \<Rightarrow> op_throw (HeStatus NtInvalidParameter)))"

definition handle_oplock_break ::
  "('s, 'b) command_env \<Rightarrow> Smb2Header \<Rightarrow> bytes \<Rightarrow> ('s, 'b, bytes) c_op" where
  "handle_oplock_break env header body =
     (if length body < 2 then op_throw (HeProtocol ''OPLOCK_BREAK body too short'')
      else
        let structure_size = from_le (slice 0 2 body) :: u16 in
        if structure_size = 24 then handle_oplock_break_ack env header body
        else if structure_size = 36 then handle_lease_break_ack env header body
        else op_throw (HeStatus NtInvalidParameter))"

end
