(* ===== verification/Command_Table.thy ===== *)
theory Command_Table
  imports Info_Handlers Ioctl_Handlers Break_Handlers
begin

text \<open>
  The final \<open>match\<close> of \<open>dispatch_command\<close> (\<open>crates/rustsmb-server/src/handler.rs\<close>): the handler of each
  command, run on what the request reads from outside.
\<close>

text \<open>Clock readings of a request: the time in seconds, the readings of the backend's clock (for a first
  and a second call, and per chunk of a copy), the time at which each handle of a session that ends is
  looked at, and the readings the answers to queries show.\<close>

record request_inputs =
  ri_now :: u64
  ri_readings :: "nat \<Rightarrow> nat"
  ri_readings2 :: "nat \<Rightarrow> nat"
  ri_chunks :: "nat \<Rightarrow> nat \<Rightarrow> nat"
  ri_now_at :: "u128 \<Rightarrow> u64"
  ri_filetimes :: "nat \<Rightarrow> nat"

text \<open>\<open>others\<close> are the handlers of the remaining commands.\<close>

definition handle_command ::
  "('s, 'b) command_env \<Rightarrow> request_inputs
     \<Rightarrow> (Smb2Header \<Rightarrow> bytes \<Rightarrow> bytes \<Rightarrow> ('s, 'b, bytes) c_op)
     \<Rightarrow> Smb2Header \<Rightarrow> bytes \<Rightarrow> bytes \<Rightarrow> ('s, 'b, bytes) c_op" where
  "handle_command env inp others header body full_message =
     (case sh_command header of
        CmdLogoff \<Rightarrow> handle_logoff env (ri_readings inp) (ri_now_at inp) header
      | CmdTreeConnect \<Rightarrow> handle_tree_connect env (ri_now inp) header body
      | CmdTreeDisconnect \<Rightarrow> handle_tree_disconnect env header
      | CmdClose \<Rightarrow> handle_close env header body
      | CmdFlush \<Rightarrow> handle_flush env header
      | CmdRead \<Rightarrow> handle_read env (ri_now inp) header body
      | CmdWrite \<Rightarrow> handle_write env (ri_now inp) (ri_readings inp) header body
      | CmdLock \<Rightarrow> handle_lock env (ri_now inp) header body
      | CmdIoctl \<Rightarrow> handle_ioctl env (ri_chunks inp) header body
      | CmdCancel \<Rightarrow> handle_cancel header
      | CmdEcho \<Rightarrow> handle_echo env header
      | CmdQueryDirectory \<Rightarrow> handle_query_directory env (ri_filetimes inp) header body
      | CmdChangeNotify \<Rightarrow> handle_change_notify
      | CmdQueryInfo \<Rightarrow> handle_query_info env (ri_filetimes inp) header body
      | CmdSetInfo \<Rightarrow> handle_set_info env (ri_readings inp) (ri_readings2 inp) header body
      | CmdOplockBreak \<Rightarrow> handle_oplock_break env header body
      | _ \<Rightarrow> others header body full_message)"

end
