(* ===== verification/Message_Layer_Spec.thy ===== *)
theory Message_Layer_Spec
  imports Message_Layer
begin

text \<open>
  What the message layer promises, for any command handlers: messages survive the framing however the
  stream is cut into reads, a combined response splits into the responses it was made of, signatures
  verify, a command is handled only after the session and tree checks, and a failure in a related
  compound stops the commands after it.
\<close>

section \<open>Frames\<close>

definition frame :: "bytes \<Rightarrow> bytes" where
  "frame m = nb_header (length m) @ m"

text \<open>The messages the loop takes out of a buffer, and what it leaves.\<close>

function messages_in :: "bytes \<Rightarrow> bytes list \<times> bytes" where
  "messages_in buf =
     (case try_parse_message buf of
        None \<Rightarrow> ([], buf)
      | Some (m, rest) \<Rightarrow> (let (ms, left) = messages_in rest in (m # ms, left)))"
  by pat_completeness auto
termination
  by (relation "measure length") (auto simp: try_parse_shorter)

declare messages_in.simps [simp del]

text \<open>Feeding the chunks that the socket delivers: each is appended to what is left, and the loop runs.\<close>

fun feed :: "bytes \<Rightarrow> bytes list \<Rightarrow> bytes list \<times> bytes" where
  "feed buf [] = ([], buf)"
| "feed buf (chunk # chunks) =
     (let (ms, left) = messages_in (buf @ chunk); (ms', left') = feed left chunks in (ms @ ms', left'))"

lemma nb_header_length:
  assumes "n < 2 ^ 24"
  shows "unat (nb_header n ! 1) * 2 ^ 16 + unat (nb_header n ! 2) * 2 ^ 8 + unat (nb_header n ! 3) = n"
proof -
  have d: "n div 65536 = n div 256 div 256" by (simp flip: div_mult2_eq)
  have "n div 65536 < 256" using assms by auto
  moreover have "n div 65536 * 65536 + n div 256 mod 256 * 256 + n mod 256 = n"
    using div_mult_mod_eq [of "n div 256" 256] div_mult_mod_eq [of n 256] unfolding d by linarith
  ultimately show ?thesis by (simp add: nb_header_def unat_of_nat)
qed

lemma length_nb_header [simp]: "length (nb_header n) = 4"
  by (simp add: nb_header_def)

lemma try_parse_frame:
  assumes "length m < 2 ^ 24"
  shows "try_parse_message (frame m @ rest) = Some (m, rest)"
proof -
  let ?b = "frame m @ rest"
  have "unat (?b ! 1) * 2 ^ 16 + unat (?b ! 2) * 2 ^ 8 + unat (?b ! 3) = length m"
    using nb_header_length [OF assms] by (simp add: frame_def nth_append)
  then show ?thesis
    unfolding try_parse_message_def Let_def by (simp add: frame_def slice_def)
qed

lemma try_parse_more:
  "try_parse_message buf = Some (m, rest) \<Longrightarrow> try_parse_message (buf @ tl_bytes) = Some (m, rest @ tl_bytes)"
  by (auto simp: try_parse_message_def Let_def nth_append slice_def split: if_splits)

lemma messages_in_append:
  "messages_in (buf @ tl_bytes) =
     (let (ms, left) = messages_in buf; (ms', left') = messages_in (left @ tl_bytes) in (ms @ ms', left'))"
proof (induction buf rule: messages_in.induct)
  case (1 buf)
  show ?case
  proof (cases "try_parse_message buf")
    case None
    then show ?thesis by (simp add: messages_in.simps [of buf])
  next
    case (Some mr)
    obtain m rest where mr: "mr = (m, rest)" by fastforce
    note p = Some [unfolded mr]
    show ?thesis
      using 1 [OF p refl] unfolding messages_in.simps [of buf] messages_in.simps [of "buf @ tl_bytes"]
        p try_parse_more [OF p]
      by (auto split: prod.splits)
  qed
qed

lemma messages_in_frames:
  "\<forall>m \<in> set ms. length m < 2 ^ 24 \<Longrightarrow> messages_in (concat (map frame ms)) = (ms, [])"
proof (induction ms)
  case Nil
  then show ?case by (simp add: messages_in.simps [of "[]"] try_parse_message_def)
next
  case (Cons m ms)
  then show ?case
    using try_parse_frame [of m "concat (map frame ms)"]
    by (simp add: messages_in.simps [of "frame m @ concat (map frame ms)"])
qed

lemma feed_messages: "messages_in buf = ([], buf) \<Longrightarrow> feed buf chunks = messages_in (buf @ concat chunks)"
proof (induction chunks arbitrary: buf)
  case (Cons c cs)
  obtain ms left where m: "messages_in (buf @ c) = (ms, left)" by fastforce
  have "messages_in left = ([], left)"
    using messages_in_append [of "buf @ c" "[]"] m by (auto split: prod.splits)
  from Cons.IH [OF this] show ?case
    using messages_in_append [of "buf @ c" "concat cs"] m by (simp split: prod.splits)
qed simp

text \<open>What the loop does with the messages of a buffer.\<close>

fun process_all ::
  "('s, 'x) handler_env \<Rightarrow> (nat \<Rightarrow> nat) \<Rightarrow> bytes list \<Rightarrow> ('s, 'x) ConnectionHandler \<Rightarrow> ('s, 'x) ConnectionHandler" where
  "process_all env clock [] ch = ch"
| "process_all env clock (m # ms) ch =
     (case process_and_respond env clock m ch of
        (Inl e, ch1) \<Rightarrow> ch1
      | (Inr _, ch1) \<Rightarrow> if is_disconnecting (ch_connection ch1) then ch1 else process_all env clock ms ch1)"

lemma drain_processes: "snd (drain env clock buf ch) = process_all env clock (fst (messages_in buf)) ch"
proof (induction buf arbitrary: ch rule: messages_in.induct)
  case (1 buf)
  show ?case
  proof (cases "try_parse_message buf")
    case None
    then show ?thesis by (simp add: messages_in.simps [of buf] drain.simps [of env clock buf])
  next
    case (Some mr)
    obtain m rest where mr: "mr = (m, rest)" by fastforce
    note p = Some [unfolded mr]
    show ?thesis
      using 1 [OF p refl] unfolding drain.simps [of env clock buf] messages_in.simps [of buf] p
      by (auto split: prod.splits sum.splits)
  qed
qed

section \<open>Signatures\<close>

definition verifies :: "mac_lib \<Rightarrow> ('s, 'x) ConnectionHandler \<Rightarrow> bytes \<Rightarrow> bool" where
  "verifies l ch m \<longleftrightarrow> (case hm_get (ch_signing_keys ch) (session_id_of m) of
     None \<Rightarrow> True
   | Some key \<Rightarrow> flags_of m AND SIGNED \<noteq> 0 \<longrightarrow>
       verify_request_signature l key (signing_dialect ch) m = Inr ())"

lemma compute_signature_ok:
  "mac_lib_ok l \<Longrightarrow> \<exists>tag. compute_signature l key d m = Inr tag \<and> length tag = 16"
proof -
  assume "mac_lib_ok l"
  let ?key = "take 16 key @ replicate (16 - length key) 0"
  have k: "length ?key = 16" by simp
  then obtain tag where "ml_cmac l ?key m = Inr tag" "length tag = 16"
    using \<open>mac_lib_ok l\<close> unfolding mac_lib_ok_def by blast
  with k show ?thesis
    by (simp add: compute_signature_def Let_def MessageSigner_new_def ms_sign_def sign_cmac_def)
qed

lemma write_signature_ok:
  assumes "mac_lib_ok l" "64 \<le> length m"
  obtains tag where "length tag = 16" "write_signature l key d m = Inr (put_slice 48 tag m)"
    "verify_request_signature l key d (put_slice 48 tag m) = Inr ()"
proof -
  obtain tag where t: "compute_signature l key d (put_slice 48 (replicate 16 0) m) = Inr tag" "length tag = 16"
    using compute_signature_ok [OF assms(1)] by blast
  have "put_slice 48 (replicate 16 0) (put_slice 48 tag m) = put_slice 48 (replicate 16 0) m"
    using assms(2) t(2) by (simp add: put_slice_put)
  then have "verify_request_signature l key d (put_slice 48 tag m) = Inr ()"
    using assms(2) t slice_put_same [of 48 tag m] by (simp add: verify_request_signature_def tag_diff_zero_iff)
  moreover have "write_signature l key d m = Inr (put_slice 48 tag m)"
    using assms(2) t by (simp add: write_signature_def put_slice_put)
  ultimately show ?thesis using that t(2) by blast
qed

lemma put_signature_fields:
  assumes "64 \<le> length m" "length tag = 16"
  shows "session_id_of (put_slice 48 tag m) = session_id_of m" "flags_of (put_slice 48 tag m) = flags_of m"
  using assms by (simp_all add: session_id_of_def flags_of_def slice_put_other)

text \<open>Signing again after a change of the header: only the signature field changes.\<close>

lemma re_sign_ok:
  assumes "mac_lib_ok l" "64 \<le> length m"
  obtains tag where "length tag = 16" "re_sign_response l ch m = Inr (put_slice 48 tag m)"
    "verifies l ch (put_slice 48 tag m)"
proof (cases "\<exists>key. hm_get (ch_signing_keys ch) (session_id_of m) = Some key \<and> flags_of m AND SIGNED \<noteq> 0")
  case True
  then obtain key where k: "hm_get (ch_signing_keys ch) (session_id_of m) = Some key" "flags_of m AND SIGNED \<noteq> 0"
    by blast
  from assms obtain tag where t: "length tag = 16"
    "write_signature l key (signing_dialect ch) m = Inr (put_slice 48 tag m)"
    "verify_request_signature l key (signing_dialect ch) (put_slice 48 tag m) = Inr ()"
    by (rule write_signature_ok)
  show ?thesis
    by (rule that [OF t(1)])
      (use assms(2) k t in \<open>simp_all add: re_sign_response_def verifies_def put_signature_fields\<close>)
next
  case False
  have "drop 64 m = drop 16 (drop 48 m)" by simp
  then have "put_slice 48 (slice 48 16 m) m = take 48 m @ take 16 (drop 48 m) @ drop 16 (drop 48 m)"
    using assms(2) by (simp add: put_slice_def slice_def)
  then have id: "put_slice 48 (slice 48 16 m) m = m" by (simp only: append_take_drop_id)
  show ?thesis
    by (rule that [of "slice 48 16 m"])
      (use assms(2) False id in \<open>auto simp: re_sign_response_def verifies_def split: option.split\<close>)
qed

section \<open>Combined responses\<close>

text \<open>Blocks that link to each other split at their boundaries.\<close>

fun block_offsets :: "nat \<Rightarrow> bytes list \<Rightarrow> nat list" where
  "block_offsets i [] = []"
| "block_offsets i (b # bs) = i # block_offsets (i + length b) bs"

definition next_field :: "bytes \<Rightarrow> nat" where
  "next_field b = unat (from_le (slice 20 4 b) :: u32)"

fun linked :: "bytes list \<Rightarrow> bool" where
  "linked [] \<longleftrightarrow> True"
| "linked (b # bs) \<longleftrightarrow> 64 \<le> length b \<and> next_field b = (if bs = [] then 0 else length b) \<and> linked bs"

lemma parse_linked:
  "linked bs \<Longrightarrow> bs \<noteq> [] \<Longrightarrow>
   parse_offsets_from (pre @ concat bs) (length pre) = block_offsets (length pre) bs"
proof (induction bs arbitrary: pre)
  case (Cons b bs)
  define d where "d = pre @ concat (b # bs)"
  have len: "length pre + 64 \<le> length d" using Cons.prems by (simp add: d_def)
  have "next_command_at d (length pre) = next_field b"
    using Cons.prems by (simp add: d_def next_command_at_def next_field_def slice_def)
  then have e: "parse_offsets_from d (length pre) =
      (if next_field b = 0 then [length pre] else length pre # parse_offsets_from d (length pre + next_field b))"
    using len unfolding parse_offsets_from.simps [of d "length pre"] Let_def by simp
  show ?case
  proof (cases "bs = []")
    case True
    then show ?thesis using Cons.prems e unfolding d_def [symmetric] by simp
  next
    case False
    then have "parse_offsets_from d (length (pre @ b)) = block_offsets (length (pre @ b)) bs"
      using Cons.IH [of "pre @ b"] Cons.prems by (simp add: d_def)
    moreover have "next_field b = length b" "next_field b \<noteq> 0" using Cons.prems False by auto
    ultimately show ?thesis using e unfolding d_def [symmetric] by simp
  qed
qed simp

text \<open>A response and its form in the combined message: flags, link and signature may differ.\<close>

definition same_content :: "bytes \<Rightarrow> bytes \<Rightarrow> bool" where
  "same_content p r \<longleftrightarrow> length p = length r \<and> take 16 p = take 16 r \<and> slice 24 24 p = slice 24 24 r \<and>
     drop 64 p = drop 64 r"

lemma same_content_refl: "same_content r r"
  by (simp add: same_content_def)

lemma same_content_put:
  assumes "64 \<le> length r" "same_content p r" "(i = 16 \<or> i = 20) \<and> length ys = 4 \<or> i = 48 \<and> length ys = 16"
  shows "same_content (put_slice i ys p) r"
proof -
  have l: "64 \<le> length p" using assms by (simp add: same_content_def)
  have "take 16 (put_slice i ys p) = take 16 p" "drop 64 (put_slice i ys p) = drop 64 p"
    using assms(3) l by (auto simp: put_slice_def)
  moreover have "slice 24 24 (put_slice i ys p) = slice 24 24 p"
    using assms(3) l by (intro slice_put_other) auto
  ultimately show ?thesis using assms(2,3) l by (auto simp: same_content_def)
qed

lemma link_response_ok:
  assumes "mac_lib_ok l" "64 \<le> length r" "length r + 8 < 2 ^ 32"
  obtains p where "link_response l ch related final r =
      Inr (p @ replicate (if final then 0 else compound_padding (length r)) 0)"
    "same_content p r" "(final \<longrightarrow> verifies l ch r) \<longrightarrow> verifies l ch p"
    "next_field p = (if final then 0 else length r + compound_padding (length r))"
proof -
  define r1 where "r1 = (if related then put_slice 16 (to_le (flags_of r OR RELATED_OPERATIONS)) r else r)"
  define pad where "pad = (if final then 0 else compound_padding (length r))"
  define unlinked where "unlinked \<longleftrightarrow> final \<and> (from_le (slice 20 4 r1) :: u32) = 0"
  define r2 where "r2 = (if \<not> final then put_slice 20 (to_le (of_nat (length r + pad) :: u32)) r1
    else if unlinked then r1 else put_slice 20 (to_le (0 :: u32)) r1)"
  have eq: "link_response l ch related final r =
      (case (if related \<or> \<not> unlinked then re_sign_response l ch r2 else Inr r2) of
         Inl e \<Rightarrow> Inl e | Inr r3 \<Rightarrow> Inr (r3 @ replicate pad 0))"
    unfolding link_response_def Let_def r1_def pad_def unlinked_def r2_def by (rule refl)
  have c1: "same_content r1 r" by (auto simp: r1_def intro!: same_content_put [OF assms(2)] same_content_refl)
  have c2: "same_content r2 r" using c1 by (auto simp: r2_def intro!: same_content_put [OF assms(2)])
  have l2: "64 \<le> length r2" using c2 assms(2) by (simp add: same_content_def)
  have pad: "pad < 8" by (simp add: pad_def compound_padding_def)
  have l1: "64 \<le> length r1" using c1 assms(2) by (simp add: same_content_def)
  have put: "from_le (slice 20 4 (put_slice 20 (to_le w) r1)) = w" for w :: u32
    using l1 slice_put_same [of 20 "to_le w" r1] by simp
  have "unat (of_nat (length r + pad) :: u32) = length r + pad"
    using assms(3) pad by (subst unat_of_nat) simp
  then have n2: "next_field r2 = (if final then 0 else length r + pad)"
    by (simp add: r2_def next_field_def put unlinked_def)
  show ?thesis
  proof (cases "related \<or> \<not> unlinked")
    case True
    from assms(1) l2 obtain tag where t: "length tag = 16" "re_sign_response l ch r2 = Inr (put_slice 48 tag r2)"
      "verifies l ch (put_slice 48 tag r2)" by (rule re_sign_ok)
    have "next_field (put_slice 48 tag r2) = next_field r2"
      using l2 t(1) by (simp add: next_field_def slice_put_other)
    then show ?thesis
      using that [of "put_slice 48 tag r2"] True eq t n2 same_content_put [OF assms(2) c2, of 48 tag]
      by (simp add: pad_def)
  next
    case False
    then have "r2 = r" by (auto simp: r1_def r2_def unlinked_def)
    then show ?thesis using that [of r] False eq n2 c2 by (simp add: pad_def unlinked_def)
  qed
qed

text \<open>The parts of a combined message, without and with their padding.\<close>

definition padding_after :: "bytes list \<Rightarrow> bytes \<Rightarrow> nat" where
  "padding_after rest r = (if rest = [] then 0 else compound_padding (length r))"

fun padded :: "bytes list \<Rightarrow> bytes list \<Rightarrow> bytes list" where
  "padded (p # ps) (r # rs) = (p @ replicate (padding_after rs r) 0) # padded ps rs"
| "padded _ _ = []"

lemma combine_from_parts:
  assumes "mac_lib_ok l" "\<forall>r \<in> set rs. 64 \<le> length r \<and> length r + 8 < 2 ^ 32"
  shows "\<exists>ps. combine_from l ch related rs = Inr (concat (padded ps rs)) \<and> list_all2 same_content ps rs \<and>
    (rs = [] \<or> verifies l ch (last rs) \<longrightarrow> list_all (verifies l ch) ps) \<and> linked (padded ps rs)"
  using assms(2)
proof (induction rs)
  case (Cons r rs)
  then obtain ps where ps: "combine_from l ch related rs = Inr (concat (padded ps rs))"
    "list_all2 same_content ps rs" "rs = [] \<or> verifies l ch (last rs) \<longrightarrow> list_all (verifies l ch) ps"
    "linked (padded ps rs)" by auto
  have r: "64 \<le> length r" "length r + 8 < 2 ^ 32" using Cons.prems by auto
  obtain p where p: "link_response l ch related (rs = []) r =
      Inr (p @ replicate (if rs = [] then 0 else compound_padding (length r)) 0)"
    "same_content p r" "(rs = [] \<longrightarrow> verifies l ch r) \<longrightarrow> verifies l ch p"
    "next_field p = (if rs = [] then 0 else length r + compound_padding (length r))"
    by (rule link_response_ok [OF assms(1) r, where related = related and final = "rs = []" and ch = ch])
  have l: "length p = length r" using p(2) by (simp add: same_content_def)
  have "padded ps rs = [] \<longleftrightarrow> rs = []" using ps(2) by (cases ps; cases rs) auto
  moreover have "next_field (p @ xs) = next_field p" for xs
    using l r(1) by (simp add: next_field_def slice_append_left)
  ultimately have "linked (padded (p # ps) (r # rs))"
    using p(4) ps(4) l r(1) by (simp add: padding_after_def)
  then show ?case
    using p ps r(1) by (intro exI [of _ "p # ps"]) (auto simp: padding_after_def)
qed (simp add: exI [of _ "[]"])

lemma block_offsets_aligned:
  "\<lbrakk>8 dvd i; list_all2 same_content ps rs\<rbrakk> \<Longrightarrow> \<forall>j \<in> set (block_offsets i (padded ps rs)). 8 dvd j"
proof (induction ps rs arbitrary: i rule: padded.induct)
  case (1 p ps r rs)
  have l: "length p = length r" using "1.prems" by (simp add: same_content_def)
  show ?case
  proof (cases "rs = []")
    case True
    then show ?thesis using "1.prems" by simp
  next
    case False
    have "8 dvd length r + compound_padding (length r)"
      using compound_padding_aligns [of "length r"] by blast
    then have "8 dvd i + (length p + padding_after rs r)"
      using "1.prems"(1) False l dvd_add by (simp add: padding_after_def)
    then have "\<forall>j \<in> set (block_offsets (i + (length p + padding_after rs r)) (padded ps rs)). 8 dvd j"
      using "1.prems"(2) by (intro "1.IH") simp_all
    then show ?thesis using "1.prems"(1) by simp
  qed
qed auto

lemma length_padded: "list_all2 same_content ps rs \<Longrightarrow> length (padded ps rs) = length rs"
  by (induction ps rs rule: padded.induct) auto

lemma length_block_offsets [simp]: "length (block_offsets i bs) = length bs"
  by (induction bs arbitrary: i) auto

lemma slice_block:
  "\<lbrakk>list_all2 same_content ps rs; i < length rs\<rbrakk> \<Longrightarrow>
   slice (block_offsets (length pre) (padded ps rs) ! i) (length (rs ! i)) (pre @ concat (padded ps rs)) = ps ! i"
proof (induction ps rs arbitrary: i pre rule: padded.induct)
  case (1 p ps r rs)
  have l: "length p = length r" using "1.prems" by (simp add: same_content_def)
  show ?case
  proof (cases i)
    case 0
    then show ?thesis by (simp add: slice_def l)
  next
    case (Suc k)
    let ?b = "p @ replicate (padding_after rs r) 0"
    show ?thesis
      using "1.IH" [of k "pre @ ?b"] "1.prems" Suc by simp
  qed
qed auto

section \<open>Compound requests\<close>

lemma same_content_status: "64 \<le> length r \<Longrightarrow> same_content p r \<Longrightarrow> slice 8 4 p = slice 8 4 r"
proof -
  assume "64 \<le> length r" "same_content p r"
  then have "slice 8 4 (take 16 p) = slice 8 4 (take 16 r)" by (simp add: same_content_def)
  then show ?thesis by (simp add: slice_def take_drop min_def)
qed

lemma maybe_sign_ok:
  assumes "mac_lib_ok l" "64 \<le> length r"
  obtains r' where "maybe_sign_response l ch r = Inr r'" "same_content r' r"
    "flags_of r AND SIGNED = 0 \<longrightarrow> verifies l ch r' \<and>
       (hm_get (ch_signing_keys ch) (session_id_of r) \<noteq> None \<longrightarrow>
         flags_of r' = flags_of r OR SIGNED \<and> session_id_of r' = session_id_of r)"
proof (cases "\<exists>key. hm_get (ch_signing_keys ch) (session_id_of r) = Some key \<and> flags_of r AND SIGNED = 0")
  case True
  then obtain key where k: "hm_get (ch_signing_keys ch) (session_id_of r) = Some key" "flags_of r AND SIGNED = 0"
    by blast
  let ?r = "put_slice 16 (to_le (flags_of r OR SIGNED)) r"
  have l: "64 \<le> length ?r" using assms(2) by simp
  from assms(1) l obtain tag where t: "length tag = 16"
    "write_signature l key (signing_dialect ch) ?r = Inr (put_slice 48 tag ?r)"
    "verify_request_signature l key (signing_dialect ch) (put_slice 48 tag ?r) = Inr ()"
    by (rule write_signature_ok)
  have f: "session_id_of (put_slice 48 tag ?r) = session_id_of r"
    "flags_of (put_slice 48 tag ?r) = flags_of r OR SIGNED"
    using l assms(2) t(1) slice_put_same [of 16 "to_le (flags_of r OR SIGNED)" r]
    by (simp_all add: put_signature_fields) (simp_all add: session_id_of_def flags_of_def slice_put_other)
  then have "verifies l ch (put_slice 48 tag ?r)" using k t(3) by (simp add: verifies_def)
  moreover have "same_content (put_slice 48 tag ?r) r"
    using t(1) by (auto intro!: same_content_put [OF assms(2)] same_content_refl)
  moreover have "maybe_sign_response l ch r = Inr (put_slice 48 tag ?r)"
    using assms(2) k t(2) by (simp add: maybe_sign_response_def)
  ultimately show ?thesis using that f by blast
next
  case False
  then have "maybe_sign_response l ch r = Inr r" "flags_of r AND SIGNED = 0 \<longrightarrow> verifies l ch r"
    using assms(2) by (auto simp: maybe_sign_response_def verifies_def split: option.split)
  then show ?thesis using that [of r] same_content_refl False by blast
qed

definition libs_ok :: "('s, 'x) handler_env \<Rightarrow> bool" where
  "libs_ok env \<longleftrightarrow> header_lib_ok (env_headers env) \<and> mac_lib_ok (env_macs env)"

lemma error_response_ok:
  assumes "header_lib_ok l"
  obtains r where "build_error_response_with_ids l h st sid tid = Inr r" "length r = 73"
    "slice 8 4 r = to_le (NtStatus_code st)" "flags_of r = SERVER_TO_REDIR"
proof -
  let ?h = "error_header h st sid tid"
  have wf: "header_wf ?h" by (simp add: header_wf_def error_header_def)
  let ?r = "header_bytes ?h @ to_le (9 :: u16) @ [0] @ [0] @ to_le (0 :: u32) @ [0]"
  have "slice 8 4 (header_bytes ?h) = to_le (NtStatus_code st)" "slice 16 4 (header_bytes ?h) = to_le SERVER_TO_REDIR"
    by (simp_all add: header_bytes_def slice_def error_header_def)
  then have "slice 8 4 ?r = to_le (NtStatus_code st)" "flags_of ?r = SERVER_TO_REDIR"
    using length_header_bytes [OF wf] by (simp_all add: slice_append_left flags_of_def)
  moreover have "build_error_response_with_ids l h st sid tid = Inr ?r"
    using assms by (simp add: build_error_response_with_ids_def header_lib_ok_def)
  ultimately show ?thesis using that [of ?r] length_header_bytes [OF wf] by simp
qed

text \<open>An error is always answered, with its status, and changes nothing else.\<close>

lemma push_error_ok:
  assumes "libs_ok env"
  obtains r where "push_error env h st le acc ch =
      (Inr \<lparr> ca_ctx = advance (CompoundResult_failure (NtStatus_code st)) (ca_ctx acc),
             ca_responses = ca_responses acc @ [r], ca_last_error = le \<rparr>, ch)"
    "length r = 73" "slice 8 4 r = to_le (NtStatus_code st)"
proof -
  obtain r0 where r0: "build_error_response_with_ids (env_headers env) h st (sh_session_id h) (sh_tree_id h) = Inr r0"
    "length r0 = 73" "slice 8 4 r0 = to_le (NtStatus_code st)" "flags_of r0 = SERVER_TO_REDIR"
    using assms unfolding libs_ok_def by (blast elim: error_response_ok)
  obtain r where r: "maybe_sign_response (env_macs env) ch r0 = Inr r" "same_content r r0"
    by (rule maybe_sign_ok [of "env_macs env" r0 ch]) (use assms r0 in \<open>auto simp: libs_ok_def\<close>)
  show ?thesis
    by (rule that [of r]) (use r r0 same_content_status [OF _ r(2)] in \<open>auto simp: push_error_def same_content_def\<close>)
qed

text \<open>One command of a related compound after a failed one.\<close>

lemma failed_step:
  assumes "libs_ok env" "ca_last_error acc = Some st" "0 < i"
  shows "(\<exists>e. compound_step env now True i cmd acc ch = (Inl e, ch)) \<or>
    (\<exists>acc' r st'. compound_step env now True i cmd acc ch = (Inr acc', ch) \<and>
       ca_responses acc' = ca_responses acc @ [r] \<and> ca_last_error acc' = Some st' \<and>
       st' \<in> {st, NtInvalidParameter} \<and> slice 8 4 r = to_le (NtStatus_code st'))"
proof (cases "hl_read (env_headers env) cmd")
  case (Inl e)
  obtain r where "push_error env (err_header (ca_ctx acc)) NtInvalidParameter (Some NtInvalidParameter) acc ch =
      (Inr \<lparr> ca_ctx = advance (CompoundResult_failure (NtStatus_code NtInvalidParameter)) (ca_ctx acc),
             ca_responses = ca_responses acc @ [r], ca_last_error = Some NtInvalidParameter \<rparr>, ch)"
    "slice 8 4 r = to_le (NtStatus_code NtInvalidParameter)"
    by (rule push_error_ok [OF assms(1)])
  then show ?thesis using Inl by (simp add: compound_step_def)
next
  case (Inr h)
  show ?thesis
  proof (cases "resolve_related_header h (ca_ctx acc)")
    case (Inl e)
    then show ?thesis using Inr assms(3) by (simp add: compound_step_def)
  next
    case h': (Inr h')
    obtain r where "push_error env h' st (Some st) acc ch =
        (Inr \<lparr> ca_ctx = advance (CompoundResult_failure (NtStatus_code st)) (ca_ctx acc),
               ca_responses = ca_responses acc @ [r], ca_last_error = Some st \<rparr>, ch)"
      "slice 8 4 r = to_le (NtStatus_code st)"
      by (rule push_error_ok [OF assms(1)])
    then show ?thesis using Inr h' assms(2,3) by (simp add: compound_step_def)
  qed
qed

lemma failed_loop:
  assumes "libs_ok env"
  shows "\<lbrakk>ca_last_error acc = Some st; 0 < i; compound_loop env clock True message i offsets acc ch = (r, ch')\<rbrakk> \<Longrightarrow>
    ch' = ch \<and> (\<forall>acc'. r = Inr acc' \<longrightarrow> (\<exists>rs. ca_responses acc' = ca_responses acc @ rs \<and>
      length rs = length offsets \<and>
      (\<forall>x \<in> set rs. slice 8 4 x \<in> {to_le (NtStatus_code st), to_le (NtStatus_code NtInvalidParameter)})))"
proof (induction offsets arbitrary: i acc st)
  case Nil
  then show ?case by (auto simp: op_simps)
next
  case (Cons off rest)
  let ?cmd = "slice off ((case rest of [] \<Rightarrow> length message | next # _ \<Rightarrow> next) - off) message"
  have eq: "op_bind (compound_step env (clock i) True i ?cmd acc)
      (compound_loop env clock True message (Suc i) rest) ch = (r, ch')"
    using Cons.prems(3) by (simp add: Let_def)
  from failed_step [OF assms Cons.prems(1,2), of "clock i" ?cmd ch] show ?case
  proof (elim disjE exE conjE)
    fix e assume "compound_step env (clock i) True i ?cmd acc ch = (Inl e, ch)"
    then show ?thesis using eq by (auto simp: op_simps)
  next
    fix acc1 x st'
    assume s: "compound_step env (clock i) True i ?cmd acc ch = (Inr acc1, ch)"
      "ca_responses acc1 = ca_responses acc @ [x]" "ca_last_error acc1 = Some st'"
      "st' \<in> {st, NtInvalidParameter}" "slice 8 4 x = to_le (NtStatus_code st')"
    have "compound_loop env clock True message (Suc i) rest acc1 ch = (r, ch')"
      using eq s(1) by (simp add: op_simps)
    from Cons.IH [OF s(3) _ this] have ih: "ch' = ch" "\<forall>acc'. r = Inr acc' \<longrightarrow>
        (\<exists>rs. ca_responses acc' = ca_responses acc1 @ rs \<and> length rs = length rest \<and>
          (\<forall>x \<in> set rs. slice 8 4 x \<in> {to_le (NtStatus_code st'), to_le (NtStatus_code NtInvalidParameter)}))"
      by simp_all
    show ?thesis
    proof (intro conjI allI impI)
      fix acc' assume "r = Inr acc'"
      with ih(2) obtain rs where rs: "ca_responses acc' = ca_responses acc1 @ rs" "length rs = length rest"
        "\<forall>x \<in> set rs. slice 8 4 x \<in> {to_le (NtStatus_code st'), to_le (NtStatus_code NtInvalidParameter)}" by blast
      then show "\<exists>rs. ca_responses acc' = ca_responses acc @ rs \<and> length rs = length (off # rest) \<and>
          (\<forall>x \<in> set rs. slice 8 4 x \<in> {to_le (NtStatus_code st), to_le (NtStatus_code NtInvalidParameter)})"
        using s by (intro exI [of _ "x # rs"]) auto
    qed (rule ih(1))
  qed
qed

text \<open>One response is collected per command.\<close>

lemma step_pushes_one:
  "compound_step env now related i cmd acc ch = (Inr acc', ch') \<Longrightarrow>
   \<exists>r. ca_responses acc' = ca_responses acc @ [r]"
  by (auto simp: compound_step_def push_error_def push_success_def Let_def
      split: sum.splits option.splits prod.splits if_splits)

lemma loop_pushes_all:
  "compound_loop env clock related message i offsets acc ch = (Inr acc', ch') \<Longrightarrow>
   length (ca_responses acc') = length (ca_responses acc) + length offsets"
proof (induction offsets arbitrary: i acc ch)
  case (Cons off rest)
  let ?cmd = "slice off ((case rest of [] \<Rightarrow> length message | next # _ \<Rightarrow> next) - off) message"
  obtain acc1 ch1 where s: "compound_step env (clock i) related i ?cmd acc ch = (Inr acc1, ch1)"
    "compound_loop env clock related message (Suc i) rest acc1 ch1 = (Inr acc', ch')"
    using Cons.prems by (auto simp: Let_def op_simps split: prod.splits sum.splits)
  from step_pushes_one [OF s(1)] Cons.IH [OF s(2)] show ?case by auto
qed (simp add: op_simps)

text \<open>
  When the first command of a related compound fails, no session has been recorded for the chain, and
  a second command that names it by the sentinel makes the whole request fail.
\<close>

lemma failed_first_command_aborts:
  assumes "ctx_session_id (ca_ctx acc) = None" "ctx_related (ca_ctx acc)" "\<not> is_first (ca_ctx acc)"
    and "hl_read (env_headers env) cmd = Inr h" "sh_session_id h = - 1" "0 < i"
  shows "compound_step env now True i cmd acc ch = (Inl (HeStatus NtInvalidParameter), ch)"
  using assms by (simp add: compound_step_def resolve_related_header_def resolve_session_id_def)

section \<open>Dispatch over the in-memory store\<close>

text \<open>What has been checked when a request reaches its handler.\<close>

definition admitted :: "Smb2Header \<Rightarrow> (MemoryStateStore, 'x) ConnectionHandler \<Rightarrow> bool" where
  "admitted h ch \<longleftrightarrow>
     (dispatch_requires_session (sh_command h) \<and> sh_session_id h \<noteq> 0 \<longrightarrow>
        has_session (ch_connection ch) (sh_session_id h) \<and>
        hm_get (mem_sessions (ch_store ch)) (sh_session_id h) \<noteq> None) \<and>
     (dispatch_requires_tree (sh_command h) \<longrightarrow>
        hm_get (mem_trees (ch_store ch)) (sh_session_id h, sh_tree_id h) \<noteq> None)"

lemma dispatch_checks:
  assumes "env_store env = memory_store"
  shows "admitted h ch \<and> dispatch_command env now h body m ch = env_handle env h body m ch \<or>
    \<not> admitted h ch \<and>
    (dispatch_command env now h body m ch = (Inl (HeStatus NtUserSessionDeleted), ch) \<or>
     dispatch_command env now h body m ch = (Inl (HeStatus NtUserSessionDeleted),
       ch\<lparr> ch_connection := remove_session now (sh_session_id h) (ch_connection ch) \<rparr>) \<or>
     dispatch_command env now h body m ch = (Inl (HeStatus NtNetworkNameDeleted), ch))"
  using assms
  by (auto simp: dispatch_command_def check_session_def check_tree_def with_store_def sm_get_session_def
      sm_get_tree_def memory_store_def mem_get_session_def mem_get_tree_def op_simps Let_def admitted_def)

lemma dispatch_agree:
  assumes "env_store env = memory_store"
    and "\<And>h body m ch. admitted h ch \<Longrightarrow> handle h body m ch = env_handle env h body m ch"
  shows "dispatch_command (env\<lparr> env_handle := handle \<rparr>) now h body m ch = dispatch_command env now h body m ch"
  using assms
  by (simp add: dispatch_command_def check_session_def check_tree_def with_store_def sm_get_session_def
      sm_get_tree_def memory_store_def mem_get_session_def mem_get_tree_def op_simps Let_def admitted_def)

lemma compound_loop_agree:
  assumes "\<And>now h body m ch. dispatch_command env' now h body m ch = dispatch_command env now h body m ch"
    and "env_headers env' = env_headers env" "env_macs env' = env_macs env"
  shows "compound_loop env' clock related message i offsets acc ch =
    compound_loop env clock related message i offsets acc ch"
proof (induction offsets arbitrary: i acc ch)
  case (Cons off rest)
  have "dispatch_command env' = dispatch_command env" by (intro ext assms(1))
  then have d: "dispatch_command_compound env' = dispatch_command_compound env"
    by (intro ext, unfold dispatch_command_compound_def) simp
  have p: "push_error env' = push_error env"
    by (intro ext, unfold push_error_def assms(2,3)) (rule refl)
  have q: "push_success env' = push_success env"
    by (intro ext, unfold push_success_def assms(2,3)) (rule refl)
  have "compound_step env' = compound_step env"
    by (intro ext, unfold compound_step_def assms(2,3) d p q) (rule refl)
  then show ?case using Cons by (simp add: op_bind_def Let_def split: prod.split sum.split)
qed simp

lemma process_agree:
  assumes "\<And>now h body m ch. dispatch_command env' now h body m ch = dispatch_command env now h body m ch"
    and "env_headers env' = env_headers env" "env_macs env' = env_macs env"
  shows "process_and_respond env' clock message ch = process_and_respond env clock message ch"
proof -
  have d: "dispatch_command env' = dispatch_command env" by (intro ext assms(1))
  have s: "process_single_message env' = process_single_message env"
    by (intro ext, unfold process_single_message_def d assms(2,3)) (rule refl)
  have l: "compound_loop env' = compound_loop env" by (intro ext compound_loop_agree assms)
  have c: "process_compound_request env' = process_compound_request env"
    by (intro ext, unfold process_compound_request_def s l assms(2,3)) (rule refl)
  have "process_message env' = process_message env"
    by (intro ext, unfold process_message_def s c assms(2,3)) (rule refl)
  then show ?thesis unfolding process_and_respond_def assms(2,3) by simp
qed

section \<open>Instances\<close>

text \<open>A keyed tag, a handler that answers with a bare success header, and a connection with a
  signing key.\<close>

definition demo_macs :: mac_lib where
  "demo_macs = \<lparr> ml_cmac = (\<lambda>key m. Inr (replicate 16 (sum_list key + sum_list m))),
                 ml_gmac = (\<lambda>key m. Inr (replicate 16 (sum_list key + sum_list m))) \<rparr>"

definition demo_env :: "(MemoryStateStore, unit) handler_env" where
  "demo_env = \<lparr> env_headers = le_header_lib, env_macs = demo_macs, env_store = memory_store,
     env_handle = (\<lambda>header _ _ ch. let (h, ch') = build_response_header header NtSuccess ch in (Inr (header_bytes h), ch')) \<rparr>"

definition demo_ch :: "(MemoryStateStore, unit) ConnectionHandler" where
  "demo_ch = \<lparr> ch_stream = [], ch_write_error = None, ch_connection = Connection_with_config 0 1 [] ConnectionConfig_default, ch_store = demo_store,
     ch_signing_keys = [(7, [1, 2, 3])], ch_rest = () \<rparr>"

definition demo_response :: bytes where
  "demo_response = header_bytes (error_header Smb2Header_default NtAccessDenied 7 1)"

lemma demo_macs_ok: "mac_lib_ok demo_macs"
  by (simp add: mac_lib_ok_def demo_macs_def)

lemma demo_libs_ok: "libs_ok demo_env"
  by (simp add: libs_ok_def demo_env_def demo_macs_ok le_header_lib_ok)

lemma demo_response_fields: "length demo_response = 64" "session_id_of demo_response = 7"
  "flags_of demo_response = SERVER_TO_REDIR"
  by (simp_all add: demo_response_def header_bytes_def error_header_def session_id_of_def flags_of_def slice_def)

section \<open>Properties\<close>





text \<open>C24. Signing and verification fit together: a response of a session with a signing key leaves
  with the signed flag, otherwise unchanged but for its signature, and verifies under that key; and
  verification accepts exactly the messages that carry the tag computed over them with the signature
  field cleared.\<close>

theorem signed_responses_verify:
  assumes "mac_lib_ok l" "64 \<le> length r" "flags_of r AND SIGNED = 0"
    and "hm_get (ch_signing_keys ch) (session_id_of r) = Some key"
  shows "(\<exists>r'. maybe_sign_response l ch r = Inr r' \<and> same_content r' r \<and> flags_of r' = flags_of r OR SIGNED \<and>
      verify_request_signature l key (signing_dialect ch) r' = Inr ()) \<and>
    (\<forall>m. 64 \<le> length m \<longrightarrow> (verify_request_signature l key d m = Inr () \<longleftrightarrow>
      compute_signature l key d (put_slice 48 (replicate 16 0) m) = Inr (slice 48 16 m)))"
proof (intro conjI allI impI)
  obtain r' where r': "maybe_sign_response l ch r = Inr r'" "same_content r' r" "verifies l ch r'"
    "flags_of r' = flags_of r OR SIGNED" "session_id_of r' = session_id_of r"
    using maybe_sign_ok [OF assms(1,2), of ch] assms(3,4) by (metis option.distinct(1))
  have "(flags_of r OR SIGNED) AND SIGNED = SIGNED" by (auto simp: bit_eq_iff bit_simps)
  then have "(flags_of r OR SIGNED) AND SIGNED \<noteq> 0" by simp
  then have "verify_request_signature l key (signing_dialect ch) r' = Inr ()"
    using r'(3) by (simp add: verifies_def r'(4,5) assms(4))
  with r' show "\<exists>r'. maybe_sign_response l ch r = Inr r' \<and> same_content r' r \<and> flags_of r' = flags_of r OR SIGNED \<and>
      verify_request_signature l key (signing_dialect ch) r' = Inr ()" by blast
next
  fix m :: bytes assume m: "64 \<le> length m"
  obtain tag where t: "compute_signature l key d (put_slice 48 (replicate 16 0) m) = Inr tag" "length tag = 16"
    using compute_signature_ok [OF assms(1)] by blast
  have "length (slice 48 16 m) = 16" using m by (simp add: slice_def)
  then show "verify_request_signature l key d m = Inr () \<longleftrightarrow>
      compute_signature l key d (put_slice 48 (replicate 16 0) m) = Inr (slice 48 16 m)"
    using m t by (simp add: verify_request_signature_def tag_diff_zero_iff)
qed

theorem signed_responses_verify_witness:
  "\<exists>r'. maybe_sign_response demo_macs demo_ch demo_response = Inr r' \<and>
     verify_request_signature demo_macs [1, 2, 3] (signing_dialect demo_ch) r' = Inr ()"
  using signed_responses_verify [OF demo_macs_ok, of demo_response demo_ch "[1, 2, 3]"] demo_response_fields
  by (auto simp: demo_ch_def)





end
