(* ===== verification/Memory_Backend.thy ===== *)
theory Memory_Backend
  imports Vfs_Types Paths "HOL-Library.Multiset"
begin

text \<open>
  \<open>crates/rustsmb-backend-memory/src/lib.rs\<close>: the in-memory filesystem. A method is one transition;
  each takes the lock of the tree once for its update. The loops that walk down \<open>&mut\<close> references are
  \<open>descend\<close>: they run an update at the node they reach and rebuild the path above it.
  \<open>Vec\<close> panics when asked for more than \<open>isize::MAX\<close> bytes, which \<open>write\<close> and \<open>truncate\<close> can do.
\<close>

section \<open>The tree\<close>

record NodeMetadata =
  nm_mode :: u32
  nm_uid :: u32
  nm_gid :: u32
  nm_nlink :: u32
  nm_ino :: u64
  nm_atime :: nat
  nm_mtime :: nat
  nm_ctime :: nat
  nm_crtime :: nat

definition NodeMetadata_new :: "nat \<Rightarrow> u32 \<Rightarrow> u64 \<Rightarrow> NodeMetadata" where
  "NodeMetadata_new now mode ino = \<lparr> nm_mode = mode, nm_uid = 0, nm_gid = 0, nm_nlink = 1,
     nm_ino = ino, nm_atime = now, nm_mtime = now, nm_ctime = now, nm_crtime = now \<rparr>"

type_synonym xattr_map = "(string, bytes) hash_map"

datatype MemoryNode =
    FileNode bytes NodeMetadata xattr_map
  | DirNode "(string \<times> MemoryNode) list" NodeMetadata xattr_map
  | LinkNode string NodeMetadata

fun node_file_type :: "MemoryNode \<Rightarrow> FileType" where
  "node_file_type (FileNode _ _ _) = FtRegular"
| "node_file_type (DirNode _ _ _) = FtDirectory"
| "node_file_type (LinkNode _ _) = FtSymlink"

fun node_size :: "MemoryNode \<Rightarrow> nat" where
  "node_size (FileNode content _ _) = length content"
| "node_size (DirNode children _ _) = length children"
| "node_size (LinkNode target _) = length target"

fun node_metadata :: "MemoryNode \<Rightarrow> NodeMetadata" where
  "node_metadata (FileNode _ m _) = m"
| "node_metadata (DirNode _ m _) = m"
| "node_metadata (LinkNode _ m) = m"

fun map_metadata :: "(NodeMetadata \<Rightarrow> NodeMetadata) \<Rightarrow> MemoryNode \<Rightarrow> MemoryNode" where
  "map_metadata f (FileNode c m x) = FileNode c (f m) x"
| "map_metadata f (DirNode c m x) = DirNode c (f m) x"
| "map_metadata f (LinkNode t m) = LinkNode t (f m)"

definition to_vfs_metadata :: "MemoryNode \<Rightarrow> Metadata" where
  "to_vfs_metadata n =
     (let meta = node_metadata n in
      \<lparr> md_file_type = node_file_type n, md_size = of_nat (node_size n),
        md_blocks = of_nat ((node_size n + 4095) div 4096), md_block_size = 4096,
        md_mode = nm_mode meta, md_uid = nm_uid meta, md_gid = nm_gid meta,
        md_nlink = nm_nlink meta, md_rdev = 0, md_ino = nm_ino meta, md_atime = nm_atime meta,
        md_mtime = nm_mtime meta, md_ctime = nm_ctime meta, md_crtime = Some (nm_crtime meta) \<rparr>)"

fun node_xattrs :: "MemoryNode \<Rightarrow> xattr_map option" where
  "node_xattrs (FileNode _ _ x) = Some x"
| "node_xattrs (DirNode _ _ x) = Some x"
| "node_xattrs (LinkNode _ _) = None"

fun set_xattrs :: "xattr_map \<Rightarrow> MemoryNode \<Rightarrow> MemoryNode" where
  "set_xattrs x (FileNode c m _) = FileNode c m x"
| "set_xattrs x (DirNode c m _) = DirNode c m x"
| "set_xattrs x (LinkNode t m) = LinkNode t m"

section \<open>The backend\<close>

record OpenFileInfo =
  ofi_path :: string
  ofi_ref_count :: u32

record MemoryBackend =
  mb_root :: MemoryNode
  mb_open_files :: "(u64, OpenFileInfo) hash_map"
  mb_inode_counter :: u64
  mb_locks :: "(u64, FileLock list) hash_map"
  mb_handle_counter :: u64

definition MemoryBackend_new :: "nat \<Rightarrow> MemoryBackend" where
  "MemoryBackend_new now = \<lparr> mb_root = DirNode [] (NodeMetadata_new now 493 1) [],
     mb_open_files = [], mb_inode_counter = 2, mb_locks = [], mb_handle_counter = 1 \<rparr>"

type_synonym 'a mb_op = "(MemoryBackend, 'a) vfs_op"

text \<open>Walking down to a node, and updating the node reached.\<close>

fun walk :: "string \<Rightarrow> string list \<Rightarrow> MemoryNode \<Rightarrow> VfsError + MemoryNode" where
  "walk path [] current = Inr current"
| "walk path (component # rest) current =
     (case current of
        DirNode children _ _ \<Rightarrow>
          (case hm_get children component of
             None \<Rightarrow> Inl (VfsNotFound path)
           | Some n \<Rightarrow> walk path rest n)
      | _ \<Rightarrow> Inl (VfsNotADirectory path))"

fun descend :: "string \<Rightarrow> string list \<Rightarrow> (MemoryNode \<Rightarrow> VfsError + 'r \<times> MemoryNode) \<Rightarrow> MemoryNode
    \<Rightarrow> VfsError + 'r \<times> MemoryNode" where
  "descend path [] f current = f current"
| "descend path (component # rest) f current =
     (case current of
        DirNode children m x \<Rightarrow>
          (case hm_get children component of
             None \<Rightarrow> Inl (VfsNotFound path)
           | Some n \<Rightarrow>
               (case descend path rest f n of
                  Inl e \<Rightarrow> Inl e
                | Inr (r, n') \<Rightarrow> Inr (r, DirNode (hm_insert component n' children) m x)))
      | _ \<Rightarrow> Inl (VfsNotADirectory path))"

definition mb_get_node :: "string \<Rightarrow> MemoryNode mb_op" where
  "mb_get_node path0 s =
     (let path = normalize_path path0 in
      if path = [] then (Inr (mb_root s), s)
      else case walk path (split_slash path) (mb_root s) of
             Inl e \<Rightarrow> (Inl (Vfs e), s)
           | Inr n \<Rightarrow> (Inr n, s))"

text \<open>\<open>at_node\<close>: the node at a normalised path, as a mutable reference.\<close>

definition at_node ::
  "string \<Rightarrow> (MemoryNode \<Rightarrow> VfsError + 'r \<times> MemoryNode) \<Rightarrow> 'r mb_op" where
  "at_node path f s =
     (case (if path = [] then f (mb_root s) else descend path (split_slash path) f (mb_root s)) of
        Inl e \<Rightarrow> (Inl (Vfs e), s)
      | Inr (r, root') \<Rightarrow> (Inr r, s\<lparr> mb_root := root' \<rparr>))"

text \<open>The children of the node, which must be a directory.\<close>

definition in_children ::
  "string \<Rightarrow> ((string, MemoryNode) hash_map \<Rightarrow> VfsError + 'r \<times> (string, MemoryNode) hash_map)
     \<Rightarrow> MemoryNode \<Rightarrow> VfsError + 'r \<times> MemoryNode" where
  "in_children parent_path g parent =
     (case parent of
        DirNode children m x \<Rightarrow>
          (case g children of Inl e \<Rightarrow> Inl e | Inr (r, c') \<Rightarrow> Inr (r, DirNode c' m x))
      | _ \<Rightarrow> Inl (VfsNotADirectory parent_path))"

definition at_children ::
  "string \<Rightarrow> ((string, MemoryNode) hash_map \<Rightarrow> VfsError + 'r \<times> (string, MemoryNode) hash_map)
     \<Rightarrow> 'r mb_op" where
  "at_children parent_path g = at_node parent_path (in_children parent_path g)"

definition new_handle :: "u64 \<Rightarrow> FileHandle mb_op" where
  "new_handle node_id s =
     (Inr (FileHandle_with_backend_id (mb_handle_counter s) 0 0 (Some node_id)),
      s\<lparr> mb_handle_counter := mb_handle_counter s + 1 \<rparr>)"

definition track_open :: "u64 \<Rightarrow> string \<Rightarrow> MemoryBackend \<Rightarrow> MemoryBackend" where
  "track_open node_id path s =
     s\<lparr> mb_open_files :=
          (case hm_get (mb_open_files s) node_id of
             Some info \<Rightarrow> hm_insert node_id (info\<lparr> ofi_ref_count := ofi_ref_count info + 1 \<rparr>) (mb_open_files s)
           | None \<Rightarrow> hm_insert node_id \<lparr> ofi_path = path, ofi_ref_count = 1 \<rparr> (mb_open_files s)) \<rparr>"

section \<open>Directories\<close>

definition mb_mkdir :: "(nat \<Rightarrow> nat) \<Rightarrow> string \<Rightarrow> u32 \<Rightarrow> unit mb_op" where
  "mb_mkdir clock path0 mode s =
     (let path = normalize_path path0 in
      if path = [] then (Inl (Vfs (VfsAlreadyExists ''/'')), s)
      else case split_path path of
             None \<Rightarrow> (Inl (Vfs (VfsInvalidPath path)), s)
           | Some (parent, dirname) \<Rightarrow>
               let parent_path = normalize_path parent; ino = mb_inode_counter s in
               case at_children parent_path (\<lambda>children.
                      if hm_contains children dirname then Inl (VfsAlreadyExists path)
                      else Inr ((), hm_insert dirname
                             (DirNode [] (NodeMetadata_new (clock 0) mode ino) []) children)) s of
                 (Inl e, s1) \<Rightarrow> (Inl e, s1)
               | (Inr _, s1) \<Rightarrow> (Inr (), s1\<lparr> mb_inode_counter := ino + 1 \<rparr>))"

definition mb_rmdir :: "string \<Rightarrow> unit mb_op" where
  "mb_rmdir path0 s =
     (let path = normalize_path path0 in
      if path = [] then (Inl (Vfs (VfsInvalidPath ''Cannot remove root'')), s)
      else case split_path path of
             None \<Rightarrow> (Inl (Vfs (VfsInvalidPath path)), s)
           | Some (parent, dirname) \<Rightarrow>
               at_children (normalize_path parent) (\<lambda>children.
                 case hm_get children dirname of
                   None \<Rightarrow> Inl (VfsNotFound path)
                 | Some (DirNode dir_children _ _) \<Rightarrow>
                     if dir_children \<noteq> [] then Inl (VfsDirectoryNotEmpty path)
                     else Inr ((), hm_remove dirname children)
                 | Some _ \<Rightarrow> Inl (VfsNotADirectory path)) s)"

definition mb_readdir :: "string \<Rightarrow> DirEntry list mb_op" where
  "mb_readdir path = op_bind (mb_get_node path) (\<lambda>node.
     case node of
       DirNode children _ _ \<Rightarrow>
         op_return (map (\<lambda>(name, child). \<lparr> de_name = name, de_metadata = to_vfs_metadata child \<rparr>) children)
     | _ \<Rightarrow> op_throw (Vfs (VfsNotADirectory (normalize_path path))))"

section \<open>Opening and closing\<close>

definition open_directory :: "(nat \<Rightarrow> nat) \<Rightarrow> string \<Rightarrow> OpenFlags \<Rightarrow> FileHandle mb_op" where
  "open_directory clock path flags s =
     (case mb_get_node path s of
        (Inr node, _) \<Rightarrow>
          (case node of
             DirNode _ m _ \<Rightarrow>
               if is_create flags \<and> is_excl flags then (Inl (Vfs (VfsAlreadyExists path)), s)
               else new_handle (nm_ino m) (track_open (nm_ino m) path s)
           | _ \<Rightarrow> (Inl (Vfs (VfsNotADirectory path)), s))
      | (Inl e, _) \<Rightarrow>
          (case e of
             Vfs (VfsNotFound _) \<Rightarrow>
               if is_create flags then
                 op_bind (mb_mkdir clock path 493) (\<lambda>_.
                 op_bind (mb_get_node path) (\<lambda>node s2.
                   let node_id = nm_ino (node_metadata node) in
                   new_handle node_id (s2\<lparr> mb_open_files := hm_insert node_id
                     \<lparr> ofi_path = path, ofi_ref_count = 1 \<rparr> (mb_open_files s2) \<rparr>))) s
               else (Inl e, s)
           | _ \<Rightarrow> (Inl e, s)))"

text \<open>What \<open>open\<close> does with the entry for the file: the inode, and whether it is a new one.\<close>

definition open_entry ::
  "(nat \<Rightarrow> nat) \<Rightarrow> string \<Rightarrow> string \<Rightarrow> OpenFlags \<Rightarrow> u64 \<Rightarrow> (string, MemoryNode) hash_map
     \<Rightarrow> VfsError + (u64 \<times> bool) \<times> (string, MemoryNode) hash_map" where
  "open_entry clock path filename flags ino children =
     (case hm_get children filename of
        Some node \<Rightarrow>
          if is_create flags \<and> is_excl flags then Inl (VfsAlreadyExists path)
          else (case node of
             DirNode _ _ _ \<Rightarrow> Inl (VfsIsADirectory path)
           | FileNode content m x \<Rightarrow>
               Inr ((nm_ino m, False),
                    if is_trunc flags
                    then hm_insert filename
                           (FileNode [] (m\<lparr> nm_mtime := clock 0, nm_ctime := clock 1 \<rparr>) x) children
                    else children)
           | LinkNode _ m \<Rightarrow> Inr ((nm_ino m, False), children))
      | None \<Rightarrow>
          if is_create flags
          then Inr ((ino, True), hm_insert filename
                 (FileNode [] (NodeMetadata_new (clock 0) 420 ino) []) children)
          else Inl (VfsNotFound path))"

definition mb_open :: "(nat \<Rightarrow> nat) \<Rightarrow> string \<Rightarrow> CreateParams \<Rightarrow> FileHandle mb_op" where
  "mb_open clock path0 params s =
     (let path = normalize_path path0; flags = to_open_flags params in
      if is_directory flags then open_directory clock path flags s
      else case split_path path of
             None \<Rightarrow> (Inl (Vfs (VfsInvalidPath ''Cannot open root as file'')), s)
           | Some (parent, filename) \<Rightarrow>
               let parent_path = normalize_path parent in
               case at_children parent_path (open_entry clock path filename flags (mb_inode_counter s)) s of
                 (Inl e, s1) \<Rightarrow> (Inl e, s1)
               | (Inr (node_id, created), s1) \<Rightarrow>
                   let s2 = (if created then s1\<lparr> mb_inode_counter := mb_inode_counter s1 + 1 \<rparr> else s1)
                   in new_handle node_id (track_open node_id path s2))"

text \<open>\<open>handle.backend_internal_id.ok_or(..)?\<close> and the look-up of the open file.\<close>

definition open_path :: "FileHandle \<Rightarrow> string mb_op" where
  "open_path handle = op_bind (ok_or (Vfs VfsInvalidHandle) (fh_backend_internal_id handle)) (\<lambda>node_id s.
     case hm_get (mb_open_files s) node_id of
       None \<Rightarrow> (Inl (Vfs VfsInvalidHandle), s)
     | Some info \<Rightarrow> (Inr (ofi_path info), s))"

definition mb_close :: "FileHandle \<Rightarrow> unit mb_op" where
  "mb_close handle = op_bind (ok_or (Vfs VfsInvalidHandle) (fh_backend_internal_id handle)) (\<lambda>node_id s.
     let s1 = (case hm_get (mb_open_files s) node_id of
                 None \<Rightarrow> s
               | Some info \<Rightarrow>
                   let info1 = info\<lparr> ofi_ref_count := ofi_ref_count info - 1 \<rparr> in
                   s\<lparr> mb_open_files :=
                        (if ofi_ref_count info1 = 0 then hm_remove node_id (mb_open_files s)
                         else hm_insert node_id info1 (mb_open_files s)) \<rparr>)
     in (Inr (), s1\<lparr> mb_locks := hm_remove node_id (mb_locks s1) \<rparr>))"

definition mb_fsync :: "FileHandle \<Rightarrow> unit mb_op" where
  "mb_fsync handle = op_bind (ok_or (Vfs VfsInvalidHandle) (fh_backend_internal_id handle)) (\<lambda>node_id s.
     if hm_contains (mb_open_files s) node_id then (Inr (), s) else (Inl (Vfs VfsInvalidHandle), s))"

section \<open>Contents\<close>

abbreviation ISIZE_MAX :: nat where "ISIZE_MAX \<equiv> 2 ^ 63 - 1"

definition vec_resize :: "bytes \<Rightarrow> nat \<Rightarrow> bytes" where
  "vec_resize xs n = take n xs @ replicate (n - length xs) 0"

definition mb_read :: "FileHandle \<Rightarrow> u64 \<Rightarrow> u32 \<Rightarrow> bytes mb_op" where
  "mb_read handle offset len = op_bind (open_path handle) (\<lambda>path.
     op_bind (mb_get_node path) (\<lambda>node.
       case node of
         FileNode content _ _ \<Rightarrow>
           if length content \<le> unat offset then op_return []
           else let e = min (unat offset + unat len) (length content)
                in op_return (slice (unat offset) (e - unat offset) content)
       | DirNode _ _ _ \<Rightarrow> op_throw (Vfs (VfsIsADirectory path))
       | LinkNode _ _ \<Rightarrow> op_throw (Vfs VfsInvalidHandle)))"

text \<open>Extending the content to the end of the write and copying the data in.\<close>

definition write_content :: "nat \<Rightarrow> bytes \<Rightarrow> bytes \<Rightarrow> bytes" where
  "write_content offset dat content =
     (let e = offset + length dat;
          content = (if length content < e then vec_resize content e else content)
      in take offset content @ dat @ drop e content)"

text \<open>
  An end above \<open>isize::MAX\<close> panics in \<open>resize\<close>. \<open>offset + data.len()\<close> wraps: when it does, the
  content may first grow to the wrapped end, and the slice then panics because it starts after its end.
\<close>

definition write_node ::
  "(nat \<Rightarrow> nat) \<Rightarrow> string \<Rightarrow> u64 \<Rightarrow> bytes \<Rightarrow> MemoryNode \<Rightarrow> VfsError + (vfs_fault + u32) \<times> MemoryNode" where
  "write_node clock path offset dat node =
     (case node of
        FileNode content m x \<Rightarrow>
          let e = unat (offset + of_nat (length dat)) in
          if length content < e \<and> ISIZE_MAX < e then Inr (Inl Panic, node)
          else if e < unat offset then
            Inr (Inl Panic, FileNode (if length content < e then vec_resize content e else content) m x)
          else Inr (Inr (of_nat (length dat)),
                 FileNode (write_content (unat offset) dat content)
                   (m\<lparr> nm_mtime := clock 0, nm_ctime := clock 1 \<rparr>) x)
      | DirNode _ _ _ \<Rightarrow> Inl (VfsIsADirectory path)
      | LinkNode _ _ \<Rightarrow> Inl VfsInvalidHandle)"

definition mb_write :: "(nat \<Rightarrow> nat) \<Rightarrow> FileHandle \<Rightarrow> u64 \<Rightarrow> bytes \<Rightarrow> u32 mb_op" where
  "mb_write clock handle offset dat = op_bind (open_path handle) (\<lambda>path s.
     if path = [] then (Inl (Vfs (VfsIsADirectory path)), s)
     else case at_node path (write_node clock path offset dat) s of
            (Inl e, s1) \<Rightarrow> (Inl e, s1)
          | (Inr r, s1) \<Rightarrow> (r, s1))"

definition truncate_node ::
  "(nat \<Rightarrow> nat) \<Rightarrow> string \<Rightarrow> nat \<Rightarrow> MemoryNode \<Rightarrow> VfsError + (vfs_fault + unit) \<times> MemoryNode" where
  "truncate_node clock path sz node =
     (case node of
        FileNode content m x \<Rightarrow>
          if ISIZE_MAX < sz then Inr (Inl Panic, node)
          else Inr (Inr (), FileNode (vec_resize content sz)
                 (m\<lparr> nm_mtime := clock 0, nm_ctime := clock 1 \<rparr>) x)
      | DirNode _ _ _ \<Rightarrow> Inl (VfsIsADirectory path)
      | LinkNode _ _ \<Rightarrow> Inl (VfsInvalidPath path))"

definition mb_truncate :: "(nat \<Rightarrow> nat) \<Rightarrow> string \<Rightarrow> u64 \<Rightarrow> unit mb_op" where
  "mb_truncate clock path0 sz s =
     (let path = normalize_path path0 in
      if path = [] then (Inl (Vfs (VfsIsADirectory path)), s)
      else case at_node path (truncate_node clock path (unat sz)) s of
             (Inl e, s1) \<Rightarrow> (Inl e, s1)
           | (Inr r, s1) \<Rightarrow> (r, s1))"

section \<open>Metadata\<close>

definition mb_stat :: "string \<Rightarrow> Metadata mb_op" where
  "mb_stat path = op_bind (mb_get_node path) (\<lambda>node. op_return (to_vfs_metadata node))"

definition mb_fstat :: "FileHandle \<Rightarrow> Metadata mb_op" where
  "mb_fstat handle = op_bind (open_path handle) (\<lambda>path.
     op_bind (mb_get_node path) (\<lambda>node. op_return (to_vfs_metadata node)))"

definition edit_metadata :: "(NodeMetadata \<Rightarrow> NodeMetadata) \<Rightarrow> string \<Rightarrow> unit mb_op" where
  "edit_metadata f path0 = at_node (normalize_path path0) (\<lambda>node. Inr ((), map_metadata f node))"

definition mb_chmod :: "(nat \<Rightarrow> nat) \<Rightarrow> string \<Rightarrow> u32 \<Rightarrow> unit mb_op" where
  "mb_chmod clock path mode = edit_metadata (\<lambda>m. m\<lparr> nm_mode := mode, nm_ctime := clock 0 \<rparr>) path"

definition mb_chown :: "(nat \<Rightarrow> nat) \<Rightarrow> string \<Rightarrow> u32 \<Rightarrow> u32 \<Rightarrow> unit mb_op" where
  "mb_chown clock path uid gid =
     edit_metadata (\<lambda>m. m\<lparr> nm_uid := uid, nm_gid := gid, nm_ctime := clock 0 \<rparr>) path"

definition mb_utimes :: "(nat \<Rightarrow> nat) \<Rightarrow> string \<Rightarrow> nat \<Rightarrow> nat \<Rightarrow> unit mb_op" where
  "mb_utimes clock path atime mtime =
     edit_metadata (\<lambda>m. m\<lparr> nm_atime := atime, nm_mtime := mtime, nm_ctime := clock 0 \<rparr>) path"

section \<open>Links and renames\<close>

definition mb_unlink :: "string \<Rightarrow> unit mb_op" where
  "mb_unlink path0 s =
     (let path = normalize_path path0 in
      if path = [] then (Inl (Vfs (VfsInvalidPath ''Cannot unlink root'')), s)
      else case split_path path of
             None \<Rightarrow> (Inl (Vfs (VfsInvalidPath path)), s)
           | Some (parent, filename) \<Rightarrow>
               at_children (normalize_path parent) (\<lambda>children.
                 case hm_get children filename of
                   None \<Rightarrow> Inl (VfsNotFound path)
                 | Some (DirNode _ _ _) \<Rightarrow> Inl (VfsIsADirectory path)
                 | Some _ \<Rightarrow> Inr ((), hm_remove filename children)) s)"

text \<open>The two halves of \<open>rename\<close>: taking the node out of its place and putting it into the new one.\<close>

definition take_child :: "string \<Rightarrow> string \<Rightarrow> (string, MemoryNode) hash_map
    \<Rightarrow> VfsError + MemoryNode \<times> (string, MemoryNode) hash_map" where
  "take_child old_path old_name children =
     (case hm_get children old_name of
        None \<Rightarrow> Inl (VfsNotFound old_path)
      | Some node \<Rightarrow> Inr (node, hm_remove old_name children))"

definition mb_rename :: "string \<Rightarrow> string \<Rightarrow> unit mb_op" where
  "mb_rename old_path0 new_path0 s =
     (let old_path = normalize_path old_path0; new_path = normalize_path new_path0 in
      if old_path = [] \<or> new_path = [] then (Inl (Vfs (VfsInvalidPath ''Cannot rename root'')), s)
      else if old_path = new_path then (Inr (), s)
      else case split_path old_path of
             None \<Rightarrow> (Inl (Vfs (VfsInvalidPath old_path)), s)
           | Some (old_parent, old_name) \<Rightarrow>
               (case split_path new_path of
                  None \<Rightarrow> (Inl (Vfs (VfsInvalidPath new_path)), s)
                | Some (new_parent, new_name) \<Rightarrow>
                    op_bind (at_children (normalize_path old_parent) (take_child old_path old_name))
                      (\<lambda>node. at_children (normalize_path new_parent)
                         (\<lambda>children. Inr ((), hm_insert new_name node children))) s))"

definition mb_link :: "string \<Rightarrow> string \<Rightarrow> unit mb_op" where
  "mb_link src dst = op_throw (Vfs (VfsNotSupported ''Hard links not supported''))"

definition mb_symlink :: "(nat \<Rightarrow> nat) \<Rightarrow> string \<Rightarrow> string \<Rightarrow> unit mb_op" where
  "mb_symlink clock target linkpath0 s =
     (let linkpath = normalize_path linkpath0 in
      if linkpath = [] then (Inl (Vfs (VfsInvalidPath ''Cannot create symlink at root'')), s)
      else case split_path linkpath of
             None \<Rightarrow> (Inl (Vfs (VfsInvalidPath linkpath)), s)
           | Some (parent, linkname) \<Rightarrow>
               let ino = mb_inode_counter s in
               case at_children (normalize_path parent) (\<lambda>children.
                      if hm_contains children linkname then Inl (VfsAlreadyExists linkpath)
                      else Inr ((), hm_insert linkname
                             (LinkNode target (NodeMetadata_new (clock 0) 511 ino)) children)) s of
                 (Inl e, s1) \<Rightarrow> (Inl e, s1)
               | (Inr _, s1) \<Rightarrow> (Inr (), s1\<lparr> mb_inode_counter := ino + 1 \<rparr>))"

definition mb_readlink :: "string \<Rightarrow> string mb_op" where
  "mb_readlink path = op_bind (mb_get_node path) (\<lambda>node.
     case node of
       LinkNode target _ \<Rightarrow> op_return target
     | _ \<Rightarrow> op_throw (Vfs (VfsInvalidPath ''Not a symlink'')))"

section \<open>Byte-range locks\<close>

text \<open>The end of a range; the addition wraps in a release build.\<close>

definition fl_end :: "FileLock \<Rightarrow> u64" where
  "fl_end l = (if fl_length l = 0 then - 1 else fl_start l + fl_length l)"

definition fl_conflict :: "FileLock \<Rightarrow> FileLock \<Rightarrow> bool" where
  "fl_conflict lock existing \<longleftrightarrow>
     fl_start lock < fl_end existing \<and> fl_start existing < fl_end lock \<and>
     (fl_lock_type existing = LtExclusive \<or> fl_lock_type lock = LtExclusive)"

definition mb_lock :: "FileHandle \<Rightarrow> FileLock \<Rightarrow> unit mb_op" where
  "mb_lock handle lock = op_bind (ok_or (Vfs VfsInvalidHandle) (fh_backend_internal_id handle)) (\<lambda>node_id s.
     if \<not> hm_contains (mb_open_files s) node_id then (Inl (Vfs VfsInvalidHandle), s)
     else
       let node_locks = (case hm_get (mb_locks s) node_id of None \<Rightarrow> [] | Some ls \<Rightarrow> ls);
           s1 = s\<lparr> mb_locks := hm_insert node_id node_locks (mb_locks s) \<rparr>
       in if list_ex (fl_conflict lock) node_locks then (Inl (Vfs VfsLockConflict), s1)
          else (Inr (), s1\<lparr> mb_locks := hm_insert node_id (node_locks @ [lock]) (mb_locks s1) \<rparr>))"

definition mb_unlock :: "FileHandle \<Rightarrow> FileLock \<Rightarrow> unit mb_op" where
  "mb_unlock handle lock = op_bind (ok_or (Vfs VfsInvalidHandle) (fh_backend_internal_id handle)) (\<lambda>node_id s.
     if \<not> hm_contains (mb_open_files s) node_id then (Inl (Vfs VfsInvalidHandle), s)
     else case hm_get (mb_locks s) node_id of
            None \<Rightarrow> (Inr (), s)
          | Some node_locks \<Rightarrow>
              (Inr (), s\<lparr> mb_locks := hm_insert node_id
                 (filter (\<lambda>l. \<not> (fl_start l = fl_start lock \<and> fl_length l = fl_length lock)) node_locks)
                 (mb_locks s) \<rparr>))"

section \<open>Extended attributes\<close>

definition no_link_xattrs :: vfs_fault where
  "no_link_xattrs = Vfs (VfsNotSupported ''No xattr support for symlinks'')"

definition mb_getxattr :: "string \<Rightarrow> string \<Rightarrow> bytes mb_op" where
  "mb_getxattr path name = op_bind (mb_get_node path) (\<lambda>node.
     op_bind (ok_or no_link_xattrs (node_xattrs node)) (\<lambda>xattrs.
       ok_or (Vfs (VfsNotFound (''xattr: '' @ name))) (hm_get xattrs name)))"

definition mb_setxattr :: "string \<Rightarrow> string \<Rightarrow> bytes \<Rightarrow> unit mb_op" where
  "mb_setxattr path name v = at_node (normalize_path path) (\<lambda>node.
     case node_xattrs node of
       None \<Rightarrow> Inl (VfsNotSupported ''No xattr support for symlinks'')
     | Some xattrs \<Rightarrow> Inr ((), set_xattrs (hm_insert name v xattrs) node))"

definition mb_listxattr :: "string \<Rightarrow> string list mb_op" where
  "mb_listxattr path = op_bind (mb_get_node path) (\<lambda>node.
     op_bind (ok_or no_link_xattrs (node_xattrs node)) (\<lambda>xattrs. op_return (hm_keys xattrs)))"

definition mb_removexattr :: "string \<Rightarrow> string \<Rightarrow> unit mb_op" where
  "mb_removexattr path name = at_node (normalize_path path) (\<lambda>node.
     case node_xattrs node of
       None \<Rightarrow> Inl (VfsNotSupported ''No xattr support for symlinks'')
     | Some xattrs \<Rightarrow>
         if hm_contains xattrs name then Inr ((), set_xattrs (hm_remove name xattrs) node)
         else Inl (VfsNotFound (''xattr: '' @ name)))"

section \<open>The trait object\<close>

definition mb_capabilities :: BackendCapabilities where
  "mb_capabilities = \<lparr> bc_locking = True, bc_notify = False, bc_sparse = False, bc_xattr = True,
     bc_hard_links = False, bc_symlinks = True, bc_max_file_size = - 1, bc_max_path_length = 4096,
     bc_case_sensitive = True, bc_atomic_rename = True \<rparr>"

definition mb_statfs :: "FsStats mb_op" where
  "mb_statfs = op_return \<lparr> fs_blocks = - 1, fs_blocks_free = - 1, fs_blocks_available = - 1,
     fs_block_size = 4096, fs_files = - 1, fs_files_free = - 1, fs_fsid = 0x4D454D4F, fs_namelen = 255 \<rparr>"

definition memory_backend :: "MemoryBackend storage_backend" where
  "memory_backend = \<lparr> vb_open = mb_open, vb_read = mb_read, vb_write = mb_write, vb_close = mb_close,
     vb_fsync = mb_fsync, vb_stat = mb_stat, vb_fstat = mb_fstat, vb_chmod = mb_chmod,
     vb_chown = mb_chown, vb_truncate = mb_truncate, vb_utimes = mb_utimes, vb_mkdir = mb_mkdir,
     vb_rmdir = mb_rmdir, vb_readdir = mb_readdir, vb_unlink = mb_unlink, vb_rename = mb_rename,
     vb_link = mb_link, vb_symlink = mb_symlink, vb_readlink = mb_readlink, vb_lock = mb_lock,
     vb_unlock = mb_unlock, vb_getxattr = mb_getxattr, vb_setxattr = mb_setxattr,
     vb_listxattr = mb_listxattr, vb_removexattr = mb_removexattr,
     vb_capabilities = mb_capabilities, vb_statfs = mb_statfs \<rparr>"

end
