(* ===== verification/Memory_Backend_Spec.thy ===== *)
theory Memory_Backend_Spec
  imports Memory_Backend "HOL-Library.Sublist"
begin

text \<open>
  What the memory backend promises. A tree is seen as a map from paths to entries (\<open>fs_view\<close>); the
  operations on names refine operations on that map. Every reachable state keeps the tree well
  formed, the inodes unique and the reference counts equal to the handles that are open.
\<close>

section \<open>Looking up and replacing a node\<close>

fun lookup :: "string list \<Rightarrow> MemoryNode \<Rightarrow> MemoryNode option" where
  "lookup [] n = Some n"
| "lookup (c # cs) n =
     (case n of
        DirNode ch _ _ \<Rightarrow> (case hm_get ch c of None \<Rightarrow> None | Some n' \<Rightarrow> lookup cs n')
      | _ \<Rightarrow> None)"

fun replace_at :: "string list \<Rightarrow> MemoryNode \<Rightarrow> MemoryNode \<Rightarrow> MemoryNode" where
  "replace_at [] m n = m"
| "replace_at (c # cs) m n =
     (case n of
        DirNode ch md x \<Rightarrow>
          (case hm_get ch c of
             None \<Rightarrow> n
           | Some n' \<Rightarrow> DirNode (hm_insert c (replace_at cs m n') ch) md x)
      | _ \<Rightarrow> n)"

lemma walk_None: "lookup cs n = None \<Longrightarrow> \<exists>e. walk p cs n = Inl e"
  by (induction cs arbitrary: n) (auto split: MemoryNode.splits option.splits)

lemma walk_Some: "lookup cs n = Some m \<Longrightarrow> walk p cs n = Inr m"
  by (induction cs arbitrary: n) (auto split: MemoryNode.splits option.splits)

lemma descend_None: "lookup cs n = None \<Longrightarrow> \<exists>e. descend p cs f n = Inl e"
proof (induction cs arbitrary: n)
  case (Cons c cs)
  show ?case
  proof (cases n)
    case (DirNode ch m x)
    then show ?thesis using Cons.prems by (cases "hm_get ch c") (auto dest!: Cons.IH)
  qed simp_all
qed simp

lemma descend_Some:
  "lookup cs n = Some m \<Longrightarrow>
   descend p cs f n =
     (case f m of Inl e \<Rightarrow> Inl e | Inr (r, m') \<Rightarrow> Inr (r, replace_at cs m' n))"
proof (induction cs arbitrary: n)
  case Nil
  then show ?case by (simp split: sum.split prod.split)
next
  case (Cons c cs)
  from Cons.prems obtain ch md x n' where n: "n = DirNode ch md x" "hm_get ch c = Some n'"
    "lookup cs n' = Some m" by (auto split: MemoryNode.splits option.splits)
  then show ?case using Cons.IH [OF n(3)] by (simp split: sum.split prod.split)
qed

lemma at_node_None:
  assumes "list_all clean cs" "lookup cs (mb_root s) = None"
  shows "\<exists>e. at_node (join_slash cs) f s = (Inl (Vfs e), s)"
  using assms descend_None [OF assms(2), of "join_slash cs" f]
  by (auto simp: at_node_def join_slash_Nil_iff split_join)

lemma at_node_Some:
  assumes "list_all clean cs" "lookup cs (mb_root s) = Some m"
  shows "at_node (join_slash cs) f s =
    (case f m of Inl e \<Rightarrow> (Inl (Vfs e), s)
     | Inr (r, m') \<Rightarrow> (Inr r, s\<lparr> mb_root := replace_at cs m' (mb_root s) \<rparr>))"
  using assms descend_Some [OF assms(2), of "join_slash cs" f]
  by (auto simp: at_node_def join_slash_Nil_iff split_join split: sum.split)

lemma get_node_None:
  "lookup (path_components p) (mb_root s) = None \<Longrightarrow> \<exists>e. mb_get_node p s = (Inl (Vfs e), s)"
  using walk_None [of "path_components p" "mb_root s" "normalize_path p"] clean_components [of p]
  by (auto simp: mb_get_node_def Let_def normalize_path_eq join_slash_Nil_iff split_join)

lemma get_node_Some:
  "lookup (path_components p) (mb_root s) = Some m \<Longrightarrow> mb_get_node p s = (Inr m, s)"
  using walk_Some [of "path_components p" "mb_root s" m "normalize_path p"] clean_components [of p]
  by (auto simp: mb_get_node_def Let_def normalize_path_eq join_slash_Nil_iff split_join)

section \<open>The map from paths to entries\<close>

fun strip :: "MemoryNode \<Rightarrow> MemoryNode" where
  "strip (DirNode ch m x) = DirNode [] m x"
| "strip n = n"

definition view :: "MemoryNode \<Rightarrow> string list \<Rightarrow> MemoryNode option" where
  "view n q = map_option strip (lookup q n)"

abbreviation fs_view :: "MemoryBackend \<Rightarrow> string list \<Rightarrow> MemoryNode option" where
  "fs_view s \<equiv> view (mb_root s)"

fun is_dir :: "MemoryNode \<Rightarrow> bool" where
  "is_dir (DirNode _ _ _) = True"
| "is_dir _ = False"

definition dir_at :: "(string list \<Rightarrow> MemoryNode option) \<Rightarrow> string list \<Rightarrow> bool" where
  "dir_at v q \<longleftrightarrow> (\<exists>n. v q = Some n \<and> is_dir n)"

lemma is_dir_iff: "is_dir n \<longleftrightarrow> (\<exists>ch m x. n = DirNode ch m x)"
  by (cases n) auto

lemma is_dir_strip [simp]: "is_dir (strip n) = is_dir n"
  by (cases n) auto

lemma lookup_append: "lookup (p @ q) n = (case lookup p n of None \<Rightarrow> None | Some m \<Rightarrow> lookup q m)"
  by (induction p n rule: lookup.induct) (auto split: MemoryNode.split option.split)

lemma view_replace:
  "lookup cs n = Some m0 \<Longrightarrow>
   view (replace_at cs m n) q = (if prefix cs q then view m (drop (length cs) q) else view n q)"
proof (induction cs n arbitrary: q rule: lookup.induct)
  case (1 n)
  then show ?case by simp
next
  case (2 c cs n)
  from "2.prems" obtain ch md x n' where n: "n = DirNode ch md x" "hm_get ch c = Some n'"
    "lookup cs n' = Some m0" by (auto split: MemoryNode.splits option.splits)
  show ?case
  proof (cases q)
    case Nil
    then show ?thesis using n by (simp add: view_def)
  next
    case (Cons d ds)
    then show ?thesis using n "2.IH" [OF n(1,2,3), of ds]
      by (cases "d = c") (auto simp: view_def hm_simps)
  qed
qed


lemma view_set_child:
  assumes "lookup ps n = Some (DirNode ch m x)" and "hm_get ch' = (hm_get ch)(k := no)"
  shows "view (replace_at ps (DirNode ch' m x) n) q =
    (if prefix (ps @ [k]) q
     then (case no of None \<Rightarrow> None | Some c \<Rightarrow> view c (drop (Suc (length ps)) q))
     else view n q)"
proof (cases "prefix ps q")
  case True
  then obtain r where q: "q = ps @ r" by (auto simp: prefix_def)
  have "view (replace_at ps (DirNode ch' m x) n) q = view (DirNode ch' m x) r"
    by (simp add: q view_replace [OF assms(1)])
  moreover have "view n q = view (DirNode ch m x) r"
    by (simp add: q view_def lookup_append assms(1))
  ultimately show ?thesis
    using assms(2) by (cases r) (auto simp: q view_def split: option.split)
next
  case False
  then have "\<not> prefix (ps @ [k]) q" using append_prefixD by blast
  with False show ?thesis by (simp add: view_replace [OF assms(1)])
qed

lemmas view_insert_child = view_set_child [where no = "Some c" for c, OF _ hm_get_insert, unfolded option.case]
lemmas view_remove_child = view_set_child [where no = None, OF _ hm_get_remove, unfolded option.case]

lemma view_dir_child:
  "lookup ps n = Some (DirNode ch m x) \<Longrightarrow> view n (ps @ k # q) = (case hm_get ch k of None \<Rightarrow> None | Some c \<Rightarrow> view c q)"
  by (simp add: view_def lookup_append split: option.split)

lemma dir_at_lookup: "dir_at (view n) ps \<longleftrightarrow> (\<exists>ch m x. lookup ps n = Some (DirNode ch m x))"
proof -
  have "dir_at (view n) ps \<longleftrightarrow> (\<exists>m. lookup ps n = Some m \<and> is_dir m)"
    by (auto simp: dir_at_def view_def)
  then show ?thesis by (auto simp: is_dir_iff)
qed

lemma view_prefix_None: "view n p = None \<Longrightarrow> prefix p q \<Longrightarrow> view n q = None"
  by (auto simp: view_def lookup_append prefix_def)

lemma at_children_cases:
  assumes "list_all clean ps"
  obtains (fail) e where "at_children (join_slash ps) g s = (Inl e, s)"
      "\<And>ch m x. lookup ps (mb_root s) = Some (DirNode ch m x) \<Longrightarrow> \<exists>e. g ch = Inl e"
  | (ok) ch m x r ch' where "lookup ps (mb_root s) = Some (DirNode ch m x)" "g ch = Inr (r, ch')"
      "at_children (join_slash ps) g s =
         (Inr r, s\<lparr> mb_root := replace_at ps (DirNode ch' m x) (mb_root s) \<rparr>)"
proof (cases "lookup ps (mb_root s)")
  case None
  then show ?thesis using fail at_node_None [OF assms None] by (auto simp: at_children_def)
next
  case (Some n)
  note eq = at_node_Some [OF assms Some, of "in_children (join_slash ps) g", folded at_children_def]
  show ?thesis
  proof (cases n)
    case (DirNode ch m x)
    then show ?thesis using fail ok eq Some by (cases "g ch") (auto simp: in_children_def)
  qed (use fail eq Some in \<open>auto simp: in_children_def\<close>)
qed

lemma split_normalized:
  assumes "path_components p \<noteq> []"
  shows "split_path (normalize_path p) =
           Some (join_slash (butlast (path_components p)), last (path_components p))"
    and "normalize_path (join_slash (butlast (path_components p))) = join_slash (butlast (path_components p))"
    and "list_all clean (butlast (path_components p))"
proof -
  have c: "list_all clean (butlast (path_components p) @ [last (path_components p)])"
    using assms clean_components by simp
  then show "list_all clean (butlast (path_components p))" by simp
  then show "normalize_path (join_slash (butlast (path_components p))) = join_slash (butlast (path_components p))"
    by (rule normalize_join)
  show "split_path (normalize_path p) =
           Some (join_slash (butlast (path_components p)), last (path_components p))"
    using split_path_join [OF c] assms by (simp add: normalize_path_eq)
qed

lemma normalize_Nil_iff: "normalize_path p = [] \<longleftrightarrow> path_components p = []"
  by (simp add: normalize_path_eq join_slash_Nil_iff clean_components)

lemma normalize_eq_iff: "normalize_path p = normalize_path q \<longleftrightarrow> path_components p = path_components q"
  by (metis clean_components components_join normalize_path_eq)

section \<open>The operations on names\<close>

type_synonym fs_map = "string list \<Rightarrow> MemoryNode option"

definition outcome :: "(vfs_fault + 'a) \<times> MemoryBackend \<Rightarrow> fs_map option" where
  "outcome rs = (case rs of (Inl _, _) \<Rightarrow> None | (Inr _, s) \<Rightarrow> Some (fs_view s))"

definition cut :: "string list \<Rightarrow> fs_map \<Rightarrow> fs_map" where
  "cut p v q = (if prefix p q then None else v q)"

definition graft :: "string list \<Rightarrow> string list \<Rightarrow> fs_map \<Rightarrow> fs_map" where
  "graft old new v q = (if prefix new q then v (old @ drop (length new) q) else cut old v q)"

definition spec_create :: "string list \<Rightarrow> MemoryNode \<Rightarrow> fs_map \<Rightarrow> fs_map option" where
  "spec_create p e v =
     (if p \<noteq> [] \<and> dir_at v (butlast p) \<and> v p = None then Some (v(p \<mapsto> e)) else None)"

definition spec_unlink :: "string list \<Rightarrow> fs_map \<Rightarrow> fs_map option" where
  "spec_unlink p v =
     (if p \<noteq> [] \<and> v p \<noteq> None \<and> \<not> dir_at v p then Some (cut p v) else None)"

definition spec_rmdir :: "string list \<Rightarrow> fs_map \<Rightarrow> fs_map option" where
  "spec_rmdir p v =
     (if p \<noteq> [] \<and> dir_at v p \<and> (\<forall>c. v (p @ [c]) = None) then Some (cut p v) else None)"

definition spec_rename :: "string list \<Rightarrow> string list \<Rightarrow> fs_map \<Rightarrow> fs_map option" where
  "spec_rename old new v =
     (if old = [] \<or> new = [] then None
      else if old = new then Some v
      else if v old \<noteq> None \<and> dir_at (cut old v) (butlast new) then Some (graft old new v)
      else None)"

lemma snoc_path: "path_components p \<noteq> [] \<Longrightarrow>
    path_components p = butlast (path_components p) @ [last (path_components p)]"
  by simp

lemma view_last:
  "path_components p \<noteq> [] \<Longrightarrow> lookup (butlast (path_components p)) n = Some (DirNode ch m x) \<Longrightarrow>
   lookup (path_components p) n = hm_get ch (last (path_components p))"
  by (subst snoc_path, assumption, subst lookup_append) (simp split: option.split)

lemma dir_at_parent:
  assumes "path_components p \<noteq> []" "view n (path_components p) \<noteq> None"
  shows "dir_at (view n) (butlast (path_components p))"
proof -
  have "lookup (butlast (path_components p) @ [last (path_components p)]) n \<noteq> None"
    using assms by (simp add: view_def)
  then show ?thesis
    by (auto simp: dir_at_lookup lookup_append split: option.splits MemoryNode.splits)
qed

text \<open>Creating an entry, as \<open>mkdir\<close> and \<open>symlink\<close> do.\<close>

lemma create_refines:
  assumes ne: "path_components p \<noteq> []" and "\<And>q. view node q = (if q = [] then Some node else None)"
    and g: "\<And>ch. g ch = (if hm_contains ch (last (path_components p)) then Inl e
                          else Inr ((), hm_insert (last (path_components p)) node ch))"
  shows "outcome (at_children (join_slash (butlast (path_components p))) g s) =
           spec_create (path_components p) node (fs_view s)"
proof -
  let ?ps = "butlast (path_components p)" and ?k = "last (path_components p)"
  show ?thesis
    using split_normalized(3) [OF ne]
  proof (cases rule: at_children_cases [where g = g and s = s])
    case (fail e)
    then have "\<not> (dir_at (fs_view s) ?ps \<and> fs_view s (?ps @ [?k]) = None)"
      by (auto simp: dir_at_lookup g hm_contains_def view_def lookup_append split: if_splits)
    with fail ne show ?thesis by (simp add: outcome_def spec_create_def)
  next
    case (ok ch m x r ch')
    then have ch': "ch' = hm_insert ?k node ch" "hm_get ch ?k = None"
      by (auto simp: g hm_contains_def split: if_splits)
    then have "fs_view s (?ps @ [?k]) = None" by (simp add: view_dir_child [OF ok(1)])
    moreover have "view (replace_at ?ps (DirNode ch' m x) (mb_root s)) = (fs_view s)(?ps @ [?k] \<mapsto> node)"
      using assms(2) view_prefix_None [OF calculation]
      by (auto simp: fun_eq_iff ch' view_insert_child [OF ok(1)] prefix_def)
    moreover have "dir_at (fs_view s) ?ps" using ok(1) by (auto simp: dir_at_lookup)
    ultimately show ?thesis using ok(3) ne by (simp add: outcome_def spec_create_def)
  qed
qed

lemma remove_refines:
  assumes ne: "path_components p \<noteq> []"
    and g: "\<And>ch. (\<exists>e. g ch = Inl e) \<or> g ch = Inr (r, hm_remove (last (path_components p)) ch)"
    and c: "\<And>ch m x. lookup (butlast (path_components p)) (mb_root s) = Some (DirNode ch m x) \<Longrightarrow>
        (\<exists>e. g ch = Inl e) \<longleftrightarrow> \<not> C"
    and d: "C \<Longrightarrow> fs_view s (path_components p) \<noteq> None"
  shows "outcome (at_children (join_slash (butlast (path_components p))) g s) =
           (if C then Some (cut (path_components p) (fs_view s)) else None)"
proof -
  let ?ps = "butlast (path_components p)" and ?k = "last (path_components p)"
  show ?thesis
    using split_normalized(3) [OF ne]
  proof (cases rule: at_children_cases [where g = g and s = s])
    case (fail e)
    then have "\<not> C" using c d dir_at_parent [OF ne] by (metis dir_at_lookup)
    with fail show ?thesis by (simp add: outcome_def)
  next
    case (ok ch m x r ch')
    then have "ch' = hm_remove ?k ch" "C" using g [of ch] c by auto
    moreover from this have "view (replace_at ?ps (DirNode ch' m x) (mb_root s)) = cut (?ps @ [?k]) (fs_view s)"
      by (auto simp: fun_eq_iff cut_def view_remove_child [OF ok(1)])
    ultimately show ?thesis using ok(3) ne by (simp add: outcome_def)
  qed
qed

lemma outcome_new_inode:
  "outcome (case x of (Inl e, s1) \<Rightarrow> (Inl e, s1) | (Inr _, s1) \<Rightarrow> (Inr (), s1\<lparr> mb_inode_counter := i \<rparr>))
     = outcome x"
  by (simp add: outcome_def split: prod.split sum.split)

lemmas on_entry = Let_def option.case prod.case normalize_Nil_iff

lemma mkdir_refines:
  "outcome (mb_mkdir clock p mode s) =
     spec_create (path_components p) (DirNode [] (NodeMetadata_new (clock 0) mode (mb_inode_counter s)) [])
       (fs_view s)"
proof (cases "path_components p = []")
  case True
  then show ?thesis by (simp add: mb_mkdir_def normalize_Nil_iff outcome_def spec_create_def)
next
  case False
  show ?thesis
    using False unfolding mb_mkdir_def on_entry split_normalized [OF False] outcome_new_inode if_not_P [OF False]
    by (intro create_refines refl) (auto simp: view_def neq_Nil_conv split: option.split)
qed

lemma symlink_refines:
  "outcome (mb_symlink clock target p s) =
     spec_create (path_components p) (LinkNode target (NodeMetadata_new (clock 0) 511 (mb_inode_counter s)))
       (fs_view s)"
proof (cases "path_components p = []")
  case True
  then show ?thesis by (simp add: mb_symlink_def normalize_Nil_iff outcome_def spec_create_def)
next
  case False
  show ?thesis
    using False unfolding mb_symlink_def on_entry split_normalized [OF False] outcome_new_inode if_not_P [OF False]
    by (intro create_refines refl) (auto simp: view_def neq_Nil_conv split: option.split)
qed

lemma unlink_refines: "outcome (mb_unlink p s) = spec_unlink (path_components p) (fs_view s)"
proof (cases "path_components p = []")
  case True
  then show ?thesis by (simp add: mb_unlink_def normalize_Nil_iff outcome_def spec_unlink_def)
next
  case False
  have "outcome (mb_unlink p s) = (if fs_view s (path_components p) \<noteq> None \<and>
      \<not> dir_at (fs_view s) (path_components p) then Some (cut (path_components p) (fs_view s)) else None)"
    unfolding mb_unlink_def on_entry split_normalized [OF False] if_not_P [OF False]
    by (rule remove_refines [OF False])
      (auto simp: False view_def view_last dir_at_def split: option.split MemoryNode.split)
  then show ?thesis using False by (simp add: spec_unlink_def)
qed

lemma hm_nonempty: "m \<noteq> [] \<Longrightarrow> \<exists>k v. hm_get m k = Some v"
  by (cases m) auto

lemma rmdir_refines: "outcome (mb_rmdir p s) = spec_rmdir (path_components p) (fs_view s)"
proof (cases "path_components p = []")
  case True
  then show ?thesis by (simp add: mb_rmdir_def normalize_Nil_iff outcome_def spec_rmdir_def)
next
  case False
  have "outcome (mb_rmdir p s) = (if dir_at (fs_view s) (path_components p) \<and>
      (\<forall>c. fs_view s (path_components p @ [c]) = None)
      then Some (cut (path_components p) (fs_view s)) else None)"
    unfolding mb_rmdir_def on_entry split_normalized [OF False] if_not_P [OF False]
    by (rule remove_refines [OF False])
      (auto simp: False view_def view_last lookup_append dir_at_def hm_nonempty
        split: option.split MemoryNode.split)
  then show ?thesis using False by (simp add: spec_rmdir_def)
qed

text \<open>The first half of \<open>rename\<close> takes the node at the old path out of the tree.\<close>

lemma take_child_cases:
  assumes ne: "path_components p \<noteq> []"
  obtains (missing) e where "fs_view s (path_components p) = None"
      "at_children (join_slash (butlast (path_components p)))
         (take_child (normalize_path p) (last (path_components p))) s = (Inl e, s)"
  | (taken) node root' where "lookup (path_components p) (mb_root s) = Some node"
      "view root' = cut (path_components p) (fs_view s)"
      "at_children (join_slash (butlast (path_components p)))
         (take_child (normalize_path p) (last (path_components p))) s = (Inr node, s\<lparr> mb_root := root' \<rparr>)"
proof -
  let ?ps = "butlast (path_components p)" and ?k = "last (path_components p)"
  show ?thesis
    using split_normalized(3) [OF ne]
  proof (cases rule: at_children_cases [where g = "take_child (normalize_path p) ?k" and s = s])
    case (fail e)
    have "fs_view s (path_components p) = None"
    proof (rule ccontr)
      assume some: "fs_view s (path_components p) \<noteq> None"
      then obtain ch m x where l: "lookup ?ps (mb_root s) = Some (DirNode ch m x)"
        using dir_at_parent [OF ne some] unfolding dir_at_lookup by blast
      then show False using some fail(2) [OF l]
        by (auto simp: take_child_def view_def view_last [OF ne l])
    qed
    then show ?thesis using missing fail by blast
  next
    case (ok ch m x r ch')
    then have r: "hm_get ch ?k = Some r" "ch' = hm_remove ?k ch"
      by (auto simp: take_child_def split: option.splits)
    have "view (replace_at ?ps (DirNode ch' m x) (mb_root s)) = cut (?ps @ [?k]) (fs_view s)"
      by (auto simp: fun_eq_iff cut_def r view_remove_child [OF ok(1)])
    then show ?thesis using taken [OF _ _ ok(3)] ne r(1) by (simp add: view_last [OF ne ok(1)])
  qed
qed

lemma rename_refines:
  "outcome (mb_rename p p' s) = spec_rename (path_components p) (path_components p') (fs_view s)"
proof (cases "path_components p = [] \<or> path_components p' = [] \<or> path_components p = path_components p'")
  case True
  then show ?thesis
    by (auto simp: mb_rename_def Let_def normalize_Nil_iff normalize_eq_iff outcome_def spec_rename_def)
next
  case False
  then have ne: "path_components p \<noteq> []" "path_components p' \<noteq> []" by auto
  let ?ps = "butlast (path_components p')" and ?k = "last (path_components p')"
  let ?rest = "\<lambda>node. at_children (join_slash ?ps) (\<lambda>ch. Inr ((), hm_insert ?k node ch))"
  have eq: "mb_rename p p' s = op_bind (at_children (join_slash (butlast (path_components p)))
       (take_child (normalize_path p) (last (path_components p)))) ?rest s"
    using False by (simp add: mb_rename_def on_entry normalize_eq_iff split_normalized)
  from ne(1) show ?thesis
  proof (cases rule: take_child_cases [where s = s])
    case (missing e)
    then show ?thesis using False by (simp add: eq op_simps outcome_def spec_rename_def)
  next
    case (taken node root')
    from split_normalized(3) [OF ne(2)] show ?thesis
    proof (cases rule: at_children_cases
        [where s = "s\<lparr> mb_root := root' \<rparr>" and g = "\<lambda>ch. Inr ((), hm_insert ?k node ch)"])
      case (fail e)
      then have "\<not> dir_at (cut (path_components p) (fs_view s)) ?ps"
        by (auto simp: dir_at_lookup simp flip: taken(2))
      then show ?thesis using False taken fail by (simp add: eq op_simps outcome_def spec_rename_def)
    next
      case (ok ch m x r ch')
      have "dir_at (cut (path_components p) (fs_view s)) ?ps"
        using ok(1) by (auto simp: dir_at_lookup simp flip: taken(2))
      moreover have "view (replace_at ?ps (DirNode (hm_insert ?k node ch) m x) root') =
          graft (path_components p) (?ps @ [?k]) (fs_view s)"
        using ok(1) by (auto simp: fun_eq_iff graft_def view_insert_child taken(2)
            view_def [of node] view_def [of "mb_root s"] lookup_append taken(1))
      moreover have "fs_view s (path_components p) \<noteq> None" using taken(1) by (simp add: view_def)
      ultimately show ?thesis using False ok taken(3) ne
        by (simp add: eq op_simps outcome_def spec_rename_def)
    qed
  qed
qed

text \<open>When the new parent does not exist the node is already out of the tree, and it is lost.\<close>

lemma failed_rename_loses_source:
  assumes "path_components p \<noteq> []" "path_components p' \<noteq> []" "path_components p \<noteq> path_components p'"
    and "fs_view s (path_components p) \<noteq> None"
    and "\<not> dir_at (cut (path_components p) (fs_view s)) (butlast (path_components p'))"
  shows "\<exists>e s'. mb_rename p p' s = (Inl e, s') \<and> fs_view s' = cut (path_components p) (fs_view s)"
proof -
  let ?ps = "butlast (path_components p')" and ?k = "last (path_components p')"
  from assms(1) show ?thesis
  proof (cases rule: take_child_cases [where s = s])
    case (taken node root')
    from split_normalized(3) [OF assms(2)] show ?thesis
    proof (cases rule: at_children_cases
        [where s = "s\<lparr> mb_root := root' \<rparr>" and g = "\<lambda>ch. Inr ((), hm_insert ?k node ch)"])
      case (fail e)
      then show ?thesis using assms taken
        by (simp add: mb_rename_def on_entry normalize_eq_iff split_normalized op_simps)
    next
      case (ok ch m x r ch')
      then show ?thesis using assms(5) by (auto simp: dir_at_lookup simp flip: taken(2))
    qed
  qed (use assms in simp)
qed

section \<open>Well-formed trees and their inodes\<close>

lemma size_child: "(k, n) \<in> set ch \<Longrightarrow> size n < Suc (size_list (size_prod (\<lambda>x. 0) size) ch)"
  by (induction ch) auto

function inodes :: "MemoryNode \<Rightarrow> u64 multiset" where
  "inodes (FileNode c m x) = {#nm_ino m#}"
| "inodes (DirNode ch m x) = add_mset (nm_ino m) (\<Sum>p\<leftarrow>ch. inodes (snd p))"
| "inodes (LinkNode t m) = {#nm_ino m#}"
  by pat_completeness auto
termination
  by (relation "measure size") (auto simp: size_child)

function tree_wf :: "MemoryNode \<Rightarrow> bool" where
  "tree_wf (FileNode c m x) = (length c \<le> ISIZE_MAX \<and> hm_wf x)"
| "tree_wf (DirNode ch m x) = (hm_wf ch \<and> hm_wf x \<and> (\<forall>p \<in> set ch. clean (fst p) \<and> tree_wf (snd p)))"
| "tree_wf (LinkNode t m) = True"
  by pat_completeness auto
termination
  by (relation "measure size") (auto simp: size_child)

lemma sum_inodes_insert_new: "hm_get ch k = None \<Longrightarrow>
    (\<Sum>p\<leftarrow>hm_insert k n ch. inodes (snd p)) = (\<Sum>p\<leftarrow>ch. inodes (snd p)) + inodes n"
  unfolding hm_insert_def by (induction ch) (auto split: if_splits)

lemma sum_inodes_insert: "hm_get ch k = Some n0 \<Longrightarrow>
    (\<Sum>p\<leftarrow>hm_insert k n ch. inodes (snd p)) + inodes n0 = (\<Sum>p\<leftarrow>ch. inodes (snd p)) + inodes n"
  unfolding hm_insert_def by (induction ch) (auto split: if_splits simp: ac_simps)

lemma sum_inodes_remove:
  assumes "hm_wf ch" "hm_get ch k = Some n"
  shows "(\<Sum>p\<leftarrow>hm_remove k ch. inodes (snd p)) + inodes n = (\<Sum>p\<leftarrow>ch. inodes (snd p))"
proof -
  have "k \<notin> fst ` set ch \<Longrightarrow> AList.delete k ch = ch" for k and ch :: "(string, MemoryNode) hash_map"
    by (simp add: delete_idem)
  then show ?thesis
    using assms unfolding hm_remove_def hm_wf_def
    by (induction ch) (auto split: if_splits simp: ac_simps)
qed

lemma sum_inodes_insert_le: "(\<Sum>p\<leftarrow>hm_insert k n ch. inodes (snd p)) \<subseteq># (\<Sum>p\<leftarrow>ch. inodes (snd p)) + inodes n"
proof (cases "hm_get ch k")
  case (Some n0)
  then show ?thesis using sum_inodes_insert [OF Some, of n] by (metis mset_subset_eq_add_left)
qed (simp add: sum_inodes_insert_new)

lemma inodes_replace:
  "lookup cs n = Some m0 \<Longrightarrow> inodes (replace_at cs m n) + inodes m0 = inodes n + inodes m"
proof (induction cs arbitrary: n)
  case (Cons c cs)
  then obtain ch md x n' where n: "n = DirNode ch md x" "hm_get ch c = Some n'"
    "lookup cs n' = Some m0" by (auto split: MemoryNode.splits option.splits)
  have "(\<Sum>p\<leftarrow>hm_insert c (replace_at cs m n') ch. inodes (snd p)) + inodes n' + inodes m0 =
      (\<Sum>p\<leftarrow>ch. inodes (snd p)) + inodes n' + inodes m"
    unfolding sum_inodes_insert [OF n(2)] by (simp only: add.assoc Cons.IH [OF n(3)])
  then show ?case using n by (simp add: ac_simps)
qed simp

lemma tree_wf_lookup: "tree_wf n \<Longrightarrow> lookup cs n = Some m \<Longrightarrow> tree_wf m"
proof (induction cs arbitrary: n)
  case (Cons c cs)
  then obtain ch md x n' where n: "n = DirNode ch md x" "hm_get ch c = Some n'"
    "lookup cs n' = Some m" by (auto split: MemoryNode.splits option.splits)
  then have "tree_wf n'" using Cons.prems(1) by (auto simp: hm_get_in_set)
  then show ?case using n(3) by (rule Cons.IH)
qed simp

lemma tree_wf_insert:
  "tree_wf (DirNode ch m x) \<Longrightarrow> clean k \<Longrightarrow> tree_wf n \<Longrightarrow> tree_wf (DirNode (hm_insert k n ch) m x)"
  by (auto simp: hm_entries_insert)

lemma tree_wf_remove: "tree_wf (DirNode ch m x) \<Longrightarrow> tree_wf (DirNode (hm_remove k ch) m x)"
  using hm_entries_remove [of k ch] by auto

lemma tree_wf_replace:
  "tree_wf n \<Longrightarrow> lookup cs n = Some m0 \<Longrightarrow> tree_wf m \<Longrightarrow> tree_wf (replace_at cs m n)"
proof (induction cs arbitrary: n)
  case (Cons c cs)
  then obtain ch md x n' where n: "n = DirNode ch md x" "hm_get ch c = Some n'"
    "lookup cs n' = Some m0" by (auto split: MemoryNode.splits option.splits)
  then have "clean c" "tree_wf n'" using Cons.prems(1) by (auto simp: hm_get_in_set)
  then show ?case
    using n tree_wf_insert [OF Cons.prems(1) [unfolded n(1)] _ Cons.IH [OF _ n(3) Cons.prems(3)]] by simp
qed simp

lemma is_dir_replace: "lookup cs n = Some m0 \<Longrightarrow> is_dir m = is_dir m0 \<Longrightarrow> is_dir (replace_at cs m n) = is_dir n"
  by (cases cs) (auto split: MemoryNode.splits option.splits)

text \<open>The invariant of the tree.\<close>

definition tree_inv :: "MemoryBackend \<Rightarrow> bool" where
  "tree_inv s \<longleftrightarrow> is_dir (mb_root s) \<and> tree_wf (mb_root s) \<and>
     (\<forall>i. count (inodes (mb_root s)) i \<le> 1) \<and> (\<forall>i \<in># inodes (mb_root s). i < mb_inode_counter s)"

lemma tree_inv_shrink:
  "tree_inv s \<Longrightarrow> is_dir root' \<Longrightarrow> tree_wf root' \<Longrightarrow> inodes root' \<subseteq># inodes (mb_root s) \<Longrightarrow>
   tree_inv (s\<lparr> mb_root := root' \<rparr>)"
  unfolding tree_inv_def
  by (auto dest: mset_subset_eqD) (meson le_trans mset_subset_eq_count)

lemma tree_inv_replace:
  assumes "tree_inv s" "lookup cs (mb_root s) = Some m" "tree_wf m'" "is_dir m' = is_dir m"
    "inodes m' \<subseteq># inodes m"
  shows "tree_inv (s\<lparr> mb_root := replace_at cs m' (mb_root s) \<rparr>)"
proof (rule tree_inv_shrink [OF assms(1)])
  show "is_dir (replace_at cs m' (mb_root s))"
    using assms by (simp add: is_dir_replace tree_inv_def)
  show "tree_wf (replace_at cs m' (mb_root s))"
    using assms by (auto simp: tree_inv_def intro: tree_wf_replace)
  show "inodes (replace_at cs m' (mb_root s)) \<subseteq># inodes (mb_root s)"
  proof -
    have "inodes (mb_root s) + inodes m' \<subseteq># inodes (mb_root s) + inodes m" using assms(5) by simp
    then show ?thesis
      unfolding inodes_replace [OF assms(2), of m', symmetric] by simp
  qed
qed

lemma tree_inv_create:
  assumes "tree_inv s" "lookup ps (mb_root s) = Some (DirNode ch m x)" "hm_get ch k = None" "clean k"
    and "tree_wf node" "inodes node = {#mb_inode_counter s#}" "mb_inode_counter s \<noteq> - 1"
  shows "tree_inv (s\<lparr> mb_root := replace_at ps (DirNode (hm_insert k node ch) m x) (mb_root s),
                      mb_inode_counter := mb_inode_counter s + 1 \<rparr>)"
proof -
  let ?root = "replace_at ps (DirNode (hm_insert k node ch) m x) (mb_root s)"
  have "tree_wf ?root"
    using assms by (auto simp: tree_inv_def simp del: tree_wf.simps
        intro!: tree_wf_replace tree_wf_insert dest: tree_wf_lookup)
  moreover have "is_dir ?root" using assms by (simp add: is_dir_replace tree_inv_def)
  moreover have ino: "inodes ?root = add_mset (mb_inode_counter s) (inodes (mb_root s))"
    using inodes_replace [OF assms(2), of "DirNode (hm_insert k node ch) m x"] assms(3,6)
    by (simp add: sum_inodes_insert_new)
  moreover have "mb_inode_counter s \<notin># inodes (mb_root s)" using assms(1) by (auto simp: tree_inv_def)
  moreover have "mb_inode_counter s < mb_inode_counter s + 1" by (rule word_less_add_one [OF assms(7)])
  ultimately show ?thesis using assms(1)
    by (auto simp: tree_inv_def not_in_iff intro: less_trans)
qed

section \<open>File contents\<close>

lemma lookup_replace: "lookup cs n = Some m0 \<Longrightarrow> lookup cs (replace_at cs m n) = Some m"
  by (induction cs arbitrary: n) (auto split: MemoryNode.splits option.splits simp: hm_simps)

lemma length_vec_resize [simp]: "length (vec_resize c n) = n"
  by (simp add: vec_resize_def)

lemma nth_vec_resize: "i < n \<Longrightarrow> vec_resize c n ! i = (if i < length c then c ! i else 0)"
  by (simp add: vec_resize_def nth_append)

lemma length_write_content: "length (write_content off dat c) = max (length c) (off + length dat)"
  by (simp add: write_content_def Let_def)

lemma nth_write_content:
  assumes "i < max (length c) (off + length dat)"
  shows "write_content off dat c ! i =
    (if off \<le> i \<and> i < off + length dat then dat ! (i - off) else if i < length c then c ! i else 0)"
proof -
  let ?c = "if length c < off + length dat then vec_resize c (off + length dat) else c"
  have "off + length dat \<le> length ?c" by simp
  moreover have "i < length ?c" using assms by auto
  moreover have "?c ! i = (if i < length c then c ! i else 0)"
    using assms by (auto simp: nth_vec_resize)
  ultimately show ?thesis
    by (auto simp: write_content_def Let_def nth_append)
qed

lemma open_path_eq:
  "fh_backend_internal_id h = Some ino \<Longrightarrow> hm_get (mb_open_files s) ino = Some info \<Longrightarrow>
   open_path h s = (Inr (ofi_path info), s)"
  by (simp add: open_path_def op_simps)

lemma read_open_file:
  assumes "fh_backend_internal_id h = Some ino" "hm_get (mb_open_files s) ino = Some info"
    and "lookup (path_components (ofi_path info)) (mb_root s) = Some (FileNode c m x)"
  shows "mb_read h off len s = (Inr (slice (unat off) (unat len) c), s)"
proof -
  have "mb_read h off len s =
      (Inr (if length c \<le> unat off then []
            else slice (unat off) (min (unat off + unat len) (length c) - unat off) c), s)"
    using open_path_eq [OF assms(1,2)] get_node_Some [OF assms(3)]
    by (simp add: mb_read_def op_simps Let_def)
  also have "(if length c \<le> unat off then []
            else slice (unat off) (min (unat off + unat len) (length c) - unat off) c)
      = slice (unat off) (unat len) c"
    by (auto simp: slice_def min_def)
  finally show ?thesis .
qed

lemma view_file: "q \<noteq> [] \<Longrightarrow> view (FileNode c m x) q = None"
  by (cases q) (auto simp: view_def)

lemma view_below_file: "lookup cs n = Some (FileNode c m x) \<Longrightarrow> q \<noteq> [] \<Longrightarrow> view n (cs @ q) = None"
  using view_file [of q c m x] by (simp add: view_def lookup_append)

lemma write_open_file:
  assumes "fh_backend_internal_id h = Some ino" "hm_get (mb_open_files s) ino = Some info"
    and "normalize_path (ofi_path info) = ofi_path info"
    and "mb_write clock h off dat s = (Inr n, s')"
  obtains c m x where "lookup (path_components (ofi_path info)) (mb_root s) = Some (FileNode c m x)"
    "n = of_nat (length dat)"
    "s' = s\<lparr> mb_root := replace_at (path_components (ofi_path info))
        (FileNode (write_content (unat off) dat c) (m\<lparr> nm_mtime := clock 0, nm_ctime := clock 1 \<rparr>) x)
        (mb_root s) \<rparr>"
proof -
  let ?cs = "path_components (ofi_path info)" and ?f = "write_node clock (ofi_path info) off dat"
  have p: "ofi_path info = join_slash ?cs" using assms(3) by (simp add: normalize_path_eq)
  note cl = clean_components [of "ofi_path info"]
  have w: "(case at_node (join_slash ?cs) ?f s of
        (Inl e, s1) \<Rightarrow> (Inl e, s1) | (Inr r, s1) \<Rightarrow> (r, s1)) = (Inr n, s')"
    using assms(4) open_path_eq [OF assms(1,2)] unfolding p [symmetric]
    by (auto simp: mb_write_def op_simps split: if_splits)
  then obtain f where l: "lookup ?cs (mb_root s) = Some f"
    using at_node_None [OF cl, of s ?f] by (cases "lookup ?cs (mb_root s)") auto
  note w = w [unfolded at_node_Some [OF cl l, of ?f]]
  then obtain c m x where f: "f = FileNode c m x" by (cases f) (auto simp: write_node_def)
  show ?thesis
    using that l w by (auto simp: f write_node_def Let_def split: if_splits)
qed

section \<open>Properties\<close>


text \<open>C12. After a successful write through an open handle, reading through it returns the file's old
  bytes with the written ones in their place and zeros in a gap before them; the call reports the
  number of bytes, and no other entry of the tree changes.\<close>

theorem write_then_read:
  assumes "fh_backend_internal_id h = Some ino" "hm_get (mb_open_files s) ino = Some info"
    and "normalize_path (ofi_path info) = ofi_path info"
    and "mb_write clock h off dat s = (Inr n, s')" "length dat < 2 ^ 32"
  shows "\<exists>c m x c'.
    fs_view s (path_components (ofi_path info)) = Some (FileNode c m x) \<and>
    (\<forall>o' l. mb_read h o' l s' = (Inr (slice (unat o') (unat l) c'), s')) \<and>
    unat n = length dat \<and>
    length c' = max (length c) (unat off + length dat) \<and>
    (\<forall>i < length c'. c' ! i =
       (if unat off \<le> i \<and> i < unat off + length dat then dat ! (i - unat off)
        else if i < length c then c ! i else 0)) \<and>
    (\<forall>q. q \<noteq> path_components (ofi_path info) \<longrightarrow> fs_view s' q = fs_view s q)"
proof -
  let ?cs = "path_components (ofi_path info)"
  obtain c m x where l: "lookup ?cs (mb_root s) = Some (FileNode c m x)" and n: "n = of_nat (length dat)"
    and s': "s' = s\<lparr> mb_root := replace_at ?cs (FileNode (write_content (unat off) dat c)
        (m\<lparr> nm_mtime := clock 0, nm_ctime := clock 1 \<rparr>) x) (mb_root s) \<rparr>"
    by (rule write_open_file [OF assms(1-4)])
  let ?c = "write_content (unat off) dat c"
  let ?f = "FileNode ?c (m\<lparr> nm_mtime := clock 0, nm_ctime := clock 1 \<rparr>) x"
  have lc: "lookup ?cs (mb_root s') = Some ?f" by (simp add: s' lookup_replace [OF l])
  have "view (mb_root s') q = view (mb_root s) q" if ne: "q \<noteq> ?cs" for q
  proof (cases "prefix ?cs q")
    case True
    then obtain r where "q = ?cs @ r" "r \<noteq> []" using ne by (auto simp: prefix_def)
    then show ?thesis by (simp add: s' view_replace [OF l] view_file view_below_file [OF l])
  qed (simp add: s' view_replace [OF l])
  then show ?thesis
    using read_open_file [OF assms(1) _ lc] assms(2,5) l
    by (intro exI [of _ c] exI [of _ m] exI [of _ x] exI [of _ ?c])
      (simp add: s' n view_def length_write_content nth_write_content unat_of_nat)
qed

definition demo_fs :: MemoryBackend where
  "demo_fs = (MemoryBackend_new 0)\<lparr>
     mb_root := DirNode [(''a'', FileNode [65, 66] (NodeMetadata_new 0 420 2) [])] (NodeMetadata_new 0 493 1) [],
     mb_open_files := [(2, \<lparr> ofi_path = ''a'', ofi_ref_count = 1 \<rparr>)], mb_inode_counter := 3 \<rparr>"

definition demo_fh :: FileHandle where
  "demo_fh = FileHandle_with_backend_id 1 0 0 (Some 2)"

theorem write_then_read_witness:
  "\<exists>c m x c'. fs_view demo_fs (path_components ''a'') = Some (FileNode c m x) \<and>
     (\<forall>o' l. mb_read demo_fh o' l (snd (mb_write (\<lambda>_. 5) demo_fh 3 [7, 8] demo_fs)) =
        (Inr (slice (unat o') (unat l) c'), snd (mb_write (\<lambda>_. 5) demo_fh 3 [7, 8] demo_fs))) \<and>
     length c' = max (length c) 5"
proof -
  let ?info = "\<lparr> ofi_path = ''a'', ofi_ref_count = 1 \<rparr>" and ?w = "mb_write (\<lambda>_. 5) demo_fh 3 [7, 8] demo_fs"
  have "fst ?w = Inr 2"
    by (simp add: mb_write_def open_path_def op_simps demo_fh_def FileHandle_with_backend_id_def demo_fs_def
        at_node_def write_node_def)
  then have w: "?w = (Inr 2, snd ?w)" by (metis prod.collapse)
  have f: "fh_backend_internal_id demo_fh = Some 2" by (simp add: demo_fh_def FileHandle_with_backend_id_def)
  have g: "hm_get (mb_open_files demo_fs) 2 = Some ?info" by (simp add: demo_fs_def)
  have p: "normalize_path (ofi_path ?info) = ofi_path ?info" by code_simp
  have "unat (3 :: u64) = 3" by simp
  then show ?thesis using write_then_read [OF f g p w] by fastforce
qed

end
