(* ===== verification/Server_Runs.thy ===== *)
theory Server_Runs
  imports Command_Table Message_Layer_Spec Memory_Backend_Spec
begin

text \<open>
  The message layer composed with the command handlers: whatever bytes a client sends, the store
  only goes through states its own methods reach, so what is invariant there is invariant for the
  running server.
\<close>

section \<open>Operations that keep a predicate of the state\<close>

definition preserves :: "('s \<Rightarrow> bool) \<Rightarrow> ('s, 'e, 'a) op \<Rightarrow> bool" where
  "preserves P m \<longleftrightarrow> (\<forall>s. P s \<longrightarrow> P (snd (m s)))"

named_theorems preserves_intros \<open>introduction rules of \<open>preserves\<close>\<close>

lemma preservesI: "(\<And>s. P s \<Longrightarrow> P (snd (m s))) \<Longrightarrow> preserves P m"
  by (simp add: preserves_def)

lemma preservesD: "preserves P m \<Longrightarrow> m s = (r, s') \<Longrightarrow> P s \<Longrightarrow> P s'"
  by (metis preserves_def snd_conv)

lemma preserves_bind [preserves_intros]:
  "preserves P m \<Longrightarrow> (\<And>x. preserves P (f x)) \<Longrightarrow> preserves P (op_bind m f)"
  by (fastforce simp: preserves_def op_bind_def split: prod.splits sum.splits)

lemma preserves_for [preserves_intros]: "(\<And>x. preserves P (f x)) \<Longrightarrow> preserves P (op_for f xs)"
proof (induction xs)
  case (Cons x xs)
  then show ?case by (simp add: preserves_bind)
qed (simp add: preserves_def op_return_def)

lemma preserves_simple [preserves_intros]:
  "preserves P (op_return x)" "preserves P (op_throw e)" "preserves P (op_lift r)" "preserves P (ok_or e y)"
  by (cases y; simp add: preserves_def op_return_def op_throw_def op_lift_def ok_or_def)+

lemma preserves_ignore [preserves_intros]: "preserves P m \<Longrightarrow> preserves P (op_ignore m)"
  by (simp add: preserves_def op_ignore_def)

lemma preserves_if [preserves_intros]: "preserves P m \<Longrightarrow> preserves P m' \<Longrightarrow> preserves P (if b then m else m')"
  by simp

lemma preserves_case [preserves_intros]:
  "preserves P m \<Longrightarrow> (\<And>x. preserves P (f x)) \<Longrightarrow> preserves P (case y of None \<Rightarrow> m | Some x \<Rightarrow> f x)"
  by (cases y) simp_all

lemma preserves_sum [preserves_intros]:
  "(\<And>x. preserves P (f x)) \<Longrightarrow> (\<And>x. preserves P (g x)) \<Longrightarrow> preserves P (case z of Inl x \<Rightarrow> f x | Inr x \<Rightarrow> g x)"
  by (cases z) simp_all

lemma preserves_prod [preserves_intros]:
  "(\<And>x y. preserves P (f x y)) \<Longrightarrow> preserves P (case w of (x, y) \<Rightarrow> f x y)"
  by (cases w) simp

lemma preserves_Let [preserves_intros]: "(\<And>x. preserves P (f x)) \<Longrightarrow> preserves P (Let y f)"
  by simp

text \<open>A predicate of the store, for the operations of the connection handler.\<close>

abbreviation on_store :: "('s \<Rightarrow> bool) \<Rightarrow> ('s, 'x) ConnectionHandler \<Rightarrow> bool" where
  "on_store P ch \<equiv> P (ch_store ch)"

lemma preserves_store [preserves_intros]:
  "preserves P m \<Longrightarrow> preserves (on_store P) (with_store m)"
  "preserves P m \<Longrightarrow> preserves (on_store P) (try_store m)"
  by (fastforce simp: preserves_def with_store_def try_store_def split: prod.splits sum.splits)+

lemma preserves_parts [preserves_intros]:
  "preserves (on_store P) (on_backend i n)" "preserves (on_store P) (on_registry g)"
  "preserves (on_store P) (backend_handle h)" "preserves (on_store P) (find_backend env t)"
  "preserves (on_store P) (respond env header body)"
  "preserves (on_store P) (ask_registry m)" "preserves (on_store P) (ioctl_response env header rq st out)"
  "preserves (on_store P) (break_response env header body)"
  by (auto simp: preserves_def on_backend_def on_registry_def backend_handle_def find_backend_def ok_or_def
      op_return_def op_throw_def respond_def build_response_header_def ask_registry_def ioctl_response_def
      break_response_def Let_def split: prod.split option.split)

lemma preserves_lifts [preserves_intros]:
  "preserves (on_store P) (parse_as c r)" "preserves (on_store P) (vfs_err r')"
  by (simp_all add: parse_as_def vfs_err_def preserves_simple)

lemma ignored_backend_store: "ch_store (snd (op_bind (on_backend i m) (\<lambda>_. op_return ()) ch)) = ch_store ch"
  by (auto simp: op_bind_def on_backend_def op_return_def split: prod.splits sum.splits vfs_fault.splits)

lemma send_response_store: "ch_store (snd (send_response r ch)) = ch_store ch"
  by (simp add: send_response_def split: option.split)

text \<open>An operation that looks at the state before it chooses what to do.\<close>

lemma preserves_reader: "(\<And>c. preserves Q (f c)) \<Longrightarrow> preserves Q (\<lambda>s. f s s)"
  by (simp add: preserves_def)

lemma preserves_readers [preserves_intros]:
  "preserves Q (\<lambda>s. op_lift (g s) s)" "preserves Q (\<lambda>s. ok_or e (k s) s)"
  by (rule preserves_reader, rule preserves_simple)+

lemma preserves_if_reader:
  "preserves Q m \<Longrightarrow> preserves Q m' \<Longrightarrow> preserves Q (\<lambda>s. if b s then m s else m' s)"
  by (simp add: preserves_def)

lemma preserves_bind_reader:
  "(\<And>c. preserves Q (m c)) \<Longrightarrow> (\<And>c x. preserves Q (f c x)) \<Longrightarrow> preserves Q (\<lambda>s. op_bind (m s) (f s) s)"
  by (rule preserves_reader) (rule preserves_bind)

section \<open>Stores whose methods keep a predicate\<close>

locale kept_store =
  fixes ops :: "'s state_store" and P :: "'s \<Rightarrow> bool"
  assumes kept_sessions: "preserves P (st_get_session ops sid)" "preserves P (st_delete_session ops sid)"
    and kept_trees: "preserves P (st_get_tree ops sid tid)" "preserves P (st_create_tree ops t)"
      "preserves P (st_delete_tree ops sid tid)" "preserves P (st_get_trees_by_session ops sid)"
      "preserves P (st_next_tree_id ops sid)"
    and kept_handles: "preserves P (st_get_handle ops pid)" "preserves P (st_update_handle ops h)"
      "preserves P (st_delete_handle ops pid)" "preserves P (st_get_handles_by_session ops sid)"
    and kept_leases: "preserves P (st_delete_lease ops key)" "preserves P (st_get_lease ops key)"
      "preserves P (st_update_lease ops l)"
    and kept_locks: "preserves P (st_get_file_locks ops path)" "preserves P (st_release_file_lock ops lid)"
      "preserves P (st_next_file_lock_id ops)" "preserves P (st_acquire_file_lock ops lock)"
      "preserves P (st_release_file_locks_for_handle ops pid)"
begin

lemmas kept = kept_sessions kept_trees kept_handles kept_leases kept_locks

lemma kept_manager:
  "preserves P (sm_get_session ops sid)" "preserves P (sm_get_tree ops sid tid)" "preserves P (sm_get_handle ops pid)"
  "preserves P (sm_update_handle ops h)" "preserves P (sm_delete_handle ops pid)" "preserves P (sm_create_tree ops t)"
  "preserves P (sm_delete_tree ops sid tid)" "preserves P (sm_delete_session ops now_at sid)"
  by (auto intro!: preserves_intros kept simp: sm_get_session_def sm_get_tree_def sm_get_handle_def
      sm_update_handle_def sm_delete_handle_def sm_create_tree_def sm_delete_tree_def sm_delete_session_def
      sm_drop_handle_def)

lemma logoff_keeps:
  assumes "ce_store env = ops"
  shows "preserves (on_store P) (handle_logoff env readings now_at header)"
proof -
  let ?sid = "sh_session_id header"
  let ?drop = "op_bind (try_store (sm_delete_session ops now_at ?sid)) (\<lambda>_. respond env header (plain_response env))"
  have "preserves (on_store P) ?drop" by (intro preserves_intros kept_manager)
  then have "preserves (on_store P) (\<lambda>ch. ?drop (ch\<lparr> ch_connection := remove_session (readings 0) ?sid (ch_connection ch),
      ch_signing_keys := hm_remove ?sid (ch_signing_keys ch) \<rparr>))"
    by (simp add: preserves_def)
  then show ?thesis unfolding handle_logoff_def assms Let_def by (intro preserves_intros kept_manager)
qed

lemma tree_handlers_keep:
  assumes "ce_store env = ops"
  shows "preserves (on_store P) (handle_tree_connect env now header body)"
    and "preserves (on_store P) (handle_tree_disconnect env header)"
proof -
  have "preserves (on_store P) (\<lambda>ch. let (resp_header, ch1) = build_response_header header NtSuccess ch in (r resp_header, ch1))" for r
    by (simp add: preserves_def build_response_header_def split: prod.split)
  then show "preserves (on_store P) (handle_tree_connect env now header body)"
    unfolding handle_tree_connect_def assms Let_def by (intro preserves_intros kept kept_manager)
  show "preserves (on_store P) (handle_tree_disconnect env header)"
    unfolding handle_tree_disconnect_def assms by (intro preserves_intros kept_manager)
qed

lemma delete_closed_keeps:
  assumes "ce_store env = ops"
  shows "preserves (on_store P) (delete_closed_file env header handle)"
  unfolding delete_closed_file_def assms
  by (intro preserves_if preserves_bind preserves_store kept_manager preserves_simple, intro preservesI)
    (auto simp: ignored_backend_store split: sum.split option.split)

lemma file_handlers_keep:
  assumes "ce_store env = ops"
  shows "preserves (on_store P) (handle_close env header body)"
    and "preserves (on_store P) (handle_read env now header body)"
    and "preserves (on_store P) (handle_write env now readings header body)"
  unfolding handle_close_def handle_read_def handle_write_def close_lease_def open_backend_def assms Let_def
  by (intro preserves_intros kept kept_manager delete_closed_keeps assms)+

lemma lock_steps_keep:
  assumes "ce_store env = ops"
  shows "preserves (on_store P) (file_locks env path)" "preserves (on_store P) (fail_lock env ids e)"
    and "preserves (on_store P) (unlock_element env t lock)" "preserves (on_store P) (record_lock env now header t lock ids)"
proof -
  show locks: "preserves (on_store P) (file_locks env path)" for path
    unfolding file_locks_def assms by (intro preserves_intros kept)
  show "preserves (on_store P) (fail_lock env ids e)"
    unfolding fail_lock_def rollback_locks_def assms by (intro preserves_intros kept)
  have u: "preserves (on_store P) (case r of Inr _ \<Rightarrow> op_return () | Inl VfsLockConflict \<Rightarrow> op_throw (HeStatus NtInvalidLockRange)
       | Inl e \<Rightarrow> op_throw (HeVfs (VfsError_display e)))" for r :: "VfsError + unit"
    by (auto intro: preserves_simple split: sum.split VfsError.split)
  show "preserves (on_store P) (unlock_element env t lock)"
    unfolding unlock_element_def
    by (intro preserves_bind locks preserves_parts preserves_case preserves_simple preserves_store u) (simp add: assms kept)
  show "preserves (on_store P) (record_lock env now header t lock ids)"
    unfolding record_lock_def assms
    by (intro preserves_bind preserves_sum preserves_bind_reader preserves_store kept preserves_simple)
qed

lemma lock_loop_keeps:
  assumes "ce_store env = ops"
  shows "preserves (on_store P) (lock_loop env now header t locks ids)"
proof (induction locks arbitrary: ids)
  case (Cons lock locks)
  have r: "preserves (on_store P) (case r of Inr _ \<Rightarrow> record_lock env now header t lock ids
       | Inl VfsLockConflict \<Rightarrow> fail_lock env ids (lock_error lock)
       | Inl e \<Rightarrow> fail_lock env ids (HeVfs (VfsError_display e)))" for r :: "VfsError + unit"
    by (auto intro: lock_steps_keep [OF assms] split: sum.split VfsError.split)
  have e: "preserves (on_store P) (lock_element env now header t lock ids)"
    unfolding lock_element_def Let_def
    by (intro preserves_bind preserves_if_reader lock_steps_keep [OF assms] preserves_parts r)
  show ?case
    unfolding lock_loop.simps by (intro preserves_intros Cons.IH lock_steps_keep [OF assms] e)
qed (simp add: preserves_simple)

lemma lock_handler_keeps:
  assumes "ce_store env = ops"
  shows "preserves (on_store P) (handle_lock env now header body)"
  unfolding handle_lock_def lock_lookup_def assms Let_def
  by (intro preserves_intros kept_manager lock_loop_keeps assms)

lemma copy_chunks_keep:
  "preserves (on_store P) (copy_chunks env clock backend f g chunks written n)"
proof (induction chunks arbitrary: clock written n)
  case (Cons chunk chunks)
  show ?case unfolding copy_chunks.simps copy_chunk_def by (intro preserves_intros Cons.IH)
qed (simp add: preserves_simple)

lemma copychunk_keeps:
  assumes "ce_store env = ops"
  shows "preserves (on_store P) (handle_copychunk env clock header rq body w)"
proof -
  have h: "preserves (on_store P) (copychunk_handles env header rq cr w)" for cr
    unfolding copychunk_handles_def assms Let_def by (intro preserves_intros kept_manager)
  show ?thesis
    unfolding handle_copychunk_def build_copychunk_error_response_def build_copychunk_lock_error_response_def Let_def
    using assms by (intro preserves_intros h copy_chunks_keep lock_steps_keep) (simp_all add: kept_manager)
qed

lemma ioctl_keeps:
  assumes "ce_store env = ops"
  shows "preserves (on_store P) (handle_ioctl env clock header body)"
proof -
  have "on_store P (snd (ioctl_response env header rq st out s))" if "on_store P s" for rq st out s
    using that preserves_parts(7) [of P env header rq st out] by (simp add: preserves_def)
  then have v: "preserves (on_store P) (handle_validate_negotiate_info env header rq body)" for rq
    by (auto simp: preserves_def handle_validate_negotiate_info_def Let_def split: option.split)
  have k: "preserves (on_store P) (handle_request_resume_key env header rq)" for rq
    unfolding handle_request_resume_key_def assms Let_def by (intro preserves_intros kept_manager)
  have "preserves (on_store P) (case c of
       Some FsValidateNegotiateInfo \<Rightarrow> handle_validate_negotiate_info env header rq body
     | Some FsSrvRequestResumeKey \<Rightarrow> handle_request_resume_key env header rq
     | Some FsSrvCopychunk \<Rightarrow> handle_copychunk env clock header rq body False
     | Some FsSrvCopychunkWrite \<Rightarrow> handle_copychunk env clock header rq body True
     | _ \<Rightarrow> op_throw (HeStatus NtNotSupported))" for c rq
    by (auto intro: v k copychunk_keeps [OF assms] preserves_simple split: option.split FsctlCode.split)
  then show ?thesis unfolding handle_ioctl_def by (intro preserves_bind preserves_lifts preserves_readers)
qed

lemma query_handlers_keep:
  assumes "ce_store env = ops"
  shows "preserves (on_store P) (handle_query_directory env ft header body)"
    and "preserves (on_store P) (handle_query_info env ft header body)"
proof -
  have f: "preserves (on_store P) (find_open env header hid)" for hid
    unfolding find_open_def assms by (intro preserves_intros kept_manager)
  have o: "preserves (on_store P) (query_output env ft rq handle backend)" for rq handle backend
    unfolding query_output_def backend_call_def
    by (cases "qiq_info_type rq") (auto intro!: preserves_intros)
  show "preserves (on_store P) (handle_query_directory env ft header body)"
    unfolding handle_query_directory_def backend_call_def respond_with_def by (intro preserves_intros f)
  show "preserves (on_store P) (handle_query_info env ft header body)"
    unfolding handle_query_info_def respond_with_def by (intro preserves_intros f o)
qed

lemma set_file_info_keeps:
  assumes "ce_store env = ops"
  shows "preserves (on_store P) (handle_set_file_info env rd rd2 handle backend c buffer)"
proof -
  have b: "preserves (on_store P) (set_basic_info env rd rd2 handle backend buffer)"
    unfolding set_basic_info_def apply_readonly_attribute_def backend_call_def Let_def by (intro preserves_intros)
  have d: "preserves (on_store P) (set_disposition_info env handle buffer)"
    unfolding set_disposition_info_def assms by (intro preserves_intros kept_manager)
  have c: "preserves (on_store P) (case r of
       Inr _ \<Rightarrow> op_throw (HeStatus NtObjectNameCollision)
     | Inl (VfsNotFound _) \<Rightarrow> op_return ()
     | Inl (VfsInvalidPath _) \<Rightarrow> op_return ()
     | Inl e \<Rightarrow> op_throw (HeVfs (VfsError_display e)))" for r :: "VfsError + Metadata"
    by (auto intro: preserves_simple split: sum.split VfsError.split)
  have r: "preserves (on_store P) (set_rename_info env handle backend buffer)"
    unfolding set_rename_info_def backend_call_def assms Let_def by (intro preserves_intros c kept_manager)
  show ?thesis
    unfolding handle_set_file_info_def backend_call_def assms
    by (auto intro!: b d r preserves_intros kept_manager split: option.split SetFileInfoClass.split)
qed

lemma set_info_keeps:
  assumes "ce_store env = ops"
  shows "preserves (on_store P) (handle_set_info env rd rd2 header body)"
proof -
  have "preserves (on_store P) (case t of
       InfoFile \<Rightarrow> handle_set_file_info env rd rd2 handle backend c buffer
     | InfoSecurity \<Rightarrow> op_return () | _ \<Rightarrow> op_throw (HeStatus NtNotSupported))" for t handle backend c buffer
    by (cases t) (auto intro: set_file_info_keeps [OF assms] preserves_simple)
  then show ?thesis
    unfolding handle_set_info_def find_open_def assms by (intro preserves_intros kept_manager)
qed

lemma oplock_break_keeps:
  assumes "ce_store env = ops"
  shows "preserves (on_store P) (handle_oplock_break env header body)"
proof -
  have o: "preserves (on_store P) (handle_oplock_break_ack env header body)"
    unfolding handle_oplock_break_ack_def assms Let_def by (intro preserves_intros kept kept_manager)
  have u: "preserves (on_store P) (update_acked_lease env key st)" for key st
    unfolding update_acked_lease_def assms by (intro preserves_intros kept)
  have "preserves (on_store P) (case r of
       Inr _ \<Rightarrow> op_bind (update_acked_lease env key st) (\<lambda>_. break_response env header b)
     | Inl (LbNoPendingBreak _) \<Rightarrow> op_throw (HeStatus NtInvalidParameter)
     | Inl (LbInvalidStateSubset _ _) \<Rightarrow> op_throw (HeStatus NtRequestNotAccepted)
     | Inl _ \<Rightarrow> op_throw (HeStatus NtInvalidParameter))" for r :: "LeaseBreakError + unit" and key st b
    by (auto intro!: preserves_intros u split: sum.split LeaseBreakError.split)
  then have l: "preserves (on_store P) (handle_lease_break_ack env header body)"
    unfolding handle_lease_break_ack_def by (intro preserves_bind preserves_lifts preserves_parts)
  show ?thesis unfolding handle_oplock_break_def Let_def by (intro preserves_intros o l)
qed

lemma handle_command_keeps:
  assumes "ce_store env = ops" "\<And>h b m. preserves (on_store P) (others h b m)"
  shows "preserves (on_store P) (handle_command env inp others header body m)"
proof -
  have "preserves (on_store P) (handle_cancel header)"
    by (simp add: preserves_def handle_cancel_def Let_def)
  then show ?thesis
    unfolding handle_command_def handle_flush_def handle_echo_def handle_change_notify_def
    by (cases "sh_command header") (simp_all add: assms(2) logoff_keeps [OF assms(1)] tree_handlers_keep [OF assms(1)]
        file_handlers_keep [OF assms(1)] lock_handler_keeps [OF assms(1)] ioctl_keeps [OF assms(1)]
        query_handlers_keep [OF assms(1)] set_info_keeps [OF assms(1)] oplock_break_keeps [OF assms(1)] preserves_intros)
qed

lemma check_session_keeps:
  assumes "env_store env = ops"
  shows "preserves (on_store P) (check_session env now header)"
proof -
  let ?sid = "sh_session_id header"
  have "preserves (on_store P) (op_bind (with_store (sm_get_session ops ?sid)) (\<lambda>found ch.
     if found = None then (Inl (HeStatus NtUserSessionDeleted),
       ch\<lparr> ch_connection := remove_session now ?sid (ch_connection ch) \<rparr>) else (Inr (), ch)))"
    by (intro preserves_bind preserves_store kept_manager) (simp add: preserves_def)
  then show ?thesis by (auto simp: preserves_def check_session_def Let_def assms)
qed

lemma dispatch_keeps:
  assumes "env_store env = ops" "\<And>h b m. preserves (on_store P) (env_handle env h b m)"
  shows "preserves (on_store P) (dispatch_command env now header body m)"
    and "preserves (on_store P) (dispatch_command_compound env now header body m ctx)"
proof -
  show d: "preserves (on_store P) (dispatch_command env now header body m)" for header body m
    unfolding dispatch_command_def check_tree_def assms(1)
    by (intro preserves_intros check_session_keeps kept_manager assms)
  show "preserves (on_store P) (dispatch_command_compound env now header body m ctx)"
    unfolding dispatch_command_compound_def Let_def by (intro preserves_intros d)
qed

lemma compound_loop_keeps:
  assumes "env_store env = ops" "\<And>h b m. preserves (on_store P) (env_handle env h b m)"
  shows "preserves (on_store P) (compound_loop env clock related message i offsets acc)"
proof (induction offsets arbitrary: i acc)
  case (Cons off offsets)
  have e: "snd (push_error env h st le acc ch) = ch" for h st le acc ch
    by (simp add: push_error_def split: sum.split)
  have p: "snd (push_success env i h r f acc ch) = ch" for i h r f acc ch
    by (simp add: push_success_def Let_def split: sum.split)
  have c: "ch_store (charge_credits h ch) = ch_store ch" for h ch by (simp add: charge_credits_def)
  have d: "on_store P ch1" if "dispatch_command_compound env now h body m ctx (charge_credits h ch) = (r, ch1)" "on_store P ch"
    for now h body m ctx ch r ch1
    using preservesD [OF dispatch_keeps(2) [OF assms] that(1)] that(2) by (simp add: c)
  have "preserves (on_store P) (compound_step env now related i cmd acc)" for now i cmd acc
    by (intro preservesI) (auto simp: compound_step_def e p split: sum.split option.split prod.split dest: d)
  then show ?case unfolding compound_loop.simps Let_def by (intro preserves_bind Cons.IH)
qed (simp add: preserves_simple)

lemma process_keeps:
  assumes "env_store env = ops" "\<And>h b m. preserves (on_store P) (env_handle env h b m)"
  shows "preserves (on_store P) (process_and_respond env clock message)"
proof -
  have t: "preserves (on_store P) (\<lambda>ch. f (ch\<lparr> ch_connection := g (ch_connection ch) \<rparr>))"
    if "preserves (on_store P) f" for f :: "('s, 'x, bytes) h_op" and g
    using that by (simp add: preserves_def)
  have "preserves (on_store P) (\<lambda>ch. dispatch_command env now h body m (charge_credits h ch))" for now h body m
    using dispatch_keeps(1) [OF assms] by (simp add: preserves_def charge_credits_def)
  from t [OF this] have single: "preserves (on_store P) (process_single_message env clock header m)" for header m
    by (simp add: preserves_def process_single_message_def Let_def)
  let ?offsets = "parse_compound_offsets message"
  have "preserves (on_store P) (process_compound_request env clock message)"
  proof (cases "length ?offsets < 2")
    case True
    then show ?thesis by (simp add: preserves_def process_compound_request_def Let_def)
      (use preserves_bind [OF preserves_simple(3) single] in \<open>simp add: preserves_def\<close>)
  next
    case False
    have "preserves (on_store P) (op_bind (op_lift r) (\<lambda>second_header.
        op_bind (compound_loop env clock (rel second_header) message 0 ?offsets (acc0 second_header))
          (\<lambda>acc ch. (combine second_header ch acc, ch))))" for r rel acc0 combine
      by (intro preserves_intros compound_loop_keeps assms) (simp add: preserves_def)
    from t [OF this] False show ?thesis by (simp add: preserves_def process_compound_request_def Let_def)
  qed
  then have "preserves (on_store P) (process_message env clock message)"
    unfolding process_message_def by (intro preserves_intros single)
  then show ?thesis
    by (intro preservesI) (auto simp: send_response_store process_and_respond_def Let_def op_bind_def op_lift_def
        split: prod.split sum.split dest: preservesD)
qed

lemma drain_keeps:
  assumes "env_store env = ops" "\<And>h b m. preserves (on_store P) (env_handle env h b m)"
  shows "on_store P ch \<Longrightarrow> on_store P (snd (drain env clock buf ch))"
proof -
  have "on_store P (process_all env clock ms ch)" if "on_store P ch" for ms ch
    using that
  proof (induction ms arbitrary: ch)
    case (Cons m ms)
    then show ?case
      by (auto split: prod.split sum.split dest: preservesD [OF process_keeps [OF assms]])
  qed simp
  then show "on_store P ch \<Longrightarrow> on_store P (snd (drain env clock buf ch))" by (simp add: drain_processes)
qed

end

interpretation mk: kept_store memory_store mem_reachable
  by unfold_locales (auto simp: memory_store_def preserves_def mem_get_session_def mem_get_tree_def
      mem_get_trees_by_session_def mem_get_handle_def mem_get_handles_by_session_def mem_get_file_locks_def mem_get_lease_def
      intro: mem_reachable.step mem_step.intros)

section \<open>The server over the in-memory store\<close>

text \<open>The environment of the message layer in which the modelled handlers run; \<open>inputs\<close> are the readings of
  each request.\<close>

definition server_env ::
  "('s, 'b) command_env \<Rightarrow> mac_lib \<Rightarrow> (Smb2Header \<Rightarrow> request_inputs)
     \<Rightarrow> (Smb2Header \<Rightarrow> bytes \<Rightarrow> bytes \<Rightarrow> ('s, 'b, bytes) c_op) \<Rightarrow> ('s, 'b handler_parts) handler_env" where
  "server_env env macs inputs others =
     \<lparr> env_headers = ce_headers env, env_macs = macs, env_store = ce_store env,
       env_handle = (\<lambda>header. handle_command env (inputs header) others header) \<rparr>"


definition demo_command_env :: "(MemoryStateStore, MemoryBackend) command_env" where
  "demo_command_env = \<lparr> ce_headers = le_header_lib, ce_codec = le_codec, ce_store = memory_store,
     ce_backend = memory_backend, ce_lowercase = id, ce_hex = demo_hex, ce_config = ServerConfig_default \<rparr>"

definition demo_inputs :: request_inputs where
  "demo_inputs = \<lparr> ri_now = 0, ri_readings = (\<lambda>_. 0), ri_readings2 = (\<lambda>_. 0), ri_chunks = (\<lambda>_ _. 0),
     ri_now_at = (\<lambda>_. 0), ri_filetimes = (\<lambda>_. 0) \<rparr>"

definition demo_server :: "(MemoryStateStore, MemoryBackend handler_parts) ConnectionHandler" where
  "demo_server = \<lparr> ch_stream = [], ch_write_error = None,
     ch_connection = Connection_with_config 0 1 [] ConnectionConfig_default, ch_store = MemoryStateStore_new,
     ch_signing_keys = [], ch_rest = \<lparr> hp_server_id = ''srv'', hp_shares = [], hp_backends = (\<lambda>_. demo_fs),
       hp_registry = LeaseBreakRegistry_new, hp_fh_counter = 1 \<rparr> \<rparr>"


end
