(* ===== verification/Memory_Backend_Runs.thy ===== *)
theory Memory_Backend_Runs
  imports Memory_Backend_Spec
begin

text \<open>
  Runs of the memory backend: any sequence of calls, with the list of handles given out and not yet
  closed. The tree stays well formed with unique inodes, the reference counts are the numbers of open
  handles, and the byte-range locks held on a node never conflict. A run is shorter than \<open>2\<^sup>3\<^sup>2\<close> calls,
  so that no reference count and no inode number wraps around.
\<close>

section \<open>The operations and the tree\<close>

definition same_but_root :: "MemoryBackend \<Rightarrow> MemoryBackend \<Rightarrow> bool" where
  "same_but_root s s' \<longleftrightarrow> s' = s\<lparr> mb_root := mb_root s' \<rparr>"

lemma at_node_keeps:
  assumes "tree_inv s" "list_all clean cs" "at_node (join_slash cs) f s = (r, s')"
    and "\<And>m r m'. tree_wf m \<Longrightarrow> f m = Inr (r, m') \<Longrightarrow>
           tree_wf m' \<and> is_dir m' = is_dir m \<and> inodes m' \<subseteq># inodes m"
  shows "tree_inv s' \<and> same_but_root s s'"
proof (cases "lookup cs (mb_root s)")
  case None
  then show ?thesis
    using assms at_node_None [OF assms(2) None, of f] by (auto simp: same_but_root_def)
next
  case (Some m)
  have "tree_wf m" using assms(1) Some by (auto simp: tree_inv_def intro: tree_wf_lookup)
  then show ?thesis
    using assms(1,3,4) at_node_Some [OF assms(2) Some, of f]
    by (auto simp: same_but_root_def split: sum.splits intro!: tree_inv_replace [OF _ Some])
qed

lemma tree_inv_lookup: "tree_inv s \<Longrightarrow> lookup cs (mb_root s) = Some m \<Longrightarrow> tree_wf m"
  by (auto simp: tree_inv_def intro: tree_wf_lookup)

lemma at_children_keeps:
  assumes "tree_inv s" "list_all clean cs" "at_children (join_slash cs) g s = (r, s')"
    and "\<And>ch r ch'. g ch = Inr (r, ch') \<Longrightarrow> (\<exists>k n. hm_get ch k = Some n \<and> ch' = hm_remove k ch)"
  shows "tree_inv s' \<and> same_but_root s s'"
proof (rule at_node_keeps [OF assms(1,2) assms(3) [unfolded at_children_def]])
  fix m r m' assume "tree_wf m" "in_children (join_slash cs) g m = Inr (r, m')"
  then obtain ch md x ch' where m: "m = DirNode ch md x" "m' = DirNode ch' md x" "g ch = Inr (r, ch')"
    by (auto simp: in_children_def split: MemoryNode.splits sum.splits)
  then obtain k n where k: "hm_get ch k = Some n" "ch' = hm_remove k ch" using assms(4) by blast
  have "hm_wf ch" using \<open>tree_wf m\<close> m(1) by simp
  from sum_inodes_remove [OF this k(1)]
  have "(\<Sum>p\<leftarrow>hm_remove k ch. inodes (snd p)) \<subseteq># (\<Sum>p\<leftarrow>ch. inodes (snd p))"
    by (metis mset_subset_eq_add_left)
  moreover have "tree_wf m'" using \<open>tree_wf m\<close> unfolding m k by (rule tree_wf_remove)
  ultimately show "tree_wf m' \<and> is_dir m' = is_dir m \<and> inodes m' \<subseteq># inodes m"
    by (simp add: m k)
qed

lemma map_metadata_facts:
  "tree_wf (map_metadata f m) = tree_wf m" "is_dir (map_metadata f m) = is_dir m"
  "(\<And>md. nm_ino (f md) = nm_ino md) \<Longrightarrow> inodes (map_metadata f m) = inodes m"
  by (cases m; simp)+

lemma edit_metadata_keeps:
  assumes "tree_inv s" "edit_metadata f p s = (r, s')" "\<And>m. nm_ino (f m) = nm_ino m"
  shows "tree_inv s' \<and> same_but_root s s'"
  using assms(2) unfolding edit_metadata_def normalize_path_eq
  by (rule at_node_keeps [OF assms(1) clean_components])
    (auto simp: assms(3) map_metadata_facts)

lemma unat_no_wrap_end:
  assumes "n < 2 ^ 64" "unat (off :: u64) \<le> unat (off + of_nat n)"
  shows "unat (off + of_nat n) = unat off + n"
proof (cases "unat off + n < 2 ^ 64")
  case True
  then show ?thesis using assms(1) by (simp add: unat_word_ariths unat_of_nat)
next
  case False
  then have "(unat off + n) mod 2 ^ 64 = unat off + n - 2 ^ 64"
    using assms(1) unat_lt_exp [of off] by (simp add: mod_nat_eqI le_mod_geq)
  then show ?thesis using assms False by (simp add: unat_word_ariths unat_of_nat)
qed

lemma write_node_keeps:
  assumes "length dat \<le> ISIZE_MAX" "tree_wf m" "write_node clock p off dat m = Inr (r, m')"
  shows "tree_wf m' \<and> is_dir m' = is_dir m \<and> inodes m' \<subseteq># inodes m"
proof (cases m)
  case (FileNode c md x)
  let ?e = "unat (off + of_nat (length dat))"
  have "?e = unat off + length dat" if "\<not> ?e < unat off"
    by (rule unat_no_wrap_end) (use that assms(1) in simp_all)
  then show ?thesis using assms(2,3) FileNode
    by (auto simp: write_node_def Let_def length_write_content split: if_splits)
qed (use assms in \<open>auto simp: write_node_def\<close>)

lemma at_normal_keeps:
  assumes "tree_inv s" "normalize_path p = p"
    and "\<And>m r m'. tree_wf m \<Longrightarrow> f m = Inr (r, m') \<Longrightarrow>
           tree_wf m' \<and> is_dir m' = is_dir m \<and> inodes m' \<subseteq># inodes m"
  shows "tree_inv (snd (at_node p f s)) \<and> same_but_root s (snd (at_node p f s))"
proof -
  have "at_node (join_slash (path_components p)) f s = (fst (at_node p f s), snd (at_node p f s))"
    using assms(2) by (simp add: normalize_path_eq)
  then show ?thesis by (rule at_node_keeps [OF assms(1) clean_components _ assms(3)])
qed

lemma normalize_idem: "normalize_path (normalize_path p) = normalize_path p"
  by (simp add: normalize_path_eq components_join clean_components)

definition paths_normal :: "MemoryBackend \<Rightarrow> bool" where
  "paths_normal s \<longleftrightarrow> (\<forall>id info. hm_get (mb_open_files s) id = Some info \<longrightarrow>
     normalize_path (ofi_path info) = ofi_path info)"

lemma write_keeps:
  assumes "tree_inv s" "paths_normal s" "length dat \<le> ISIZE_MAX" "mb_write clock h off dat s = (r, s')"
  shows "tree_inv s' \<and> same_but_root s s'"
proof (cases "\<exists>id info. fh_backend_internal_id h = Some id \<and> hm_get (mb_open_files s) id = Some info \<and>
    ofi_path info \<noteq> []")
  case True
  then obtain id info where h: "fh_backend_internal_id h = Some id"
    "hm_get (mb_open_files s) id = Some info" "ofi_path info \<noteq> []" by auto
  let ?x = "at_node (ofi_path info) (write_node clock (ofi_path info) off dat) s"
  have "s' = snd ?x"
    using assms(4) h by (auto simp: mb_write_def open_path_eq op_simps split: prod.splits sum.splits)
  moreover have "normalize_path (ofi_path info) = ofi_path info"
    using assms(2) h(2) by (simp add: paths_normal_def)
  ultimately show ?thesis
    by (simp only:) (rule at_normal_keeps [OF assms(1) _ write_node_keeps [OF assms(3)]])
next
  case False
  then have "s' = s"
    using assms(4) by (auto simp: mb_write_def open_path_def op_simps split: option.splits)
  then show ?thesis using assms(1) by (simp add: same_but_root_def)
qed

lemma truncate_keeps:
  assumes "tree_inv s" "mb_truncate clock p sz s = (r, s')"
  shows "tree_inv s' \<and> same_but_root s s'"
proof (cases "normalize_path p = []")
  case False
  then have "s' = snd (at_node (normalize_path p) (truncate_node clock (normalize_path p) (unat sz)) s)"
    using assms(2) by (auto simp: mb_truncate_def Let_def split: prod.splits sum.splits)
  then show ?thesis
    by (simp only:) (rule at_normal_keeps [OF assms(1) normalize_idem],
      auto simp: truncate_node_def split: MemoryNode.splits if_splits)
qed (use assms in \<open>auto simp: mb_truncate_def same_but_root_def\<close>)

lemma set_xattrs_keeps:
  "tree_wf m \<Longrightarrow> node_xattrs m = Some x \<Longrightarrow> hm_wf x' \<Longrightarrow>
   tree_wf (set_xattrs x' m) \<and> is_dir (set_xattrs x' m) = is_dir m \<and> inodes (set_xattrs x' m) = inodes m"
  by (cases m) auto

lemma xattrs_wf: "tree_wf m \<Longrightarrow> node_xattrs m = Some x \<Longrightarrow> hm_wf x"
  by (cases m) auto

lemma setxattr_keeps:
  "tree_inv s \<Longrightarrow> mb_setxattr p name v s = (r, s') \<Longrightarrow> tree_inv s' \<and> same_but_root s s'"
  unfolding mb_setxattr_def normalize_path_eq
  by (rule at_node_keeps [OF _ clean_components], assumption, assumption)
    (auto simp: set_xattrs_keeps xattrs_wf split: option.splits)

lemma removexattr_keeps:
  "tree_inv s \<Longrightarrow> mb_removexattr p name s = (r, s') \<Longrightarrow> tree_inv s' \<and> same_but_root s s'"
  unfolding mb_removexattr_def normalize_path_eq
  by (rule at_node_keeps [OF _ clean_components], assumption, assumption)
    (auto simp: set_xattrs_keeps xattrs_wf split: option.splits if_splits)

lemma unlink_keeps:
  assumes "tree_inv s" "mb_unlink p s = (r, s')"
  shows "tree_inv s' \<and> same_but_root s s'"
proof (cases "path_components p = []")
  case False
  show ?thesis
    by (rule at_children_keeps [OF assms(1) split_normalized(3) [OF False]
          assms(2) [unfolded mb_unlink_def on_entry split_normalized [OF False] if_not_P [OF False]]])
      (auto split: option.splits MemoryNode.splits)
qed (use assms in \<open>auto simp: mb_unlink_def normalize_Nil_iff same_but_root_def\<close>)

lemma rmdir_keeps:
  assumes "tree_inv s" "mb_rmdir p s = (r, s')"
  shows "tree_inv s' \<and> same_but_root s s'"
proof (cases "path_components p = []")
  case False
  show ?thesis
    by (rule at_children_keeps [OF assms(1) split_normalized(3) [OF False]
          assms(2) [unfolded mb_rmdir_def on_entry split_normalized [OF False] if_not_P [OF False]]])
      (auto split: option.splits MemoryNode.splits if_splits)
qed (use assms in \<open>auto simp: mb_rmdir_def normalize_Nil_iff same_but_root_def\<close>)

lemma clean_last: "path_components p \<noteq> [] \<Longrightarrow> clean (last (path_components p))"
  using clean_components [of p] by (simp add: list_all_iff)

text \<open>\<open>rename\<close> takes a node out and puts it back, or loses it: no inode is ever duplicated.\<close>

lemma take_then_put_inodes:
  assumes "tree_inv s" "lookup ps (mb_root s) = Some (DirNode ch m x)" "hm_get ch k = Some node"
    and "root1 = replace_at ps (DirNode (hm_remove k ch) m x) (mb_root s)"
    and "lookup qs root1 = Some (DirNode ch2 m2 x2)" "clean j"
    and "root2 = replace_at qs (DirNode (hm_insert j node ch2) m2 x2) root1"
  shows "tree_inv (s\<lparr> mb_root := root2 \<rparr>)"
proof (rule tree_inv_shrink [OF assms(1)])
  have d: "tree_wf (DirNode ch m x)" using assms(1,2) by (rule tree_inv_lookup)
  then have n: "tree_wf node" using tree_wf_lookup [OF d, of "[k]"] assms(3) by simp
  have r1: "tree_wf root1" "is_dir root1"
    using assms(1,2) tree_wf_remove [OF d]
    by (auto simp: assms(4) tree_inv_def is_dir_replace simp del: tree_wf.simps intro: tree_wf_replace)
  have d2: "tree_wf (DirNode ch2 m2 x2)" using r1(1) assms(5) by (rule tree_wf_lookup)
  show "is_dir root2" using r1 assms(5) by (simp add: assms(7) is_dir_replace)
  show "tree_wf root2"
    unfolding assms(7) by (rule tree_wf_replace [OF r1(1) assms(5) tree_wf_insert [OF d2 assms(6) n]])
  have "inodes (DirNode ch m x) = inodes node + inodes (DirNode (hm_remove k ch) m x)"
    using sum_inodes_remove [of ch k node, OF _ assms(3)] d by (simp add: ac_simps)
  then have "(inodes root1 + inodes node) + inodes (DirNode (hm_remove k ch) m x)
      = inodes (mb_root s) + inodes (DirNode (hm_remove k ch) m x)"
    using inodes_replace [OF assms(2), of "DirNode (hm_remove k ch) m x"] by (simp only: assms(4) add.assoc)
  then have "inodes root1 + inodes node = inodes (mb_root s)" by (simp only: add_right_cancel)
  moreover have "inodes (DirNode (hm_insert j node ch2) m2 x2) \<subseteq># inodes (DirNode ch2 m2 x2) + inodes node"
    using sum_inodes_insert_le [of j node ch2] by simp
  then have "inodes root1 + inodes (DirNode (hm_insert j node ch2) m2 x2)
      \<subseteq># (inodes root1 + inodes node) + inodes (DirNode ch2 m2 x2)"
    by (simp only: add.assoc add.commute [of "inodes node"] subset_mset.add_le_cancel_left)
  then have "inodes root2 \<subseteq># inodes root1 + inodes node"
    unfolding inodes_replace [OF assms(5), symmetric] assms(7) [symmetric] by (simp only: subset_mset.add_le_cancel_right)
  ultimately show "inodes root2 \<subseteq># inodes (mb_root s)" by simp
qed

lemma rename_keeps:
  assumes "tree_inv s" "mb_rename p p' s = (r, s')"
  shows "tree_inv s' \<and> same_but_root s s'"
proof (cases "path_components p = [] \<or> path_components p' = [] \<or> path_components p = path_components p'")
  case True
  then have "s' = s" using assms(2)
    by (auto simp: mb_rename_def Let_def normalize_Nil_iff normalize_eq_iff split: if_splits)
  then show ?thesis using assms(1) by (simp add: same_but_root_def)
next
  case False
  then have ne: "path_components p \<noteq> []" "path_components p' \<noteq> []" by auto
  let ?k = "last (path_components p)" and ?j = "last (path_components p')"
  let ?take = "take_child (normalize_path p) ?k" and ?put = "\<lambda>node ch. Inr ((), hm_insert ?j node ch)"
  have eq: "op_bind (at_children (join_slash (butlast (path_components p))) ?take)
      (\<lambda>node. at_children (join_slash (butlast (path_components p'))) (?put node)) s = (r, s')"
    using False assms(2) by (simp add: mb_rename_def on_entry normalize_eq_iff split_normalized)
  from split_normalized(3) [OF ne(1)] show ?thesis
  proof (cases rule: at_children_cases [where g = ?take and s = s])
    case (fail e)
    then show ?thesis using eq assms(1) by (auto simp: op_simps same_but_root_def)
  next
    case (ok ch m x node ch')
    then have k: "hm_get ch ?k = Some node" "ch' = hm_remove ?k ch"
      by (auto simp: take_child_def split: option.splits)
    let ?root = "replace_at (butlast (path_components p)) (DirNode ch' m x) (mb_root s)"
    have inv1: "tree_inv (s\<lparr> mb_root := ?root \<rparr>)"
      using at_children_keeps [OF assms(1) split_normalized(3) [OF ne(1)] ok(3)]
      by (force simp: take_child_def split: option.splits)
    from split_normalized(3) [OF ne(2)] show ?thesis
    proof (cases rule: at_children_cases [where g = "?put node" and s = "s\<lparr> mb_root := ?root \<rparr>"])
      case (fail e)
      then show ?thesis using eq ok inv1 by (auto simp: op_simps same_but_root_def)
    next
      case (ok ch2 m2 x2 r2 ch2')
      then show ?thesis
        using eq \<open>at_children _ ?take s = _\<close> k
          take_then_put_inodes [OF assms(1) \<open>lookup (butlast (path_components p)) (mb_root s) = _\<close> k(1)
            _ _ clean_last [OF ne(2)]]
        by (auto simp: op_simps same_but_root_def)
    qed
  qed
qed

definition tree_step :: "MemoryBackend \<Rightarrow> MemoryBackend \<Rightarrow> bool" where
  "tree_step s s' \<longleftrightarrow> tree_inv s' \<and> mb_open_files s' = mb_open_files s \<and> mb_locks s' = mb_locks s \<and>
     (mb_inode_counter s' = mb_inode_counter s \<or> mb_inode_counter s' = mb_inode_counter s + 1)"

lemma same_but_root_step: "tree_inv s' \<and> same_but_root s s' \<Longrightarrow> tree_step s s'"
  unfolding tree_step_def same_but_root_def by (metis MemoryBackend.surjective MemoryBackend.update_convs(1)
    MemoryBackend.select_convs)

lemma create_keeps:
  assumes "tree_inv s" "mb_inode_counter s \<noteq> - 1" "list_all clean ps" "clean k"
    and "tree_wf node" "inodes node = {#mb_inode_counter s#}"
    and "\<And>ch r ch'. g ch = Inr (r, ch') \<Longrightarrow> hm_get ch k = None \<and> ch' = hm_insert k node ch"
    and "(case at_children (join_slash ps) g s of
            (Inl e, s1) \<Rightarrow> (Inl e, s1)
          | (Inr _, s1) \<Rightarrow> (Inr (), s1\<lparr> mb_inode_counter := mb_inode_counter s + 1 \<rparr>)) = (r, s')"
  shows "tree_step s s'"
  using assms(3)
proof (cases rule: at_children_cases [where g = g and s = s])
  case (fail e)
  then show ?thesis using assms(1,8) by (auto simp: tree_step_def)
next
  case (ok ch m x r ch')
  then have "hm_get ch k = None" "ch' = hm_insert k node ch" using assms(7) by auto
  then show ?thesis
    using tree_inv_create [OF assms(1) ok(1) _ assms(4,5,6,2)] ok(3) assms(8)
    by (auto simp: tree_step_def)
qed

lemma mkdir_keeps:
  assumes "tree_inv s" "mb_inode_counter s \<noteq> - 1" "mb_mkdir clock p mode s = (r, s')"
  shows "tree_step s s'"
proof (cases "path_components p = []")
  case False
  show ?thesis
    by (rule create_keeps [OF assms(1,2) split_normalized(3) [OF False] clean_last [OF False] _ _ _
          assms(3) [unfolded mb_mkdir_def on_entry split_normalized [OF False] if_not_P [OF False]]])
      (auto simp: NodeMetadata_new_def hm_contains_def split: if_splits)
qed (use assms in \<open>auto simp: mb_mkdir_def normalize_Nil_iff tree_step_def\<close>)

lemma symlink_keeps:
  assumes "tree_inv s" "mb_inode_counter s \<noteq> - 1" "mb_symlink clock target p s = (r, s')"
  shows "tree_step s s'"
proof (cases "path_components p = []")
  case False
  show ?thesis
    by (rule create_keeps [OF assms(1,2) split_normalized(3) [OF False] clean_last [OF False] _ _ _
          assms(3) [unfolded mb_symlink_def on_entry split_normalized [OF False] if_not_P [OF False]]])
      (auto simp: NodeMetadata_new_def hm_contains_def split: if_splits)
qed (use assms in \<open>auto simp: mb_symlink_def normalize_Nil_iff tree_step_def\<close>)

lemma inodes_lookup: "lookup cs n = Some m \<Longrightarrow> inodes m \<subseteq># inodes n"
proof (induction cs arbitrary: n)
  case (Cons c cs)
  then obtain ch md x n' where n: "n = DirNode ch md x" "hm_get ch c = Some n'"
    "lookup cs n' = Some m" by (auto split: MemoryNode.splits option.splits)
  have "inodes n' \<subseteq># (\<Sum>p\<leftarrow>ch. inodes (snd p))"
    using n(2) by (induction ch) (auto split: if_splits intro: subset_mset.order_trans)
  with Cons.IH [OF n(3)] show ?case
    unfolding n(1) inodes.simps by (metis add_mset_add_single mset_subset_eq_add_left subset_mset.order_trans)
qed simp

lemma known_inode:
  assumes "tree_inv s" "lookup cs (mb_root s) = Some m"
  shows "nm_ino (node_metadata m) < mb_inode_counter s"
proof -
  have "nm_ino (node_metadata m) \<in># inodes m" by (cases m) auto
  then show ?thesis using inodes_lookup [OF assms(2)] assms(1) by (auto simp: tree_inv_def dest: mset_subset_eqD)
qed

text \<open>What a successful \<open>open\<close> adds: a reference to a node that exists.\<close>

definition opens :: "FileHandle \<Rightarrow> MemoryBackend \<Rightarrow> MemoryBackend \<Rightarrow> bool" where
  "opens h s s' \<longleftrightarrow> (\<exists>ino path s1. tree_step s s1 \<and> fh_backend_internal_id h = Some ino \<and>
     ino < mb_inode_counter s1 \<and> normalize_path path = path \<and>
     s' = (track_open ino path s1)\<lparr> mb_handle_counter := mb_handle_counter s1 + 1 \<rparr>)"

definition fresh_counter :: "MemoryBackend \<Rightarrow> bool" where
  "fresh_counter s \<longleftrightarrow> (\<forall>ino. hm_get (mb_open_files s) ino \<noteq> None \<longrightarrow> ino < mb_inode_counter s)"

lemma opensI:
  "tree_step s s1 \<Longrightarrow> ino < mb_inode_counter s1 \<Longrightarrow> new_handle ino (track_open ino (normalize_path p) s1) = (Inr h, s') \<Longrightarrow>
   opens h s s'"
  unfolding opens_def new_handle_def FileHandle_with_backend_id_def
  by (rule exI [of _ ino], rule exI [of _ "normalize_path p"], rule exI [of _ s1])
    (auto simp: track_open_def normalize_idem)

lemma open_entry_cases:
  assumes "open_entry clock p k flags ino ch = Inr ((nid, created), ch')"
  obtains (new) "created" "nid = ino" "hm_get ch k = None"
      "ch' = hm_insert k (FileNode [] (NodeMetadata_new (clock 0) 420 ino) []) ch"
  | (old) node where "\<not> created" "hm_get ch k = Some node" "nid = nm_ino (node_metadata node)" "ch' = ch"
  | (truncated) c m x where "\<not> created" "hm_get ch k = Some (FileNode c m x)" "nid = nm_ino m"
      "ch' = hm_insert k (FileNode [] (m\<lparr> nm_mtime := clock 0, nm_ctime := clock 1 \<rparr>) x) ch"
  using assms by (auto simp: open_entry_def split: option.splits if_splits MemoryNode.splits)

lemma open_entry_keeps:
  assumes inv: "tree_inv s" "mb_inode_counter s \<noteq> - 1" "clean k"
    and l: "lookup ps (mb_root s) = Some (DirNode ch m x)"
    and e: "open_entry clock p k flags (mb_inode_counter s) ch = Inr ((nid, created), ch')"
    and s1: "s1 = s\<lparr> mb_root := replace_at ps (DirNode ch' m x) (mb_root s) \<rparr>"
    and s2: "s2 = (if created then s1\<lparr> mb_inode_counter := mb_inode_counter s1 + 1 \<rparr> else s1)"
  shows "tree_step s s2 \<and> nid < mb_inode_counter s2"
proof -
  have d: "tree_wf (DirNode ch m x)" using inv(1) l by (rule tree_inv_lookup)
  have child: "nm_ino (node_metadata node) < mb_inode_counter s" if "hm_get ch k = Some node" for node
    using known_inode [OF inv(1), of "ps @ [k]"] l that by (simp add: lookup_append)
  from e show ?thesis
  proof (cases rule: open_entry_cases)
    case new
    then show ?thesis
      using tree_inv_create [OF inv(1) l _ inv(3) _ _ inv(2), of "FileNode [] (NodeMetadata_new (clock 0) 420 nid) []"]
        word_less_add_one [OF inv(2)]
      by (simp add: s1 s2 tree_step_def NodeMetadata_new_def)
  next
    case (old node)
    then show ?thesis
      using tree_inv_replace [OF inv(1) l d] child by (simp add: s1 s2 tree_step_def)
  next
    case (truncated c m' x')
    let ?n = "FileNode [] (m'\<lparr> nm_mtime := clock 0, nm_ctime := clock 1 \<rparr>) x'"
    have "tree_wf (FileNode c m' x')" using tree_wf_lookup [OF d, of "[k]"] truncated(2) by simp
    then have "tree_wf (DirNode (hm_insert k ?n ch) m x)" by (intro tree_wf_insert [OF d inv(3)]) simp
    moreover have "inodes (DirNode (hm_insert k ?n ch) m x) = inodes (DirNode ch m x)"
      using sum_inodes_insert [OF truncated(2), of ?n] by simp
    ultimately show ?thesis
      using truncated(1,3,4) tree_inv_replace [OF inv(1) l] child [OF truncated(2)]
      by (simp add: s1 s2 tree_step_def del: inodes.simps tree_wf.simps)
  qed
qed

lemma tree_step_refl: "tree_inv s \<Longrightarrow> tree_step s s"
  by (simp add: tree_step_def)

definition opened :: "vfs_fault + FileHandle \<Rightarrow> MemoryBackend \<Rightarrow> MemoryBackend \<Rightarrow> bool" where
  "opened r s s' \<longleftrightarrow> (case r of Inl _ \<Rightarrow> tree_step s s' | Inr h \<Rightarrow> opens h s s')"

lemma new_handle_opened:
  "tree_step s s1 \<Longrightarrow> ino < mb_inode_counter s1 \<Longrightarrow>
   new_handle ino (track_open ino (normalize_path p) s1) = (r, s') \<Longrightarrow> opened r s s'"
  using opensI by (cases r) (auto simp: opened_def new_handle_def)

lemma get_node_cases:
  obtains (found) m where "lookup (path_components p) (mb_root s) = Some m" "mb_get_node p s = (Inr m, s)"
  | (missing) e where "lookup (path_components p) (mb_root s) = None" "mb_get_node p s = (Inl (Vfs e), s)"
  using get_node_Some [of p s] get_node_None [of p s] by (cases "lookup (path_components p) (mb_root s)") auto

lemma track_open_fresh:
  "hm_get (mb_open_files s) ino = None \<Longrightarrow>
   s\<lparr> mb_open_files := hm_insert ino \<lparr> ofi_path = p, ofi_ref_count = 1 \<rparr> (mb_open_files s) \<rparr> = track_open ino p s"
  by (simp add: track_open_def)

lemma components_normalize: "path_components (normalize_path p) = path_components p"
  by (simp add: normalize_path_eq components_join clean_components)

lemma mkdir_then_get:
  assumes "mb_mkdir clock p mode s = (Inr u, s')"
  shows "\<exists>m. lookup (path_components p) (mb_root s') = Some m \<and> nm_ino (node_metadata m) = mb_inode_counter s"
proof -
  have "outcome (mb_mkdir clock p mode s) = Some (fs_view s')" using assms by (simp add: outcome_def)
  then have "fs_view s' (path_components p) =
      Some (DirNode [] (NodeMetadata_new (clock 0) mode (mb_inode_counter s)) [])"
    by (auto simp: mkdir_refines spec_create_def split: if_splits dest!: sym [of _ "fs_view s'"])
  then obtain m where m: "lookup (path_components p) (mb_root s') = Some m"
    "strip m = DirNode [] (NodeMetadata_new (clock 0) mode (mb_inode_counter s)) []"
    by (auto simp: view_def)
  then show ?thesis by (cases m) (auto simp: NodeMetadata_new_def)
qed

lemma open_directory_keeps:
  assumes inv: "tree_inv s" "mb_inode_counter s \<noteq> - 1" "fresh_counter s"
    and o: "open_directory clock (normalize_path p) flags s = (r, s')"
  shows "opened r s s'"
proof (cases rule: get_node_cases [of "normalize_path p" s])
  case (found m)
  then show ?thesis
    using o tree_step_refl [OF inv(1)] known_inode [OF inv(1) found(1)]
    by (auto simp: open_directory_def opened_def split: MemoryNode.splits if_splits
        intro: new_handle_opened [unfolded opened_def])
next
  case (missing e)
  show ?thesis
  proof (cases "is_create flags \<and> (\<exists>q. e = VfsNotFound q)")
    case False
    then show ?thesis
      using o missing tree_step_refl [OF inv(1)]
      by (auto simp: open_directory_def opened_def split: VfsError.splits if_splits)
  next
    case True
    let ?p = "normalize_path p"
    obtain rm s1 where mk: "mb_mkdir clock ?p 493 s = (rm, s1)" by fastforce
    have step: "tree_step s s1" by (rule mkdir_keeps [OF inv(1,2) mk])
    show ?thesis
    proof (cases rm)
      case (Inl x)
      then show ?thesis using True missing o mk step by (auto simp: open_directory_def op_simps opened_def)
    next
      case (Inr u)
      then obtain m where m: "lookup (path_components ?p) (mb_root s1) = Some m"
        "nm_ino (node_metadata m) = mb_inode_counter s" using mkdir_then_get mk by blast
      have "hm_get (mb_open_files s1) (mb_inode_counter s) = None"
        using inv(3) step by (auto simp: fresh_counter_def tree_step_def)
      then have "new_handle (mb_inode_counter s) (track_open (mb_inode_counter s) ?p s1) = (r, s')"
        using o missing True mk Inr get_node_Some [OF m(1)] m(2)
        by (auto simp: open_directory_def op_simps track_open_fresh Let_def)
      then show ?thesis
        using step known_inode [OF _ m(1)] m(2) by (intro new_handle_opened) (auto simp: tree_step_def)
    qed
  qed
qed

lemma open_keeps:
  assumes inv: "tree_inv s" "mb_inode_counter s \<noteq> - 1" "fresh_counter s"
    and o: "mb_open clock p params s = (r, s')"
  shows "opened r s s'"
proof (cases "is_directory (to_open_flags params)")
  case True
  then show ?thesis using o open_directory_keeps [OF inv] by (simp add: mb_open_def)
next
  case dir: False
  show ?thesis
  proof (cases "path_components p = []")
    case True
    then have "split_path (normalize_path p) = None"
      by (simp add: normalize_path_eq split_path_def trim_slash_def)
    then show ?thesis using o dir tree_step_refl [OF inv(1)] by (auto simp: mb_open_def opened_def)
  next
    case False
    let ?g = "open_entry clock (normalize_path p) (last (path_components p)) (to_open_flags params)
      (mb_inode_counter s)"
    have eq: "(case at_children (join_slash (butlast (path_components p))) ?g s of
          (Inl e, s1) \<Rightarrow> (Inl e, s1)
        | (Inr (node_id, created), s1) \<Rightarrow>
            new_handle node_id (track_open node_id (normalize_path p)
              (if created then s1\<lparr> mb_inode_counter := mb_inode_counter s1 + 1 \<rparr> else s1))) = (r, s')"
      using o [unfolded mb_open_def Let_def split_normalized [OF False]] dir
      by (simp add: split_normalized [OF False])
    from split_normalized(3) [OF False] show ?thesis
    proof (cases rule: at_children_cases [where g = ?g and s = s])
      case (fail e)
      then show ?thesis using eq tree_step_refl [OF inv(1)] by (auto simp: opened_def)
    next
      case (ok ch m x nc ch')
      obtain nid created where nc: "nc = (nid, created)" by fastforce
      from open_entry_keeps [OF inv(1,2) clean_last [OF False] ok(1) ok(2) [unfolded nc] refl refl] show ?thesis
        using eq ok(3) nc by (auto intro!: new_handle_opened)
    qed
  qed
qed

section \<open>Runs\<close>

text \<open>The calls other than \<open>open\<close> and \<open>close\<close> that change the backend. A slice of data is at most
  \<open>isize::MAX\<close> bytes long.\<close>

datatype mb_call =
    CallWrite "nat \<Rightarrow> nat" FileHandle u64 bytes
  | CallTruncate "nat \<Rightarrow> nat" string u64
  | CallChmod "nat \<Rightarrow> nat" string u32
  | CallChown "nat \<Rightarrow> nat" string u32 u32
  | CallUtimes "nat \<Rightarrow> nat" string nat nat
  | CallMkdir "nat \<Rightarrow> nat" string u32
  | CallRmdir string
  | CallUnlink string
  | CallRename string string
  | CallSymlink "nat \<Rightarrow> nat" string string
  | CallSetxattr string string bytes
  | CallRemovexattr string string
  | CallLock FileHandle FileLock
  | CallUnlock FileHandle FileLock

fun mb_exec :: "mb_call \<Rightarrow> MemoryBackend \<Rightarrow> MemoryBackend" where
  "mb_exec (CallWrite clock h off dat) s = snd (mb_write clock h off dat s)"
| "mb_exec (CallTruncate clock p sz) s = snd (mb_truncate clock p sz s)"
| "mb_exec (CallChmod clock p mode) s = snd (mb_chmod clock p mode s)"
| "mb_exec (CallChown clock p uid gid) s = snd (mb_chown clock p uid gid s)"
| "mb_exec (CallUtimes clock p a m) s = snd (mb_utimes clock p a m s)"
| "mb_exec (CallMkdir clock p mode) s = snd (mb_mkdir clock p mode s)"
| "mb_exec (CallRmdir p) s = snd (mb_rmdir p s)"
| "mb_exec (CallUnlink p) s = snd (mb_unlink p s)"
| "mb_exec (CallRename p q) s = snd (mb_rename p q s)"
| "mb_exec (CallSymlink clock t p) s = snd (mb_symlink clock t p s)"
| "mb_exec (CallSetxattr p n v) s = snd (mb_setxattr p n v s)"
| "mb_exec (CallRemovexattr p n) s = snd (mb_removexattr p n s)"
| "mb_exec (CallLock h l) s = snd (mb_lock h l s)"
| "mb_exec (CallUnlock h l) s = snd (mb_unlock h l s)"

fun mb_call_ok :: "mb_call \<Rightarrow> bool" where
  "mb_call_ok (CallWrite _ _ _ dat) = (length dat \<le> ISIZE_MAX)"
| "mb_call_ok _ = True"

inductive mb_run :: "nat \<Rightarrow> FileHandle list \<Rightarrow> MemoryBackend \<Rightarrow> bool" where
  start: "mb_run 0 [] (MemoryBackend_new now)"
| opened: "mb_run n hs s \<Longrightarrow> mb_open clock p params s = (Inr h, s') \<Longrightarrow> mb_run (Suc n) (h # hs) s'"
| not_opened: "mb_run n hs s \<Longrightarrow> mb_open clock p params s = (Inl e, s') \<Longrightarrow> mb_run (Suc n) hs s'"
| closed: "mb_run n hs s \<Longrightarrow> h \<in> set hs \<Longrightarrow> mb_close h s = (r, s') \<Longrightarrow> mb_run (Suc n) (remove1 h hs) s'"
| called: "mb_run n hs s \<Longrightarrow> mb_call_ok c \<Longrightarrow> mb_run (Suc n) hs (mb_exec c s)"

text \<open>The handles that refer to an inode.\<close>

definition refs :: "FileHandle list \<Rightarrow> u64 \<Rightarrow> nat" where
  "refs hs ino = length (filter (\<lambda>h. fh_backend_internal_id h = Some ino) hs)"

definition open_inv :: "FileHandle list \<Rightarrow> MemoryBackend \<Rightarrow> bool" where
  "open_inv hs s \<longleftrightarrow> paths_normal s \<and> fresh_counter s \<and>
     (\<forall>ino. refs hs ino = (case hm_get (mb_open_files s) ino of None \<Rightarrow> 0 | Some info \<Rightarrow> unat (ofi_ref_count info))) \<and>
     (\<forall>ino info. hm_get (mb_open_files s) ino = Some info \<longrightarrow> 0 < ofi_ref_count info)"

definition lock_inv :: "MemoryBackend \<Rightarrow> bool" where
  "lock_inv s \<longleftrightarrow> (\<forall>ino ls. hm_get (mb_locks s) ino = Some ls \<longrightarrow>
     sorted_wrt (\<lambda>a b. \<not> fl_conflict b a) ls)"

definition mb_inv :: "nat \<Rightarrow> FileHandle list \<Rightarrow> MemoryBackend \<Rightarrow> bool" where
  "mb_inv n hs s \<longleftrightarrow> tree_inv s \<and> open_inv hs s \<and> lock_inv s \<and>
     length hs \<le> n \<and> unat (mb_inode_counter s) \<le> n + 2"

lemma inv_counter: "mb_inv n hs s \<Longrightarrow> n < 2 ^ 32 \<Longrightarrow> mb_inode_counter s \<noteq> - 1"
  using unat_minus_one_word [where ?'a = 64] by (auto simp: mb_inv_def)

lemma unat_counter_step:
  assumes "tree_step s s'" "mb_inode_counter s \<noteq> - 1"
  shows "mb_inode_counter s \<le> mb_inode_counter s' \<and> unat (mb_inode_counter s') \<le> unat (mb_inode_counter s) + 1"
  using assms word_less_add_one [OF assms(2)] unat_plus_simple
  by (auto simp: tree_step_def unat_word_ariths intro: order_less_imp_le)

lemma tree_step_inv:
  assumes "mb_inv n hs s" "n < 2 ^ 32" "tree_step s s'"
  shows "mb_inv (Suc n) hs s'"
proof -
  note c = unat_counter_step [OF assms(3) inv_counter [OF assms(1,2)]]
  have eq: "mb_open_files s' = mb_open_files s" using assms(3) by (simp add: tree_step_def)
  have "fresh_counter s'"
    using assms(1) c by (auto simp: mb_inv_def open_inv_def fresh_counter_def eq intro: less_le_trans)
  then have "open_inv hs s'" using assms(1) by (simp add: mb_inv_def open_inv_def paths_normal_def eq)
  then show ?thesis using assms(1,3) c by (auto simp: mb_inv_def tree_step_def lock_inv_def)
qed

lemma refs_le: "refs hs ino \<le> length hs"
  by (simp add: refs_def)

lemma track_open_inv:
  assumes "open_inv hs s" "length hs < 2 ^ 32 - 1" "ino < mb_inode_counter s" "normalize_path p = p"
    and "fh_backend_internal_id h = Some ino"
  shows "open_inv (h # hs) (track_open ino p s)"
proof -
  have r: "refs hs ino < 2 ^ 32 - 1" using refs_le [of hs ino] assms(2) by linarith
  have info: "unat (ofi_ref_count info) = refs hs ino" if "hm_get (mb_open_files s) ino = Some info" for info
    using assms(1) that by (auto simp: open_inv_def split: option.splits)
  have suc: "unat (ofi_ref_count info + 1) = Suc (unat (ofi_ref_count info))"
    if "hm_get (mb_open_files s) ino = Some info" for info
    using info [OF that] r by (simp add: unat_word_ariths)
  then have pos: "0 < ofi_ref_count info + 1" if "hm_get (mb_open_files s) ino = Some info" for info
    using that by (metis unat_eq_zero word_gt_0 nat.distinct(1))
  show ?thesis
    unfolding open_inv_def
  proof (intro conjI allI impI)
    show "paths_normal (track_open ino p s)" "fresh_counter (track_open ino p s)"
      using assms(1,3,4)
      by (auto simp: open_inv_def paths_normal_def fresh_counter_def track_open_def hm_simps split: option.split)
  next
    fix j
    show "refs (h # hs) j = (case hm_get (mb_open_files (track_open ino p s)) j of
        None \<Rightarrow> 0 | Some info \<Rightarrow> unat (ofi_ref_count info))"
      using assms(1,5) suc
      by (auto simp: open_inv_def refs_def track_open_def hm_simps split: option.split)
  next
    fix j info assume "hm_get (mb_open_files (track_open ino p s)) j = Some info"
    then show "0 < ofi_ref_count info"
      using assms(1) pos by (auto simp: open_inv_def track_open_def hm_simps split: option.splits if_splits)
  qed
qed

lemma opens_inv:
  assumes "mb_inv n hs s" "Suc n < 2 ^ 32" "opens h s s'"
  shows "mb_inv (Suc n) (h # hs) s'"
proof -
  from assms(3) obtain ino path s1 where o: "tree_step s s1" "fh_backend_internal_id h = Some ino"
    "ino < mb_inode_counter s1" "normalize_path path = path"
    "s' = (track_open ino path s1)\<lparr> mb_handle_counter := mb_handle_counter s1 + 1 \<rparr>"
    by (auto simp: opens_def)
  have i: "mb_inv (Suc n) hs s1" using tree_step_inv [OF assms(1) _ o(1)] assms(2) by simp
  have l: "length hs \<le> n" using assms(1) by (simp add: mb_inv_def)
  have "open_inv (h # hs) (track_open ino path s1)"
    by (rule track_open_inv) (use i l o assms(2) in \<open>auto simp: mb_inv_def\<close>)
  then show ?thesis
    using i l o(5) by (auto simp: mb_inv_def open_inv_def paths_normal_def fresh_counter_def tree_inv_def
        lock_inv_def track_open_def)
qed

lemma refs_remove1:
  "h \<in> set hs \<Longrightarrow> refs (remove1 h hs) ino = refs hs ino - (if fh_backend_internal_id h = Some ino then 1 else 0)"
  by (simp add: refs_def filter_remove1 length_remove1)

lemma refs_pos: "h \<in> set hs \<Longrightarrow> fh_backend_internal_id h = Some ino \<Longrightarrow> 0 < refs hs ino"
  by (auto simp: refs_def filter_empty_conv)

lemma unat_pred: "0 < (a :: u32) \<Longrightarrow> unat (a - 1) = unat a - 1"
  by (subst unat_sub_le) (simp_all add: word_le_nat_alt Suc_le_eq unat_gt_0 word_gt_0)

lemma close_files_inv:
  assumes "open_inv hs s" "h \<in> set hs" "fh_backend_internal_id h = Some ino"
    and "hm_get (mb_open_files s) ino = Some info"
    and "of' = (if ofi_ref_count info - 1 = 0 then hm_remove ino (mb_open_files s)
       else hm_insert ino (info\<lparr> ofi_ref_count := ofi_ref_count info - 1 \<rparr>) (mb_open_files s))"
  shows "open_inv (remove1 h hs) (s\<lparr> mb_open_files := of' \<rparr>)"
proof -
  have pos: "0 < ofi_ref_count info" using assms(1,4) by (auto simp: open_inv_def)
  have r: "refs hs ino = unat (ofi_ref_count info)" using assms(1,4) by (auto simp: open_inv_def split: option.splits)
  have one: "ofi_ref_count info - 1 = 0 \<Longrightarrow> unat (ofi_ref_count info) = 1"
    by (metis diff_add_cancel add_0 unat_1)
  show ?thesis
    unfolding open_inv_def
  proof (intro conjI allI impI)
    show "paths_normal (s\<lparr> mb_open_files := of' \<rparr>)" "fresh_counter (s\<lparr> mb_open_files := of' \<rparr>)"
      using assms(1,4) by (auto simp: assms(5) open_inv_def paths_normal_def fresh_counter_def hm_simps)
  next
    fix j
    show "refs (remove1 h hs) j = (case hm_get (mb_open_files (s\<lparr> mb_open_files := of' \<rparr>)) j of
        None \<Rightarrow> 0 | Some info \<Rightarrow> unat (ofi_ref_count info))"
      using assms(1,3) r one unat_pred [OF pos]
      by (auto simp: assms(5) refs_remove1 [OF assms(2)] open_inv_def hm_simps)
  next
    fix j i assume "hm_get (mb_open_files (s\<lparr> mb_open_files := of' \<rparr>)) j = Some i"
    then show "0 < ofi_ref_count i"
      using assms(1) by (auto simp: assms(5) open_inv_def hm_simps word_gt_0 split: if_splits)
  qed
qed

lemma close_inv:
  assumes "mb_inv n hs s" "h \<in> set hs" "mb_close h s = (r, s')"
  shows "mb_inv (Suc n) (remove1 h hs) s'"
proof (cases "fh_backend_internal_id h")
  case None
  then have "refs (remove1 h hs) = refs hs" by (auto simp: fun_eq_iff refs_remove1 [OF assms(2)])
  moreover have "s' = s" using assms(3) None by (simp add: mb_close_def op_simps)
  ultimately show ?thesis
    using assms(1) length_remove1 [of h hs] by (auto simp: mb_inv_def open_inv_def)
next
  case (Some ino)
  have o: "open_inv hs s" using assms(1) by (simp add: mb_inv_def)
  then obtain info where i: "hm_get (mb_open_files s) ino = Some info"
    using refs_pos [OF assms(2) Some] by (fastforce simp: open_inv_def split: option.splits)
  let ?of = "if ofi_ref_count info - 1 = 0 then hm_remove ino (mb_open_files s)
     else hm_insert ino (info\<lparr> ofi_ref_count := ofi_ref_count info - 1 \<rparr>) (mb_open_files s)"
  have s': "s' = s\<lparr> mb_open_files := ?of, mb_locks := hm_remove ino (mb_locks s) \<rparr>"
    using assms(3) Some i by (auto simp: mb_close_def op_simps Let_def)
  have "open_inv (remove1 h hs) s'"
    using close_files_inv [OF o assms(2) Some i refl]
    by (auto simp: s' open_inv_def paths_normal_def fresh_counter_def)
  then show ?thesis
    using assms(1) length_remove1 [of h hs]
    by (auto simp: s' mb_inv_def tree_inv_def lock_inv_def hm_simps split: if_splits)
qed

lemma lock_ops_inv:
  assumes "lock_inv s" "f = mb_lock h l \<or> f = mb_unlock h l" "f s = (r, s')"
  shows "lock_inv s' \<and> s' = s\<lparr> mb_locks := mb_locks s' \<rparr>"
  using assms
  by (auto simp: mb_lock_def mb_unlock_def op_simps Let_def lock_inv_def hm_simps sorted_wrt_append
      sorted_wrt_filter list_ex_iff split: option.splits if_splits)

lemma locks_only_inv:
  "mb_inv n hs s \<Longrightarrow> lock_inv s' \<and> s' = s\<lparr> mb_locks := mb_locks s' \<rparr> \<Longrightarrow> mb_inv (Suc n) hs s'"
  unfolding mb_inv_def tree_inv_def open_inv_def paths_normal_def fresh_counter_def
  by (metis (no_types, lifting) MemoryBackend.ext_inject MemoryBackend.surjective MemoryBackend.update_convs(4) le_SucI add_Suc)

lemma exec_inv:
  assumes "mb_inv n hs s" "n < 2 ^ 32" "mb_call_ok c"
  shows "mb_inv (Suc n) hs (mb_exec c s)"
proof -
  have t: "tree_inv s" and p: "paths_normal s" and l: "lock_inv s"
    using assms(1) by (auto simp: mb_inv_def open_inv_def)
  note c = inv_counter [OF assms(1,2)]
  note step = tree_step_inv [OF assms(1,2)] and root = tree_step_inv [OF assms(1,2) same_but_root_step]
  note keeps = write_keeps [OF t p _ surjective_pairing] truncate_keeps [OF t surjective_pairing]
    edit_metadata_keeps [OF t surjective_pairing] rmdir_keeps [OF t surjective_pairing]
    unlink_keeps [OF t surjective_pairing] rename_keeps [OF t surjective_pairing]
    setxattr_keeps [OF t surjective_pairing] removexattr_keeps [OF t surjective_pairing]
  note creates = mkdir_keeps [OF t c surjective_pairing] symlink_keeps [OF t c surjective_pairing]
  note locks = locks_only_inv [OF assms(1) lock_ops_inv [OF l _ surjective_pairing]]
  show ?thesis
    using assms(3)
    by (cases c) (auto intro: keeps [THEN root] step [OF creates(1)] step [OF creates(2)] locks
        simp: mb_chmod_def mb_chown_def mb_utimes_def)
qed

lemma run_inv: "mb_run n hs s \<Longrightarrow> n < 2 ^ 32 \<Longrightarrow> mb_inv n hs s"
proof (induction rule: mb_run.induct)
  case (start now)
  then show ?case
    by (simp add: mb_inv_def tree_inv_def open_inv_def paths_normal_def fresh_counter_def lock_inv_def refs_def
        MemoryBackend_new_def NodeMetadata_new_def)
next
  case (opened n hs s clock p params h s')
  then have i: "mb_inv n hs s" by simp
  then have "opens h s s'"
    using open_keeps [OF _ inv_counter [OF i] _ opened.hyps(2)] opened.prems
    by (simp add: mb_inv_def open_inv_def opened_def)
  then show ?case using opens_inv [OF i opened.prems] by blast
next
  case (not_opened n hs s clock p params e s')
  then have i: "mb_inv n hs s" by simp
  then have "tree_step s s'"
    using open_keeps [OF _ inv_counter [OF i] _ not_opened.hyps(2)] not_opened.prems
    by (simp add: mb_inv_def open_inv_def opened_def)
  then show ?case using tree_step_inv [OF i] not_opened.prems by simp
next
  case (closed n hs s h r s')
  then show ?case using close_inv by simp
next
  case (called n hs s c)
  then show ?case using exec_inv by simp
qed

text \<open>The bytes a lock covers; length 0 is a lock to the end, of which the last byte is left out.\<close>

definition lock_bytes :: "FileLock \<Rightarrow> nat set" where
  "lock_bytes l =
     (if fl_length l = 0 then {unat (fl_start l) ..< 2 ^ 64 - 1}
      else {unat (fl_start l) ..< unat (fl_start l) + unat (fl_length l)})"

definition no_wrap :: "FileLock \<Rightarrow> bool" where
  "no_wrap l \<longleftrightarrow> unat (fl_start l) + unat (fl_length l) < 2 ^ 64"

lemma lock_bytes_end: "no_wrap l \<Longrightarrow> lock_bytes l = {unat (fl_start l) ..< unat (fl_end l)}"
  using unat_minus_one_word [where ?'a = 64]
  by (simp add: lock_bytes_def fl_end_def no_wrap_def unat_add_no_wrap)

section \<open>Properties\<close>



text \<open>C27. A node stays open exactly as long as a handle given out for it is not closed: in every
  reachable state its reference count is the number of such handles, and there is an entry for it
  exactly when that number is positive.\<close>

theorem open_files_count_handles:
  assumes "mb_run n hs s" "n < 2 ^ 32"
  shows "refs hs ino =
    (case hm_get (mb_open_files s) ino of None \<Rightarrow> 0 | Some info \<Rightarrow> unat (ofi_ref_count info)) \<and>
    (hm_contains (mb_open_files s) ino \<longleftrightarrow> (\<exists>h \<in> set hs. fh_backend_internal_id h = Some ino))"
proof -
  have o: "open_inv hs s" using run_inv [OF assms] by (simp add: mb_inv_def)
  then have "refs hs ino \<noteq> 0 \<longleftrightarrow> hm_contains (mb_open_files s) ino"
    by (auto simp: open_inv_def hm_contains_def word_gt_0 unat_gt_0 split: option.splits)
  moreover have "refs hs ino \<noteq> 0 \<longleftrightarrow> (\<exists>h \<in> set hs. fh_backend_internal_id h = Some ino)"
    by (auto simp: refs_def filter_empty_conv)
  ultimately show ?thesis using o by (simp add: open_inv_def)
qed

definition demo_params :: CreateParams where
  "demo_params = \<lparr> cp_desired_access = 3, cp_share_access = 7, cp_create_disposition = 3, cp_create_options = 0,
     cp_file_attributes = 0 \<rparr>"

definition demo_opened :: MemoryBackend where
  "demo_opened = snd (mb_open (\<lambda>_. 0) ''a'' demo_params (MemoryBackend_new 0))"

lemma demo_open: "mb_open (\<lambda>_. 0) ''a'' demo_params (MemoryBackend_new 0) = (Inr demo_fh, demo_opened)"
proof -
  have "fst (mb_open (\<lambda>_. 0) ''a'' demo_params (MemoryBackend_new 0)) = Inr demo_fh" by code_simp
  then show ?thesis by (simp add: demo_opened_def prod_eq_iff)
qed

lemma demo_opened_run: "mb_run 1 [demo_fh] demo_opened"
  using mb_run.opened [OF mb_run.start demo_open] by simp

theorem open_files_count_handles_witness:
  "hm_contains (mb_open_files demo_opened) 2 \<longleftrightarrow> (\<exists>h \<in> set [demo_fh]. fh_backend_internal_id h = Some 2)"
  using open_files_count_handles [OF demo_opened_run, of 2] by simp


definition demo_range_lock :: "u64 \<Rightarrow> FileLock" where
  "demo_range_lock i = \<lparr> fl_lock_type = LtExclusive, fl_start = i, fl_length = 4, fl_pid = 1 \<rparr>"

definition demo_locked :: MemoryBackend where
  "demo_locked = mb_exec (CallLock demo_fh (demo_range_lock 4)) (mb_exec (CallLock demo_fh (demo_range_lock 0)) demo_opened)"


section \<open>Handles and names\<close>

text \<open>Closing one handle drops the locks taken through every handle on the same node.\<close>

lemma close_drops_all_locks:
  "fh_backend_internal_id h = Some ino \<Longrightarrow> hm_get (mb_locks (snd (mb_close h s))) ino = None"
  by (simp add: mb_close_def op_simps Let_def hm_simps split: option.split)

text \<open>
  An open handle is bound to the path it was opened with and not to its node: after the name is
  unlinked and created again it reads the new file, and after a rename it reads nothing.
\<close>

lemma handle_follows_path:
  "fst (mb_read demo_fh 0 2 demo_fs) = Inr [65, 66]"
  "fst (mb_read demo_fh 0 2 (snd (mb_open (\<lambda>_. 0) ''a'' demo_params (snd (mb_unlink ''a'' demo_fs))))) = Inr []"
  "fst (mb_read demo_fh 0 2 (snd (mb_rename ''a'' ''b'' demo_fs))) = Inl (Vfs (VfsNotFound ''a''))"
  by code_simp+

end
