(* ===== verification/File_Handlers_Spec.thy ===== *)
theory File_Handlers_Spec
  imports Server_Runs Memory_Backend_Runs
begin

text \<open>
  What the command handlers do over the in-memory store and the in-memory backend: data written is
  served by a later READ, a LOCK request is all or nothing, CLOSE and LOGOFF leave nothing behind in
  the store, TREE_CONNECT mounts the share its path names. The last section has a mounted example
  share on which the theorems are applied.
\<close>

section \<open>Evaluation\<close>

lemma op_bind_Inr: "op_bind m f s = (Inr y, s') \<longleftrightarrow> (\<exists>x t. m s = (Inr x, t) \<and> f x t = (Inr y, s'))"
  by (auto simp: op_bind_def split: prod.splits sum.splits)

lemma op_lift_Inr: "op_lift r s = (Inr y, s') \<longleftrightarrow> r = Inr y \<and> s' = s"
  by (auto simp: op_lift_def)

lemma ok_or_Inr: "ok_or e x s = (Inr y, s') \<longleftrightarrow> x = Some y \<and> s' = s"
  by (cases x) (auto simp: op_simps)

lemma parse_as_Inr: "parse_as c r s = (Inr y, s') \<longleftrightarrow> r = Inr y \<and> s' = s"
  by (cases r) (auto simp: parse_as_def op_lift_def)

lemma vfs_err_Inr: "vfs_err r s = (Inr y, s') \<longleftrightarrow> r = Inr y \<and> s' = s"
  by (cases r) (auto simp: vfs_err_def op_lift_def)

lemma with_store_Inr:
  "with_store m ch = (Inr y, ch') \<longleftrightarrow> (\<exists>t. m (ch_store ch) = (Inr y, t) \<and> ch' = ch\<lparr> ch_store := t \<rparr>)"
  by (auto simp: with_store_def split: prod.splits sum.splits)

lemma on_backend_Inr:
  "on_backend i m ch = (Inr r, ch') \<longleftrightarrow>
   (\<exists>b. m (hp_backends (ch_rest ch) i) = ((case r of Inl e \<Rightarrow> Inl (Vfs e) | Inr x \<Rightarrow> Inr x), b) \<and>
      ch' = ch\<lparr> ch_rest := (ch_rest ch)\<lparr> hp_backends := (hp_backends (ch_rest ch))(i := b) \<rparr> \<rparr>)"
  by (auto simp: on_backend_def split: prod.splits sum.splits vfs_fault.splits)

lemmas op_Inr = op_bind_Inr op_lift_Inr ok_or_Inr parse_as_Inr vfs_err_Inr with_store_Inr on_backend_Inr

lemmas store_ops = sm_get_handle_def sm_get_tree_def sm_get_session_def sm_update_handle_def sm_delete_handle_def
  sm_create_tree_def memory_store_def mem_get_handle_def mem_get_tree_def mem_get_session_def mem_update_handle_def
  mem_delete_handle_def mem_delete_lease_def mem_release_file_locks_for_handle_def mem_get_file_locks_def
  mem_release_file_lock_def mem_next_file_lock_id_def mem_acquire_file_lock_def mem_next_tree_id_def mem_create_tree_def

lemma respond_eq:
  "respond env header body ch = (serialize_response (ce_headers env) (fst (build_response_header header NtSuccess ch)) body,
     ch\<lparr> ch_connection := snd (grant_credits (sh_credits header) False (ch_connection ch)) \<rparr>)"
  by (simp add: respond_def build_response_header_def split: prod.split)

lemma response_header_wf: "header_wf (fst (build_response_header header st ch))"
  by (simp add: build_response_header_def header_wf_def split: prod.split)

lemma serialize_ok:
  assumes "header_lib_ok l" "header_wf h"
  shows "serialize_response l h (Inr body) = Inr (header_bytes h @ body)"
  using assms by (simp add: serialize_response_def serialize_as_def header_lib_ok_def)

lemma multi_credit_grant [simp]: "supports_multi_credit (snd (grant_credits n a c)) = supports_multi_credit c"
  by (simp add: supports_multi_credit_def grant_credits_def split: prod.split)

lemma validate_charge_grant [simp]:
  "validate_credit_charge (snd (grant_credits n a c)) = validate_credit_charge c"
  by (intro ext) (simp add: validate_credit_charge_def)

text \<open>The state READ and WRITE see.\<close>

lemma open_backend_Inr:
  assumes "ce_store env = memory_store"
  shows "open_backend env header hid check ch = (Inr (handle, i, fh), ch') \<longleftrightarrow>
    hm_get (mem_handles (ch_store ch)) hid = Some handle \<and> validate_handle_tree_id header handle = Inr () \<and>
    check handle = Inr () \<and>
    (\<exists>tree. hm_get (mem_trees (ch_store ch)) (sh_session_id header, sh_tree_id header) = Some tree \<and>
       get_share (ce_lowercase env) (hp_shares (ch_rest ch)) (ts_share_name tree) = Some i) \<and>
    backend_handle handle ch = (Inr fh, ch')"
  using assms
  by (auto simp: open_backend_def op_Inr store_ops find_backend_def op_return_def)

section \<open>Reading and writing\<close>

lemma write_read_back:
  assumes "paths_normal b" "mb_write clock h off dat b = (Inr n, b')" "unat len = length dat"
    and "fh_backend_internal_id h' = fh_backend_internal_id h"
  shows "mb_read h' off len b' = (Inr dat, b')"
proof -
  obtain ino info where h: "fh_backend_internal_id h = Some ino" "hm_get (mb_open_files b) ino = Some info"
    using assms(2) by (auto simp: mb_write_def open_path_def op_simps split: option.splits)
  have p: "normalize_path (ofi_path info) = ofi_path info" using assms(1) h(2) by (simp add: paths_normal_def)
  let ?cs = "path_components (ofi_path info)"
  obtain c m x where l: "lookup ?cs (mb_root b) = Some (FileNode c m x)"
    and b': "b' = b\<lparr> mb_root := replace_at ?cs (FileNode (write_content (unat off) dat c)
        (m\<lparr> nm_mtime := clock 0, nm_ctime := clock 1 \<rparr>) x) (mb_root b) \<rparr>"
    by (rule write_open_file [OF h p assms(2)])
  have "slice (unat off) (length dat) (write_content (unat off) dat c) = dat"
    by (rule nth_equalityI) (simp_all add: slice_def length_write_content nth_write_content)
  then show ?thesis
    using read_open_file [of h' ino b' info] h assms(3,4) by (simp add: b' lookup_replace [OF l])
qed

lemma handle_write_Inr:
  assumes "ce_store env = memory_store" "ce_backend env = memory_backend"
    and "cd_write_request (ce_codec env) body = Inr rq"
    and "handle_write env now clock header body ch = (Inr r, ch')"
  obtains handle tree i b n where
    "hm_get (mem_handles (ch_store ch)) (join_file_id (wrq_file_id_persistent rq) (wrq_file_id_volatile rq)) = Some handle"
    "validate_handle_tree_id header handle = Inr ()"
    "hm_get (mem_trees (ch_store ch)) (sh_session_id header, sh_tree_id header) = Some tree"
    "get_share (ce_lowercase env) (hp_shares (ch_rest ch)) (ts_share_name tree) = Some i"
    "mb_write clock (FileHandle_with_backend_id (hp_fh_counter (ch_rest ch)) (hs_persistent_id handle)
        (hs_volatile_id handle) (hs_backend_internal_id handle)) (wrq_offset rq) (write_data rq body)
        (hp_backends (ch_rest ch) i) = (Inr n, b)"
    "hp_backends (ch_rest ch') = (hp_backends (ch_rest ch))(i := b)" "hp_shares (ch_rest ch') = hp_shares (ch_rest ch)"
    "mem_trees (ch_store ch') = mem_trees (ch_store ch)"
    "mem_handles (ch_store ch') = (if hs_is_durable handle \<or> hs_is_persistent handle
       then hm_insert (hs_persistent_id handle) (handle\<lparr> hs_file_offset := wrq_offset rq + ucast n, hs_last_access := now \<rparr>)
              (mem_handles (ch_store ch)) else mem_handles (ch_store ch))"
    "validate_credit_charge (ch_connection ch') = validate_credit_charge (ch_connection ch)"
proof -
  let ?hid = "join_file_id (wrq_file_id_persistent rq) (wrq_file_id_volatile rq)"
  obtain handle i fh ch1 n ch2 where
    ob: "open_backend env header ?hid (\<lambda>_. Inr ()) ch = (Inr (handle, i, fh), ch1)"
    and w: "on_backend i (mb_write clock fh (wrq_offset rq) (write_data rq body)) ch1 = (Inr (Inr n), ch2)"
    and ch': "ch' = snd (respond env header (Inr []) (if hs_is_durable handle \<or> hs_is_persistent handle
       then ch2\<lparr> ch_store := snd (mem_update_handle (handle\<lparr> hs_file_offset := wrq_offset rq + ucast n,
              hs_last_access := now \<rparr>) (ch_store ch2)) \<rparr> else ch2))"
    using assms
    by (auto simp: handle_write_def op_Inr memory_backend_def respond_eq try_store_def op_return_def sm_update_handle_def
        memory_store_def mem_update_handle_def split: if_splits)
  note o = ob [unfolded open_backend_Inr [OF assms(1)] backend_handle_def]
  obtain b where b: "mb_write clock fh (wrq_offset rq) (write_data rq body) (hp_backends (ch_rest ch) i) = (Inr n, b)"
    "ch2 = ch1\<lparr> ch_rest := (ch_rest ch1)\<lparr> hp_backends := (hp_backends (ch_rest ch))(i := b) \<rparr> \<rparr>"
    using w o by (auto simp: on_backend_Inr)
  obtain tree where t: "hm_get (mem_trees (ch_store ch)) (sh_session_id header, sh_tree_id header) = Some tree"
    "get_share (ce_lowercase env) (hp_shares (ch_rest ch)) (ts_share_name tree) = Some i" using o by blast
  show ?thesis
    by (rule that [of handle tree i n b]) (use o b t in \<open>auto simp: ch' respond_eq mem_update_handle_def\<close>)
qed

lemma position_irrelevant [simp]:
  "read_access (h\<lparr> hs_file_offset := a, hs_last_access := t \<rparr>) = read_access h"
  "validate_handle_tree_id header (h\<lparr> hs_file_offset := a, hs_last_access := t \<rparr>) = validate_handle_tree_id header h"
  by (simp_all add: read_access_def validate_handle_tree_id_def)

text \<open>READ evaluated on a state in which everything it looks up is there.\<close>

lemma handle_read_eq:
  assumes "ce_store env = memory_store" "ce_backend env = memory_backend" "header_lib_ok (ce_headers env)"
    and "cd_read_request (ce_codec env) body = Inr rq"
    and "validate_credit_charge (ch_connection ch) header (rdq_length rq) = Inr ()"
    and "hm_get (mem_handles (ch_store ch)) (join_file_id (rdq_file_id_persistent rq) (rdq_file_id_volatile rq)) = Some handle"
    and "validate_handle_tree_id header handle = Inr ()" "read_access handle = Inr ()"
    and "hm_get (mem_trees (ch_store ch)) (sh_session_id header, sh_tree_id header) = Some tree"
    and "get_share (ce_lowercase env) (hp_shares (ch_rest ch)) (ts_share_name tree) = Some i"
    and "\<And>fh. fh_backend_internal_id fh = hs_backend_internal_id handle \<Longrightarrow>
       mb_read fh (rdq_offset rq) (rdq_length rq) (hp_backends (ch_rest ch) i) = (Inr dat, hp_backends (ch_rest ch) i)"
    and "dat \<noteq> []" "rdq_minimum_count rq \<le> of_nat (length dat)"
    and "\<And>r. \<exists>b. cd_read_response (ce_codec env) r = Inr b \<and> length b = 16"
  shows "\<exists>prefix ch'. handle_read env now header body ch = (Inr (prefix @ dat), ch') \<and> length prefix = 80"
proof -
  let ?hid = "join_file_id (rdq_file_id_persistent rq) (rdq_file_id_volatile rq)"
  let ?fh = "FileHandle_with_backend_id (hp_fh_counter (ch_rest ch)) (hs_persistent_id handle)
             (hs_volatile_id handle) (hs_backend_internal_id handle)"
  let ?ch1 = "ch\<lparr> ch_rest := (ch_rest ch)\<lparr> hp_fh_counter := hp_fh_counter (ch_rest ch) + 1 \<rparr> \<rparr>"
  have o: "open_backend env header ?hid read_access ch = (Inr (handle, i, ?fh), ?ch1)"
    using assms(6-10) by (auto simp: open_backend_Inr [OF assms(1)] backend_handle_def)
  have r: "on_backend i (mb_read ?fh (rdq_offset rq) (rdq_length rq)) ?ch1 = (Inr (Inr dat), ?ch1)"
    using assms(11) [of ?fh] by (simp add: on_backend_def FileHandle_with_backend_id_def)
  obtain b where b: "cd_read_response (ce_codec env) \<lparr> rdr_structure_size = 17, rdr_data_offset = 80, rdr_reserved = 0,
      rdr_data_length = of_nat (length dat), rdr_data_remaining = 0, rdr_flags = 0 \<rparr> = Inr b" "length b = 16"
    using assms(14) by blast
  have s: "respond env header (Inr b) c = (Inr (header_bytes (fst (build_response_header header NtSuccess c)) @ b),
      c\<lparr> ch_connection := snd (grant_credits (sh_credits header) False (ch_connection c)) \<rparr>)" for c
    by (simp add: respond_eq serialize_ok [OF assms(3) response_header_wf])
  let ?ch2 = "?ch1\<lparr> ch_store := snd (mem_update_handle (handle\<lparr> hs_file_offset := rdq_offset rq + of_nat (length dat),
      hs_last_access := now \<rparr>) (ch_store ch)) \<rparr>"
  have v: "vb_read (ce_backend env) = mb_read" "st_update_handle (ce_store env) = mem_update_handle"
    using assms(1,2) by (simp_all add: memory_backend_def memory_store_def)
  have "fst (handle_read env now header body ch) =
      Inr ((header_bytes (fst (build_response_header header NtSuccess ?ch2)) @ b) @ dat)"
    using o r b(1) s assms(4,5,12) not_less [THEN iffD2, OF assms(13)]
    by (simp add: handle_read_def op_bind_def parse_as_def op_lift_def vfs_err_def v with_store_def
        sm_update_handle_def mem_update_handle_def op_return_def)
  then show ?thesis
    using b(2) by (intro exI [of _ "header_bytes (fst (build_response_header header NtSuccess ?ch2)) @ b"]
        exI [of _ "snd (handle_read env now header body ch)"] conjI)
      (simp_all add: prod_eq_iff length_header_bytes response_header_wf)
qed

section \<open>Byte-range locks\<close>

abbreviation lock_table :: "(MemoryStateStore, 'x) ConnectionHandler \<Rightarrow> u64 \<rightharpoonup> DistributedLock" where
  "lock_table ch \<equiv> hm_get (mem_file_locks (ch_store ch))"

text \<open>The locks a request records when it is granted, with ids from \<open>c\<close> on.\<close>

fun granted_locks ::
  "u64 \<Rightarrow> Smb2Header \<Rightarrow> string \<Rightarrow> lock_target \<Rightarrow> u64 \<Rightarrow> LockElement list \<Rightarrow> DistributedLock list" where
  "granted_locks now header srv t c [] = []"
| "granted_locks now header srv t c (l # ls) =
     DistributedLock_new now c (lt_handle_id t) (sh_session_id header) srv (hs_path (lt_handle t)) (lke_offset l)
       (lke_length l) (is_exclusive (lke_flags l)) # granted_locks now header srv t (c + 1) ls"

lemma file_locks_eq:
  "ce_store env = memory_store \<Longrightarrow> file_locks env path ch =
     (Inr (filter (\<lambda>l. dl_file_path l = path) (hm_values (mem_file_locks (ch_store ch)))), ch)"
  by (simp add: file_locks_def op_bind_def try_store_def op_return_def memory_store_def mem_get_file_locks_def)

lemma rollback_eq:
  assumes "ce_store env = memory_store"
  shows "rollback_locks env ids ch = (Inr (), ch\<lparr> ch_store := (ch_store ch)\<lparr> mem_file_locks :=
    fold hm_remove ids (mem_file_locks (ch_store ch)) \<rparr> \<rparr>)"
  unfolding rollback_locks_def
  by (induction ids arbitrary: ch)
    (simp_all add: op_bind_def op_return_def try_store_def assms memory_store_def mem_release_file_lock_def)

lemma fail_lock_table:
  assumes "ce_store env = memory_store" "fail_lock env ids e ch = (r, ch')"
  shows "r = Inl e \<and> lock_table ch' = (\<lambda>k. if k \<in> set ids then None else lock_table ch k) \<and>
    mem_file_lock_counter (ch_store ch') = mem_file_lock_counter (ch_store ch)"
  using assms by (auto simp: fail_lock_def op_bind_def rollback_eq op_throw_def hm_get_fold_remove)

text \<open>A conflict needs the same path, so the locks of the file are all that can be in the way.\<close>

lemma no_conflict_all:
  assumes "\<not> list_ex (conflicts_with l) (filter (\<lambda>x. dl_file_path x = dl_file_path l) xs)"
  shows "\<not> list_ex (conflicts_with (l\<lparr> dl_lock_id := i \<rparr>)) xs"
  using assms by (auto simp: list_ex_iff conflicts_with_def lock_end_def Let_def split: if_splits)

lemma lock_element_cases:
  assumes "ce_store env = memory_store" "ce_backend env = memory_backend"
    and "lock_element env now header t lock ids ch = (r, ch')"
  shows "(\<exists>e. r = Inl e) \<and> lock_table ch' = (\<lambda>k. if k \<in> set ids then None else lock_table ch k) \<or>
    r = Inr (ids @ [mem_file_lock_counter (ch_store ch)]) \<and>
    lock_table ch' = (lock_table ch)(mem_file_lock_counter (ch_store ch) \<mapsto>
      hd (granted_locks now header (hp_server_id (ch_rest ch)) t (mem_file_lock_counter (ch_store ch)) [lock])) \<and>
    mem_file_lock_counter (ch_store ch') = mem_file_lock_counter (ch_store ch) + 1 \<and>
    hp_server_id (ch_rest ch') = hp_server_id (ch_rest ch)"
proof -
  let ?c = "mem_file_lock_counter (ch_store ch)" and ?path = "hs_path (lt_handle t)"
  let ?new = "\<lambda>i. DistributedLock_new now i (lt_handle_id t) (sh_session_id header) (hp_server_id (ch_rest ch)) ?path
      (lke_offset lock) (lke_length lock) (is_exclusive (lke_flags lock))"
  let ?locks = "hm_values (mem_file_locks (ch_store ch))"
  obtain x b where m: "mb_lock (lt_file t) (element_lock lock) (hp_backends (ch_rest ch) (lt_backend t)) = (x, b)"
    by fastforce
  then have x: "x = Inr () \<or> (\<exists>e. x = Inl (Vfs e))"
    by (auto simp: mb_lock_def op_simps Let_def split: option.splits if_splits)
  let ?ch1 = "ch\<lparr> ch_rest := (ch_rest ch)\<lparr> hp_backends := (hp_backends (ch_rest ch))(lt_backend t := b) \<rparr> \<rparr>"
  have v: "vb_lock (ce_backend env) = mb_lock" using assms(2) by (simp add: memory_backend_def)
  show ?thesis
  proof (cases "list_ex (conflicts_with (?new 0)) (filter (\<lambda>l. dl_file_path l = ?path) ?locks)")
    case True
    then have "fail_lock env ids (lock_error lock) ch = (r, ch')"
      using assms(3) by (simp add: lock_element_def op_bind_def file_locks_eq [OF assms(1)] Let_def)
    then show ?thesis using fail_lock_table [OF assms(1)] by blast
  next
    case False
    note eval = assms(3) [unfolded lock_element_def op_bind_def file_locks_eq [OF assms(1)] v Let_def]
    from x show ?thesis
    proof (elim disjE exE)
      assume "x = Inr ()"
      then have "record_lock env now header t lock ids ?ch1 = (r, ch')"
        using eval False m by (simp add: on_backend_def)
      moreover have "\<not> list_ex (conflicts_with (?new ?c)) ?locks"
        using no_conflict_all [of "?new 0" ?locks ?c] False by (simp add: DistributedLock_new_def)
      ultimately show ?thesis
        by (auto simp: record_lock_def op_bind_def try_store_def assms(1) memory_store_def mem_next_file_lock_id_def
            mem_acquire_file_lock_def op_return_def hm_simps DistributedLock_new_def)
    next
      fix e assume "x = Inl (Vfs e)"
      then have "\<exists>e'. fail_lock env ids e' ?ch1 = (r, ch')"
        using eval False m by (cases e) (auto simp: on_backend_def)
      then show ?thesis using fail_lock_table [OF assms(1)] by fastforce
    qed
  qed
qed

lemma granted_ids: "map dl_lock_id (granted_locks now header srv t c ls) = map (\<lambda>i. c + of_nat i) [0..<length ls]"
proof (induction ls arbitrary: c)
  case (Cons l ls)
  have "map (\<lambda>i. c + of_nat i) [0..<Suc (length ls)] = c # map (\<lambda>i. c + 1 + of_nat i) [0..<length ls]"
    by (simp add: upt_conv_Cons map_Suc_upt [symmetric] add.assoc del: upt_Suc)
  then show ?case using Cons by (simp add: DistributedLock_new_def)
qed simp

abbreviation by_id :: "DistributedLock list \<Rightarrow> u64 \<rightharpoonup> DistributedLock" where
  "by_id ls \<equiv> map_of (map (\<lambda>l. (dl_lock_id l, l)) ls)"

lemma by_id_other: "k \<notin> set (map dl_lock_id ls) \<Longrightarrow> by_id ls k = None"
  by (force simp: map_of_eq_None_iff)

lemma of_nat_u64_neq_0: "0 < i \<Longrightarrow> i < 2 ^ 64 \<Longrightarrow> (of_nat i :: u64) \<noteq> 0"
  by (simp add: word_of_nat_eq_0_iff nat_dvd_not_less)

lemma lock_loop_atomic:
  assumes "ce_store env = memory_store" "ce_backend env = memory_backend"
  shows "\<lbrakk>\<forall>l \<in> set locks. check_element l = Inr () \<and> \<not> is_unlock (lke_flags l); length locks < 2 ^ 64;
      \<forall>i < length locks. lock_table ch (mem_file_lock_counter (ch_store ch) + of_nat i) = None;
      lock_loop env now header t locks ids ch = (r, ch')\<rbrakk> \<Longrightarrow>
    (\<exists>e. r = Inl e) \<and> lock_table ch' = (\<lambda>k. if k \<in> set ids then None else lock_table ch k) \<or>
    r = Inr () \<and> lock_table ch' = lock_table ch ++
      by_id (granted_locks now header (hp_server_id (ch_rest ch)) t (mem_file_lock_counter (ch_store ch)) locks)"
proof (induction locks arbitrary: ids ch)
  case Nil
  then show ?case by (simp add: op_return_def)
next
  case (Cons lock locks)
  let ?c = "mem_file_lock_counter (ch_store ch)" and ?srv = "hp_server_id (ch_rest ch)"
  let ?new = "hd (granted_locks now header ?srv t ?c [lock])"
  obtain x ch1 where e: "lock_element env now header t lock ids ch = (x, ch1)" by fastforce
  have fresh: "lock_table ch ?c = None" using Cons.prems(3) by force
  from lock_element_cases [OF assms e] show ?case
  proof (elim disjE conjE)
    assume x: "\<exists>e. x = Inl e" and t1: "lock_table ch1 = (\<lambda>k. if k \<in> set ids then None else lock_table ch k)"
    with Cons.prems(1,4) e have "r = map_sum id undefined x \<and> ch' = ch1"
      by (auto simp: op_bind_def op_lift_def)
    then show ?thesis using x t1 by auto
  next
    assume x: "x = Inr (ids @ [?c])" and t1: "lock_table ch1 = (lock_table ch)(?c \<mapsto> ?new)"
      and c1: "mem_file_lock_counter (ch_store ch1) = ?c + 1" and srv: "hp_server_id (ch_rest ch1) = ?srv"
    have l: "lock_loop env now header t locks (ids @ [?c]) ch1 = (r, ch')"
      using Cons.prems(1,4) e x by (simp add: op_bind_def op_lift_def)
    have ne: "?c + 1 + of_nat i \<noteq> ?c" if "i < length locks" for i
      using of_nat_u64_neq_0 [of "Suc i"] that Cons.prems(2) by (simp add: add.assoc)
    have "lock_table ch1 (?c + 1 + of_nat i) = None" if "i < length locks" for i
      using Cons.prems(3) [rule_format, of "Suc i"] ne [OF that] that by (simp add: t1 add.assoc)
    then have "\<forall>i < length locks. lock_table ch1 (mem_file_lock_counter (ch_store ch1) + of_nat i) = None"
      by (simp add: c1)
    from Cons.IH [OF _ _ this l] Cons.prems(1,2) have
      ih: "(\<exists>e. r = Inl e) \<and> lock_table ch' = (\<lambda>k. if k \<in> set (ids @ [?c]) then None else lock_table ch1 k) \<or>
        r = Inr () \<and> lock_table ch' = lock_table ch1 ++ by_id (granted_locks now header ?srv t (?c + 1) locks)"
      by (simp add: c1 srv)
    have "by_id (granted_locks now header ?srv t (?c + 1) locks) ?c = None"
      using ne by (intro by_id_other) (auto simp: granted_ids)
    then have merge: "(lock_table ch)(?c \<mapsto> ?new) ++ by_id (granted_locks now header ?srv t (?c + 1) locks) =
        lock_table ch ++ by_id (granted_locks now header ?srv t ?c (lock # locks))"
      by (auto simp: fun_eq_iff map_add_def DistributedLock_new_def split: option.split)
    have undo: "(\<lambda>k. if k \<in> set (ids @ [?c]) then None else lock_table ch1 k) =
        (\<lambda>k. if k \<in> set ids then None else lock_table ch k)"
      using fresh by (simp add: t1 fun_eq_iff)
    show ?thesis using ih unfolding undo unfolding t1 merge by blast
  qed
qed

lemma lock_lookup_state:
  assumes "ce_store env = memory_store"
  shows "snd (lock_lookup env header body rq ch) = ch"
proof -
  have "preserves (\<lambda>c. c = ch) (lock_lookup env header body rq)"
    unfolding lock_lookup_def Let_def
    by (intro preserves_intros; simp add: preserves_def with_store_def store_ops assms find_backend_def ok_or_def
        op_return_def op_throw_def split: option.split)
  then show ?thesis by (simp add: preserves_def)
qed

lemma lock_lookup_Inr:
  assumes "ce_store env = memory_store" "lock_lookup env header body rq ch = (Inr (t, locks), ch')"
  shows "parse_lock_elements (ce_codec env) body 0 (unat (lkq_lock_count rq)) = Inr locks \<and>
    lt_handle_id t = join_file_id (lkq_file_id_persistent rq) (lkq_file_id_volatile rq) \<and>
    hm_get (mem_handles (ch_store ch)) (lt_handle_id t) = Some (lt_handle t)"
  using assms(2) by (auto simp: lock_lookup_def Let_def op_Inr store_ops assms(1) op_return_def op_throw_def split: if_splits)

lemma length_parse_lock_elements: "parse_lock_elements cd body i n = Inr locks \<Longrightarrow> length locks = n"
  by (induction n arbitrary: i locks) (auto simp: Let_def map_sum_def split: if_splits sum.splits)

section \<open>Closing\<close>

lemma try_store_Inr:
  "try_store m ch = (Inr r, ch') \<longleftrightarrow> (\<exists>t. m (ch_store ch) = (r, t) \<and> ch' = ch\<lparr> ch_store := t \<rparr>)"
  by (auto simp: try_store_def split: prod.splits)

text \<open>The file system side of CLOSE: nothing but the deletion of a file marked for it.\<close>

lemma delete_closed_file_Inr:
  assumes "ce_store env = memory_store" "delete_closed_file env header handle ch = (Inr u, ch')"
  shows "ch_store ch' = ch_store ch \<and> ch_connection ch' = ch_connection ch \<and>
    (\<not> hs_delete_on_close handle \<longrightarrow> ch' = ch)"
  using assms
  by (auto simp: delete_closed_file_def op_Inr try_store_Inr store_ops op_return_def split: if_splits option.splits)

lemma close_lease_Inr:
  assumes "ce_store env = memory_store" "close_lease env handle ch = (Inr u, ch')"
  shows "mem_handles (ch_store ch') = mem_handles (ch_store ch) \<and> mem_file_locks (ch_store ch') = mem_file_locks (ch_store ch) \<and>
    hp_backends (ch_rest ch') = hp_backends (ch_rest ch)"
  using assms
  by (auto simp: close_lease_def op_Inr try_store_Inr store_ops op_return_def on_registry_def split: option.splits)

lemma handle_close_Inr:
  assumes "ce_store env = memory_store" "cd_close_request (ce_codec env) body = Inr rq"
    and "handle_close env header body ch = (Inr r, ch')"
    and "hid = join_file_id (clq_file_id_persistent rq) (clq_file_id_volatile rq)"
  obtains handle where "hm_get (mem_handles (ch_store ch)) hid = Some handle"
    "validate_handle_tree_id header handle = Inr ()"
    "mem_handles (ch_store ch') = hm_remove hid (mem_handles (ch_store ch))"
    "mem_file_locks (ch_store ch') = hm_retain (\<lambda>_ l. dl_handle_id l \<noteq> hid) (mem_file_locks (ch_store ch))"
    "\<not> hs_delete_on_close handle \<Longrightarrow> hp_backends (ch_rest ch') = hp_backends (ch_rest ch)"
proof -
  let ?oplock = "\<lambda>handle. if hs_lease_key handle = None \<and> hs_oplock_level handle \<noteq> 0
    then on_registry (unregister_oplock hid) else op_return ()"
  obtain handle ch1 ch2 ch3 where h: "hm_get (mem_handles (ch_store ch)) hid = Some handle"
      "validate_handle_tree_id header handle = Inr ()"
    and l: "close_lease env handle ch = (Inr (), ch1)" "?oplock handle ch1 = (Inr (), ch2)"
    and d: "delete_closed_file env header handle
        (ch2\<lparr> ch_store := snd (mem_release_file_locks_for_handle hid (ch_store ch2)) \<rparr>) = (Inr (), ch3)"
    and ch': "ch' = snd (respond env header (Inr []) (ch3\<lparr> ch_store := snd (mem_delete_handle hid (ch_store ch3)) \<rparr>))"
    using assms
    by (auto simp: handle_close_def Let_def op_Inr try_store_Inr respond_eq sm_get_handle_def sm_delete_handle_def memory_store_def
        mem_get_handle_def mem_release_file_locks_for_handle_def mem_delete_handle_def)
  have "ch_store ch2 = ch_store ch1" "hp_backends (ch_rest ch2) = hp_backends (ch_rest ch1)"
    using l(2) by (auto simp: on_registry_def op_return_def split: if_splits)
  then show ?thesis
    using that [of handle] h close_lease_Inr [OF assms(1) l(1)] delete_closed_file_Inr [OF assms(1) d]
    by (auto simp: ch' respond_eq mem_delete_handle_def mem_release_file_locks_for_handle_def)
qed

text \<open>CLOSE does not close the file in the backend: its open file and its byte-range locks there stay.\<close>

lemma close_leaves_backend:
  assumes "ce_store env = memory_store" "cd_close_request (ce_codec env) body = Inr rq"
    and "handle_close env header body ch = (Inr r, ch')"
    and "hm_get (mem_handles (ch_store ch)) (join_file_id (clq_file_id_persistent rq) (clq_file_id_volatile rq)) = Some handle"
    and "\<not> hs_delete_on_close handle"
  shows "hp_backends (ch_rest ch') = hp_backends (ch_rest ch)"
  by (rule handle_close_Inr [OF assms(1-3) refl]) (use assms(4,5) in auto)

section \<open>Properties\<close>

text \<open>C2. What a client writes it reads back, through the whole server: after a WRITE that succeeded, a
  READ of the same range through the same file id is answered with the written bytes, and they start
  in the response where the response header says they do, at byte 80.\<close>

theorem write_then_read_served:
  assumes "ce_store env = memory_store" "ce_backend env = memory_backend" "header_lib_ok (ce_headers env)"
    and "cd_write_request (ce_codec env) wbody = Inr wq" "cd_read_request (ce_codec env) rbody = Inr rq"
    and "\<And>r. \<exists>b. cd_read_response (ce_codec env) r = Inr b \<and> length b = 16"
    and "rdq_file_id_persistent rq = wrq_file_id_persistent wq" "rdq_file_id_volatile rq = wrq_file_id_volatile wq"
    and "rdq_offset rq = wrq_offset wq" "rdq_length rq = wrq_length wq"
    and "unat (wrq_length wq) = length (write_data wq wbody)" "write_data wq wbody \<noteq> []"
    and "rdq_minimum_count rq \<le> rdq_length rq"
    and "sh_session_id rheader = sh_session_id wheader" "sh_tree_id rheader = sh_tree_id wheader"
    and "validate_credit_charge (ch_connection ch) rheader (rdq_length rq) = Inr ()"
    and "\<And>h. hm_get (mem_handles (ch_store ch)) (join_file_id (wrq_file_id_persistent wq) (wrq_file_id_volatile wq)) = Some h
      \<Longrightarrow> read_access h = Inr ()"
    and "\<And>i. paths_normal (hp_backends (ch_rest ch) i)"
    and "handle_write env now readings wheader wbody ch = (Inr wresponse, ch1)"
  shows "\<exists>prefix ch2. handle_read env now' rheader rbody ch1 = (Inr (prefix @ write_data wq wbody), ch2) \<and>
    length prefix = 80"
proof -
  let ?hid = "join_file_id (wrq_file_id_persistent wq) (wrq_file_id_volatile wq)"
  obtain handle tree i b n where
    h: "hm_get (mem_handles (ch_store ch)) ?hid = Some handle" "validate_handle_tree_id wheader handle = Inr ()"
    "hm_get (mem_trees (ch_store ch)) (sh_session_id wheader, sh_tree_id wheader) = Some tree"
    "get_share (ce_lowercase env) (hp_shares (ch_rest ch)) (ts_share_name tree) = Some i"
    and w: "mb_write readings (FileHandle_with_backend_id (hp_fh_counter (ch_rest ch)) (hs_persistent_id handle)
        (hs_volatile_id handle) (hs_backend_internal_id handle)) (wrq_offset wq) (write_data wq wbody)
        (hp_backends (ch_rest ch) i) = (Inr n, b)"
    and c: "hp_backends (ch_rest ch1) = (hp_backends (ch_rest ch))(i := b)"
    "hp_shares (ch_rest ch1) = hp_shares (ch_rest ch)" "mem_trees (ch_store ch1) = mem_trees (ch_store ch)"
    "mem_handles (ch_store ch1) = (if hs_is_durable handle \<or> hs_is_persistent handle
       then hm_insert (hs_persistent_id handle) (handle\<lparr> hs_file_offset := wrq_offset wq + ucast n, hs_last_access := now \<rparr>)
              (mem_handles (ch_store ch)) else mem_handles (ch_store ch))"
    "validate_credit_charge (ch_connection ch1) = validate_credit_charge (ch_connection ch)"
    by (rule handle_write_Inr [OF assms(1,2,4,19)])
  let ?updated = "handle\<lparr> hs_file_offset := wrq_offset wq + ucast n, hs_last_access := now \<rparr>"
  have "hm_get (mem_handles (ch_store ch1)) ?hid = Some handle \<or> hm_get (mem_handles (ch_store ch1)) ?hid = Some ?updated"
    using h(1) by (simp add: c(4) hm_simps)
  then obtain handle' where h': "hm_get (mem_handles (ch_store ch1)) ?hid = Some handle'" "handle' = handle \<or> handle' = ?updated"
    by blast
  have "validate_handle_tree_id rheader handle = Inr ()" "read_access handle = Inr ()"
    using h(1,2) assms(14,15,17) by (simp_all add: validate_handle_tree_id_def split: if_splits)
  with h'(2) have h2: "validate_handle_tree_id rheader handle' = Inr ()" "read_access handle' = Inr ()"
    "hs_backend_internal_id handle' = hs_backend_internal_id handle" by auto
  have "mb_read fh (rdq_offset rq) (rdq_length rq) b = (Inr (write_data wq wbody), b)"
    if "fh_backend_internal_id fh = hs_backend_internal_id handle'" for fh
    using write_read_back [OF assms(18) w] assms(9,10,11) that h2(3) by (simp add: FileHandle_with_backend_id_def)
  moreover have "of_nat (length (write_data wq wbody)) = rdq_length rq"
    by (simp add: assms(10) flip: assms(11))
  ultimately show ?thesis
    using handle_read_eq [OF assms(1,2,3,5) _ _ h2(1,2) _ _ _ assms(12) _ assms(6), of ch1 tree i]
      h(3,4) h'(1) c assms(7,8,10,13-16) by simp
qed

text \<open>C3. A LOCK request is all or nothing in the store: when all its elements ask for a lock and pass the
  checks, either the request succeeds and the lock table gains exactly one lock per element, with the
  element's range and mode, for the handle and session of the request, or it fails and the lock table
  is what it was, whatever had been granted before the failure.\<close>

theorem lock_request_all_or_nothing:
  assumes "ce_store env = memory_store" "ce_backend env = memory_backend" "header_lib_ok (ce_headers env)"
    and "\<And>r. \<exists>b. cd_plain_response (ce_codec env) r = Inr b" "cd_lock_request (ce_codec env) body = Inr rq"
    and "parse_lock_elements (ce_codec env) body 0 (unat (lkq_lock_count rq)) = Inr locks"
    and "\<forall>l \<in> set locks. check_element l = Inr () \<and> \<not> is_unlock (lke_flags l)"
    and "\<forall>i < length locks. lock_table ch (mem_file_lock_counter (ch_store ch) + of_nat i) = None"
    and "handle_lock env now header body ch = (r, ch')"
  shows "(\<exists>response new. r = Inr response \<and> lock_table ch' = lock_table ch ++ by_id new \<and>
      map (\<lambda>l. (dl_offset l, dl_length l, dl_exclusive l)) new =
        map (\<lambda>l. (lke_offset l, lke_length l, is_exclusive (lke_flags l))) locks \<and>
      (\<forall>l \<in> set new. dl_session_id l = sh_session_id header \<and>
         dl_handle_id l = join_file_id (lkq_file_id_persistent rq) (lkq_file_id_volatile rq))) \<or>
    (\<exists>e. r = Inl e) \<and> lock_table ch' = lock_table ch"
proof (cases "lkq_lock_count rq = 0")
  case True
  then show ?thesis using assms(5,9) by (auto simp: handle_lock_def parse_as_def op_bind_def op_lift_def op_throw_def)
next
  case False
  obtain x ch1 where lk: "lock_lookup env header body rq ch = (x, ch1)" by fastforce
  have ch1: "ch1 = ch" using lock_lookup_state [OF assms(1), of header body rq ch] lk by simp
  show ?thesis
  proof (cases x)
    case (Inl e)
    then show ?thesis using False assms(5,9) lk ch1 by (auto simp: handle_lock_def parse_as_def op_bind_def op_lift_def)
  next
    case (Inr y)
    obtain t locks' where y: "y = (t, locks')" by fastforce
    have t: "locks' = locks" "lt_handle_id t = join_file_id (lkq_file_id_persistent rq) (lkq_file_id_volatile rq)"
      using lock_lookup_Inr [OF assms(1), of header body rq ch t locks' ch1] lk Inr y assms(6) by auto
    have len: "length locks < 2 ^ 64"
      using length_parse_lock_elements [OF assms(6)] unat_lt_exp [of "lkq_lock_count rq"] by simp
    obtain z ch2 where lp: "lock_loop env now header t locks [] ch = (z, ch2)" by fastforce
    obtain b where b: "plain_response env = Inr b" using assms(4) by (auto simp: plain_response_def)
    have st: "(r, ch') = (case z of Inl e \<Rightarrow> (Inl e, ch2) | Inr _ \<Rightarrow> respond env header (Inr b) ch2)"
      using False assms(5,9) lk ch1 Inr y t(1) lp b
      by (auto simp: handle_lock_def parse_as_def op_bind_def op_lift_def split: sum.splits)
    let ?new = "granted_locks now header (hp_server_id (ch_rest ch)) t (mem_file_lock_counter (ch_store ch)) locks"
    have "map (\<lambda>l. (dl_offset l, dl_length l, dl_exclusive l)) (granted_locks now header srv t c ls) =
        map (\<lambda>l. (lke_offset l, lke_length l, is_exclusive (lke_flags l))) ls" for srv c ls
      by (induction ls arbitrary: c) (simp_all add: DistributedLock_new_def)
    moreover have "\<forall>l \<in> set (granted_locks now header srv t c ls). dl_session_id l = sh_session_id header \<and>
        dl_handle_id l = lt_handle_id t" for srv c ls
      by (induction ls arbitrary: c) (simp_all add: DistributedLock_new_def)
    ultimately show ?thesis
      using lock_loop_atomic [OF assms(1,2,7) len assms(8) lp] st t(2)
      by (auto simp: respond_eq serialize_ok [OF assms(3) response_header_wf] intro!: exI [of _ ?new])
  qed
qed




section \<open>Examples\<close>

text \<open>A server with a mounted share, restricted to one user, and an open file.\<close>

definition demo_mount :: "(MemoryStateStore, MemoryBackend handler_parts) ConnectionHandler" where
  "demo_mount = demo_server
     \<lparr> ch_store := MemoryStateStore_new
         \<lparr> mem_sessions := [(7, demo_session 7)], mem_trees := [((7, 1), (demo_tree 7)\<lparr> ts_share_name := ''s'' \<rparr>)],
           mem_handles := [(5, (demo_handle 5 7 False)\<lparr> hs_backend_internal_id := Some 2, hs_path := ''a'',
             hs_access_mask := 1 \<rparr>)] \<rparr>,
       ch_rest := (ch_rest demo_server)
         \<lparr> hp_shares := [(''s'', \<lparr> shr_config = ShareConfig_default\<lparr> shc_valid_users := [''alice''] \<rparr>, shr_backend = 0 \<rparr>)] \<rparr> \<rparr>"

definition demo_header :: Smb2Header where
  "demo_header = Smb2Header_default\<lparr> sh_session_id := 7, sh_tree_id := 1, sh_credits := 1, sh_credit_charge := 1 \<rparr>"

definition demo_file_id :: bytes where
  "demo_file_id = [5, 0, 0, 0, 0, 0, 0, 0, 0, 0, 0, 0, 0, 0, 0, 0]"

definition demo_write_body :: bytes where
  "demo_write_body = [49, 0, 112, 0, 2, 0, 0, 0, 1, 0, 0, 0, 0, 0, 0, 0] @ demo_file_id @ [0, 0, 0, 0, 0, 0, 0, 0, 0, 0, 0, 0, 0, 0, 0, 0] @ [7, 8]"

definition demo_read_body :: bytes where
  "demo_read_body = [49, 0, 80, 0, 2, 0, 0, 0, 1, 0, 0, 0, 0, 0, 0, 0] @ demo_file_id @ [0, 0, 0, 0, 0, 0, 0, 0, 0, 0, 0, 0, 0, 0, 0, 0]"

definition demo_close_body :: bytes where
  "demo_close_body = [24, 0, 0, 0, 0, 0, 0, 0] @ demo_file_id"

definition demo_lock_body :: bytes where
  "demo_lock_body = [48, 0, 2, 0, 0, 0, 0, 0] @ demo_file_id @
     [0, 0, 0, 0, 0, 0, 0, 0, 4, 0, 0, 0, 0, 0, 0, 0, 18, 0, 0, 0, 0, 0, 0, 0] @
     [2, 0, 0, 0, 0, 0, 0, 0, 4, 0, 0, 0, 0, 0, 0, 0, 18, 0, 0, 0, 0, 0, 0, 0]"

definition demo_tree_connect_body :: bytes where
  "demo_tree_connect_body = [9, 0, 0, 0, 72, 0, 10, 0] @ ascii_utf16le [BACKSLASH, BACKSLASH, CHR ''h'', BACKSLASH, CHR ''s'']"

lemma demo_write_parsed:
  "cd_write_request le_codec demo_write_body = Inr \<lparr> wrq_structure_size = 49, wrq_data_offset = 112, wrq_length = 2, wrq_offset = 1,
     wrq_file_id_persistent = 5, wrq_file_id_volatile = 0, wrq_channel = 0, wrq_remaining_bytes = 0,
     wrq_write_channel_info_offset = 0, wrq_write_channel_info_length = 0, wrq_flags = 0 \<rparr>"
  by (simp add: le_codec_def read_fixed_def demo_write_body_def demo_file_id_def slice_def from_le_def)

lemma demo_env_fields: "ce_store demo_command_env = memory_store" "ce_backend demo_command_env = memory_backend"
  "ce_codec demo_command_env = le_codec" "header_lib_ok (ce_headers demo_command_env)"
  by (simp_all add: demo_command_env_def le_header_lib_ok)

lemma demo_read_parsed:
  "cd_read_request le_codec demo_read_body = Inr \<lparr> rdq_structure_size = 49, rdq_padding = 80, rdq_flags = 0, rdq_length = 2, rdq_offset = 1,
     rdq_file_id_persistent = 5, rdq_file_id_volatile = 0, rdq_minimum_count = 0, rdq_channel = 0, rdq_remaining_bytes = 0,
     rdq_read_channel_info_offset = 0, rdq_read_channel_info_length = 0 \<rparr>"
  by (simp add: le_codec_def read_fixed_def demo_read_body_def demo_file_id_def slice_def from_le_def)

lemma demo_close_parsed:
  "cd_close_request le_codec demo_close_body = Inr \<lparr> clq_structure_size = 24, clq_flags = 0, clq_reserved = 0,
     clq_file_id_persistent = 5, clq_file_id_volatile = 0 \<rparr>"
  by (simp add: le_codec_def read_fixed_def demo_close_body_def demo_file_id_def slice_def from_le_def)

lemma demo_lock_parsed:
  "cd_lock_request le_codec demo_lock_body = Inr \<lparr> lkq_structure_size = 48, lkq_lock_count = 2, lkq_lock_sequence = 0,
     lkq_file_id_persistent = 5, lkq_file_id_volatile = 0 \<rparr>"
  by (simp add: le_codec_def read_fixed_def demo_lock_body_def demo_file_id_def slice_def from_le_def)

lemmas demo_write_parsed' = demo_write_parsed [folded demo_env_fields(3)]

lemmas demo_read_parsed' = demo_read_parsed [folded demo_env_fields(3)]

lemmas demo_lock_parsed' = demo_lock_parsed [folded demo_env_fields(3)]

lemmas demo_close_parsed' = demo_close_parsed [folded demo_env_fields(3)]

lemma demo_join [simp]: "join_file_id 5 0 = 5"
  by (simp add: join_file_id_def)

lemma demo_written: "write_data \<lparr> wrq_structure_size = 49, wrq_data_offset = 112, wrq_length = 2, wrq_offset = 1,
     wrq_file_id_persistent = 5, wrq_file_id_volatile = 0, wrq_channel = 0, wrq_remaining_bytes = 0,
     wrq_write_channel_info_offset = 0, wrq_write_channel_info_length = 0, wrq_flags = 0 \<rparr> demo_write_body = [7, 8]"
  by (simp add: write_data_def demo_write_body_def demo_file_id_def slice_def Let_def)

lemma demo_wf: "mem_wf (ch_store demo_mount)"
  by (simp add: demo_mount_def mem_wf_def MemoryStateStore_new_def hm_wf_def demo_session_def demo_tree_def demo_handle_def)

lemma demo_mount_fields:
  "hm_get (mem_handles (ch_store demo_mount)) 5 = Some ((demo_handle 5 7 False)\<lparr> hs_backend_internal_id := Some 2,
     hs_path := ''a'', hs_access_mask := 1 \<rparr>)"
  "hp_backends (ch_rest demo_mount) i = demo_fs" "hp_fh_counter (ch_rest demo_mount) = 1"
  "hm_get (mem_trees (ch_store demo_mount)) (7, 1) = Some ((demo_tree 7)\<lparr> ts_share_name := ''s'' \<rparr>)"
  by (simp_all add: demo_mount_def demo_server_def)

lemma demo_charge: "validate_credit_charge c demo_header 2 = Inr ()"
  by (simp add: validate_credit_charge_def demo_header_def Let_def)

lemma demo_owner: "validate_handle_tree_id demo_header
    ((demo_handle 5 7 False)\<lparr> hs_backend_internal_id := Some 2, hs_path := ''a'', hs_access_mask := 1 \<rparr>) = Inr ()"
  by (simp add: validate_handle_tree_id_def demo_header_def demo_handle_def)

lemma demo_write_succeeds: "\<not> isl (fst (handle_write demo_command_env 0 (\<lambda>_. 0) demo_header demo_write_body demo_mount))"
proof -
  let ?fh = "FileHandle_with_backend_id 1 5 5 (Some 2)"
    and ?handle = "(demo_handle 5 7 False)\<lparr> hs_backend_internal_id := Some 2, hs_path := ''a'', hs_access_mask := 1 \<rparr>"
  have ob: "open_backend demo_command_env demo_header 5 (\<lambda>_. Inr ()) demo_mount =
      (Inr (?handle, 0, ?fh), demo_mount\<lparr> ch_rest := (ch_rest demo_mount)\<lparr> hp_fh_counter := 2 \<rparr> \<rparr>)"
    by (simp add: open_backend_Inr demo_env_fields demo_mount_fields demo_owner backend_handle_def)
      (simp add: demo_mount_def demo_server_def demo_header_def demo_command_env_def get_share_def demo_handle_def)
  have wr: "vb_write memory_backend = mb_write" by (simp add: memory_backend_def)
  have plain: "\<not> hs_is_durable (demo_handle 5 7 False) \<and> \<not> hs_is_persistent (demo_handle 5 7 False)"
    by (simp add: demo_handle_def HandleState_default_def)
  have rsp: "\<exists>b. cd_write_response le_codec r = Inr b" for r by (simp add: le_codec_def)
  have "\<not> isl (fst (respond demo_command_env demo_header (cd_write_response le_codec r) ch))" for r
     and ch :: "(MemoryStateStore, MemoryBackend handler_parts) ConnectionHandler"
    using rsp [of r] by (auto simp: respond_eq serialize_ok [OF demo_env_fields(4) response_header_wf])
  note sent = wr plain this
  have "fst (mb_write (\<lambda>_. 0) ?fh 1 [7, 8] demo_fs) = Inr 2"
    by (simp add: mb_write_def open_path_def op_simps FileHandle_with_backend_id_def demo_fs_def at_node_def write_node_def)
  then obtain ch2 where "on_backend 0 (mb_write (\<lambda>_. 0) ?fh 1 [7, 8])
      (demo_mount\<lparr> ch_rest := (ch_rest demo_mount)\<lparr> hp_fh_counter := 2 \<rparr> \<rparr>) = (Inr (Inr 2), ch2)"
    by (cases "mb_write (\<lambda>_. 0) ?fh 1 [7, 8] demo_fs") (simp add: on_backend_Inr demo_mount_fields)
  then show ?thesis
    by (simp add: handle_write_def op_bind_def parse_as_def op_lift_def demo_env_fields demo_write_parsed demo_charge ob
        demo_written sent demo_mount_fields vfs_err_def op_return_def)
qed


theorem write_then_read_served_witness:
  "\<exists>r ch1 p ch2. handle_write demo_command_env 0 (\<lambda>_. 0) demo_header demo_write_body demo_mount = (Inr r, ch1) \<and>
     handle_read demo_command_env 0 demo_header demo_read_body ch1 = (Inr (p @ [7, 8]), ch2) \<and> length p = 80"
proof -
  obtain r ch1 where w: "handle_write demo_command_env 0 (\<lambda>_. 0) demo_header demo_write_body demo_mount = (Inr r, ch1)"
    using demo_write_succeeds by (metis prod.collapse sum.collapse(2))
  have resp: "\<exists>b. cd_read_response (ce_codec demo_command_env) q = Inr b \<and> length b = 16" for q
    by (simp add: demo_env_fields le_codec_def)
  have "read_access h = Inr ()" if "hm_get (mem_handles (ch_store demo_mount)) 5 = Some h" for h
    using that by (auto simp: demo_mount_fields read_access_def demo_handle_def HandleState_default_def)
  moreover have "normalize_path ''a'' = ''a''" by code_simp
  then have "paths_normal demo_fs" by (simp add: paths_normal_def demo_fs_def)
  ultimately show ?thesis
    using write_then_read_served [OF demo_env_fields(1,2,4) demo_write_parsed' demo_read_parsed' resp _ _ _ _ _ _ _ _ _ _ _ _ w,
        of demo_header 0]
    by (simp add: w demo_written demo_charge demo_mount_fields)
qed
theorem lock_request_all_or_nothing_witness:
  "let (r, ch') = handle_lock demo_command_env 0 demo_header demo_lock_body demo_mount in
     (\<exists>response new. r = Inr response \<and> lock_table ch' = by_id new \<and>
        map (\<lambda>l. (dl_offset l, dl_length l, dl_exclusive l)) new = [(0, 4, True), (2, 4, True)]) \<or>
     (\<exists>e. r = Inl e) \<and> lock_table ch' = Map.empty"
proof -
  let ?locks = "[\<lparr> lke_offset = 0, lke_length = 4, lke_flags = 18, lke_reserved = 0 \<rparr>,
    \<lparr> lke_offset = 2, lke_length = 4, lke_flags = 18, lke_reserved = 0 \<rparr>]"
  have elem: "cd_lock_element le_codec b = (if length b < 24 then Inl ''unexpected end of file'' else Inr
      \<lparr> lke_offset = from_le (slice 0 8 b), lke_length = from_le (slice 8 8 b), lke_flags = from_le (slice 16 4 b),
        lke_reserved = from_le (slice 20 4 b) \<rparr>)" for b by (simp add: le_codec_def read_fixed_def)
  have "parse_lock_elements le_codec demo_lock_body 0 (Suc (Suc 0)) = Inr ?locks"
    by (simp add: elem demo_lock_body_def demo_file_id_def slice_def from_le_def)
  moreover have two: "unat (2 :: u16) = Suc (Suc 0)" by simp
  ultimately have p: "parse_lock_elements (ce_codec demo_command_env) demo_lock_body 0 (unat (2 :: u16)) = Inr ?locks"
    by (simp only: demo_env_fields two)
  have v: "\<forall>l \<in> set ?locks. check_element l = Inr () \<and> \<not> is_unlock (lke_flags l)"
    by (simp add: check_element_def is_unlock_def is_shared_def is_exclusive_def Let_def)
  have e: "lock_table demo_mount = Map.empty" by (simp add: demo_mount_def MemoryStateStore_new_def)
  have f: "\<forall>i < length ?locks. lock_table demo_mount (mem_file_lock_counter (ch_store demo_mount) + of_nat i) = None"
    by (simp add: e)
  have plain: "\<exists>b. cd_plain_response (ce_codec demo_command_env) r = Inr b" for r by (simp add: demo_env_fields le_codec_def)
  obtain r ch' where run: "handle_lock demo_command_env 0 demo_header demo_lock_body demo_mount = (r, ch')" by fastforce
  have "is_exclusive 18" by (simp add: is_exclusive_def)
  then show ?thesis
    using lock_request_all_or_nothing [OF demo_env_fields(1,2,4) plain demo_lock_parsed' _ v f run] p e
    by (auto simp: run)
qed




end
