(* ===== verification/Spec2Isabelle.thy ===== *)
theory Spec2Isabelle
  imports Session_Manager Connection Cluster_Cache File_Handlers_Spec
begin

text \<open>
  Verification of RustSMB, an SMB2/3 file server in Rust (\<open>src/crates\<close>).

  \<^bold>\<open>The program.\<close> A connection task reads frames from a socket (\<open>rustsmb-server/src/handler.rs\<close>), takes
  the packet header apart (\<open>rustsmb-protocol\<close>), checks credits, session and tree, and hands the command
  to its handler; compounded requests are processed one by one and answered with one combined
  message. Handlers keep sessions, trees, open handles, leases and byte-range locks in a state store
  (trait \<open>StateStore\<close> of \<open>rustsmb-state\<close>), through the session manager of \<open>rustsmb-session\<close>, and files in
  a storage backend (trait \<open>StorageBackend\<close> of \<open>rustsmb-vfs\<close>). The store is in memory
  (\<open>rustsmb-state-memory\<close>) or remote behind a write-through cache (\<open>rustsmb-state-cached\<close>). Several
  servers share a store; a coordinator (embedded in \<open>rustsmb-coord-raft\<close>, or the service of
  \<open>rustsmb-coordinator\<close>) watches their heartbeats and announces a new epoch when one fails, upon which
  the others empty their caches and release what the failed server held.

  \<^bold>\<open>How the code is modelled.\<close> Structs are records whose fields carry a short prefix, enums are
  datatypes with the constructors of the source, machine integers are words of their width with the
  wrap-around of a release build. A method on mutable state is a function from the state to a result
  and the new state (type \<open>op\<close> of \<^theory_text>\<open>Smb_Prelude\<close>, with \<open>op_bind\<close> for the question mark operator); a
  result is a sum, with the error on the left. A \<open>HashMap\<close> is an association list with distinct keys.
  A trait object is a record of functions, so that code over \<open>dyn StateStore\<close> is a definition with
  such a record as argument. Clock readings and fresh counters of the process are arguments. Methods
  that lock a mutex are single transitions; where the code is concurrent in an essential way (the
  compare-and-swap loops of the credit balance, break and acknowledgment of a lease, heartbeats and
  their monitor, several servers on one store) the atomic steps are separate constructors of an
  inductive relation, and the theorems quantify over all interleavings.

  Packages outside the sources are arguments with their documented behaviour as a hypothesis, and a
  concrete instance shows that the hypothesis can hold: the LRU cache (\<open>lru_lib\<close>), hexadecimal coding
  (\<open>hex_lib\<close>), the binary codec of the header (\<open>header_lib\<close>) and of the commands (\<open>codec\<close>), the two
  message authentication codes (\<open>mac_lib\<close>), lower-casing of share names.

  \<^bold>\<open>The theories.\<close>

  \<^item> \<^theory_text>\<open>Smb_Prelude\<close>: words, byte strings, maps, fallible operations. \<^theory_text>\<open>Core_Types\<close> (\<open>rustsmb-core\<close>): errors,
    status codes, dialects, access masks.

  \<^item> \<^theory_text>\<open>State_Types\<close>, \<^theory_text>\<open>State_Store\<close> (\<open>rustsmb-state\<close>): the stored records and the store interface. The
    contract of a store is a hierarchy of locales over an abstract view (one finite map per table).
    \<^theory_text>\<open>Memory_Store\<close> proves it for the in-memory store, and that in every reachable state no two
    byte-range locks conflict and write caching is exclusive.

  \<^item> \<^theory_text>\<open>Session_Manager\<close> (\<open>manager.rs\<close>, \<open>validation.rs\<close>): over any store that keeps the contract, ending a
    session refines its specification and a request is admitted only for the owner of the handle.
    \<^theory_text>\<open>Credits\<close>, \<^theory_text>\<open>Compound\<close>, \<^theory_text>\<open>Async_Request\<close>, \<^theory_text>\<open>Connection\<close>: the other modules of \<open>rustsmb-session\<close>; credits are
    conserved under all interleavings, offsets of a compound are well-formed, a cancelled session
    ends exactly its requests, a connection keeps its bounds.

  \<^item> \<^theory_text>\<open>Cached_Store\<close> (\<open>rustsmb-state-cached\<close>): the cached store keeps the contract of the store behind it.
    \<^theory_text>\<open>Coord_Raft\<close>, \<^theory_text>\<open>Coordinator_Service\<close>: the two coordinators; heartbeats, failures, epochs, locks and
    leases. \<^theory_text>\<open>Server_Coordination\<close>, \<^theory_text>\<open>Cluster_Cache\<close>: the listeners of a server, and when the cache of one
    server stays coherent with a store other servers write to. \<^theory_text>\<open>Lease_Break\<close>: breaks and their
    acknowledgments.

  \<^item> \<^theory_text>\<open>Vfs_Types\<close>, \<^theory_text>\<open>Paths\<close>, \<^theory_text>\<open>Memory_Backend\<close>, \<^theory_text>\<open>Memory_Backend_Spec\<close>, \<^theory_text>\<open>Memory_Backend_Runs\<close> (\<open>rustsmb-vfs\<close>,
    \<open>rustsmb-backend-memory\<close>): the file system in memory refines a map from paths to entries, reads
    return what was written, open files are counted exactly, its byte-range locks are exclusive.

  \<^item> \<^theory_text>\<open>Smb2_Header\<close>, \<^theory_text>\<open>Message_Layer\<close>, \<^theory_text>\<open>Message_Layer_Spec\<close>: header and signing, framing, dispatch, compound
    processing, for arbitrary command handlers.

  \<^item> \<^theory_text>\<open>Shares\<close>, \<^theory_text>\<open>File_Handlers\<close>: the share table and the handlers of LOGOFF, TREE_CONNECT, TREE_DISCONNECT,
    CLOSE, FLUSH, READ, WRITE, LOCK, CANCEL, ECHO and CHANGE_NOTIFY. \<^theory_text>\<open>Server_Runs\<close> composes them with the
    message layer: no input of a client takes the in-memory store out of its reachable states.
    \<^theory_text>\<open>File_Handlers_Spec\<close>: what the handlers do over the in-memory store and backend.

  \<^bold>\<open>Bounds and termination.\<close> All loops are recursive functions with termination proofs; none needs fuel.
  Counters wrap as in the source. Theorems that need them not to say so in their hypotheses: runs of
  the memory backend are shorter than \<open>2\<^sup>3\<^sup>2\<close> calls, lock ids are fresh, stored buffers fit the address
  space.

  \<^bold>\<open>Not modelled.\<close> NEGOTIATE, SESSION_SETUP, CREATE, IOCTL, QUERY_DIRECTORY, QUERY_INFO, SET_INFO and
  OPLOCK_BREAK are an argument of the dispatcher; the theorems on the message layer hold for every
  choice of them. Authentication and encryption are computations of hash and cipher packages. The
  local file system backend and the Redis store consist of calls to the operating system and to a
  server. The replication protocol of the Raft package, sockets, timers, task spawning, configuration
  and logging are left out; so are the notifications of lease breaks that the message loop sends
  between requests.
\<close>

end
